(* ===== verification/Prelude.thy ===== *)
theory Prelude
  imports "HOL-Library.Word" "HOL-Library.Signed_Division"
begin

text \<open>
  Shared ground of the development: the Go types the program is written in and the parts of the
  Go standard library it calls.

  \<^item> unsigned machine integers are words (\<^typ>\<open>8 word\<close> to \<^typ>\<open>64 word\<close>), so that every
    conversion and every addition wraps as Go's does; \<^verbatim>\<open>time.Duration\<close> is a 64-bit word read
    in two's complement, with Go's truncating \<^verbatim>\<open>/\<close> and \<^verbatim>\<open>%\<close>;
  \<^item> \<^verbatim>\<open>[]byte\<close> contents are \<^typ>\<open>8 word list\<close>; a Go \<^verbatim>\<open>string\<close> is a byte sequence, so it is a
    \<^typ>\<open>string\<close> whose characters are its bytes;
  \<^item> a pointer that may be nil is an option;
  \<^item> \<open>encoding/binary\<close>, \<open>math/bits\<close>, \<open>strings.TrimSpace\<close> and \<open>strconv.FormatUint\<close> are modelled
    as far as the sources use them.
\<close>

unbundle bit_operations_syntax

named_theorems valid_simps \<open>characterisations of the Validate methods\<close>
named_theorems getter_simps \<open>protobuf getters on nil and non-nil messages\<close>
named_theorems convert_defs \<open>the field-by-field protobuf conversions\<close>

type_synonym byte = "8 word"
type_synonym bytes = "8 word list"
type_synonym duration = "64 word"

section \<open>Words\<close>

lemma unat_add_one:
  fixes w :: "'a::len word"
  assumes "w + 1 \<noteq> 0"
  shows "unat (w + 1) = Suc (unat w)"
  using assms by (metis add.commute unatSuc)

lemma odd_multiplier_inj:
  fixes p q :: "'a::len word"
  assumes "p * q = 1"
  shows "a * p = b * p \<longleftrightarrow> a = b"
proof
  assume "a * p = b * p"
  then have "a * p * q = b * p * q" by simp
  then show "a = b" using assms by (simp add: mult.assoc)
qed simp

lemma xor_left_cancel:
  fixes a b c :: "'a::len word"
  shows "a XOR b = a XOR c \<longleftrightarrow> b = c"
  by (metis xor.assoc xor_self_eq xor.left_neutral)

lemma xor_right_cancel:
  fixes a b c :: "'a::len word"
  shows "b XOR a = c XOR a \<longleftrightarrow> b = c"
  by (metis xor.assoc xor_self_eq xor.right_neutral)

lemma word_rotl_inj_iff:
  fixes a b :: "'a::len word"
  shows "word_rotl n a = word_rotl n b \<longleftrightarrow> a = b"
  by (metis word_rot_lr)

lemma ucast_up_inj:
  fixes a b :: "'a::len word"
  assumes "LENGTH('a) \<le> LENGTH('b::len)"
  shows "(ucast a :: 'b word) = ucast b \<longleftrightarrow> a = b"
proof
  assume eq: "(ucast a :: 'b word) = ucast b"
  show "a = b"
  proof (rule bit_word_eqI)
    fix n
    assume "n < LENGTH('a)"
    moreover have "bit (ucast a :: 'b word) n = bit (ucast b :: 'b word) n"
      using eq by simp
    ultimately show "bit a n = bit b n"
      using assms by (simp add: bit_simps)
  qed
qed simp

lemma unat_ucast_up:
  fixes a :: "'a::len word"
  assumes "LENGTH('a) \<le> LENGTH('b::len)"
  shows "unat (ucast a :: 'b word) = unat a"
proof -
  have "unat a < 2 ^ LENGTH('a)" by (rule unsigned_less)
  also have "(2::nat) ^ LENGTH('a) \<le> 2 ^ LENGTH('b)" using assms by (simp add: power_increasing)
  finally show ?thesis by (simp add: unsigned_ucast_eq take_bit_nat_eq_self)
qed

text \<open>Narrowing a 32-bit number to 16 bits is undone by widening exactly when nothing was cut off.\<close>

lemma ucast_16_32 [simp]:
  fixes v :: "16 word"
  shows "ucast (ucast v :: 32 word) = v" and "\<not> 65535 < (ucast v :: 32 word)"
proof -
  show "ucast (ucast v :: 32 word) = v"
    by (simp add: word_unat_eq_iff unat_ucast_up unsigned_ucast_eq take_bit_word_eq_self)
  have "unat (ucast v :: 32 word) = unat v" by (rule unat_ucast_up) simp
  moreover have "unat v < 65536" using unsigned_less [of v, where 'a = nat] by simp
  ultimately show "\<not> 65535 < (ucast v :: 32 word)" by (simp add: word_less_nat_alt)
qed

lemma ucast_32_16:
  fixes n :: "32 word"
  assumes "\<not> 65535 < n"
  shows "ucast (ucast n :: 16 word) = n"
proof -
  have "unat n < 2 ^ 16" using assms by (simp add: word_less_nat_alt)
  then show ?thesis
    by (simp add: word_unat_eq_iff unsigned_ucast_eq unsigned_take_bit_eq take_bit_nat_eq_self)
qed

lemma xor_shift_inj:
  fixes a b :: "'a::len word"
  assumes "0 < k" and eq: "a XOR drop_bit k a = b XOR drop_bit k b"
  shows "a = b"
proof (rule bit_eqI)
  fix n
  show "bit a n = bit b n"
  proof (induction "LENGTH('a) - n" arbitrary: n rule: less_induct)
    case less
    show ?case
    proof (cases "n < LENGTH('a)")
      case True
      then have "bit a (k + n) = bit b (k + n)"
        using less \<open>0 < k\<close> by simp
      moreover have "bit (a XOR drop_bit k a) n = bit (b XOR drop_bit k b) n"
        using eq by simp
      ultimately show ?thesis
        by (auto simp: bit_simps)
    next
      case False
      then show ?thesis
        using bit_imp_le_length [of a n] bit_imp_le_length [of b n] by auto
    qed
  qed
qed

section \<open>encoding/binary\<close>

text \<open>
  \<^verbatim>\<open>binary.BigEndian.PutUint64\<close>, \<^verbatim>\<open>binary.BigEndian.Uint64\<close>, \<^verbatim>\<open>binary.LittleEndian.Uint64\<close> and
  \<^verbatim>\<open>binary.LittleEndian.Uint32\<close>: shifts and ors of the single bytes, as the Go library writes
  them. The sources only call the readers on slices of exactly the width read.
\<close>

definition BigEndian_PutUint64 :: "64 word \<Rightarrow> bytes" where
  "BigEndian_PutUint64 v =
     [ucast (drop_bit 56 v), ucast (drop_bit 48 v), ucast (drop_bit 40 v), ucast (drop_bit 32 v),
      ucast (drop_bit 24 v), ucast (drop_bit 16 v), ucast (drop_bit 8 v), ucast v]"

definition BigEndian_Uint64 :: "bytes \<Rightarrow> 64 word" where
  "BigEndian_Uint64 b =
     ucast (b ! 7) OR push_bit 8 (ucast (b ! 6)) OR push_bit 16 (ucast (b ! 5))
     OR push_bit 24 (ucast (b ! 4)) OR push_bit 32 (ucast (b ! 3)) OR push_bit 40 (ucast (b ! 2))
     OR push_bit 48 (ucast (b ! 1)) OR push_bit 56 (ucast (b ! 0))"

definition LittleEndian_Uint64 :: "bytes \<Rightarrow> 64 word" where
  "LittleEndian_Uint64 b =
     ucast (b ! 0) OR push_bit 8 (ucast (b ! 1)) OR push_bit 16 (ucast (b ! 2))
     OR push_bit 24 (ucast (b ! 3)) OR push_bit 32 (ucast (b ! 4)) OR push_bit 40 (ucast (b ! 5))
     OR push_bit 48 (ucast (b ! 6)) OR push_bit 56 (ucast (b ! 7))"

definition LittleEndian_Uint32 :: "bytes \<Rightarrow> 32 word" where
  "LittleEndian_Uint32 b =
     ucast (b ! 0) OR push_bit 8 (ucast (b ! 1)) OR push_bit 16 (ucast (b ! 2))
     OR push_bit 24 (ucast (b ! 3))"

lemma length_BigEndian_PutUint64 [simp]: "length (BigEndian_PutUint64 v) = 8"
  by (simp add: BigEndian_PutUint64_def)

text \<open>Splitting a word at a byte boundary and putting it together again.\<close>

lemma or_push_drop:
  fixes v :: "64 word"
  shows "ucast (ucast (drop_bit n v) :: byte) OR push_bit 8 (drop_bit (n + 8) v) = drop_bit n v"
proof (rule bit_word_eqI)
  fix k
  have "8 \<le> k \<Longrightarrow> n + 8 + (k - 8) = n + k" by simp
  then show "bit (ucast (ucast (drop_bit n v) :: byte) OR push_bit 8 (drop_bit (n + 8) v)) k
      = bit (drop_bit n v) k" if "k < LENGTH(64)"
    using that by (cases "k < 8") (auto simp: bit_simps)
qed

lemma BigEndian_Uint64_PutUint64 [simp]: "BigEndian_Uint64 (BigEndian_PutUint64 v) = v"
proof -
  let ?b = "\<lambda>n. ucast (ucast (drop_bit n v) :: byte) :: 64 word"
  have "BigEndian_Uint64 (BigEndian_PutUint64 v) =
      ?b 0 OR push_bit 8 (?b 8 OR push_bit 8 (?b 16 OR push_bit 8 (?b 24 OR push_bit 8
        (?b 32 OR push_bit 8 (?b 40 OR push_bit 8 (?b 48 OR push_bit 8 (?b 56)))))))"
    by (simp add: BigEndian_PutUint64_def BigEndian_Uint64_def push_bit_or or.assoc)
  also have "?b 56 = drop_bit 56 v"
    using or_push_drop [of 56 v] by simp
  also have "?b 48 OR push_bit 8 (drop_bit 56 v) = drop_bit 48 v"
    using or_push_drop [of 48 v] by simp
  also have "?b 40 OR push_bit 8 (drop_bit 48 v) = drop_bit 40 v"
    using or_push_drop [of 40 v] by simp
  also have "?b 32 OR push_bit 8 (drop_bit 40 v) = drop_bit 32 v"
    using or_push_drop [of 32 v] by simp
  also have "?b 24 OR push_bit 8 (drop_bit 32 v) = drop_bit 24 v"
    using or_push_drop [of 24 v] by simp
  also have "?b 16 OR push_bit 8 (drop_bit 24 v) = drop_bit 16 v"
    using or_push_drop [of 16 v] by simp
  also have "?b 8 OR push_bit 8 (drop_bit 16 v) = drop_bit 8 v"
    using or_push_drop [of 8 v] by simp
  also have "?b 0 OR push_bit 8 (drop_bit 8 v) = v"
    using or_push_drop [of 0 v] by simp
  finally show ?thesis .
qed

lemma length_8_conv: "length b = 8 \<longleftrightarrow> (\<exists>b0 b1 b2 b3 b4 b5 b6 b7. b = [b0, b1, b2, b3, b4, b5, b6, b7])"
  by (auto simp: length_Suc_conv numeral_eq_Suc)

lemma length_4_conv: "length b = 4 \<longleftrightarrow> (\<exists>b0 b1 b2 b3. b = [b0, b1, b2, b3])"
  by (auto simp: length_Suc_conv numeral_eq_Suc)

text \<open>Reading a byte back out of the assembled word: byte \<open>i\<close> sits at bit \<open>8 * i\<close>.\<close>

lemma bit_byte_ge: "8 \<le> n \<Longrightarrow> \<not> bit (b :: byte) n"
  using bit_imp_le_length [of b n] by auto

lemma byte_eqI:
  fixes a b :: byte
  assumes "bit a 0 = bit b 0" "bit a 1 = bit b 1" "bit a 2 = bit b 2" "bit a 3 = bit b 3"
    "bit a 4 = bit b 4" "bit a 5 = bit b 5" "bit a 6 = bit b 6" "bit a 7 = bit b 7"
  shows "a = b"
proof (rule bit_word_eqI)
  fix n
  assume "n < LENGTH(8)"
  then consider "n = 0" | "n = 1" | "n = 2" | "n = 3" | "n = 4" | "n = 5" | "n = 6" | "n = 7"
    by (simp; linarith)
  then show "bit a n = bit b n" by cases (use assms in simp_all)
qed

lemma BigEndian_Uint64_bytes:
  fixes b0 b1 b2 b3 b4 b5 b6 b7 :: byte
  defines "w \<equiv> BigEndian_Uint64 [b0, b1, b2, b3, b4, b5, b6, b7]"
  shows "ucast (drop_bit 56 w) = b0" "ucast (drop_bit 48 w) = b1" "ucast (drop_bit 40 w) = b2"
    "ucast (drop_bit 32 w) = b3" "ucast (drop_bit 24 w) = b4" "ucast (drop_bit 16 w) = b5"
    "ucast (drop_bit 8 w) = b6" "ucast w = b7"
  unfolding w_def by (rule byte_eqI; simp add: BigEndian_Uint64_def bit_simps bit_byte_ge)+

lemma BigEndian_PutUint64_Uint64: "length b = 8 \<Longrightarrow> BigEndian_PutUint64 (BigEndian_Uint64 b) = b"
  by (clarsimp simp: length_8_conv BigEndian_PutUint64_def BigEndian_Uint64_bytes)

lemma BigEndian_Uint64_inj:
  "length a = 8 \<Longrightarrow> length b = 8 \<Longrightarrow> BigEndian_Uint64 a = BigEndian_Uint64 b \<longleftrightarrow> a = b"
  by (metis BigEndian_PutUint64_Uint64)

lemma LittleEndian_Uint64_rev:
  "length b = 8 \<Longrightarrow> LittleEndian_Uint64 b = BigEndian_Uint64 (rev b)"
  by (auto simp: length_8_conv LittleEndian_Uint64_def BigEndian_Uint64_def)

lemma LittleEndian_Uint64_inj:
  "length a = 8 \<Longrightarrow> length b = 8 \<Longrightarrow> LittleEndian_Uint64 a = LittleEndian_Uint64 b \<longleftrightarrow> a = b"
  by (simp add: LittleEndian_Uint64_rev BigEndian_Uint64_inj)

lemma LittleEndian_Uint32_bytes:
  fixes b0 b1 b2 b3 :: byte
  defines "w \<equiv> LittleEndian_Uint32 [b0, b1, b2, b3]"
  shows "ucast w = b0" "ucast (drop_bit 8 w) = b1" "ucast (drop_bit 16 w) = b2"
    "ucast (drop_bit 24 w) = b3"
  unfolding w_def by (rule byte_eqI; simp add: LittleEndian_Uint32_def bit_simps bit_byte_ge)+

lemma LittleEndian_Uint32_inj:
  assumes "length a = 4" "length b = 4"
  shows "LittleEndian_Uint32 a = LittleEndian_Uint32 b \<longleftrightarrow> a = b"
proof
  assume eq: "LittleEndian_Uint32 a = LittleEndian_Uint32 b"
  have bytes: "c = [ucast w, ucast (drop_bit 8 w), ucast (drop_bit 16 w), ucast (drop_bit 24 w)]"
    if "length c = 4" "w = LittleEndian_Uint32 c" for c :: bytes and w
    using that by (clarsimp simp: length_4_conv LittleEndian_Uint32_bytes)
  show "a = b"
    using bytes [OF assms(1) refl] bytes [OF assms(2) eq] by (rule trans [OF _ sym])
qed simp

section \<open>math/bits\<close>

text \<open>\<^verbatim>\<open>bits.RotateLeft64\<close>.\<close>

abbreviation RotateLeft64 :: "64 word \<Rightarrow> nat \<Rightarrow> 64 word" where
  "RotateLeft64 x k \<equiv> word_rotl k x"

section \<open>time.Duration\<close>

text \<open>
  A duration counts nanoseconds in an \<^verbatim>\<open>int64\<close>. Go's \<^verbatim>\<open>/\<close> and \<^verbatim>\<open>%\<close> truncate towards zero:
  \<open>sdiv\<close> and \<open>smod\<close> on the signed value.
\<close>

definition Millisecond :: int where
  "Millisecond = 1000000"

definition Second :: int where
  "Second = 1000 * Millisecond"

lemma sdiv_nonneg: "0 \<le> (a::int) \<Longrightarrow> 0 < b \<Longrightarrow> a sdiv b = a div b"
  by (simp add: signed_divide_int_def sgn_if)

lemma smod_nonneg: "0 \<le> (a::int) \<Longrightarrow> 0 < b \<Longrightarrow> a smod b = a mod b"
  by (simp add: signed_modulo_int_def sgn_if)

section \<open>strings.TrimSpace\<close>

text \<open>
  The UTF-8 encodings of the runes for which \<^verbatim>\<open>unicode.IsSpace\<close> holds. \<^verbatim>\<open>strings.TrimSpace\<close>
  decodes runes from both ends and drops them while they are white space. A rune decoded from an
  end is white space exactly when one of these encodings is a prefix (or a suffix) of the string:
  the encodings are valid, start with the only rune-start byte they hold, and a malformed end
  decodes to U+FFFD, which is not white space.
\<close>

definition space_runes :: "string list" where
  "space_runes =
     [[CHR 0x09], [CHR 0x0A], [CHR 0x0B], [CHR 0x0C], [CHR 0x0D], [CHR 0x20],
      [CHR 0xC2, CHR 0x85], [CHR 0xC2, CHR 0xA0], [CHR 0xE1, CHR 0x9A, CHR 0x80],
      [CHR 0xE2, CHR 0x80, CHR 0x80], [CHR 0xE2, CHR 0x80, CHR 0x81],
      [CHR 0xE2, CHR 0x80, CHR 0x82], [CHR 0xE2, CHR 0x80, CHR 0x83],
      [CHR 0xE2, CHR 0x80, CHR 0x84], [CHR 0xE2, CHR 0x80, CHR 0x85],
      [CHR 0xE2, CHR 0x80, CHR 0x86], [CHR 0xE2, CHR 0x80, CHR 0x87],
      [CHR 0xE2, CHR 0x80, CHR 0x88], [CHR 0xE2, CHR 0x80, CHR 0x89],
      [CHR 0xE2, CHR 0x80, CHR 0x8A], [CHR 0xE2, CHR 0x80, CHR 0xA8],
      [CHR 0xE2, CHR 0x80, CHR 0xA9], [CHR 0xE2, CHR 0x80, CHR 0xAF],
      [CHR 0xE2, CHR 0x81, CHR 0x9F], [CHR 0xE3, CHR 0x80, CHR 0x80]]"

fun strip_prefix :: "string \<Rightarrow> string \<Rightarrow> string option" where
  "strip_prefix [] s = Some s"
| "strip_prefix (p # ps) [] = None"
| "strip_prefix (p # ps) (c # cs) = (if p = c then strip_prefix ps cs else None)"

fun strip_first :: "string list \<Rightarrow> string \<Rightarrow> string option" where
  "strip_first [] s = None"
| "strip_first (p # ps) s =
     (case strip_prefix p s of Some r \<Rightarrow> Some r | None \<Rightarrow> strip_first ps s)"

lemma strip_prefix_Some: "strip_prefix p s = Some r \<longleftrightarrow> s = p @ r"
  by (induction p s rule: strip_prefix.induct) auto

lemma strip_first_Some:
  "strip_first ps s = Some r \<Longrightarrow> \<exists>p \<in> set ps. s = p @ r"
  by (induction ps) (auto simp: strip_prefix_Some split: option.splits)

lemma strip_prefix_None: "strip_prefix p s = None \<longleftrightarrow> (\<forall>r. s \<noteq> p @ r)"
  by (induction p s rule: strip_prefix.induct) auto

lemma strip_first_None: "strip_first ps s = None \<longleftrightarrow> (\<forall>p \<in> set ps. \<forall>r. s \<noteq> p @ r)"
  by (induction ps) (auto simp: strip_prefix_None split: option.split dest: strip_prefix_Some [THEN iffD1])

lemma Nil_notin_space_runes [simp]: "[] \<notin> set space_runes"
  by (simp add: space_runes_def)

text \<open>No white-space rune's encoding is a prefix of another's.\<close>

lemma space_runes_no_prefix:
  "list_all (\<lambda>p. list_all (\<lambda>q. p = q \<or> strip_prefix q p = None) space_runes) space_runes"
  by code_simp

lemma space_runes_no_proper_prefix:
  assumes "p \<in> set space_runes" "q \<in> set space_runes" "p = q @ u"
  shows "p = q"
proof -
  have "list_all (\<lambda>q. p = q \<or> strip_prefix q p = None) space_runes"
    using space_runes_no_prefix assms(1) unfolding list_all_iff by (rule bspec)
  then have "p = q \<or> strip_prefix q p = None"
    using assms(2) unfolding list_all_iff by (rule bspec)
  moreover have "strip_prefix q p = Some u"
    using assms(3) by (simp only: strip_prefix_Some)
  ultimately show ?thesis by simp
qed

lemma space_runes_prefix_free:
  assumes "p \<in> set space_runes" "q \<in> set space_runes" "p @ r = q @ t"
  shows "p = q"
proof -
  from assms(3) obtain u where "p = q @ u \<or> q = p @ u"
    unfolding append_eq_append_conv2 by blast
  then show ?thesis
    using space_runes_no_proper_prefix [OF assms(1,2)] space_runes_no_proper_prefix [OF assms(2,1)]
    by blast
qed

lemma strip_first_shorter:
  "strip_first space_runes s = Some r \<Longrightarrow> length r < length s"
  by (auto dest!: strip_first_Some simp: length_greater_0_conv [symmetric] simp del: length_greater_0_conv)

lemma strip_first_rev_shorter:
  "strip_first (map rev space_runes) s = Some r \<Longrightarrow> length r < length s"
  by (auto dest!: strip_first_Some)

function trim_left_space :: "string \<Rightarrow> string" where
  "trim_left_space s =
     (case strip_first space_runes s of None \<Rightarrow> s | Some r \<Rightarrow> trim_left_space r)"
  by pat_completeness auto
termination by (relation "measure length") (auto dest: strip_first_shorter)

function trim_left_rev :: "string \<Rightarrow> string" where
  "trim_left_rev s =
     (case strip_first (map rev space_runes) s of None \<Rightarrow> s | Some r \<Rightarrow> trim_left_rev r)"
  by pat_completeness auto
termination by (relation "measure length") (auto dest: strip_first_rev_shorter)

declare trim_left_space.simps [simp del] trim_left_rev.simps [simp del]

definition trim_right_space :: "string \<Rightarrow> string" where
  "trim_right_space s = rev (trim_left_rev (rev s))"

definition TrimSpace :: "string \<Rightarrow> string" where
  "TrimSpace s = trim_right_space (trim_left_space s)"

text \<open>
  What the callers rely on: the trimmed string is empty exactly when the string is a sequence of
  white-space runes.
\<close>

definition all_space :: "string \<Rightarrow> bool" where
  "all_space s \<longleftrightarrow> (\<exists>rs. set rs \<subseteq> set space_runes \<and> s = concat rs)"

lemma all_space_Nil [simp]: "all_space []"
  unfolding all_space_def by (rule exI [of _ "[]"]) simp

lemma all_space_append_rune: "p \<in> set space_runes \<Longrightarrow> all_space r \<Longrightarrow> all_space (p @ r)"
  unfolding all_space_def by (metis concat.simps(2) insert_subset list.simps(15))

lemma all_space_cases:
  assumes "all_space s"
  obtains "s = []" | p r where "p \<in> set space_runes" "all_space r" "s = p @ r"
proof -
  from assms obtain rs where rs: "set rs \<subseteq> set space_runes" "s = concat rs"
    by (auto simp: all_space_def)
  show thesis
    by (cases rs) (use rs that in \<open>auto simp: all_space_def\<close>)
qed

lemma trim_left_space_fixed: "strip_first space_runes (trim_left_space s) = None"
proof (induction s rule: trim_left_space.induct)
  case (1 s)
  then show ?case
    by (subst trim_left_space.simps) (auto split: option.split)
qed

lemma all_space_trim_left: "all_space s \<Longrightarrow> trim_left_space s = []"
proof (induction s rule: trim_left_space.induct)
  case (1 s)
  from \<open>all_space s\<close> show ?case
  proof (cases rule: all_space_cases)
    case 1
    then show ?thesis
      by (subst trim_left_space.simps) (auto simp: strip_first_None split: option.split dest: strip_first_shorter)
  next
    case (2 p r)
    then have "strip_first space_runes s \<noteq> None"
      by (auto simp: strip_first_None)
    then obtain r' where r': "strip_first space_runes s = Some r'" by auto
    then obtain q where "q \<in> set space_runes" "s = q @ r'"
      using strip_first_Some by blast
    with 2 have "r' = r"
      using space_runes_prefix_free by (metis append_eq_append_conv)
    with r' 2 "1.IH" show ?thesis
      by (subst trim_left_space.simps) simp
  qed
qed

lemma trim_left_space_Nil: "trim_left_space s = [] \<Longrightarrow> all_space s"
proof (induction s rule: trim_left_space.induct)
  case (1 s)
  then show ?case
    by (subst (asm) trim_left_space.simps)
      (auto split: option.splits dest!: strip_first_Some intro: all_space_append_rune)
qed

lemma trim_left_rev_Nil: "trim_left_rev s = [] \<Longrightarrow> all_space (rev s)"
proof (induction s rule: trim_left_rev.induct)
  case (1 s)
  show ?case
  proof (cases "strip_first (map rev space_runes) s")
    case None
    with 1 show ?thesis by (simp add: trim_left_rev.simps [of s])
  next
    case (Some r)
    then obtain p where p: "p \<in> set space_runes" "s = rev p @ r"
      by (auto dest!: strip_first_Some)
    have "all_space (rev r)"
      using 1 Some by (simp add: trim_left_rev.simps [of s])
    then obtain rs where "set rs \<subseteq> set space_runes" "rev r = concat rs"
      by (auto simp: all_space_def)
    then show ?thesis
      using p by (auto simp: all_space_def intro!: exI [of _ "rs @ [p]"])
  qed
qed

lemma trim_left_rev_empty: "trim_left_rev [] = []"
  by (subst trim_left_rev.simps) (auto split: option.split dest: strip_first_rev_shorter)

lemma TrimSpace_Nil_iff: "TrimSpace s = [] \<longleftrightarrow> all_space s"
proof
  assume "TrimSpace s = []"
  then have "all_space (trim_left_space s)"
    using trim_left_rev_Nil by (fastforce simp: TrimSpace_def trim_right_space_def)
  then have "trim_left_space s = []"
    by (cases rule: all_space_cases) (use trim_left_space_fixed [of s] in \<open>auto simp: strip_first_None\<close>)
  then show "all_space s" by (rule trim_left_space_Nil)
next
  assume "all_space s"
  then show "TrimSpace s = []"
    by (simp add: TrimSpace_def trim_right_space_def all_space_trim_left trim_left_rev_empty)
qed

end
