(* ===== verification/Errors.thy ===== *)
theory Errors
  imports Prelude
begin

text \<open>
  Go error values. A package-level \<^verbatim>\<open>errors.New\<close> variable is a sentinel; \<^verbatim>\<open>fmt.Errorf\<close> builds an
  error from a format string and its arguments and, with \<^verbatim>\<open>%w\<close>, wraps another error;
  \<^verbatim>\<open>errors.Is\<close> looks for a sentinel along the chain of wrapped errors. A function that returns
  \<^verbatim>\<open>error\<close> returns an option (\<^const>\<open>None\<close> is nil), one that returns \<^verbatim>\<open>(T, error)\<close> a pair whose
  first component is meaningful in Go even beside a non-nil error, and one that may panic a value
  of type \<open>go\<close>.

  The locale \<open>validated\<close> is the contract between a message type and its \<^verbatim>\<open>Validate\<close> method, the
  locale \<open>codec\<close> the contract between a message type and its protobuf conversions.
\<close>

section \<open>Sentinels\<close>

datatype wire_err =
    ErrKeyEmpty | ErrKeyTooLarge | ErrValueTooLarge | ErrMutationIDRequired | ErrInvalidWriteMode
  | ErrInvalidConfirmLevel | ErrInvalidStorageProfile | ErrPersistenceConfigRequired
  | ErrInvalidWriteTimeout | ErrTimeoutNotWholeMillis | ErrWriteTimeoutTooLarge
  | ErrTTLNotWholeMilliseconds | ErrInvalidProtocolRange | ErrIncompatibleProtocolRanges

datatype partition_err = ErrInvalidPartitionCount

datatype record_err =
    ErrInvalidGetStatus | ErrMissingVersion | ErrUnexpectedVersion | ErrUnexpectedValue
  | ErrInvalidRecordKind | ErrInvalidResultTTL

datatype control_err =
    ErrInvalidHubGeneration | ErrInvalidNodeID | ErrInvalidSequence | ErrInvalidSequenceRange
  | ErrNonContiguousBatch | ErrPartitionMismatch | ErrInvalidRecordKind | ErrTooManyEvents
  | ErrBatchTooLarge | ErrTooManySubscriptions | ErrDuplicateSubscription | ErrEmptySubscriptions
  | ErrEmptyInvalidationBatch | ErrInvalidMessage | ErrInvalidClusterID | ErrInvalidControlStatus
  | ErrControlDetailTooLarge

datatype rpc_err =
    ErrInvalidHubGeneration | ErrInvalidDurableHealth | ErrInvalidOp | ErrUnexpectedTTL
  | ErrInvalidMutationStatus | ErrInvalidNodeID | ErrMutationFingerprintMismatch
  | ErrInvalidStatus | ErrInvalidEnum | ErrInvalidClusterID

datatype sentinel =
    Wire_err wire_err | Partition_err partition_err | Record_err record_err
  | Control_err control_err | Rpc_err rpc_err

section \<open>Errors, results and panics\<close>

datatype fmt_arg = FInt int | FStr string

datatype error = Err sentinel | Errorf string "fmt_arg list" "error option"

primrec error_Is :: "error \<Rightarrow> sentinel \<Rightarrow> bool" where
  "error_Is (Err s) t = (s = t)"
| "error_Is (Errorf f args w) t = (case map_option (\<lambda>e. error_Is e t) w of None \<Rightarrow> False | Some b \<Rightarrow> b)"

definition errors_Is :: "error option \<Rightarrow> sentinel \<Rightarrow> bool" where
  "errors_Is e t = (case e of None \<Rightarrow> False | Some x \<Rightarrow> error_Is x t)"

text \<open>\<open>wrap s f args\<close> is \<^verbatim>\<open>fmt.Errorf("%w" + f, s, args...)\<close> on a sentinel \<open>s\<close>.\<close>

abbreviation wrap :: "sentinel \<Rightarrow> string \<Rightarrow> fmt_arg list \<Rightarrow> error" where
  "wrap s f args \<equiv> Errorf (''%w'' @ f) args (Some (Err s))"

lemma errors_Is_simps [simp]:
  "\<not> errors_Is None t"
  "errors_Is (Some (Err s)) t \<longleftrightarrow> s = t"
  "errors_Is (Some (Errorf f args None)) t \<longleftrightarrow> False"
  "errors_Is (Some (Errorf f args (Some e))) t \<longleftrightarrow> errors_Is (Some e) t"
  by (simp_all add: errors_Is_def)

type_synonym 'a result = "'a \<times> error option"

datatype 'a go = Return 'a | Panic error

text \<open>
  \<open>on_ok zero r k\<close> is the statement \<^verbatim>\<open>v, err := r; if err != nil { return zero, err }\<close> followed by
  \<open>k v\<close>.
\<close>

definition on_ok :: "'b \<Rightarrow> 'a result \<Rightarrow> ('a \<Rightarrow> 'b result) \<Rightarrow> 'b result" where
  "on_ok zero r k = (case r of (v, None) \<Rightarrow> k v | (v, Some err) \<Rightarrow> (zero, Some err))"

lemma on_ok_simps [simp]:
  "on_ok zero (v, None) k = k v"
  "on_ok zero (v, Some err) k = (zero, Some err)"
  by (simp_all add: on_ok_def)

lemma on_ok_None: "on_ok zero r k = (d, None) \<longleftrightarrow> (\<exists>v. r = (v, None) \<and> k v = (d, None))"
  by (auto simp: on_ok_def split: prod.split option.split)

lemma on_ok_Some:
  "snd (on_ok zero r k) = Some err \<longleftrightarrow>
     snd r = Some err \<or> (snd r = None \<and> snd (k (fst r)) = Some err)"
  by (auto simp: on_ok_def split: prod.split option.split)

text \<open>\<open>checked validate out\<close> is the statement \<^verbatim>\<open>return out, out.Validate()\<close>.\<close>

definition checked :: "('a \<Rightarrow> error option) \<Rightarrow> 'a \<Rightarrow> 'a result" where
  "checked validate out = (out, validate out)"

lemma checked_None [simp]: "checked validate x = (d, None) \<longleftrightarrow> x = d \<and> validate d = None"
  by (auto simp: checked_def)

lemma snd_checked [simp]: "snd (checked validate x) = validate x" and fst_checked [simp]: "fst (checked validate x) = x"
  by (simp_all add: checked_def)

text \<open>
  \<open>diagnosed rules verdict\<close>: the rules hold and there is no error, or the error matches the sentinel of the
  first rule that is broken, and no other sentinel.
\<close>

definition diagnosed :: "(bool \<times> sentinel) list \<Rightarrow> error option \<Rightarrow> bool" where
  "diagnosed rules verdict \<longleftrightarrow>
     (case dropWhile fst rules of
        [] \<Rightarrow> verdict = None
      | (_, s) # _ \<Rightarrow> \<exists>e. verdict = Some e \<and> (\<forall>t. error_Is e t \<longleftrightarrow> t = s))"

lemma diagnosed_simps [simp]:
  "diagnosed [] verdict \<longleftrightarrow> verdict = None"
  "diagnosed ((True, s) # rules) verdict \<longleftrightarrow> diagnosed rules verdict"
  "diagnosed ((False, s) # rules) verdict \<longleftrightarrow> (\<exists>e. verdict = Some e \<and> (\<forall>t. error_Is e t \<longleftrightarrow> t = s))"
  by (simp_all add: diagnosed_def)

section \<open>Interfaces\<close>

text \<open>
  \<open>validated validate valid\<close>: the method accepts exactly the values that the declarative predicate
  describes.
\<close>

locale validated =
  fixes validate :: "'d \<Rightarrow> error option"
    and valid :: "'d \<Rightarrow> bool"
  assumes validate_iff: "validate d = None \<longleftrightarrow> valid d"
begin

lemma rejects_iff: "(\<exists>e. validate d = Some e) \<longleftrightarrow> \<not> valid d"
  using validate_iff [of d] by auto

end

text \<open>
  A message type with conversions to and from its protobuf message, which arrives as a possibly
  nil pointer: decoding what was encoded from a decodable message gives it back without an error,
  whatever is decoded without an error is decodable, and nil is refused.
\<close>

locale decoder =
  fixes decodable :: "'d \<Rightarrow> bool"
    and to_pb :: "'d \<Rightarrow> 'p"
    and from_pb :: "'p option \<Rightarrow> 'd result"
  assumes from_to: "decodable d \<Longrightarrow> from_pb (Some (to_pb d)) = (d, None)"
    and from_decodable: "from_pb p = (d, None) \<Longrightarrow> decodable d"
    and from_nil: "snd (from_pb None) \<noteq> None"
begin

lemma to_pb_inj: "decodable a \<Longrightarrow> decodable b \<Longrightarrow> to_pb a = to_pb b \<longleftrightarrow> a = b"
  using from_to by (metis prod.inject)

lemma decode_iff: "(\<exists>p. from_pb p = (d, None)) \<longleftrightarrow> decodable d"
  using from_to from_decodable by blast

text \<open>A relay that decodes a message and encodes it again loses nothing its receiver could see.\<close>

lemma relay: "from_pb p = (d, None) \<Longrightarrow> from_pb (Some (to_pb d)) = from_pb p"
  using from_to from_decodable by metis

lemma decoded_not_nil: "from_pb p = (d, None) \<Longrightarrow> \<exists>m. p = Some m"
  using from_nil by (cases p) auto

end

text \<open>The usual case: what can be decoded is exactly what \<^verbatim>\<open>Validate\<close> accepts.\<close>

locale codec = decoder valid to_pb from_pb + validated validate valid
  for validate :: "'d \<Rightarrow> error option" and valid :: "'d \<Rightarrow> bool"
    and to_pb :: "'d \<Rightarrow> 'p" and from_pb :: "'p option \<Rightarrow> 'd result"
begin

lemma decode_iff_validate: "(\<exists>p. from_pb p = (d, None)) \<longleftrightarrow> validate d = None"
  using decode_iff validate_iff by simp

lemma roundtrip: "validate d = None \<Longrightarrow> from_pb (Some (to_pb d)) = (d, None)"
  using from_to validate_iff by simp

end

text \<open>
  An exact codec accepts only the encoding that \<open>to_pb\<close> produces, so an accepted message was neither
  truncated nor defaulted: decoding and encoding are inverse bijections.
\<close>

locale exact_codec = codec validate valid to_pb from_pb
  for validate :: "'d \<Rightarrow> error option" and valid :: "'d \<Rightarrow> bool"
    and to_pb :: "'d \<Rightarrow> 'p" and from_pb :: "'p option \<Rightarrow> 'd result" +
  assumes from_exact: "from_pb (Some m) = (d, None) \<Longrightarrow> m = to_pb d"
begin

lemma accept_iff: "from_pb p = (d, None) \<longleftrightarrow> validate d = None \<and> p = Some (to_pb d)"
  using decoded_not_nil from_exact roundtrip decode_iff_validate by metis

end

text \<open>
  An enumeration with a fixed set of wire numbers: known members survive the round trip, and the
  decoder refuses every other number instead of truncating it into a member.
\<close>

locale closed_enum =
  fixes member :: "'e \<Rightarrow> bool"
    and to_num :: "'e \<Rightarrow> 'n"
    and from_num :: "'n \<Rightarrow> 'e result"
  assumes enum_from_to: "member e \<Longrightarrow> from_num (to_num e) = (e, None)"
    and enum_to_from: "from_num n = (e, None) \<Longrightarrow> member e \<and> to_num e = n"
begin

lemma enum_accepts_iff: "snd (from_num n) = None \<longleftrightarrow> (\<exists>e. member e \<and> n = to_num e)"
  using enum_from_to enum_to_from by (metis prod.collapse snd_conv)

lemma enum_to_num_inj: "member a \<Longrightarrow> member b \<Longrightarrow> to_num a = to_num b \<longleftrightarrow> a = b"
  using enum_from_to by (metis prod.inject)

lemma enum_from_num_inj:
  "from_num m = (e, None) \<Longrightarrow> from_num n = (e, None) \<Longrightarrow> m = n"
  using enum_to_from by blast

end

end
