(* ===== verification/Wire_Protocol.thy ===== *)
theory Wire_Protocol
  imports Errors
begin

text \<open>
  \<^verbatim>\<open>internal/wire/protocol.go\<close>: protocol version ranges and their negotiation.
\<close>

type_synonym ProtocolVersion = "16 word"

abbreviation CurrentProtocolVersion :: ProtocolVersion where "CurrentProtocolVersion \<equiv> 1"

abbreviation MinSupportedProtocolVersion :: ProtocolVersion where "MinSupportedProtocolVersion \<equiv> 1"

record ProtocolRange =
  Version :: ProtocolVersion
  MinSupported :: ProtocolVersion

definition CurrentProtocolRange :: ProtocolRange where
  "CurrentProtocolRange =
     \<lparr>Version = CurrentProtocolVersion, MinSupported = MinSupportedProtocolVersion\<rparr>"

definition ProtocolRange_Validate :: "ProtocolRange \<Rightarrow> error option" where
  "ProtocolRange_Validate r =
     (if MinSupported r = 0 \<or> Version r = 0 \<or> MinSupported r > Version r
      then Some (wrap (Wire_err ErrInvalidProtocolRange) '': min=%d version=%d''
                   [FInt (uint (MinSupported r)), FInt (uint (Version r))])
      else None)"

definition Negotiate :: "ProtocolRange \<Rightarrow> ProtocolRange \<Rightarrow> ProtocolVersion result" where
  "Negotiate r peer =
     (case ProtocolRange_Validate r of Some err \<Rightarrow> (0, Some err)
      | None \<Rightarrow>
     (case ProtocolRange_Validate peer of Some err \<Rightarrow> (0, Some err)
      | None \<Rightarrow>
     (let ver = min (Version r) (Version peer);
          minimum = max (MinSupported r) (MinSupported peer)
      in if ver < minimum
         then (0, Some (wrap (Wire_err ErrIncompatibleProtocolRanges) '': local=%d-%d peer=%d-%d''
                          [FInt (uint (MinSupported r)), FInt (uint (Version r)),
                           FInt (uint (MinSupported peer)), FInt (uint (Version peer))]))
         else (ver, None))))"

section \<open>Specification\<close>

text \<open>The versions a peer speaks.\<close>

definition supported :: "ProtocolRange \<Rightarrow> ProtocolVersion set" where
  "supported r = {v. MinSupported r \<le> v \<and> v \<le> Version r}"

definition valid_range :: "ProtocolRange \<Rightarrow> bool" where
  "valid_range r \<longleftrightarrow> 0 \<notin> supported r \<and> supported r \<noteq> {}"

lemma ProtocolRange_Validate_iff [valid_simps]: "ProtocolRange_Validate r = None \<longleftrightarrow> valid_range r"
proof -
  have "supported r \<noteq> {} \<longleftrightarrow> MinSupported r \<le> Version r"
    by (auto simp: supported_def intro: order_trans)
  moreover have "0 \<in> supported r \<longleftrightarrow> MinSupported r = 0"
    by (auto simp: supported_def)
  ultimately show ?thesis
    by (auto simp: ProtocolRange_Validate_def valid_range_def not_less)
qed

interpretation protocol_range: validated ProtocolRange_Validate valid_range
  by unfold_locales (rule ProtocolRange_Validate_iff)

lemma common_versions:
  "supported r \<inter> supported peer =
     {v. max (MinSupported r) (MinSupported peer) \<le> v \<and> v \<le> min (Version r) (Version peer)}"
  by (auto simp: supported_def)

lemma Negotiate_ok:
  assumes "valid_range r" "valid_range peer"
    and "max (MinSupported r) (MinSupported peer) \<le> min (Version r) (Version peer)"
  shows "Negotiate r peer = (min (Version r) (Version peer), None)"
  using assms(1,2) [folded ProtocolRange_Validate_iff] assms(3)
  unfolding Negotiate_def Let_def by (simp only: option.case not_less [symmetric] if_False)

lemma Negotiate_error:
  assumes "\<not> valid_range r \<or> \<not> valid_range peer
    \<or> min (Version r) (Version peer) < max (MinSupported r) (MinSupported peer)"
  obtains e where "Negotiate r peer = (0, Some e)"
proof (cases "valid_range r \<and> valid_range peer")
  case True
  with assms have "min (Version r) (Version peer) < max (MinSupported r) (MinSupported peer)" by blast
  moreover have "ProtocolRange_Validate r = None" "ProtocolRange_Validate peer = None"
    using True by (simp_all only: ProtocolRange_Validate_iff)
  ultimately show thesis
    using that unfolding Negotiate_def Let_def by (simp only: option.case if_True)
next
  case False
  then consider e where "ProtocolRange_Validate r = Some e"
    | e where "ProtocolRange_Validate r = None" "ProtocolRange_Validate peer = Some e"
    using ProtocolRange_Validate_iff by blast
  then show thesis
    by cases (use that in \<open>simp_all add: Negotiate_def\<close>)
qed

lemma Negotiate_iff:
  "(Negotiate r peer = (v, None) \<longleftrightarrow>
      valid_range r \<and> valid_range peer \<and> v \<in> supported r \<inter> supported peer
      \<and> (\<forall>u \<in> supported r \<inter> supported peer. u \<le> v))
   \<and> (snd (Negotiate r peer) \<noteq> None \<longleftrightarrow>
        \<not> valid_range r \<or> \<not> valid_range peer \<or> supported r \<inter> supported peer = {})
   \<and> (snd (Negotiate r peer) \<noteq> None \<longrightarrow> fst (Negotiate r peer) = 0)"
proof -
  let ?lo = "max (MinSupported r) (MinSupported peer)"
  let ?hi = "min (Version r) (Version peer)"
  have greatest: "v \<in> supported r \<inter> supported peer \<and> (\<forall>u \<in> supported r \<inter> supported peer. u \<le> v)
      \<longleftrightarrow> ?lo \<le> ?hi \<and> v = ?hi"
    unfolding common_versions Ball_def mem_Collect_eq by (meson antisym order_refl order_trans)
  have disjoint: "supported r \<inter> supported peer = {} \<longleftrightarrow> ?hi < ?lo"
    unfolding common_versions Collect_empty_eq by (meson not_le order_refl order_trans)
  show ?thesis
  proof (cases "valid_range r \<and> valid_range peer \<and> ?lo \<le> ?hi")
    case True
    then have "Negotiate r peer = (?hi, None)" using Negotiate_ok by blast
    then show ?thesis unfolding greatest disjoint using True leD by (simp only: fst_conv snd_conv prod.inject) blast
  next
    case False
    then obtain e where "Negotiate r peer = (0, Some e)" using Negotiate_error not_le by metis
    then show ?thesis unfolding greatest disjoint using False not_le by (simp only: fst_conv snd_conv prod.inject) blast
  qed
qed

text \<open>C6. Negotiation returns a version without an error exactly when both ranges are valid and that
  version is the greatest one both peers support; it fails exactly when a range is invalid or the
  peers share no version, and never hands out a usable version beside an error.\<close>

theorem Negotiate_greatest_common:
  "(Negotiate r peer = (v, None) \<longleftrightarrow>
      valid_range r \<and> valid_range peer \<and> v \<in> supported r \<inter> supported peer
      \<and> (\<forall>u \<in> supported r \<inter> supported peer. u \<le> v))
   \<and> (snd (Negotiate r peer) \<noteq> None \<longleftrightarrow>
        \<not> valid_range r \<or> \<not> valid_range peer \<or> supported r \<inter> supported peer = {})
   \<and> (snd (Negotiate r peer) \<noteq> None \<longrightarrow> fst (Negotiate r peer) = 0)"
  by (rule Negotiate_iff)

theorem Negotiate_greatest_common_witness:
  "Negotiate \<lparr>Version = 5, MinSupported = 2\<rparr> \<lparr>Version = 4, MinSupported = 1\<rparr> = (4, None)
   \<and> 4 \<in> supported \<lparr>Version = 5, MinSupported = 2\<rparr> \<inter> supported \<lparr>Version = 4, MinSupported = 1\<rparr>"
proof -
  have "Negotiate \<lparr>Version = 5, MinSupported = 2\<rparr> \<lparr>Version = 4, MinSupported = 1\<rparr> = (4, None)"
    by code_simp
  with Negotiate_greatest_common show ?thesis by blast
qed

lemma Negotiate_commute: "fst (Negotiate r peer) = fst (Negotiate peer r)"
  by (simp add: Negotiate_def Let_def min.commute max.commute split: option.split)

end
