(* ===== verification/Wire_Partition.thy ===== *)
theory Wire_Partition
  imports Errors
begin

text \<open>
  \<^verbatim>\<open>internal/wire/partition.go\<close>: seeded xxHash64 over the raw key bytes and the routing of a key
  to a partition. The two loops over \<^verbatim>\<open>remaining\<close> are recursive functions on the remaining bytes;
  all arithmetic is on 64-bit words and wraps.
\<close>

section \<open>Constants\<close>

definition partitionSeed :: "64 word" where
  "partitionSeed = 0x9E3779B185EBCA87"

definition xxPrime1 :: "64 word" where "xxPrime1 = 11400714785074694791"

definition xxPrime2 :: "64 word" where "xxPrime2 = 14029467366897019727"

definition xxPrime3 :: "64 word" where "xxPrime3 = 1609587929392839161"

definition xxPrime4 :: "64 word" where "xxPrime4 = 9650029242287828579"

definition xxPrime5 :: "64 word" where "xxPrime5 = 2870177450012600261"

section \<open>The hash\<close>

definition xxRound :: "64 word \<Rightarrow> 64 word \<Rightarrow> 64 word" where
  "xxRound accumulator input = RotateLeft64 (accumulator + input * xxPrime2) 31 * xxPrime1"

definition xxMergeRound :: "64 word \<Rightarrow> 64 word \<Rightarrow> 64 word" where
  "xxMergeRound accumulator val = (accumulator XOR xxRound 0 val) * xxPrime1 + xxPrime4"

text \<open>The loop over 32-byte stripes: the four lanes and what remains.\<close>

function xx_stripes ::
  "64 word \<Rightarrow> 64 word \<Rightarrow> 64 word \<Rightarrow> 64 word \<Rightarrow> bytes \<Rightarrow> (64 word \<times> 64 word \<times> 64 word \<times> 64 word) \<times> bytes" where
  "xx_stripes v1 v2 v3 v4 remaining =
     (if length remaining \<ge> 32
      then xx_stripes
             (xxRound v1 (LittleEndian_Uint64 (take 8 remaining)))
             (xxRound v2 (LittleEndian_Uint64 (take 8 (drop 8 remaining))))
             (xxRound v3 (LittleEndian_Uint64 (take 8 (drop 16 remaining))))
             (xxRound v4 (LittleEndian_Uint64 (take 8 (drop 24 remaining))))
             (drop 32 remaining)
      else ((v1, v2, v3, v4), remaining))"
  by pat_completeness auto
termination by (relation "measure (\<lambda>(_, _, _, _, r). length r)") auto

text \<open>The lanes merged into one word.\<close>

definition xx_converge :: "64 word \<times> 64 word \<times> 64 word \<times> 64 word \<Rightarrow> 64 word" where
  "xx_converge v = (case v of (v1, v2, v3, v4) \<Rightarrow>
     let hash = RotateLeft64 v1 1 + RotateLeft64 v2 7 + RotateLeft64 v3 12 + RotateLeft64 v4 18;
         hash = xxMergeRound hash v1;
         hash = xxMergeRound hash v2;
         hash = xxMergeRound hash v3
     in xxMergeRound hash v4)"

text \<open>The stripe branch or the short-input branch; returns the hash and what remains.\<close>

definition xx_head :: "bytes \<Rightarrow> 64 word \<Rightarrow> 64 word \<times> bytes" where
  "xx_head data seed =
     (if length data \<ge> 32
      then (case xx_stripes (seed + xxPrime1 + xxPrime2) (seed + xxPrime2) seed (seed - xxPrime1) data
            of (v, remaining) \<Rightarrow> (xx_converge v, remaining))
      else (seed + xxPrime5, data))"

definition xx_word_step :: "64 word \<Rightarrow> 64 word \<Rightarrow> 64 word" where
  "xx_word_step hash w = RotateLeft64 (hash XOR xxRound 0 w) 27 * xxPrime1 + xxPrime4"

function xx_words :: "64 word \<Rightarrow> bytes \<Rightarrow> 64 word \<times> bytes" where
  "xx_words hash remaining =
     (if length remaining \<ge> 8
      then xx_words (xx_word_step hash (LittleEndian_Uint64 (take 8 remaining))) (drop 8 remaining)
      else (hash, remaining))"
  by pat_completeness auto
termination by (relation "measure (\<lambda>(_, r). length r)") auto

definition xx_half_step :: "64 word \<Rightarrow> 32 word \<Rightarrow> 64 word" where
  "xx_half_step hash w = RotateLeft64 (hash XOR ucast w * xxPrime1) 23 * xxPrime2 + xxPrime3"

definition xx_half :: "64 word \<Rightarrow> bytes \<Rightarrow> 64 word \<times> bytes" where
  "xx_half hash remaining =
     (if length remaining \<ge> 4
      then (xx_half_step hash (LittleEndian_Uint32 (take 4 remaining)), drop 4 remaining)
      else (hash, remaining))"

definition xx_byte_step :: "64 word \<Rightarrow> byte \<Rightarrow> 64 word" where
  "xx_byte_step hash b = RotateLeft64 (hash XOR ucast b * xxPrime5) 11 * xxPrime1"

fun xx_bytes :: "64 word \<Rightarrow> bytes \<Rightarrow> 64 word" where
  "xx_bytes hash [] = hash"
| "xx_bytes hash (b # bs) = xx_bytes (xx_byte_step hash b) bs"

definition xx_avalanche :: "64 word \<Rightarrow> 64 word" where
  "xx_avalanche h0 =
     (let h1 = (h0 XOR drop_bit 33 h0) * xxPrime2;
          h2 = (h1 XOR drop_bit 29 h1) * xxPrime3
      in h2 XOR drop_bit 32 h2)"

text \<open>Everything after the stripes: length, whole words, half word, bytes, final mixing.\<close>

definition xx_finish :: "nat \<Rightarrow> 64 word \<Rightarrow> bytes \<Rightarrow> 64 word" where
  "xx_finish len h remaining =
     (case xx_words (h + of_nat len) remaining of (h, remaining) \<Rightarrow>
      case xx_half h remaining of (h, remaining) \<Rightarrow> xx_avalanche (xx_bytes h remaining))"

definition xxHash64 :: "bytes \<Rightarrow> 64 word \<Rightarrow> 64 word" where
  "xxHash64 data seed = (case xx_head data seed of (h, remaining) \<Rightarrow> xx_finish (length data) h remaining)"

declare xx_stripes.simps [simp del] xx_words.simps [simp del]

section \<open>Routing\<close>

definition validatePartitionCount :: "32 word \<Rightarrow> error option" where
  "validatePartitionCount partitionCount =
     (if partitionCount = 0 then Some (Err (Partition_err ErrInvalidPartitionCount)) else None)"

definition PartitionOf :: "bytes \<Rightarrow> 32 word \<Rightarrow> 32 word go" where
  "PartitionOf key partitionCount =
     (case validatePartitionCount partitionCount of
        Some err \<Rightarrow> Panic err
      | None \<Rightarrow> Return (ucast (xxHash64 key partitionSeed mod ucast partitionCount)))"

section \<open>Mixing steps\<close>

text \<open>
  The interface between the hash and its single steps: a step that, for a fixed input, never maps
  two states to one, and for a fixed state never maps two inputs to one.
\<close>

locale mixer =
  fixes mix :: "'s \<Rightarrow> 'i \<Rightarrow> 's"
  assumes mix_state_inj: "mix h i = mix h' i \<longleftrightarrow> h = h'"
    and mix_input_inj: "mix h i = mix h j \<longleftrightarrow> i = j"
begin

lemma foldl_state_inj: "foldl mix h xs = foldl mix h' xs \<longleftrightarrow> h = h'"
  by (induction xs arbitrary: h h') (simp_all add: mix_state_inj)

lemma foldl_input_inj:
  "foldl mix h (xs @ i # ys) = foldl mix h (xs @ j # ys) \<longleftrightarrow> i = j"
  by (simp add: foldl_state_inj mix_input_inj)

end

lemma xx_primes_invertible:
  "xxPrime1 * 614540362697595703 = 1"
  "xxPrime2 * 839798700976720815 = 1"
  "xxPrime3 * 16855272203555305545 = 1"
  "xxPrime5 * 14236653164957433613 = 1"
  by (simp_all add: xxPrime1_def xxPrime2_def xxPrime3_def xxPrime5_def)

lemmas xx_mult_inj = xx_primes_invertible [THEN odd_multiplier_inj]

lemmas xx_mix_inj = xx_mult_inj word_rotl_inj_iff xor_left_cancel xor_right_cancel

lemma xxRound_mixer: "mixer xxRound"
  by unfold_locales (simp_all add: xxRound_def xx_mix_inj)

interpretation round_mix: mixer xxRound
  by (rule xxRound_mixer)

interpretation word_mix: mixer xx_word_step
  by unfold_locales (simp_all add: xx_word_step_def xx_mix_inj round_mix.mix_input_inj)

interpretation half_mix: mixer xx_half_step
  by unfold_locales (simp_all add: xx_half_step_def xx_mix_inj ucast_up_inj)

interpretation byte_mix: mixer xx_byte_step
  by unfold_locales (simp_all add: xx_byte_step_def xx_mix_inj ucast_up_inj)

lemma xx_avalanche_inj: "xx_avalanche a = xx_avalanche b \<longleftrightarrow> a = b"
proof
  assume "xx_avalanche a = xx_avalanche b"
  then show "a = b"
    by (auto simp: xx_avalanche_def Let_def xx_mix_inj dest!: xor_shift_inj [rotated])
qed simp

section \<open>The loops as folds over positions\<close>

text \<open>
  A reference description of xxHash64 that never slices its input: lane \<open>k\<close> of stripe \<open>i\<close> is the
  word at offset \<open>32 * i + 8 * k\<close>, word \<open>j\<close> of the tail the word at offset \<open>8 * j\<close>.
\<close>

definition word_at :: "bytes \<Rightarrow> nat \<Rightarrow> 64 word" where
  "word_at b off = LittleEndian_Uint64 (take 8 (drop off b))"

definition lane :: "bytes \<Rightarrow> nat \<Rightarrow> 64 word list" where
  "lane b k = map (\<lambda>i. word_at b (32 * i + 8 * k)) [0..<length b div 32]"

definition tail_words :: "bytes \<Rightarrow> 64 word list" where
  "tail_words b = map (\<lambda>j. word_at b (8 * j)) [0..<length b div 8]"

definition xxHash64_ref :: "bytes \<Rightarrow> 64 word \<Rightarrow> 64 word" where
  "xxHash64_ref data seed =
     (let h0 = (if length data < 32 then seed + xxPrime5
                else xx_converge (foldl xxRound (seed + xxPrime1 + xxPrime2) (lane data 0),
                                  foldl xxRound (seed + xxPrime2) (lane data 1),
                                  foldl xxRound seed (lane data 2),
                                  foldl xxRound (seed - xxPrime1) (lane data 3)));
          tail = drop (32 * (length data div 32)) data;
          h1 = foldl xx_word_step (h0 + of_nat (length data)) (tail_words tail);
          rest = drop (8 * (length tail div 8)) tail;
          h2 = (if length rest < 4 then h1 else xx_half_step h1 (LittleEndian_Uint32 (take 4 rest)))
      in xx_avalanche (foldl xx_byte_step h2 (drop (4 * (length rest div 4)) rest)))"

lemma upt_div_Cons: "n \<le> m \<Longrightarrow> 0 < n \<Longrightarrow> [0..<m div n] = 0 # map Suc [0..<(m - n) div n]"
  by (simp add: le_div_geq upt_conv_Cons map_Suc_upt del: upt_Suc)

lemma word_at_drop: "word_at (drop n b) off = word_at b (n + off)"
  by (simp add: word_at_def add.commute)

lemma lane_Cons: "32 \<le> length b \<Longrightarrow> lane b k = word_at b (8 * k) # lane (drop 32 b) k"
  by (simp add: lane_def upt_div_Cons word_at_drop algebra_simps)

lemma lane_short: "length b < 32 \<Longrightarrow> lane b k = []"
  by (simp add: lane_def)

lemma tail_words_Cons: "8 \<le> length b \<Longrightarrow> tail_words b = word_at b 0 # tail_words (drop 8 b)"
  by (simp add: tail_words_def upt_div_Cons word_at_drop algebra_simps)

lemma tail_words_short: "length b < 8 \<Longrightarrow> tail_words b = []"
  by (simp add: tail_words_def)

lemma drop_whole_blocks: "n \<le> length b \<Longrightarrow> 0 < n \<Longrightarrow>
    drop (n * (length b div n)) b = drop (n * ((length b - n) div n)) (drop n b)"
  by (simp add: le_div_geq add.commute)

lemma xx_stripes_folds:
  "xx_stripes v1 v2 v3 v4 b =
     ((foldl xxRound v1 (lane b 0), foldl xxRound v2 (lane b 1),
       foldl xxRound v3 (lane b 2), foldl xxRound v4 (lane b 3)), drop (32 * (length b div 32)) b)"
proof (induction v1 v2 v3 v4 b rule: xx_stripes.induct)
  case (1 v1 v2 v3 v4 b)
  show ?case
  proof (cases "32 \<le> length b")
    case True
    with 1 show ?thesis
      by (simp add: xx_stripes.simps [of v1 v2 v3 v4 b] lane_Cons drop_whole_blocks [of 32 b] word_at_def)
  next
    case False
    then show ?thesis
      by (simp add: xx_stripes.simps [of v1 v2 v3 v4 b] lane_short)
  qed
qed

lemma xx_words_folds:
  "xx_words h b = (foldl xx_word_step h (tail_words b), drop (8 * (length b div 8)) b)"
proof (induction h b rule: xx_words.induct)
  case (1 h b)
  show ?case
  proof (cases "8 \<le> length b")
    case True
    with 1 show ?thesis
      by (simp add: xx_words.simps [of h b] tail_words_Cons drop_whole_blocks [of 8 b] word_at_def)
  next
    case False
    then show ?thesis
      by (simp add: xx_words.simps [of h b] tail_words_short)
  qed
qed

lemma xx_bytes_foldl: "xx_bytes h bs = foldl xx_byte_step h bs"
  by (induction bs arbitrary: h) simp_all

section \<open>Correctness of the hash\<close>

text \<open>C1. The hash computed by the slicing loops of \<^verbatim>\<open>xxHash64\<close> is, for every input and seed, the one
  the position-based reference describes: no byte is skipped, read twice or read in another order.\<close>

theorem xxHash64_eq_ref: "xxHash64 data seed = xxHash64_ref data seed"
proof -
  have half: "xx_half h r = (if length r < 4 then h else xx_half_step h (LittleEndian_Uint32 (take 4 r)),
      drop (4 * (length r div 4)) r)" if "length r < 8" for h r
  proof -
    have "length r div 4 = 1" if "\<not> length r < 4"
      using that \<open>length r < 8\<close> by simp
    then show ?thesis by (auto simp: xx_half_def)
  qed
  have "length (drop (8 * (length t div 8)) t) < 8" for t :: bytes
    by (simp add: minus_mult_div_eq_mod)
  then show ?thesis
    by (auto simp: xxHash64_def xxHash64_ref_def xx_head_def xx_finish_def xx_stripes_folds
        xx_words_folds half xx_bytes_foldl Let_def)
qed

text \<open>The state before the tail depends on the whole stripes only.\<close>

lemma lane_cong:
  assumes "length a = length b" "take (32 * (length a div 32)) a = take (32 * (length a div 32)) b"
    and "k < 4"
  shows "lane a k = lane b k"
proof -
  have "word_at a off = word_at b off" if "off + 8 \<le> 32 * (length a div 32)" for off
  proof -
    let ?m = "32 * (length a div 32)"
    have "take 8 (drop off c) = take 8 (drop off (take ?m c))" for c :: bytes
      using that by (simp add: drop_take min_def)
    then show ?thesis unfolding word_at_def using assms(2) by metis
  qed
  moreover have "32 * i + 8 * k + 8 \<le> 32 * (length a div 32)" if "i < length a div 32" for i
    using that assms(3) by linarith
  ultimately show ?thesis
    by (simp add: lane_def assms(1) [symmetric])
qed

lemma xx_head_rest: "snd (xx_head data seed) = drop (32 * (length data div 32)) data"
  by (simp add: xx_head_def xx_stripes_folds)

lemma xx_head_cong:
  assumes "length a = length b" "take (32 * (length a div 32)) a = take (32 * (length a div 32)) b"
  shows "fst (xx_head a seed) = fst (xx_head b seed)"
  using lane_cong [OF assms, of 0] lane_cong [OF assms, of 1] lane_cong [OF assms, of 2]
    lane_cong [OF assms, of 3] assms(1)
  by (simp add: xx_head_def xx_stripes_folds)

lemma tail_words_append:
  "8 dvd length a \<Longrightarrow> tail_words (a @ b) = tail_words a @ tail_words b"
proof (induction a rule: length_induct)
  case (1 a)
  show ?case
  proof (cases "a = []")
    case False
    with 1 have "8 \<le> length a" by (auto dest: dvd_imp_le)
    moreover have "8 dvd length (drop 8 a)" using 1 \<open>8 \<le> length a\<close> by (simp add: dvd_minus_self)
    ultimately show ?thesis
      using 1 by (simp add: tail_words_Cons word_at_def)
  qed (simp add: tail_words_def)
qed

lemma xx_finish_state_inj: "xx_finish n h r = xx_finish n h' r \<longleftrightarrow> h = h'"
  by (simp add: xx_finish_def xx_words_folds xx_half_def xx_bytes_foldl xx_avalanche_inj
      byte_mix.foldl_state_inj half_mix.mix_state_inj word_mix.foldl_state_inj)

lemma xx_finish_word_inj:
  assumes "8 dvd length a" "length u = 8" "length v = 8"
  shows "xx_finish n h (a @ u @ b) = xx_finish n h (a @ v @ b) \<longleftrightarrow> u = v"
proof -
  have words: "tail_words (a @ w @ b) = tail_words a @ LittleEndian_Uint64 w # tail_words b"
    if "length w = 8" for w
    using that assms(1) by (simp add: tail_words_append tail_words_Cons [of w] word_at_def tail_words_short)
  have rest: "drop (8 * (length (a @ w @ b) div 8)) (a @ w @ b) = drop (8 * (length b div 8)) b"
    if "length w = 8" for w
  proof -
    obtain k where k: "length a = 8 * k" using assms(1) by blast
    then have "(length a + (8 + length b)) div 8 = k + 1 + length b div 8" by simp
    then show ?thesis using that k by (simp add: algebra_simps)
  qed
  have loop: "xx_words g (a @ w @ b) = (foldl xx_word_step g (tail_words a @ LittleEndian_Uint64 w # tail_words b),
      drop (8 * (length b div 8)) b)" if "length w = 8" for g w
    by (simp only: xx_words_folds words [OF that] rest [OF that])
  show ?thesis
    unfolding xx_finish_def loop [OF assms(2)] loop [OF assms(3)]
    by (simp add: xx_half_def xx_bytes_foldl xx_avalanche_inj byte_mix.foldl_state_inj
        half_mix.mix_state_inj word_mix.foldl_state_inj word_mix.mix_input_inj
        LittleEndian_Uint64_inj assms)
qed

lemma xxHash64_word_inj:
  assumes "length u = 8" "length v = 8" "8 dvd length pre"
    and "32 * ((length pre + 8 + length post) div 32) \<le> length pre"
  shows "xxHash64 (pre @ u @ post) seed = xxHash64 (pre @ v @ post) seed \<longleftrightarrow> u = v"
proof -
  let ?m = "32 * ((length pre + 8 + length post) div 32)"
  have len: "length (pre @ w @ post) = length pre + 8 + length post" if "length w = 8" for w
    using that by simp
  have head: "fst (xx_head (pre @ u @ post) seed) = fst (xx_head (pre @ v @ post) seed)"
    by (rule xx_head_cong) (use assms in \<open>simp_all add: add.assoc\<close>)
  have hash: "xxHash64 (pre @ w @ post) seed = xx_finish (length pre + 8 + length post)
      (fst (xx_head (pre @ w @ post) seed)) (drop ?m pre @ w @ post)" if "length w = 8" for w
    using that assms(4) xx_head_rest [of "pre @ w @ post" seed]
    by (simp add: xxHash64_def len [OF that] case_prod_beta add.assoc)
  have "8 dvd length (drop ?m pre)"
    using assms(3) by (simp add: dvd_diff_nat)
  then show ?thesis
    using assms(1,2) by (simp add: hash head xx_finish_word_inj)
qed

text \<open>C2. Two keys that differ in exactly one aligned 8-byte word behind the last whole stripe never
  collide: the 64-bit hash tells them apart under every seed. For keys of 8 to 31 bytes this
  covers every aligned word.\<close>

theorem xxHash64_separates_words:
  assumes "length u = 8" "length v = 8" "8 dvd length pre"
    and "32 * ((length pre + 8 + length post) div 32) \<le> length pre"
  shows "xxHash64 (pre @ u @ post) seed = xxHash64 (pre @ v @ post) seed \<longleftrightarrow> u = v"
  using assms by (rule xxHash64_word_inj)

theorem xxHash64_separates_words_witness:
  "xxHash64 ([1, 2, 3, 4, 5, 6, 7, 8] @ replicate 8 0 @ [9]) partitionSeed
   \<noteq> xxHash64 ([1, 2, 3, 4, 5, 6, 7, 8] @ replicate 8 1 @ [9]) partitionSeed"
proof -
  have "replicate 8 (0 :: byte) \<noteq> replicate 8 1" by (simp add: numeral_eq_Suc)
  moreover have "length [1, 2, 3, 4, 5, 6, 7, 8 :: byte] = 8" by simp
  ultimately show ?thesis
    using xxHash64_separates_words [of "replicate 8 0" "replicate 8 1" "[1, 2, 3, 4, 5, 6, 7, 8]" "[9]"
        partitionSeed] by (simp only: length_replicate dvd_refl) simp
qed

section \<open>Correctness of the routing\<close>

lemma unat_PartitionOf:
  assumes "n \<noteq> 0"
  shows "PartitionOf key n = Return p \<longleftrightarrow> unat p = unat (xxHash64 key partitionSeed) mod unat n"
proof -
  let ?h = "xxHash64 key partitionSeed"
  have n: "0 < unat n" "unat n < 2 ^ 32"
    using assms unsigned_less [of n, where 'a = nat] by (simp_all add: unat_gt_0)
  then have "unat (?h mod ucast n) = unat ?h mod unat n"
    by (simp add: unat_mod_distrib unat_ucast_up)
  moreover have "unat ?h mod unat n < 2 ^ 32"
    using n mod_less_divisor less_trans by blast
  ultimately have "unat (ucast (?h mod ucast n) :: 32 word) = unat ?h mod unat n"
    by (simp add: unsigned_ucast_eq take_bit_nat_eq_self)
  moreover have "PartitionOf key n = Return (ucast (?h mod ucast n))"
    using assms by (simp add: PartitionOf_def validatePartitionCount_def)
  ultimately show ?thesis
    by (auto simp: word_unat_eq_iff [of _ p])
qed

text \<open>C3. Routing is total and in range: with a positive partition count every key has a partition
  below the count, which is its hash modulo the count with no truncation, and a zero count panics
  with \<^verbatim>\<open>ErrInvalidPartitionCount\<close>.\<close>

theorem PartitionOf_in_range:
  "PartitionOf key n =
     (if n = 0 then Panic (Err (Partition_err ErrInvalidPartitionCount))
      else Return (word_of_nat (unat (xxHash64 key partitionSeed) mod unat n)))
   \<and> (\<forall>p. PartitionOf key n = Return p \<longrightarrow> p < n)"
proof (cases "n = 0")
  case True
  then show ?thesis by (simp add: PartitionOf_def validatePartitionCount_def)
next
  case False
  then have pos: "0 < unat n" by (simp add: unat_gt_0)
  let ?r = "unat (xxHash64 key partitionSeed) mod unat n"
  have "?r < unat n" using pos by simp
  also have "unat n < 2 ^ 32" using unsigned_less [of n, where 'a = nat] by simp
  finally have "unat (word_of_nat ?r :: 32 word) = ?r"
    by (simp add: unat_of_nat take_bit_nat_eq_self)
  then have ret: "PartitionOf key n = Return (word_of_nat ?r)"
    using unat_PartitionOf [OF False] by blast
  moreover have "p < n" if "PartitionOf key n = Return p" for p
    using that \<open>?r < unat n\<close> unat_PartitionOf [OF False] by (simp add: word_less_nat_alt)
  ultimately show ?thesis using False by simp
qed

theorem PartitionOf_in_range_witness:
  "PartitionOf [0x61] 257 = Return 232 \<and> (232 :: 32 word) < 257"
proof -
  have "PartitionOf [0x61] 257 = Return 232" by code_simp
  with PartitionOf_in_range [of "[0x61]" 257] show ?thesis by blast
qed

section \<open>Frozen vectors\<close>

text \<open>
  The keys of \<^verbatim>\<open>testdata/partition_vectors.json\<close> with their hashes, each evaluated by the
  simplifier on the code equations.
\<close>

lemma hash_key_empty:
  "xxHash64 [] partitionSeed = 0x6ec6d05f61c7e7a7"
  by code_simp

lemma hash_key_a:
  "xxHash64 [0x61] partitionSeed = 0x727c10e0d238e188"
  by code_simp

lemma hash_key_gossipcache:
  "xxHash64 [0x67, 0x6f, 0x73, 0x73, 0x69, 0x70, 0x63, 0x61, 0x63, 0x68, 0x65] partitionSeed = 0xce55a1886928622"
  by code_simp

lemma hash_key_hello_world:
  "xxHash64 [0x68, 0x65, 0x6c, 0x6c, 0x6f, 0x00, 0x77, 0x6f, 0x72, 0x6c, 0x64] partitionSeed = 0x9d218d47d72439bd"
  by code_simp

lemma hash_key_ascending:
  "xxHash64 [0x00, 0x01, 0x02, 0x03, 0x04, 0x05, 0x06, 0x07, 0x08, 0x09, 0x0a, 0x0b, 0x0c, 0x0d, 0x0e, 0x0f,
     0x10, 0x11, 0x12, 0x13, 0x14, 0x15, 0x16, 0x17, 0x18, 0x19, 0x1a, 0x1b, 0x1c, 0x1d, 0x1e, 0x1f] partitionSeed = 0xbfb3e4ef6096c49c"
  by code_simp

lemma hash_key_descending:
  "xxHash64 [0xff, 0xfe, 0xfd, 0xfc, 0xfb, 0xfa, 0xf9, 0xf8, 0xf7, 0xf6, 0xf5, 0xf4, 0xf3, 0xf2, 0xf1, 0xf0,
     0xef, 0xee, 0xed, 0xec, 0xeb, 0xea, 0xe9, 0xe8, 0xe7, 0xe6, 0xe5, 0xe4, 0xe3, 0xe2, 0xe1, 0xe0] partitionSeed = 0xfff30b93a70c3409"
  by code_simp

definition partition_vectors :: "(bytes \<times> 32 word \<times> 32 word) list" where
  "partition_vectors =
     [([], 1, 0),
      ([], 16, 7),
      ([0x61], 2, 0),
      ([0x61], 257, 232),
      ([0x67, 0x6f, 0x73, 0x73, 0x69, 0x70, 0x63, 0x61, 0x63, 0x68, 0x65], 3, 2),
      ([0x67, 0x6f, 0x73, 0x73, 0x69, 0x70, 0x63, 0x61, 0x63, 0x68, 0x65], 16, 2),
      ([0x68, 0x65, 0x6c, 0x6c, 0x6f, 0x00, 0x77, 0x6f, 0x72, 0x6c, 0x64], 16, 13),
      ([0x68, 0x65, 0x6c, 0x6c, 0x6f, 0x00, 0x77, 0x6f, 0x72, 0x6c, 0x64], 257, 16),
      ([0x00, 0x01, 0x02, 0x03, 0x04, 0x05, 0x06, 0x07, 0x08, 0x09, 0x0a, 0x0b, 0x0c, 0x0d, 0x0e, 0x0f,
        0x10, 0x11, 0x12, 0x13, 0x14, 0x15, 0x16, 0x17, 0x18, 0x19, 0x1a, 0x1b, 0x1c, 0x1d, 0x1e, 0x1f], 16, 12),
      ([0x00, 0x01, 0x02, 0x03, 0x04, 0x05, 0x06, 0x07, 0x08, 0x09, 0x0a, 0x0b, 0x0c, 0x0d, 0x0e, 0x0f,
        0x10, 0x11, 0x12, 0x13, 0x14, 0x15, 0x16, 0x17, 0x18, 0x19, 0x1a, 0x1b, 0x1c, 0x1d, 0x1e, 0x1f], 257, 13),
      ([0xff, 0xfe, 0xfd, 0xfc, 0xfb, 0xfa, 0xf9, 0xf8, 0xf7, 0xf6, 0xf5, 0xf4, 0xf3, 0xf2, 0xf1, 0xf0,
        0xef, 0xee, 0xed, 0xec, 0xeb, 0xea, 0xe9, 0xe8, 0xe7, 0xe6, 0xe5, 0xe4, 0xe3, 0xe2, 0xe1, 0xe0], 16, 9),
      ([0xff, 0xfe, 0xfd, 0xfc, 0xfb, 0xfa, 0xf9, 0xf8, 0xf7, 0xf6, 0xf5, 0xf4, 0xf3, 0xf2, 0xf1, 0xf0,
        0xef, 0xee, 0xed, 0xec, 0xeb, 0xea, 0xe9, 0xe8, 0xe7, 0xe6, 0xe5, 0xe4, 0xe3, 0xe2, 0xe1, 0xe0], 257, 183)]"

lemmas golden_hashes = hash_key_empty hash_key_a hash_key_gossipcache hash_key_hello_world
  hash_key_ascending hash_key_descending

text \<open>Every frozen routing vector of \<^verbatim>\<open>testdata/partition_vectors.json\<close>, the contract shared by
  nodes and hubs, holds of the routing function.\<close>

theorem partition_golden_vectors:
  "list_all (\<lambda>(key, partition_count, partition_id). PartitionOf key partition_count = Return partition_id)
     partition_vectors"
  by (simp add: partition_vectors_def PartitionOf_def validatePartitionCount_def golden_hashes)

end
