(* ===== verification/Partition_Safety.thy ===== *)
theory Partition_Safety
  imports Wire_Partition "HOL-Library.Monad_Syntax"
begin

text \<open>
  \<^verbatim>\<open>internal/wire/partition.go\<close> again, with what Go checks at run time: slice expressions are checked
  against the length, \<^verbatim>\<open>binary.LittleEndian\<close> readers against the width they read, and \<^verbatim>\<open>for\<close> loops need
  not end. A value of \<^typ>\<open>'a option\<close> is \<^const>\<open>None\<close> when the code panics or never returns.
  The routines are shown to return, on every input, what the total functions of \<open>Wire_Partition\<close> return.
\<close>

section \<open>Checked primitives\<close>

text \<open>\<^verbatim>\<open>s[a:b]\<close> and \<^verbatim>\<open>s[a:]\<close>.\<close>

definition subslice :: "nat \<Rightarrow> nat \<Rightarrow> bytes \<Rightarrow> bytes option" where
  "subslice a b s = (if a \<le> b \<and> b \<le> length s then Some (take (b - a) (drop a s)) else None)"

definition suffix_from :: "nat \<Rightarrow> bytes \<Rightarrow> bytes option" where
  "suffix_from a s = subslice a (length s) s"

definition read_Uint64 :: "bytes \<Rightarrow> 64 word option" where
  "read_Uint64 b = (if 8 \<le> length b then Some (LittleEndian_Uint64 (take 8 b)) else None)"

definition read_Uint32 :: "bytes \<Rightarrow> 32 word option" where
  "read_Uint32 b = (if 4 \<le> length b then Some (LittleEndian_Uint32 (take 4 b)) else None)"

lemma subslice_Some [simp]: "a \<le> b \<Longrightarrow> b \<le> length s \<Longrightarrow> subslice a b s = Some (take (b - a) (drop a s))"
  by (simp add: subslice_def)

lemma suffix_from_Some [simp]: "a \<le> length s \<Longrightarrow> suffix_from a s = Some (drop a s)"
  by (simp add: suffix_from_def)

lemma read_Uint64_Some [simp]: "length b = 8 \<Longrightarrow> read_Uint64 b = Some (LittleEndian_Uint64 b)"
  by (simp add: read_Uint64_def)

lemma read_Uint32_Some [simp]: "length b = 4 \<Longrightarrow> read_Uint32 b = Some (LittleEndian_Uint32 b)"
  by (simp add: read_Uint32_def)

section \<open>The hash with run-time checks\<close>

partial_function (option) stripes_loop ::
  "64 word \<Rightarrow> 64 word \<Rightarrow> 64 word \<Rightarrow> 64 word \<Rightarrow> bytes \<Rightarrow> ((64 word \<times> 64 word \<times> 64 word \<times> 64 word) \<times> bytes) option" where
  "stripes_loop v1 v2 v3 v4 remaining =
     (if length remaining \<ge> 32
      then do {
        w1 \<leftarrow> subslice 0 8 remaining \<bind> read_Uint64;
        w2 \<leftarrow> subslice 8 16 remaining \<bind> read_Uint64;
        w3 \<leftarrow> subslice 16 24 remaining \<bind> read_Uint64;
        w4 \<leftarrow> subslice 24 32 remaining \<bind> read_Uint64;
        rest \<leftarrow> suffix_from 32 remaining;
        stripes_loop (xxRound v1 w1) (xxRound v2 w2) (xxRound v3 w3) (xxRound v4 w4) rest }
      else Some ((v1, v2, v3, v4), remaining))"

partial_function (option) words_loop :: "64 word \<Rightarrow> bytes \<Rightarrow> (64 word \<times> bytes) option" where
  "words_loop hash remaining =
     (if length remaining \<ge> 8
      then do {
        w \<leftarrow> subslice 0 8 remaining \<bind> read_Uint64;
        rest \<leftarrow> suffix_from 8 remaining;
        words_loop (xx_word_step hash w) rest }
      else Some (hash, remaining))"

partial_function (option) bytes_loop :: "64 word \<Rightarrow> nat \<Rightarrow> bytes \<Rightarrow> 64 word option" where
  "bytes_loop hash i remaining =
     (if i < length remaining then bytes_loop (xx_byte_step hash (remaining ! i)) (i + 1) remaining else Some hash)"

definition xxHash64_go :: "bytes \<Rightarrow> 64 word \<Rightarrow> 64 word option" where
  "xxHash64_go data seed = do {
     (hash, remaining) \<leftarrow>
       (if length data \<ge> 32
        then do {
          (v, remaining) \<leftarrow> stripes_loop (seed + xxPrime1 + xxPrime2) (seed + xxPrime2) seed (seed - xxPrime1) data;
          Some (xx_converge v, remaining) }
        else Some (seed + xxPrime5, data));
     (hash, remaining) \<leftarrow> words_loop (hash + of_nat (length data)) remaining;
     (hash, remaining) \<leftarrow>
       (if length remaining \<ge> 4
        then do {
          w \<leftarrow> subslice 0 4 remaining \<bind> read_Uint32;
          rest \<leftarrow> suffix_from 4 remaining;
          Some (xx_half_step hash w, rest) }
        else Some (hash, remaining));
     hash \<leftarrow> bytes_loop hash 0 remaining;
     Some (xx_avalanche hash) }"

text \<open>\<^verbatim>\<open>PartitionOf\<close>: the explicit panic, and the division that would panic on zero.\<close>

definition PartitionOf_go :: "bytes \<Rightarrow> 32 word \<Rightarrow> 32 word option" where
  "PartitionOf_go key partitionCount =
     (case validatePartitionCount partitionCount of
        Some err \<Rightarrow> None
      | None \<Rightarrow> do {
          hash \<leftarrow> xxHash64_go key partitionSeed;
          if (ucast partitionCount :: 64 word) = 0 then None
          else Some (ucast (hash mod ucast partitionCount)) })"

section \<open>Every loop returns\<close>

lemma stripes_loop_eq: "stripes_loop v1 v2 v3 v4 r = Some (xx_stripes v1 v2 v3 v4 r)"
proof (induction v1 v2 v3 v4 r rule: xx_stripes.induct)
  case (1 v1 v2 v3 v4 r)
  then show ?case by (subst stripes_loop.simps, subst xx_stripes.simps) simp
qed

lemma words_loop_eq: "words_loop hash r = Some (xx_words hash r)"
proof (induction hash r rule: xx_words.induct)
  case (1 hash r)
  then show ?case by (subst words_loop.simps, subst xx_words.simps) simp
qed

lemma bytes_loop_eq: "bytes_loop hash i r = Some (xx_bytes hash (drop i r))"
proof (induction "length r - i" arbitrary: hash i)
  case 0
  then show ?case by (subst bytes_loop.simps) simp
next
  case (Suc k)
  then have "i < length r" "k = length r - (i + 1)" by simp_all
  with Suc.hyps(1) [OF this(2)] show ?case
    by (subst bytes_loop.simps) (simp add: Cons_nth_drop_Suc [symmetric])
qed

lemma xxHash64_go_eq: "xxHash64_go data seed = Some (xxHash64 data seed)"
  by (auto simp: xxHash64_go_def xxHash64_def xx_head_def xx_finish_def xx_half_def
      stripes_loop_eq words_loop_eq bytes_loop_eq split: prod.split)

section \<open>Correctness\<close>

text \<open>C5. Hashing returns on every key without an out-of-range slice, a short read or a division by zero,
  and routing panics on a zero partition count only: run with every check that Go makes, the
  code computes the total functions the other results are about.\<close>

theorem PartitionOf_terminates:
  "xxHash64_go key seed = Some (xxHash64 key seed)
   \<and> (PartitionOf_go key n = None \<longleftrightarrow> n = 0)
   \<and> (PartitionOf_go key n = Some p \<longleftrightarrow> PartitionOf key n = Return p)"
proof -
  have "unat (ucast n :: 64 word) = unat n" by (rule unat_ucast_up) simp
  then have "(ucast n :: 64 word) = 0 \<longleftrightarrow> n = 0" by (simp add: word_unat_eq_iff)
  then show ?thesis
    by (auto simp: xxHash64_go_eq PartitionOf_go_def PartitionOf_def validatePartitionCount_def)
qed

end
