(* ===== verification/Wire_Types.thy ===== *)
theory Wire_Types
  imports Wire_Partition
begin

text \<open>
  \<^verbatim>\<open>internal/wire/types.go\<close>: version tags, mutation identities, write policy and the bounded
  request models, with their \<^verbatim>\<open>Validate\<close> methods.

  A record with \<^verbatim>\<open>[]byte\<close> fields has a type parameter \<open>'b\<close> for their representation: \<^typ>\<open>bytes\<close>
  (the contents) in this theory and in all validation and conversion code, and a slice header
  that points into a heap in the theory of byte ownership, where \<^verbatim>\<open>CopyBytes\<close> and the \<^verbatim>\<open>Clone\<close>
  methods are modelled.
\<close>

section \<open>Limits\<close>

definition MaxKeyLen :: nat where "MaxKeyLen = 4 * 1024"

definition MaxValueLen :: nat where "MaxValueLen = 2 ^ 20"

definition TTLNone :: "64 word" where "TTLNone = 0"

definition MaxWriteTimeoutMillis :: int where "MaxWriteTimeoutMillis = 4294967295"

section \<open>Version tags\<close>

record VersionTag =
  PartitionID :: "32 word"
  Sequence :: "64 word"

definition VersionTag_IsZero :: "VersionTag \<Rightarrow> bool" where
  "VersionTag_IsZero v \<longleftrightarrow> v = \<lparr>PartitionID = 0, Sequence = 0\<rparr>"

definition VersionTag_IsNewer :: "VersionTag \<Rightarrow> VersionTag \<Rightarrow> bool" where
  "VersionTag_IsNewer v other \<longleftrightarrow> PartitionID v = PartitionID other \<and> Sequence v > Sequence other"

section \<open>Record kinds, write modes, storage profiles, confirmation levels\<close>

type_synonym RecordKind = "8 word"

abbreviation RecordValue :: RecordKind where "RecordValue \<equiv> 0"

abbreviation RecordTombstone :: RecordKind where "RecordTombstone \<equiv> 1"

definition RecordKind_Valid :: "RecordKind \<Rightarrow> bool" where
  "RecordKind_Valid k \<longleftrightarrow> k = RecordValue \<or> k = RecordTombstone"

type_synonym WriteMode = "8 word"

abbreviation WriteFast :: WriteMode where "WriteFast \<equiv> 0"

abbreviation WriteSync :: WriteMode where "WriteSync \<equiv> 1"

definition WriteMode_Valid :: "WriteMode \<Rightarrow> bool" where
  "WriteMode_Valid m \<longleftrightarrow> m = WriteFast \<or> m = WriteSync"

type_synonym StorageProfile = "8 word"

abbreviation StorageMemory :: StorageProfile where "StorageMemory \<equiv> 0"

abbreviation StorageDurable :: StorageProfile where "StorageDurable \<equiv> 1"

definition StorageProfile_Valid :: "StorageProfile \<Rightarrow> bool" where
  "StorageProfile_Valid p \<longleftrightarrow> p = StorageMemory \<or> p = StorageDurable"

definition StorageProfile_Validate :: "StorageProfile \<Rightarrow> bool \<Rightarrow> error option" where
  "StorageProfile_Validate p persistenceConfigured =
     (if \<not> StorageProfile_Valid p
      then Some (wrap (Wire_err ErrInvalidStorageProfile) '': %d'' [FInt (uint p)])
      else if p = StorageDurable \<and> \<not> persistenceConfigured
      then Some (Err (Wire_err ErrPersistenceConfigRequired))
      else None)"

type_synonym ConfirmLevel = "8 word"

abbreviation ConfirmInvalidateApplied :: ConfirmLevel where "ConfirmInvalidateApplied \<equiv> 0"

definition ConfirmLevel_Valid :: "ConfirmLevel \<Rightarrow> bool" where
  "ConfirmLevel_Valid c \<longleftrightarrow> c = ConfirmInvalidateApplied"

section \<open>Mutation identities\<close>

text \<open>\<^verbatim>\<open>type MutationID [16]byte\<close>: exactly sixteen bytes.\<close>

typedef MutationID = "{b :: bytes. length b = 16}"
  morphisms id_bytes MutationID_of
  by (rule exI [of _ "replicate 16 0"]) simp

setup_lifting type_definition_MutationID

definition zeroMutationID :: MutationID where
  "zeroMutationID = MutationID_of (replicate 16 0)"

definition NewMutationID :: "64 word \<Rightarrow> 64 word \<Rightarrow> MutationID" where
  "NewMutationID nodeEpoch counter =
     MutationID_of (BigEndian_PutUint64 nodeEpoch @ BigEndian_PutUint64 counter)"

text \<open>\<^verbatim>\<open>copy(id[:], raw)\<close> on a zero identity: the bytes that fit, over sixteen zeroes.\<close>

definition copyMutationID :: "bytes \<Rightarrow> MutationID" where
  "copyMutationID raw = MutationID_of (take 16 raw @ drop (length raw) (replicate 16 0))"

lemma id_bytes_zeroMutationID [code abstract]: "id_bytes zeroMutationID = replicate 16 0"
  by (simp add: zeroMutationID_def MutationID_of_inverse)

lemma id_bytes_NewMutationID [code abstract]:
  "id_bytes (NewMutationID e c) = BigEndian_PutUint64 e @ BigEndian_PutUint64 c"
  by (simp add: NewMutationID_def MutationID_of_inverse)

lemma id_bytes_copyMutationID' [code abstract]:
  "id_bytes (copyMutationID raw) = take 16 raw @ drop (length raw) (replicate 16 0)"
  by (simp add: copyMutationID_def MutationID_of_inverse)

definition MutationID_NodeEpoch :: "MutationID \<Rightarrow> 64 word" where
  "MutationID_NodeEpoch i = BigEndian_Uint64 (take 8 (id_bytes i))"

definition MutationID_Counter :: "MutationID \<Rightarrow> 64 word" where
  "MutationID_Counter i = BigEndian_Uint64 (drop 8 (id_bytes i))"

instantiation MutationID :: equal
begin

definition equal_MutationID :: "MutationID \<Rightarrow> MutationID \<Rightarrow> bool" where
  "equal_MutationID a b \<longleftrightarrow> id_bytes a = id_bytes b"

instance
  by standard (simp add: equal_MutationID_def id_bytes_inject)

end

definition MutationID_IsZero :: "MutationID \<Rightarrow> bool" where
  "MutationID_IsZero i \<longleftrightarrow> i = zeroMutationID"

lemma length_id_bytes [simp]: "length (id_bytes i) = 16"
  using id_bytes [of i] by simp

lemma id_bytes_not_Nil [simp]: "id_bytes i \<noteq> []"
  by (metis length_id_bytes list.size(3) zero_neq_numeral)

lemma copyMutationID_id_bytes [simp]: "copyMutationID (id_bytes i) = i"
  by (simp add: id_bytes_copyMutationID' flip: id_bytes_inject)

lemma id_bytes_copyMutationID: "length raw = 16 \<Longrightarrow> id_bytes (copyMutationID raw) = raw"
  by (simp add: id_bytes_copyMutationID')

lemma NewMutationID_parts [simp]:
  "MutationID_NodeEpoch (NewMutationID e c) = e"
  "MutationID_Counter (NewMutationID e c) = c"
  by (simp_all add: MutationID_NodeEpoch_def MutationID_Counter_def id_bytes_NewMutationID)

lemma NewMutationID_surj: "NewMutationID (MutationID_NodeEpoch i) (MutationID_Counter i) = i"
  by (simp add: id_bytes_NewMutationID MutationID_NodeEpoch_def MutationID_Counter_def
      BigEndian_PutUint64_Uint64 flip: id_bytes_inject)

lemma zeroMutationID_New: "zeroMutationID = NewMutationID 0 0"
  by (simp add: id_bytes_zeroMutationID id_bytes_NewMutationID BigEndian_PutUint64_def numeral_eq_Suc
      flip: id_bytes_inject)

lemma MutationID_IsZero_New [simp]: "MutationID_IsZero (NewMutationID e c) \<longleftrightarrow> e = 0 \<and> c = 0"
  unfolding MutationID_IsZero_def zeroMutationID_New by (metis NewMutationID_parts)

text \<open>C8. A mutation identity is exactly its node epoch and counter: both components are read back,
  every sixteen-byte identity is minted by one pair, and only the pair of zeroes is the zero
  identity that requests refuse.\<close>

theorem MutationID_components:
  "MutationID_NodeEpoch (NewMutationID e c) = e \<and> MutationID_Counter (NewMutationID e c) = c
   \<and> NewMutationID (MutationID_NodeEpoch i) (MutationID_Counter i) = i
   \<and> (NewMutationID e c = NewMutationID e' c' \<longleftrightarrow> e = e' \<and> c = c')
   \<and> (MutationID_IsZero i \<longleftrightarrow> MutationID_NodeEpoch i = 0 \<and> MutationID_Counter i = 0)"
proof -
  have "NewMutationID e c = NewMutationID e' c' \<longleftrightarrow> e = e' \<and> c = c'"
    by (metis NewMutationID_parts)
  moreover have "MutationID_IsZero i \<longleftrightarrow> MutationID_NodeEpoch i = 0 \<and> MutationID_Counter i = 0"
    by (metis MutationID_IsZero_New NewMutationID_surj)
  ultimately show ?thesis by (simp add: NewMutationID_surj)
qed

section \<open>Write options\<close>

record WriteOptions =
  W :: "16 word"
  Mode :: WriteMode
  ConfirmLevel :: ConfirmLevel
  Timeout :: duration

definition WriteOptions_Validate :: "WriteOptions \<Rightarrow> error option" where
  "WriteOptions_Validate opts =
     (if \<not> WriteMode_Valid (Mode opts)
      then Some (wrap (Wire_err ErrInvalidWriteMode) '': %d'' [FInt (uint (Mode opts))])
      else if \<not> ConfirmLevel_Valid (ConfirmLevel opts)
      then Some (wrap (Wire_err ErrInvalidConfirmLevel) '': %d'' [FInt (uint (ConfirmLevel opts))])
      else if sint (Timeout opts) < 0 then Some (Err (Wire_err ErrInvalidWriteTimeout))
      else if sint (Timeout opts) smod Millisecond \<noteq> 0
      then Some (Err (Wire_err ErrTimeoutNotWholeMillis))
      else if sint (Timeout opts) sdiv Millisecond > MaxWriteTimeoutMillis
      then Some (Err (Wire_err ErrWriteTimeoutTooLarge))
      else None)"

section \<open>Requests\<close>

record ('b, 'v) wire_GetRequest =
  Key :: 'b
  MinVersion :: "'v option"

definition wire_validateKey :: "bytes \<Rightarrow> error option" where
  "wire_validateKey key =
     (if length key = 0 then Some (Err (Wire_err ErrKeyEmpty))
      else if length key > MaxKeyLen
      then Some (wrap (Wire_err ErrKeyTooLarge) '': got %d, max %d''
                   [FInt (int (length key)), FInt (int MaxKeyLen)])
      else None)"

definition wire_GetRequest_Validate :: "(bytes, VersionTag) wire_GetRequest \<Rightarrow> 32 word \<Rightarrow> error option go" where
  "wire_GetRequest_Validate r partitionCount =
     (case wire_validateKey (Key r) of Some err \<Rightarrow> Return (Some err) | None \<Rightarrow>
     (case validatePartitionCount partitionCount of Some err \<Rightarrow> Return (Some err) | None \<Rightarrow>
     (case MinVersion r of None \<Rightarrow> Return None | Some v \<Rightarrow>
     (case PartitionOf (Key r) partitionCount of Panic err \<Rightarrow> Panic err | Return p \<Rightarrow>
        if PartitionID v \<noteq> p
        then Return (Some (Errorf ''minimum version partition %d does not match routed partition''
                             [FInt (uint (PartitionID v))] None))
        else Return None))))"

record 'b wire_SetRequest =
  Key :: 'b
  Value :: 'b
  TTLMillis :: "64 word"
  MutationID :: MutationID
  Options :: WriteOptions

definition wire_SetRequest_Validate :: "bytes wire_SetRequest \<Rightarrow> error option" where
  "wire_SetRequest_Validate r =
     (case wire_validateKey (wire_SetRequest.Key r) of Some err \<Rightarrow> Some err | None \<Rightarrow>
      if length (wire_SetRequest.Value r) > MaxValueLen
      then Some (wrap (Wire_err ErrValueTooLarge) '': got %d, max %d''
                   [FInt (int (length (wire_SetRequest.Value r))), FInt (int MaxValueLen)])
      else if MutationID_IsZero (wire_SetRequest.MutationID r)
      then Some (Err (Wire_err ErrMutationIDRequired))
      else WriteOptions_Validate (wire_SetRequest.Options r))"

record 'b wire_DeleteRequest =
  Key :: 'b
  MutationID :: MutationID
  Options :: WriteOptions

definition wire_DeleteRequest_Validate :: "bytes wire_DeleteRequest \<Rightarrow> error option" where
  "wire_DeleteRequest_Validate r =
     (case wire_validateKey (wire_DeleteRequest.Key r) of Some err \<Rightarrow> Some err | None \<Rightarrow>
      if MutationID_IsZero (wire_DeleteRequest.MutationID r)
      then Some (Err (Wire_err ErrMutationIDRequired))
      else WriteOptions_Validate (wire_DeleteRequest.Options r))"

section \<open>Conversions of the public API\<close>

definition wire_TTLMillis :: "duration \<Rightarrow> 64 word result" where
  "wire_TTLMillis ttl =
     (if sint ttl < 0 then (0, Some (Errorf ''ttl must not be negative'' [] None))
      else if sint ttl smod Millisecond \<noteq> 0 then (0, Some (Err (Wire_err ErrTTLNotWholeMilliseconds)))
      else (word_of_int (sint ttl sdiv Millisecond), None))"

definition PersistenceConfigured :: "string \<Rightarrow> bool" where
  "PersistenceConfigured dataDir \<longleftrightarrow> TrimSpace dataDir \<noteq> ''''"

section \<open>Version order\<close>

interpretation version_order: ordering
  "\<lambda>a b. a = b \<or> VersionTag_IsNewer b a" "\<lambda>a b. VersionTag_IsNewer b a"
  by (rule ordering_strictI) (auto simp: VersionTag_IsNewer_def)

text \<open>Supersession is a strict order whose comparable tags are exactly those of one partition:
  never reflexive, never both ways, transitive, and of two tags of one partition with different
  sequences exactly one is newer, while tags of different partitions never supersede one another.\<close>

theorem VersionTag_IsNewer_strict_order:
  "\<not> VersionTag_IsNewer a a
   \<and> (VersionTag_IsNewer a b \<longrightarrow> \<not> VersionTag_IsNewer b a)
   \<and> (VersionTag_IsNewer a b \<and> VersionTag_IsNewer b c \<longrightarrow> VersionTag_IsNewer a c)
   \<and> (PartitionID a = PartitionID b \<longleftrightarrow> a = b \<or> VersionTag_IsNewer a b \<or> VersionTag_IsNewer b a)"
proof (intro conjI impI)
  show "\<not> VersionTag_IsNewer a a" by (rule version_order.irrefl)
  show "VersionTag_IsNewer a b \<Longrightarrow> \<not> VersionTag_IsNewer b a"
    using version_order.asym by blast
  show "VersionTag_IsNewer a b \<and> VersionTag_IsNewer b c \<Longrightarrow> VersionTag_IsNewer a c"
    using version_order.strict_trans by blast
  show "PartitionID a = PartitionID b \<longleftrightarrow> a = b \<or> VersionTag_IsNewer a b \<or> VersionTag_IsNewer b a"
    by (cases a; cases b) (auto simp: VersionTag_IsNewer_def)
qed

theorem VersionTag_IsNewer_strict_order_witness:
  "VersionTag_IsNewer \<lparr>PartitionID = 2, Sequence = 9\<rparr> \<lparr>PartitionID = 2, Sequence = 7\<rparr>
   \<and> \<not> VersionTag_IsNewer \<lparr>PartitionID = 2, Sequence = 7\<rparr> \<lparr>PartitionID = 2, Sequence = 9\<rparr>"
proof -
  have "VersionTag_IsNewer \<lparr>PartitionID = 2, Sequence = 9\<rparr> \<lparr>PartitionID = 2, Sequence = 7\<rparr>"
    by (simp add: VersionTag_IsNewer_def)
  with VersionTag_IsNewer_strict_order show ?thesis by blast
qed

section \<open>Bounds\<close>

definition valid_key :: "bytes \<Rightarrow> bool" where
  "valid_key key \<longleftrightarrow> 1 \<le> length key \<and> length key \<le> MaxKeyLen"

definition whole_millis :: "duration \<Rightarrow> bool" where
  "whole_millis d \<longleftrightarrow> (\<exists>ms :: 32 word. sint d = uint ms * Millisecond)"

definition valid_WriteOptions :: "WriteOptions \<Rightarrow> bool" where
  "valid_WriteOptions opts \<longleftrightarrow>
     Mode opts \<in> {WriteFast, WriteSync} \<and> ConfirmLevel opts = ConfirmInvalidateApplied
     \<and> whole_millis (Timeout opts)"

lemma wire_validateKey_iff [valid_simps]: "wire_validateKey key = None \<longleftrightarrow> valid_key key"
  by (simp add: wire_validateKey_def valid_key_def Suc_le_eq)

lemma whole_millis_iff:
  "whole_millis d \<longleftrightarrow>
     0 \<le> sint d \<and> sint d smod Millisecond = 0 \<and> sint d sdiv Millisecond \<le> MaxWriteTimeoutMillis"
proof
  assume "whole_millis d"
  then obtain ms :: "32 word" where ms: "sint d = uint ms * Millisecond"
    by (auto simp: whole_millis_def)
  have "0 \<le> uint ms" "uint ms < 2 ^ 32" using unsigned_less [of ms, where 'a = int] by simp_all
  with ms show "0 \<le> sint d \<and> sint d smod Millisecond = 0 \<and> sint d sdiv Millisecond \<le> MaxWriteTimeoutMillis"
    by (simp add: sdiv_nonneg smod_nonneg Millisecond_def MaxWriteTimeoutMillis_def)
next
  assume *: "0 \<le> sint d \<and> sint d smod Millisecond = 0 \<and> sint d sdiv Millisecond \<le> MaxWriteTimeoutMillis"
  define q where "q = sint d div Millisecond"
  from * have q: "0 \<le> q" "q < 2 ^ 32" "sint d = q * Millisecond"
    by (auto simp: q_def sdiv_nonneg smod_nonneg Millisecond_def MaxWriteTimeoutMillis_def pos_imp_zdiv_nonneg_iff)
  then have "uint (word_of_int q :: 32 word) = q"
    by (simp add: uint_word_of_int)
  with q show "whole_millis d" unfolding whole_millis_def by metis
qed

lemma WriteOptions_Validate_iff [valid_simps]:
  "WriteOptions_Validate opts = None \<longleftrightarrow> valid_WriteOptions opts"
  by (auto simp: WriteOptions_Validate_def valid_WriteOptions_def whole_millis_iff
      WriteMode_Valid_def ConfirmLevel_Valid_def)

interpretation write_options: validated WriteOptions_Validate valid_WriteOptions
  by unfold_locales (rule WriteOptions_Validate_iff)

definition valid_SetRequest :: "bytes wire_SetRequest \<Rightarrow> bool" where
  "valid_SetRequest r \<longleftrightarrow>
     valid_key (wire_SetRequest.Key r) \<and> length (wire_SetRequest.Value r) \<le> MaxValueLen
     \<and> wire_SetRequest.MutationID r \<noteq> zeroMutationID \<and> valid_WriteOptions (wire_SetRequest.Options r)"

definition valid_DeleteRequest :: "bytes wire_DeleteRequest \<Rightarrow> bool" where
  "valid_DeleteRequest r \<longleftrightarrow>
     valid_key (wire_DeleteRequest.Key r) \<and> wire_DeleteRequest.MutationID r \<noteq> zeroMutationID
     \<and> valid_WriteOptions (wire_DeleteRequest.Options r)"

lemma wire_SetRequest_Validate_iff [valid_simps]:
  "wire_SetRequest_Validate r = None \<longleftrightarrow> valid_SetRequest r"
  by (auto simp: wire_SetRequest_Validate_def valid_SetRequest_def MutationID_IsZero_def not_less
      WriteOptions_Validate_iff simp flip: wire_validateKey_iff split: option.splits)

lemma wire_DeleteRequest_Validate_iff [valid_simps]:
  "wire_DeleteRequest_Validate r = None \<longleftrightarrow> valid_DeleteRequest r"
  by (auto simp: wire_DeleteRequest_Validate_def valid_DeleteRequest_def MutationID_IsZero_def
      WriteOptions_Validate_iff simp flip: wire_validateKey_iff split: option.splits)

interpretation set_request: validated wire_SetRequest_Validate valid_SetRequest
  by unfold_locales (rule wire_SetRequest_Validate_iff)

interpretation delete_request: validated wire_DeleteRequest_Validate valid_DeleteRequest
  by unfold_locales (rule wire_DeleteRequest_Validate_iff)

text \<open>Write options are accepted exactly when mode and confirmation level are known and the
  timeout is a whole number of milliseconds that a 32-bit millisecond field can carry; in
  particular the accepted timeouts are exactly the ones the protobuf field represents.\<close>

theorem WriteOptions_accepted:
  "WriteOptions_Validate opts = None \<longleftrightarrow>
     Mode opts \<in> {WriteFast, WriteSync} \<and> ConfirmLevel opts = ConfirmInvalidateApplied
     \<and> (\<exists>ms :: 32 word. sint (Timeout opts) = uint ms * Millisecond)"
  using write_options.validate_iff by (simp add: valid_WriteOptions_def whole_millis_def)

text \<open>The rules of a mutating request in the order they are checked, each with the error of its violation.\<close>

definition key_rules :: "bytes \<Rightarrow> (bool \<times> sentinel) list" where
  "key_rules key = [(key \<noteq> [], Wire_err ErrKeyEmpty), (length key \<le> MaxKeyLen, Wire_err ErrKeyTooLarge)]"

definition option_rules :: "WriteOptions \<Rightarrow> (bool \<times> sentinel) list" where
  "option_rules opts =
     [(Mode opts \<in> {WriteFast, WriteSync}, Wire_err ErrInvalidWriteMode),
      (ConfirmLevel opts = ConfirmInvalidateApplied, Wire_err ErrInvalidConfirmLevel),
      (0 \<le> sint (Timeout opts), Wire_err ErrInvalidWriteTimeout),
      (Millisecond dvd sint (Timeout opts), Wire_err ErrTimeoutNotWholeMillis),
      (sint (Timeout opts) < 2 ^ 32 * Millisecond, Wire_err ErrWriteTimeoutTooLarge)]"

lemma option_rules_diagnosed: "diagnosed (option_rules opts) (WriteOptions_Validate opts)"
proof (cases "0 \<le> sint (Timeout opts)")
  case True
  have "sint (Timeout opts) sdiv Millisecond \<le> MaxWriteTimeoutMillis \<longleftrightarrow> sint (Timeout opts) < 2 ^ 32 * Millisecond"
    using True by (simp add: sdiv_nonneg Millisecond_def MaxWriteTimeoutMillis_def) linarith
  moreover have "sint (Timeout opts) smod Millisecond = 0 \<longleftrightarrow> Millisecond dvd sint (Timeout opts)"
    using True by (simp add: smod_nonneg Millisecond_def dvd_eq_mod_eq_0)
  ultimately show ?thesis
    using True
    by (cases "Mode opts \<in> {WriteFast, WriteSync}"; cases "ConfirmLevel opts = ConfirmInvalidateApplied";
        cases "Millisecond dvd sint (Timeout opts)"; cases "sint (Timeout opts) < 2 ^ 32 * Millisecond")
      (auto simp: option_rules_def WriteOptions_Validate_def WriteMode_Valid_def ConfirmLevel_Valid_def)
next
  case False
  then show ?thesis
    by (cases "Mode opts \<in> {WriteFast, WriteSync}"; cases "ConfirmLevel opts = ConfirmInvalidateApplied")
      (auto simp: option_rules_def WriteOptions_Validate_def WriteMode_Valid_def ConfirmLevel_Valid_def)
qed

text \<open>C9. A set or delete request is accepted exactly within its bounds, and a refusal carries the error of the
  first bound that is broken, and no other: empty key, oversized key, oversized value (of a set request),
  missing mutation identity, then the write options: mode, confirmation level, a timeout that is
  negative, not a whole number of milliseconds, or at least \<open>2 ^ 32\<close> milliseconds.\<close>

theorem SetRequest_diagnosis:
  "diagnosed (key_rules (wire_SetRequest.Key r)
      @ [(length (wire_SetRequest.Value r) \<le> MaxValueLen, Wire_err ErrValueTooLarge),
         (wire_SetRequest.MutationID r \<noteq> zeroMutationID, Wire_err ErrMutationIDRequired)]
      @ option_rules (wire_SetRequest.Options r)) (wire_SetRequest_Validate r)
   \<and> diagnosed (key_rules (wire_DeleteRequest.Key d)
      @ [(wire_DeleteRequest.MutationID d \<noteq> zeroMutationID, Wire_err ErrMutationIDRequired)]
      @ option_rules (wire_DeleteRequest.Options d)) (wire_DeleteRequest_Validate d)"
proof
  show "diagnosed (key_rules (wire_SetRequest.Key r)
      @ [(length (wire_SetRequest.Value r) \<le> MaxValueLen, Wire_err ErrValueTooLarge),
         (wire_SetRequest.MutationID r \<noteq> zeroMutationID, Wire_err ErrMutationIDRequired)]
      @ option_rules (wire_SetRequest.Options r)) (wire_SetRequest_Validate r)"
    using option_rules_diagnosed [of "wire_SetRequest.Options r"]
    by (cases "wire_SetRequest.Key r = []"; cases "length (wire_SetRequest.Key r) \<le> MaxKeyLen";
        cases "length (wire_SetRequest.Value r) \<le> MaxValueLen"; cases "wire_SetRequest.MutationID r = zeroMutationID")
      (auto simp: key_rules_def wire_SetRequest_Validate_def wire_validateKey_def MutationID_IsZero_def)
  show "diagnosed (key_rules (wire_DeleteRequest.Key d)
      @ [(wire_DeleteRequest.MutationID d \<noteq> zeroMutationID, Wire_err ErrMutationIDRequired)]
      @ option_rules (wire_DeleteRequest.Options d)) (wire_DeleteRequest_Validate d)"
    using option_rules_diagnosed [of "wire_DeleteRequest.Options d"]
    by (cases "wire_DeleteRequest.Key d = []"; cases "length (wire_DeleteRequest.Key d) \<le> MaxKeyLen";
        cases "wire_DeleteRequest.MutationID d = zeroMutationID")
      (auto simp: key_rules_def wire_DeleteRequest_Validate_def wire_validateKey_def MutationID_IsZero_def)
qed

lemma wire_GetRequest_Validate_verdict:
  "(\<exists>e. wire_GetRequest_Validate r n = Return e)
   \<and> (wire_GetRequest_Validate r n = Return None \<longleftrightarrow>
        valid_key (wire_GetRequest.Key r) \<and> n \<noteq> 0
        \<and> (\<forall>v. MinVersion r = Some v \<longrightarrow> PartitionOf (wire_GetRequest.Key r) n = Return (PartitionID v)))"
proof (cases "n = 0")
  case True
  then show ?thesis
    by (auto simp: wire_GetRequest_Validate_def validatePartitionCount_def split: option.split)
next
  case False
  then obtain p where "PartitionOf (wire_GetRequest.Key r) n = Return p"
    by (simp add: PartitionOf_def validatePartitionCount_def)
  with False show ?thesis
    by (auto simp: wire_GetRequest_Validate_def validatePartitionCount_def
        simp flip: wire_validateKey_iff split: option.split)
qed

text \<open>Validating a get request never panics: routing is only asked for with a positive partition
  count. The request is accepted exactly when its key is in bounds, the count is positive and a
  minimum version, if present, belongs to the partition its key routes to.\<close>

theorem GetRequest_Validate_no_panic:
  "(\<exists>e. wire_GetRequest_Validate r n = Return e)
   \<and> (wire_GetRequest_Validate r n = Return None \<longleftrightarrow>
        valid_key (wire_GetRequest.Key r) \<and> n \<noteq> 0
        \<and> (\<forall>v. MinVersion r = Some v \<longrightarrow> PartitionOf (wire_GetRequest.Key r) n = Return (PartitionID v)))"
  by (rule wire_GetRequest_Validate_verdict)

theorem GetRequest_Validate_no_panic_witness:
  "wire_GetRequest_Validate \<lparr>wire_GetRequest.Key = [0x61],
      MinVersion = Some \<lparr>PartitionID = 232, Sequence = 1\<rparr>\<rparr> 257 = Return None
   \<and> PartitionOf [0x61] 257 = Return 232"
proof -
  let ?r = "\<lparr>wire_GetRequest.Key = [0x61 :: byte], MinVersion = Some \<lparr>PartitionID = 232, Sequence = 1\<rparr>\<rparr>"
  have "wire_GetRequest_Validate ?r 257 = Return None" by code_simp
  with GetRequest_Validate_no_panic [of ?r 257] show ?thesis by simp
qed

text \<open>The conversion of a TTL to wire milliseconds is exact: it succeeds exactly on the
  non-negative durations that are whole milliseconds, the result times a millisecond is the
  duration, and every other duration is refused with a zero value.\<close>

theorem TTLMillis_exact:
  "(wire_TTLMillis ttl = (ms, None) \<longleftrightarrow> sint ttl = uint ms * Millisecond)
   \<and> (snd (wire_TTLMillis ttl) \<noteq> None \<longleftrightarrow> sint ttl < 0 \<or> \<not> Millisecond dvd sint ttl)
   \<and> (snd (wire_TTLMillis ttl) \<noteq> None \<longrightarrow> fst (wire_TTLMillis ttl) = TTLNone)"
proof (cases "0 \<le> sint ttl \<and> Millisecond dvd sint ttl")
  case True
  then obtain q where q: "sint ttl = Millisecond * q" by auto
  have "sint ttl < 2 ^ 63" using sint_lt [of ttl] by simp
  with q True have bounds: "0 \<le> q" "q < 2 ^ 64"
    by (simp_all add: Millisecond_def)
  have conv: "wire_TTLMillis ttl = (word_of_int q, None)"
    using True q bounds by (simp add: wire_TTLMillis_def sdiv_nonneg smod_nonneg Millisecond_def)
  have "uint (word_of_int q :: 64 word) = q"
    using bounds by (simp add: uint_word_of_int)
  then have "word_of_int q = ms \<longleftrightarrow> q = uint ms"
    by (metis word_of_int_uint)
  with True q conv show ?thesis
    by (auto simp: Millisecond_def)
next
  case False
  have "\<not> Millisecond dvd sint ttl" if "0 \<le> sint ttl" using False that by blast
  then have "sint ttl < 0 \<or> sint ttl smod Millisecond \<noteq> 0"
    by (cases "0 \<le> sint ttl") (auto simp: smod_nonneg Millisecond_def dvd_eq_mod_eq_0)
  moreover have "sint ttl \<noteq> uint ms * Millisecond"
    using False by (auto simp: Millisecond_def)
  ultimately show ?thesis
    using False by (auto simp: wire_TTLMillis_def TTLNone_def)
qed

theorem TTLMillis_exact_witness:
  "snd (wire_TTLMillis 1500001) \<noteq> None \<and> fst (wire_TTLMillis 1500001) = TTLNone"
proof -
  have "snd (wire_TTLMillis 1500001) \<noteq> None"
    by (simp add: wire_TTLMillis_def Millisecond_def smod_nonneg)
  with TTLMillis_exact show ?thesis by blast
qed

end
