(* ===== verification/Wire_Status.thy ===== *)
theory Wire_Status
  imports Errors
begin

text \<open>
  \<^verbatim>\<open>internal/wire/status.go\<close>: the closed set of data-plane result codes, their classification and
  their printed form. A status is a 16-bit word, because every \<^verbatim>\<open>uint16\<close> can reach these methods.
\<close>

section \<open>Codes\<close>

type_synonym Status = "16 word"

abbreviation StatusOK :: Status where "StatusOK \<equiv> 0"

abbreviation StatusNotFound :: Status where "StatusNotFound \<equiv> 1"

abbreviation StatusNotCaughtUp :: Status where "StatusNotCaughtUp \<equiv> 2"

abbreviation StatusErrDurabilityUnavailable :: Status where "StatusErrDurabilityUnavailable \<equiv> 3"

abbreviation StatusErrBadGeneration :: Status where "StatusErrBadGeneration \<equiv> 4"

abbreviation StatusErrRateLimited :: Status where "StatusErrRateLimited \<equiv> 5"

abbreviation StatusErrInvalidArgument :: Status where "StatusErrInvalidArgument \<equiv> 6"

abbreviation StatusErrWriteConfirmTimeout :: Status where "StatusErrWriteConfirmTimeout \<equiv> 7"

abbreviation StatusErrInternal :: Status where "StatusErrInternal \<equiv> 8"

datatype StatusClass = StatusClassSuccess | StatusClassRetryable | StatusClassTerminal

section \<open>Methods\<close>

definition Status_Valid :: "Status \<Rightarrow> bool" where
  "Status_Valid s \<longleftrightarrow> s \<le> StatusErrInternal"

definition Status_Class :: "Status \<Rightarrow> StatusClass" where
  "Status_Class s =
     (if s = StatusOK \<or> s = StatusNotFound \<or> s = StatusErrWriteConfirmTimeout then StatusClassSuccess
      else if s = StatusNotCaughtUp \<or> s = StatusErrRateLimited then StatusClassRetryable
      else StatusClassTerminal)"

definition Status_Retryable :: "Status \<Rightarrow> bool" where
  "Status_Retryable s \<longleftrightarrow> Status_Class s = StatusClassRetryable"

definition Status_Terminal :: "Status \<Rightarrow> bool" where
  "Status_Terminal s \<longleftrightarrow> Status_Class s = StatusClassTerminal"

text \<open>\<^verbatim>\<open>strconv.FormatUint(n, 10)\<close>.\<close>

fun FormatUint :: "nat \<Rightarrow> string" where
  "FormatUint n = (if n < 10 then [char_of (48 + n)] else FormatUint (n div 10) @ [char_of (48 + n mod 10)])"

declare FormatUint.simps [simp del]

definition Status_String :: "Status \<Rightarrow> string" where
  "Status_String s =
     (if s = StatusOK then ''OK''
      else if s = StatusNotFound then ''NOT_FOUND''
      else if s = StatusNotCaughtUp then ''NOT_CAUGHT_UP''
      else if s = StatusErrDurabilityUnavailable then ''ERR_DURABILITY_UNAVAILABLE''
      else if s = StatusErrBadGeneration then ''ERR_BAD_GENERATION''
      else if s = StatusErrRateLimited then ''ERR_RATE_LIMITED''
      else if s = StatusErrInvalidArgument then ''ERR_INVALID_ARGUMENT''
      else if s = StatusErrWriteConfirmTimeout then ''ERR_WRITE_CONFIRM_TIMEOUT''
      else if s = StatusErrInternal then ''ERR_INTERNAL''
      else ''Status('' @ FormatUint (unat s) @ '')'')"

section \<open>Classification\<close>

lemma word_le_8_cases:
  fixes s :: Status
  shows "s \<le> 8 \<longleftrightarrow> s = 0 \<or> s = 1 \<or> s = 2 \<or> s = 3 \<or> s = 4 \<or> s = 5 \<or> s = 6 \<or> s = 7 \<or> s = 8"
proof
  assume "s \<le> 8"
  then have "unat s \<le> 8" by (simp add: word_le_nat_alt)
  then have "unat s \<in> {0, 1, 2, 3, 4, 5, 6, 7, 8}" by auto
  then show "s = 0 \<or> s = 1 \<or> s = 2 \<or> s = 3 \<or> s = 4 \<or> s = 5 \<or> s = 6 \<or> s = 7 \<or> s = 8"
    by (auto simp: word_unat_eq_iff)
qed auto

lemma Status_Valid_iff [valid_simps]:
  "Status_Valid s \<longleftrightarrow> s \<in> {StatusOK, StatusNotFound, StatusNotCaughtUp, StatusErrDurabilityUnavailable,
     StatusErrBadGeneration, StatusErrRateLimited, StatusErrInvalidArgument,
     StatusErrWriteConfirmTimeout, StatusErrInternal}"
  by (simp add: Status_Valid_def word_le_8_cases)

text \<open>Classification fails closed: a status is retryable exactly when it is not-caught-up or
  rate-limited, every code outside the protocol is terminal, no status is both, and the codes that
  carry a committed result (OK and write-confirm timeout) are never retried.\<close>

theorem Status_Class_fails_closed:
  "(Status_Retryable s \<longleftrightarrow> s \<in> {StatusNotCaughtUp, StatusErrRateLimited})
   \<and> (Status_Valid s \<or> Status_Terminal s)
   \<and> \<not> (Status_Retryable s \<and> Status_Terminal s)
   \<and> (s \<in> {StatusOK, StatusNotFound, StatusErrWriteConfirmTimeout}
        \<longleftrightarrow> \<not> Status_Retryable s \<and> \<not> Status_Terminal s)"
  unfolding Status_Retryable_def Status_Terminal_def Status_Class_def Status_Valid_iff by auto

section \<open>The printed form\<close>

primrec read_digits :: "nat \<Rightarrow> string \<Rightarrow> nat" where
  "read_digits acc [] = acc"
| "read_digits acc (c # cs) = read_digits (10 * acc + (of_char c - 48)) cs"

lemma read_digits_append: "read_digits acc (xs @ ys) = read_digits (read_digits acc xs) ys"
  by (induction xs arbitrary: acc) simp_all

lemma of_char_digit: "d < 10 \<Longrightarrow> of_char (char_of (48 + d) :: char) = 48 + (d :: nat)"
  by simp

lemma read_FormatUint: "read_digits 0 (FormatUint n) = n"
proof (induction n rule: FormatUint.induct)
  case (1 n)
  show ?case
  proof (cases "n < 10")
    case True
    then show ?thesis
      by (simp add: FormatUint.simps [of n])
  next
    case False
    have "n mod 10 < 10" by simp
    with False 1 show ?thesis
      by (simp add: FormatUint.simps [of n] read_digits_append)
  qed
qed

lemma FormatUint_inj: "FormatUint m = FormatUint n \<longleftrightarrow> m = n"
  using read_FormatUint by metis

text \<open>The printed spelling identifies the status: no two of the 65536 values share a string, so a
  log line or a test can be read back.\<close>

theorem Status_String_inj: "Status_String s = Status_String t \<longleftrightarrow> s = t"
proof
  assume eq: "Status_String s = Status_String t"
  have known: "hd (Status_String r) = CHR ''S'' \<longleftrightarrow> \<not> Status_Valid r" for r
    by (auto simp: Status_String_def Status_Valid_iff)
  show "s = t"
  proof (cases "Status_Valid s")
    case True
    with eq known have "Status_Valid t" by metis
    with True eq show ?thesis
      by (auto simp: Status_Valid_iff Status_String_def)
  next
    case False
    with eq known have "\<not> Status_Valid t" by metis
    with False eq show ?thesis
      by (auto simp: Status_Valid_iff Status_String_def FormatUint_inj word_unat_eq_iff)
  qed
qed simp

end
