(* ===== verification/Wire_Record.thy ===== *)
theory Wire_Record
  imports Wire_Types Wire_Status
begin

text \<open>
  \<^verbatim>\<open>internal/wire/record.go\<close>: the record shape shared by the RPC get response and the node's get
  result, and its validation.
\<close>

definition VersionTag_ValidateCommitted :: "VersionTag \<Rightarrow> error option" where
  "VersionTag_ValidateCommitted v =
     (if Sequence v = 0 then Some (Err (Record_err ErrMissingVersion)) else None)"

record 'b GetRecordFields =
  Status :: Status
  Version :: VersionTag
  Kind :: RecordKind
  Value :: 'b

definition GetRecordFields_Validate :: "bytes GetRecordFields \<Rightarrow> error option" where
  "GetRecordFields_Validate r =
     (if \<not> Status_Valid (Status r) \<or> Status r = StatusErrWriteConfirmTimeout
      then Some (wrap (Record_err ErrInvalidGetStatus) '': %s'' [FStr (Status_String (Status r))])
      else if Status r = StatusOK
      then (case VersionTag_ValidateCommitted (Version r) of Some err \<Rightarrow> Some err | None \<Rightarrow>
            if \<not> RecordKind_Valid (Kind r)
            then Some (wrap (Record_err record_err.ErrInvalidRecordKind) '': %d'' [FInt (uint (Kind r))])
            else if Kind r = RecordTombstone \<and> length (Value r) \<noteq> 0
            then Some (Err (Record_err ErrUnexpectedValue))
            else if length (Value r) > MaxValueLen
            then Some (wrap (Wire_err ErrValueTooLarge) '': got %d, max %d''
                         [FInt (int (length (Value r))), FInt (int MaxValueLen)])
            else None)
      else if \<not> VersionTag_IsZero (Version r) then Some (Err (Record_err ErrUnexpectedVersion))
      else if length (Value r) \<noteq> 0 then Some (Err (Record_err ErrUnexpectedValue))
      else if Kind r \<noteq> 0
      then Some (wrap (Record_err record_err.ErrInvalidRecordKind) '': %d'' [FInt (uint (Kind r))])
      else None)"

section \<open>Specification\<close>

text \<open>
  What an authoritative read may report: a live value, a versioned deletion marker, or a status of
  the protocol without any record data.
\<close>

datatype get_outcome = Live VersionTag bytes | Deleted VersionTag | NoRecord Status

fun outcome_valid :: "get_outcome \<Rightarrow> bool" where
  "outcome_valid (Live v b) \<longleftrightarrow> Sequence v \<noteq> 0 \<and> length b \<le> MaxValueLen"
| "outcome_valid (Deleted v) \<longleftrightarrow> Sequence v \<noteq> 0"
| "outcome_valid (NoRecord s) \<longleftrightarrow>
     s \<in> {StatusNotFound, StatusNotCaughtUp, StatusErrDurabilityUnavailable, StatusErrBadGeneration,
          StatusErrRateLimited, StatusErrInvalidArgument, StatusErrInternal}"

definition zeroVersionTag :: VersionTag where
  "zeroVersionTag = \<lparr>PartitionID = 0, Sequence = 0\<rparr>"

fun outcome_fields :: "get_outcome \<Rightarrow> bytes GetRecordFields" where
  "outcome_fields (Live v b) = \<lparr>Status = StatusOK, Version = v, Kind = RecordValue, Value = b\<rparr>"
| "outcome_fields (Deleted v) = \<lparr>Status = StatusOK, Version = v, Kind = RecordTombstone, Value = []\<rparr>"
| "outcome_fields (NoRecord s) = \<lparr>Status = s, Version = zeroVersionTag, Kind = 0, Value = []\<rparr>"

definition valid_GetRecordFields :: "bytes GetRecordFields \<Rightarrow> bool" where
  "valid_GetRecordFields r \<longleftrightarrow> (\<exists>w. outcome_valid w \<and> r = outcome_fields w)"

definition record_outcome :: "bytes GetRecordFields \<Rightarrow> get_outcome" where
  "record_outcome r =
     (if Status r \<noteq> StatusOK then NoRecord (Status r)
      else if Kind r = RecordTombstone then Deleted (Version r)
      else Live (Version r) (Value r))"

lemma record_outcome_fields: "outcome_valid w \<Longrightarrow> record_outcome (outcome_fields w) = w"
  by (cases w) (auto simp: record_outcome_def)

lemma outcome_fields_accepted: "outcome_valid w \<Longrightarrow> GetRecordFields_Validate (outcome_fields w) = None"
  by (cases w) (auto simp: GetRecordFields_Validate_def VersionTag_ValidateCommitted_def
      RecordKind_Valid_def VersionTag_IsZero_def zeroVersionTag_def Status_Valid_iff)

lemma GetRecordFields_accepted_outcome:
  assumes "GetRecordFields_Validate r = None"
  shows "outcome_valid (record_outcome r) \<and> outcome_fields (record_outcome r) = r"
proof -
  obtain s v k b where r: "r = \<lparr>Status = s, Version = v, Kind = k, Value = b\<rparr>"
    by (cases r)
  show ?thesis
    using assms unfolding r
    by (auto simp: GetRecordFields_Validate_def VersionTag_ValidateCommitted_def RecordKind_Valid_def
        VersionTag_IsZero_def zeroVersionTag_def Status_Valid_iff record_outcome_def split: if_splits)
qed

lemma GetRecordFields_Validate_iff [valid_simps]:
  "GetRecordFields_Validate r = None \<longleftrightarrow> valid_GetRecordFields r"
  unfolding valid_GetRecordFields_def
  using outcome_fields_accepted GetRecordFields_accepted_outcome by metis

interpretation get_record: validated GetRecordFields_Validate valid_GetRecordFields
  by unfold_locales (rule GetRecordFields_Validate_iff)

text \<open>C10. The record shape accepted by \<^verbatim>\<open>GetRecordFields.Validate\<close> is exactly the image of the three
  possible outcomes of a read: a committed live value within the size bound, a committed tombstone
  without value, or a non-OK status of the protocol other than write-confirm timeout with neither
  version, kind nor value; and an accepted record determines its outcome.\<close>

theorem GetRecordFields_exactly_outcomes:
  "(GetRecordFields_Validate r = None \<longleftrightarrow> (\<exists>w. outcome_valid w \<and> r = outcome_fields w))
   \<and> (\<forall>w w'. outcome_valid w \<longrightarrow> outcome_valid w' \<longrightarrow> outcome_fields w = outcome_fields w' \<longrightarrow> w = w')"
  using get_record.validate_iff [of r] record_outcome_fields unfolding valid_GetRecordFields_def
  by metis

theorem GetRecordFields_exactly_outcomes_witness:
  "GetRecordFields_Validate (outcome_fields (Deleted \<lparr>PartitionID = 2, Sequence = 7\<rparr>)) = None
   \<and> outcome_fields (Deleted \<lparr>PartitionID = 2, Sequence = 7\<rparr>)
     \<noteq> outcome_fields (Live \<lparr>PartitionID = 2, Sequence = 7\<rparr> [])"
proof -
  have "outcome_valid (Deleted \<lparr>PartitionID = 2, Sequence = 7\<rparr>)"
    "outcome_valid (Live \<lparr>PartitionID = 2, Sequence = 7\<rparr> [])"
    by simp_all
  then show ?thesis
    using GetRecordFields_exactly_outcomes by (metis get_outcome.distinct(1))
qed

end
