(* ===== verification/Control_Types.thy ===== *)
theory Control_Types
  imports Wire_Record Wire_Protocol
begin

text \<open>
  \<^verbatim>\<open>internal/control/types.go\<close>: the messages of the control stream and their \<^verbatim>\<open>Validate\<close> methods.
  Slice fields have a type parameter for their representation, as in the wire models; the
  synonyms \<open>hello\<close>, \<open>subscribe\<close>, \<open>event\<close> and \<open>batch\<close> name the value-level types.
\<close>

section \<open>Limits\<close>

definition MaxBatchEvents :: nat where "MaxBatchEvents = 4096"

definition MaxControlMessageBytes :: nat where "MaxControlMessageBytes = 3 * 2 ^ 20"

definition controlMessageOverhead :: nat where "controlMessageOverhead = 128"

definition eventEncodedOverhead :: nat where "eventEncodedOverhead = 64"

definition MaxSubscriptions :: nat where "MaxSubscriptions = 4096"

definition DefaultSubscriberQueue :: nat where "DefaultSubscriberQueue = 4096"

definition DefaultCheckpointInterval :: int where "DefaultCheckpointInterval = Second"

definition DefaultStreamFreshnessTimeout :: int where "DefaultStreamFreshnessTimeout = 3 * Second"

definition MaxControlErrorDetail :: nat where "MaxControlErrorDetail = 256"

section \<open>Hello\<close>

record StreamWatermark =
  StreamID :: "32 word"
  AppliedThrough :: "64 word"
  HubGeneration :: "64 word"

record 's Hello =
  NodeID :: "64 word"
  Protocol :: ProtocolRange
  Subscriptions :: 's
  ClusterID :: string
  ExpectedHubGeneration :: "64 word"

type_synonym hello = "StreamWatermark list Hello"

fun check_subscriptions :: "32 word set \<Rightarrow> StreamWatermark list \<Rightarrow> error option" where
  "check_subscriptions seen [] = None"
| "check_subscriptions seen (subscription # rest) =
     (if HubGeneration subscription = 0
      then Some (Err (Control_err control_err.ErrInvalidHubGeneration))
      else if StreamID subscription \<in> seen
      then Some (wrap (Control_err ErrDuplicateSubscription) '': %d'' [FInt (uint (StreamID subscription))])
      else check_subscriptions (insert (StreamID subscription) seen) rest)"

definition Hello_Validate :: "hello \<Rightarrow> error option" where
  "Hello_Validate m =
     (if NodeID m = 0 then Some (Err (Control_err control_err.ErrInvalidNodeID)) else
     (case ProtocolRange_Validate (Protocol m) of Some err \<Rightarrow> Some err | None \<Rightarrow>
      if TrimSpace (ClusterID m) = '''' then Some (Err (Control_err control_err.ErrInvalidClusterID))
      else if length (Subscriptions m) > MaxSubscriptions
      then Some (Err (Control_err ErrTooManySubscriptions))
      else check_subscriptions {} (Subscriptions m)))"

section \<open>Subscribe\<close>

record 's Subscribe =
  HubGeneration :: "64 word"
  StreamIDs :: 's

type_synonym subscribe = "32 word list Subscribe"

fun check_stream_ids :: "32 word set \<Rightarrow> 32 word list \<Rightarrow> error option" where
  "check_stream_ids seen [] = None"
| "check_stream_ids seen (streamID # rest) =
     (if streamID \<in> seen
      then Some (wrap (Control_err ErrDuplicateSubscription) '': %d'' [FInt (uint streamID)])
      else check_stream_ids (insert streamID seen) rest)"

definition Subscribe_Validate :: "subscribe \<Rightarrow> error option" where
  "Subscribe_Validate m =
     (if Subscribe.HubGeneration m = 0
      then Some (Err (Control_err control_err.ErrInvalidHubGeneration))
      else if length (StreamIDs m) = 0 then Some (Err (Control_err ErrEmptySubscriptions))
      else if length (StreamIDs m) > MaxSubscriptions
      then Some (Err (Control_err ErrTooManySubscriptions))
      else check_stream_ids {} (StreamIDs m))"

section \<open>Invalidation batches\<close>

record 'b InvalidationEvent =
  StreamSequence :: "64 word"
  Key :: 'b
  Version :: VersionTag
  Kind :: RecordKind
  MutationID :: MutationID

type_synonym event = "bytes InvalidationEvent"

definition InvalidationEvent_validate :: "event \<Rightarrow> 32 word \<Rightarrow> error option" where
  "InvalidationEvent_validate e streamID =
     (if StreamSequence e = 0 \<or> Sequence (InvalidationEvent.Version e) = 0
      then Some (Err (Control_err ErrInvalidSequence))
      else if length (InvalidationEvent.Key e) = 0 then Some (Err (Wire_err ErrKeyEmpty))
      else if length (InvalidationEvent.Key e) > MaxKeyLen then Some (Err (Wire_err ErrKeyTooLarge))
      else if PartitionID (InvalidationEvent.Version e) \<noteq> streamID
      then Some (Err (Control_err ErrPartitionMismatch))
      else if \<not> RecordKind_Valid (InvalidationEvent.Kind e)
      then Some (Err (Control_err control_err.ErrInvalidRecordKind))
      else if MutationID_IsZero (InvalidationEvent.MutationID e)
      then Some (Err (Wire_err ErrMutationIDRequired))
      else None)"

record 's InvalidationBatch =
  StreamID :: "32 word"
  HubGeneration :: "64 word"
  Events :: 's

type_synonym batch = "event list InvalidationBatch"

definition EstimatedEncodedSize :: "batch \<Rightarrow> nat" where
  "EstimatedEncodedSize m =
     fold (\<lambda>e n. n + (eventEncodedOverhead + length (InvalidationEvent.Key e))) (Events m)
       controlMessageOverhead"

text \<open>The loop over the events: \<open>i\<close> is the index, \<open>previous\<close> the sequence of the event before.\<close>

fun check_events :: "32 word \<Rightarrow> nat \<Rightarrow> 64 word \<Rightarrow> event list \<Rightarrow> error option" where
  "check_events streamID i previous [] = None"
| "check_events streamID i previous (e # es) =
     (case InvalidationEvent_validate e streamID of
        Some err \<Rightarrow> Some (Errorf ''event %d: %w'' [FInt (int i)] (Some err))
      | None \<Rightarrow>
          if i > 0 \<and> StreamSequence e \<noteq> previous + 1
          then Some (wrap (Control_err ErrNonContiguousBatch) '': previous=%d current=%d''
                       [FInt (uint previous), FInt (uint (StreamSequence e))])
          else check_events streamID (i + 1) (StreamSequence e) es)"

definition InvalidationBatch_Validate :: "batch \<Rightarrow> error option" where
  "InvalidationBatch_Validate m =
     (if InvalidationBatch.HubGeneration m = 0
      then Some (Err (Control_err control_err.ErrInvalidHubGeneration))
      else if length (Events m) = 0 then Some (Err (Control_err ErrEmptyInvalidationBatch))
      else if length (Events m) > MaxBatchEvents then Some (Err (Control_err ErrTooManyEvents))
      else (case check_events (InvalidationBatch.StreamID m) 0 0 (Events m) of
              Some err \<Rightarrow> Some err
            | None \<Rightarrow>
                if EstimatedEncodedSize m > MaxControlMessageBytes
                then Some (wrap (Control_err ErrBatchTooLarge) '': estimated %d bytes, max %d''
                             [FInt (int (EstimatedEncodedSize m)), FInt (int MaxControlMessageBytes)])
                else None))"

section \<open>Acknowledgement, checkpoint, replay, confirmation, error\<close>

record StreamAcknowledgement =
  StreamID :: "32 word"
  AppliedThrough :: "64 word"

definition StreamAcknowledgement_Validate :: "StreamAcknowledgement \<Rightarrow> error option" where
  "StreamAcknowledgement_Validate m =
     (if StreamAcknowledgement.AppliedThrough m = 0 then Some (Err (Control_err ErrInvalidSequence)) else None)"

record StreamCheckpoint =
  StreamID :: "32 word"
  HubGeneration :: "64 word"
  StreamHead :: "64 word"

definition StreamCheckpoint_Validate :: "StreamCheckpoint \<Rightarrow> error option" where
  "StreamCheckpoint_Validate m =
     (if StreamCheckpoint.HubGeneration m = 0
      then Some (Err (Control_err control_err.ErrInvalidHubGeneration)) else None)"

record ReplayRequest =
  StreamID :: "32 word"
  FromSequence :: "64 word"
  ToSequence :: "64 word"

definition ReplayRequest_Validate :: "ReplayRequest \<Rightarrow> error option" where
  "ReplayRequest_Validate m =
     (if FromSequence m = 0 \<or> ToSequence m < FromSequence m
      then Some (Err (Control_err ErrInvalidSequenceRange)) else None)"

record ReplayUnavailable =
  StreamID :: "32 word"
  HubGeneration :: "64 word"
  RequestedFrom :: "64 word"
  OldestAvailable :: "64 word"
  StreamHead :: "64 word"

definition ReplayUnavailable_Validate :: "ReplayUnavailable \<Rightarrow> error option" where
  "ReplayUnavailable_Validate m =
     (if ReplayUnavailable.HubGeneration m = 0
      then Some (Err (Control_err control_err.ErrInvalidHubGeneration))
      else if RequestedFrom m = 0 \<or> OldestAvailable m = 0
      then Some (Err (Control_err ErrInvalidSequenceRange))
      else if RequestedFrom m \<ge> OldestAvailable m
      then Some (Err (Control_err ErrInvalidSequenceRange))
      else if OldestAvailable m > ReplayUnavailable.StreamHead m
              \<and> OldestAvailable m - ReplayUnavailable.StreamHead m \<noteq> 1
      then Some (Err (Control_err ErrInvalidSequenceRange))
      else None)"

record InvalidateConfirm =
  StreamID :: "32 word"
  StreamSequence :: "64 word"
  NodeID :: "64 word"

definition InvalidateConfirm_Validate :: "InvalidateConfirm \<Rightarrow> error option" where
  "InvalidateConfirm_Validate m =
     (if InvalidateConfirm.StreamSequence m = 0 then Some (Err (Control_err ErrInvalidSequence))
      else if InvalidateConfirm.NodeID m = 0 then Some (Err (Control_err control_err.ErrInvalidNodeID))
      else None)"

record ControlError =
  Status :: Status
  Detail :: string

definition ControlError_Validate :: "ControlError \<Rightarrow> error option" where
  "ControlError_Validate m =
     (if \<not> (ControlError.Status m = StatusErrRateLimited \<or> ControlError.Status m = StatusErrBadGeneration
             \<or> ControlError.Status m = StatusErrInvalidArgument \<or> ControlError.Status m = StatusErrInternal)
      then Some (wrap (Control_err ErrInvalidControlStatus) '': %s'' [FStr (Status_String (ControlError.Status m))])
      else if length (Detail m) > MaxControlErrorDetail
      then Some (Err (Control_err ErrControlDetailTooLarge))
      else None)"

section \<open>Specification\<close>

definition valid_cluster_id :: "string \<Rightarrow> bool" where
  "valid_cluster_id c \<longleftrightarrow> \<not> all_space c"

definition valid_Hello :: "hello \<Rightarrow> bool" where
  "valid_Hello m \<longleftrightarrow>
     Hello.NodeID m \<noteq> 0 \<and> valid_range (Protocol m) \<and> valid_cluster_id (ClusterID m)
     \<and> length (Subscriptions m) \<le> MaxSubscriptions
     \<and> (\<forall>w \<in> set (Subscriptions m). StreamWatermark.HubGeneration w \<noteq> 0)
     \<and> distinct (map StreamWatermark.StreamID (Subscriptions m))"

definition valid_Subscribe :: "subscribe \<Rightarrow> bool" where
  "valid_Subscribe m \<longleftrightarrow>
     Subscribe.HubGeneration m \<noteq> 0 \<and> StreamIDs m \<noteq> [] \<and> length (StreamIDs m) \<le> MaxSubscriptions
     \<and> distinct (StreamIDs m)"

definition valid_event :: "32 word \<Rightarrow> event \<Rightarrow> bool" where
  "valid_event streamID e \<longleftrightarrow>
     InvalidationEvent.StreamSequence e \<noteq> 0 \<and> Sequence (InvalidationEvent.Version e) \<noteq> 0
     \<and> valid_key (InvalidationEvent.Key e) \<and> PartitionID (InvalidationEvent.Version e) = streamID
     \<and> InvalidationEvent.Kind e \<in> {RecordValue, RecordTombstone}
     \<and> InvalidationEvent.MutationID e \<noteq> zeroMutationID"

text \<open>Event \<open>i\<close> carries the first event's sequence plus \<open>i\<close>, as natural numbers.\<close>

definition contiguous :: "event list \<Rightarrow> bool" where
  "contiguous es \<longleftrightarrow> (\<forall>i < length es.
     unat (InvalidationEvent.StreamSequence (es ! i)) = unat (InvalidationEvent.StreamSequence (es ! 0)) + i)"

definition valid_batch :: "batch \<Rightarrow> bool" where
  "valid_batch m \<longleftrightarrow>
     InvalidationBatch.HubGeneration m \<noteq> 0 \<and> 1 \<le> length (Events m) \<and> length (Events m) \<le> MaxBatchEvents
     \<and> (\<forall>e \<in> set (Events m). valid_event (InvalidationBatch.StreamID m) e) \<and> contiguous (Events m)
     \<and> EstimatedEncodedSize m \<le> MaxControlMessageBytes"

definition valid_ack :: "StreamAcknowledgement \<Rightarrow> bool" where
  "valid_ack m \<longleftrightarrow> 0 < StreamAcknowledgement.AppliedThrough m"

definition valid_checkpoint :: "StreamCheckpoint \<Rightarrow> bool" where
  "valid_checkpoint m \<longleftrightarrow> 0 < StreamCheckpoint.HubGeneration m"

definition valid_ReplayRequest :: "ReplayRequest \<Rightarrow> bool" where
  "valid_ReplayRequest m \<longleftrightarrow> 0 < FromSequence m \<and> FromSequence m \<le> ToSequence m"

definition valid_ReplayUnavailable :: "ReplayUnavailable \<Rightarrow> bool" where
  "valid_ReplayUnavailable m \<longleftrightarrow>
     0 < ReplayUnavailable.HubGeneration m \<and> 0 < RequestedFrom m \<and> RequestedFrom m < OldestAvailable m
     \<and> unat (OldestAvailable m) \<le> unat (ReplayUnavailable.StreamHead m) + 1"

definition valid_confirm :: "InvalidateConfirm \<Rightarrow> bool" where
  "valid_confirm m \<longleftrightarrow> 0 < InvalidateConfirm.StreamSequence m \<and> 0 < InvalidateConfirm.NodeID m"

definition valid_ControlError :: "ControlError \<Rightarrow> bool" where
  "valid_ControlError m \<longleftrightarrow>
     ControlError.Status m \<in> {StatusErrRateLimited, StatusErrBadGeneration, StatusErrInvalidArgument,
       StatusErrInternal}
     \<and> length (Detail m) \<le> MaxControlErrorDetail"

lemma check_subscriptions_None:
  "check_subscriptions seen ws = None \<longleftrightarrow>
     (\<forall>w \<in> set ws. StreamWatermark.HubGeneration w \<noteq> 0)
     \<and> set (map StreamWatermark.StreamID ws) \<inter> seen = {} \<and> distinct (map StreamWatermark.StreamID ws)"
  by (induction seen ws rule: check_subscriptions.induct) auto

lemma check_stream_ids_None:
  "check_stream_ids seen ids = None \<longleftrightarrow> set ids \<inter> seen = {} \<and> distinct ids"
  by (induction seen ids rule: check_stream_ids.induct) auto

lemma Hello_Validate_iff [valid_simps]: "Hello_Validate m = None \<longleftrightarrow> valid_Hello m"
  by (auto simp: Hello_Validate_def valid_Hello_def valid_cluster_id_def check_subscriptions_None
      TrimSpace_Nil_iff not_less simp flip: ProtocolRange_Validate_iff split: option.splits)

lemma Subscribe_Validate_iff [valid_simps]: "Subscribe_Validate m = None \<longleftrightarrow> valid_Subscribe m"
  by (auto simp: Subscribe_Validate_def valid_Subscribe_def check_stream_ids_None not_less)

lemma InvalidationEvent_validate_iff [valid_simps]:
  "InvalidationEvent_validate e streamID = None \<longleftrightarrow> valid_event streamID e"
  by (auto simp: InvalidationEvent_validate_def valid_event_def valid_key_def RecordKind_Valid_def
      MutationID_IsZero_def not_less Suc_le_eq)

lemma contiguous_Cons2:
  "contiguous (d # e # es) \<longleftrightarrow>
     unat (InvalidationEvent.StreamSequence e) = Suc (unat (InvalidationEvent.StreamSequence d))
     \<and> contiguous (e # es)"
  unfolding contiguous_def by (auto simp: less_Suc_eq_0_disj nth_Cons split: nat.splits)

lemma contiguous_short [simp]: "contiguous []" "contiguous [e]"
  by (simp_all add: contiguous_def)

text \<open>Behind a first event, the loop accepts exactly the contiguous continuations: a wrapped
  successor would be sequence zero, which the event check refuses.\<close>

lemma check_events_tail:
  assumes "valid_event streamID d" "0 < i"
  shows "check_events streamID i (InvalidationEvent.StreamSequence d) es = None \<longleftrightarrow>
    (\<forall>e \<in> set es. valid_event streamID e) \<and> contiguous (d # es)"
  using assms
proof (induction es arbitrary: d i)
  case (Cons e es)
  let ?s = InvalidationEvent.StreamSequence
  have step: "?s e = ?s d + 1 \<longleftrightarrow> unat (?s e) = Suc (unat (?s d))" if "valid_event streamID e"
  proof
    assume "?s e = ?s d + 1"
    with that show "unat (?s e) = Suc (unat (?s d))"
      by (auto simp: valid_event_def intro: unat_add_one)
  next
    assume "unat (?s e) = Suc (unat (?s d))"
    then have "word_of_nat (unat (?s e)) = (word_of_nat (Suc (unat (?s d))) :: 64 word)" by simp
    then show "?s e = ?s d + 1" by (simp add: add.commute)
  qed
  show ?case
  proof (cases "valid_event streamID e")
    case True
    then show ?thesis
      using Cons.IH [OF True, of "i + 1"] Cons.prems step [OF True]
      by (simp add: contiguous_Cons2 InvalidationEvent_validate_iff [THEN iffD2, OF True])
  next
    case False
    then show ?thesis
      by (auto simp flip: InvalidationEvent_validate_iff split: option.split)
  qed
qed simp

lemma check_events_None:
  "check_events streamID 0 0 es = None \<longleftrightarrow> (\<forall>e \<in> set es. valid_event streamID e) \<and> contiguous es"
proof (cases es)
  case (Cons e rest)
  show ?thesis
  proof (cases "valid_event streamID e")
    case True
    then show ?thesis
      using check_events_tail [OF True, of 1 rest] Cons
      by (simp add: InvalidationEvent_validate_iff [THEN iffD2, OF True])
  next
    case False
    then show ?thesis
      using Cons by (auto simp flip: InvalidationEvent_validate_iff split: option.split)
  qed
qed simp

lemma InvalidationBatch_Validate_iff [valid_simps]:
  "InvalidationBatch_Validate m = None \<longleftrightarrow> valid_batch m"
  by (auto simp: InvalidationBatch_Validate_def valid_batch_def Suc_le_eq not_less
      simp flip: check_events_None split: option.splits)

lemma StreamAcknowledgement_Validate_iff [valid_simps]:
  "StreamAcknowledgement_Validate m = None \<longleftrightarrow> valid_ack m"
  by (simp add: StreamAcknowledgement_Validate_def valid_ack_def word_neq_0_conv [symmetric])

lemma StreamCheckpoint_Validate_iff [valid_simps]:
  "StreamCheckpoint_Validate m = None \<longleftrightarrow> valid_checkpoint m"
  by (simp add: StreamCheckpoint_Validate_def valid_checkpoint_def word_neq_0_conv [symmetric])

lemma ReplayRequest_Validate_iff [valid_simps]:
  "ReplayRequest_Validate m = None \<longleftrightarrow> valid_ReplayRequest m"
  by (auto simp: ReplayRequest_Validate_def valid_ReplayRequest_def not_less word_gt_0)

lemma word_diff_one_iff:
  fixes a b :: "'a::len word"
  shows "a < b \<Longrightarrow> b - a = 1 \<longleftrightarrow> unat b = unat a + 1"
  by (auto simp: word_unat_eq_iff [of _ 1] unat_sub word_less_nat_alt word_le_nat_alt)

lemma ReplayUnavailable_Validate_iff [valid_simps]:
  "ReplayUnavailable_Validate m = None \<longleftrightarrow> valid_ReplayUnavailable m"
proof -
  let ?o = "OldestAvailable m" and ?h = "ReplayUnavailable.StreamHead m"
  have "\<not> (?o > ?h \<and> ?o - ?h \<noteq> 1) \<longleftrightarrow> unat ?o \<le> unat ?h + 1"
  proof (cases "?h < ?o")
    case True
    then show ?thesis
      using word_diff_one_iff [OF True] by (auto simp: word_less_nat_alt)
  next
    case False
    then show ?thesis by (simp add: word_less_nat_alt)
  qed
  then show ?thesis
    by (auto simp: ReplayUnavailable_Validate_def valid_ReplayUnavailable_def not_le word_gt_0)
qed

lemma InvalidateConfirm_Validate_iff [valid_simps]:
  "InvalidateConfirm_Validate m = None \<longleftrightarrow> valid_confirm m"
  by (simp add: InvalidateConfirm_Validate_def valid_confirm_def word_gt_0)

lemma ControlError_Validate_iff [valid_simps]: "ControlError_Validate m = None \<longleftrightarrow> valid_ControlError m"
  by (auto simp: ControlError_Validate_def valid_ControlError_def not_less)

section \<open>Correctness\<close>

lemma contiguous_upt:
  "contiguous es \<longleftrightarrow> map (\<lambda>e. unat (InvalidationEvent.StreamSequence e)) es
     = [unat (InvalidationEvent.StreamSequence (es ! 0))
         ..< unat (InvalidationEvent.StreamSequence (es ! 0)) + length es]"
  unfolding contiguous_def list_eq_iff_nth_eq by simp

text \<open>C11. An invalidation batch is accepted exactly when the hub generation is set, it has 1 to 4096
  events, every event is well formed and belongs to the stream's partition, event number \<open>i\<close> has
  the first event's sequence plus \<open>i\<close> as a natural number (so an accepted run never wraps around
  64 bits), and the size estimate fits the message limit.\<close>

theorem InvalidationBatch_accepted:
  "InvalidationBatch_Validate m = None \<longleftrightarrow>
     InvalidationBatch.HubGeneration m \<noteq> 0 \<and> 1 \<le> length (Events m) \<and> length (Events m) \<le> MaxBatchEvents
     \<and> (\<forall>e \<in> set (Events m). InvalidationEvent_validate e (InvalidationBatch.StreamID m) = None)
     \<and> map (\<lambda>e. unat (InvalidationEvent.StreamSequence e)) (Events m)
         = [unat (InvalidationEvent.StreamSequence (Events m ! 0))
             ..< unat (InvalidationEvent.StreamSequence (Events m ! 0)) + length (Events m)]
     \<and> EstimatedEncodedSize m \<le> MaxControlMessageBytes"
  unfolding InvalidationBatch_Validate_iff valid_batch_def InvalidationEvent_validate_iff
    contiguous_upt [of "Events m"] by (rule refl)

text \<open>A small accepted batch, used by the witnesses.\<close>

definition sample_event :: "64 word \<Rightarrow> event" where
  "sample_event n = \<lparr>InvalidationEvent.StreamSequence = n, Key = [0x61],
     Version = \<lparr>PartitionID = 3, Sequence = 100\<rparr>, Kind = RecordValue, MutationID = NewMutationID 1 1\<rparr>"

definition sample_batch :: batch where
  "sample_batch = \<lparr>InvalidationBatch.StreamID = 3, HubGeneration = 9,
     Events = [sample_event 10, sample_event 11]\<rparr>"

lemma sample_batch_valid: "valid_batch sample_batch"
proof -
  have "valid_event 3 (sample_event n)" if "n \<noteq> 0" for n
    using that by (simp add: sample_event_def valid_event_def valid_key_def MaxKeyLen_def
        MutationID_IsZero_def [symmetric])
  moreover have "contiguous [sample_event 10, sample_event 11]"
    by (simp add: contiguous_Cons2 sample_event_def)
  ultimately show ?thesis
    by (simp add: valid_batch_def sample_batch_def sample_event_def EstimatedEncodedSize_def MaxBatchEvents_def
        MaxControlMessageBytes_def controlMessageOverhead_def eventEncodedOverhead_def)
qed

theorem InvalidationBatch_accepted_witness:
  "InvalidationBatch_Validate sample_batch = None
   \<and> InvalidationEvent_validate (sample_event 11) 3 = None"
proof -
  have "InvalidationBatch_Validate sample_batch = None"
    using sample_batch_valid by (simp only: InvalidationBatch_Validate_iff)
  with InvalidationBatch_accepted [of sample_batch] show ?thesis
    by (simp add: sample_batch_def)
qed

lemma size_estimate_sum:
  "EstimatedEncodedSize m = controlMessageOverhead
     + (\<Sum>e \<leftarrow> Events m. eventEncodedOverhead + length (InvalidationEvent.Key e))"
proof -
  have "fold (\<lambda>e n. n + (f e :: nat)) es a = a + (\<Sum>e \<leftarrow> es. f e)" for f a and es :: "event list"
    by (induction es arbitrary: a) simp_all
  then show ?thesis by (simp add: EstimatedEncodedSize_def)
qed

lemma contiguous_take: "contiguous es \<Longrightarrow> contiguous (take k es)"
  by (auto simp: contiguous_def)

lemma contiguous_drop:
  assumes "contiguous es" "k < length es"
  shows "contiguous (drop k es)"
  using assms unfolding contiguous_def by (auto simp: less_diff_conv add.commute)

text \<open>Part of an accepted batch: fewer events, no larger.\<close>

lemma valid_batch_part:
  assumes "valid_batch m" "es \<noteq> []" "length es \<le> length (Events m)" "set es \<subseteq> set (Events m)"
    and "contiguous es" "EstimatedEncodedSize (m\<lparr>Events := es\<rparr>) \<le> EstimatedEncodedSize m"
  shows "valid_batch (m\<lparr>Events := es\<rparr>)"
  using assms unfolding valid_batch_def by (auto simp: Suc_le_eq)

lemma size_estimate_append:
  "EstimatedEncodedSize (m\<lparr>Events := es @ fs\<rparr>) + controlMessageOverhead
     = EstimatedEncodedSize (m\<lparr>Events := es\<rparr>) + EstimatedEncodedSize (m\<lparr>Events := fs\<rparr>)"
  by (simp add: size_estimate_sum)

lemma size_estimate_split:
  shows "EstimatedEncodedSize (m\<lparr>Events := take k (Events m)\<rparr>) \<le> EstimatedEncodedSize m"
    and "EstimatedEncodedSize (m\<lparr>Events := drop k (Events m)\<rparr>) \<le> EstimatedEncodedSize m"
  using size_estimate_append [where m = m and es = "take k (Events m)" and fs = "drop k (Events m)"]
    size_estimate_sum [of "m\<lparr>Events := take k (Events m)\<rparr>"]
    size_estimate_sum [of "m\<lparr>Events := drop k (Events m)\<rparr>"]
  by simp_all

text \<open>C12. A hub may split an accepted batch at any point to stay under the message limit: both parts
  are accepted again, so no split turns a legal publication into one a node refuses.\<close>

theorem InvalidationBatch_split:
  assumes "InvalidationBatch_Validate m = None" "0 < k" "k < length (Events m)"
  shows "InvalidationBatch_Validate (m\<lparr>Events := take k (Events m)\<rparr>) = None
    \<and> InvalidationBatch_Validate (m\<lparr>Events := drop k (Events m)\<rparr>) = None"
proof -
  have "valid_batch m" using assms(1) by (simp only: InvalidationBatch_Validate_iff)
  moreover from this have "contiguous (Events m)" by (simp add: valid_batch_def)
  ultimately show ?thesis
    unfolding InvalidationBatch_Validate_iff using assms(2,3)
    by (auto intro!: valid_batch_part contiguous_take contiguous_drop size_estimate_split
        dest: in_set_takeD in_set_dropD)
qed

theorem InvalidationBatch_split_witness:
  "InvalidationBatch_Validate (sample_batch\<lparr>Events := take 1 (Events sample_batch)\<rparr>) = None
   \<and> InvalidationBatch_Validate (sample_batch\<lparr>Events := drop 1 (Events sample_batch)\<rparr>) = None"
proof (rule InvalidationBatch_split)
  show "InvalidationBatch_Validate sample_batch = None"
    using sample_batch_valid by (simp only: InvalidationBatch_Validate_iff)
  show "(0::nat) < 1" by simp
  show "1 < length (Events sample_batch)" by (simp add: sample_batch_def)
qed

text \<open>A hello is accepted exactly when the node identity is set, the protocol range is valid, the
  cluster identity is not made of white space only, and it lists at most 4096 watermarks, each
  with a hub generation, no stream twice.\<close>

theorem Hello_accepted:
  "Hello_Validate m = None \<longleftrightarrow>
     Hello.NodeID m \<noteq> 0 \<and> ProtocolRange_Validate (Protocol m) = None \<and> \<not> all_space (ClusterID m)
     \<and> length (Subscriptions m) \<le> MaxSubscriptions
     \<and> 0 \<notin> StreamWatermark.HubGeneration ` set (Subscriptions m)
     \<and> distinct (map StreamWatermark.StreamID (Subscriptions m))"
  unfolding Hello_Validate_iff valid_Hello_def valid_cluster_id_def ProtocolRange_Validate_iff
  by (auto simp: image_iff)

text \<open>A replay-unavailable report is accepted exactly when the requested start lies strictly
  below the oldest retained event and the retained window ends at the stream head: the oldest
  event is at most one past the head as natural numbers, which is the empty window.\<close>

theorem ReplayUnavailable_accepted:
  "ReplayUnavailable_Validate m = None \<longleftrightarrow>
     ReplayUnavailable.HubGeneration m \<noteq> 0 \<and> RequestedFrom m \<noteq> 0
     \<and> unat (RequestedFrom m) < unat (OldestAvailable m)
     \<and> unat (OldestAvailable m) \<le> unat (ReplayUnavailable.StreamHead m) + 1"
  unfolding ReplayUnavailable_Validate_iff valid_ReplayUnavailable_def
  by (simp add: word_gt_0) (simp add: word_less_nat_alt)

end
