(* ===== verification/Pb.thy ===== *)
theory Pb
  imports Errors
begin

text \<open>
  \<^verbatim>\<open>api/gen/gossipcache/v1\<close>: the Go types of the protobuf messages, as the conversion code sees
  them. A message is a record of its exported fields, a pointer to a message is an option, a
  repeated message field a list of pointers, a oneof a datatype with one constructor per wrapper
  type. Enumerations are \<^verbatim>\<open>int32\<close>, so any 32-bit value can arrive. The bookkeeping fields of the
  protobuf runtime (message state, size cache, unknown fields) are left out: neither the conversion
  code nor the getters read them. The getters return the zero value on a nil receiver. A oneof
  interface holds a non-nil wrapper, as the protobuf decoder builds it.
\<close>

section \<open>Enumerations\<close>

type_synonym pb_Status = "32 word"

abbreviation Status_STATUS_OK :: pb_Status where "Status_STATUS_OK \<equiv> 0"

abbreviation Status_STATUS_NOT_FOUND :: pb_Status where "Status_STATUS_NOT_FOUND \<equiv> 1"

abbreviation Status_STATUS_NOT_CAUGHT_UP :: pb_Status where "Status_STATUS_NOT_CAUGHT_UP \<equiv> 2"

abbreviation Status_STATUS_ERR_DURABILITY_UNAVAILABLE :: pb_Status where "Status_STATUS_ERR_DURABILITY_UNAVAILABLE \<equiv> 3"

abbreviation Status_STATUS_ERR_BAD_GENERATION :: pb_Status where "Status_STATUS_ERR_BAD_GENERATION \<equiv> 4"

abbreviation Status_STATUS_ERR_RATE_LIMITED :: pb_Status where "Status_STATUS_ERR_RATE_LIMITED \<equiv> 5"

abbreviation Status_STATUS_ERR_INVALID_ARGUMENT :: pb_Status where "Status_STATUS_ERR_INVALID_ARGUMENT \<equiv> 6"

abbreviation Status_STATUS_ERR_WRITE_CONFIRM_TIMEOUT :: pb_Status where "Status_STATUS_ERR_WRITE_CONFIRM_TIMEOUT \<equiv> 7"

abbreviation Status_STATUS_ERR_INTERNAL :: pb_Status where "Status_STATUS_ERR_INTERNAL \<equiv> 8"

type_synonym pb_RecordKind = "32 word"

abbreviation RecordKind_RECORD_KIND_VALUE :: pb_RecordKind where "RecordKind_RECORD_KIND_VALUE \<equiv> 0"

abbreviation RecordKind_RECORD_KIND_TOMBSTONE :: pb_RecordKind where "RecordKind_RECORD_KIND_TOMBSTONE \<equiv> 1"

type_synonym pb_WriteMode = "32 word"

abbreviation WriteMode_WRITE_MODE_FAST :: pb_WriteMode where "WriteMode_WRITE_MODE_FAST \<equiv> 0"

abbreviation WriteMode_WRITE_MODE_SYNC :: pb_WriteMode where "WriteMode_WRITE_MODE_SYNC \<equiv> 1"

type_synonym pb_StorageProfile = "32 word"

abbreviation StorageProfile_STORAGE_PROFILE_MEMORY :: pb_StorageProfile where "StorageProfile_STORAGE_PROFILE_MEMORY \<equiv> 0"

abbreviation StorageProfile_STORAGE_PROFILE_DURABLE :: pb_StorageProfile where "StorageProfile_STORAGE_PROFILE_DURABLE \<equiv> 1"

type_synonym pb_ConfirmLevel = "32 word"

abbreviation ConfirmLevel_CONFIRM_LEVEL_INVALIDATE_APPLIED :: pb_ConfirmLevel where "ConfirmLevel_CONFIRM_LEVEL_INVALIDATE_APPLIED \<equiv> 0"

type_synonym pb_MutationOp = "32 word"

abbreviation MutationOp_MUTATION_OP_UNSPECIFIED :: pb_MutationOp where "MutationOp_MUTATION_OP_UNSPECIFIED \<equiv> 0"

abbreviation MutationOp_MUTATION_OP_SET :: pb_MutationOp where "MutationOp_MUTATION_OP_SET \<equiv> 1"

abbreviation MutationOp_MUTATION_OP_DELETE :: pb_MutationOp where "MutationOp_MUTATION_OP_DELETE \<equiv> 2"

section \<open>Messages of \<^verbatim>\<open>common.proto\<close>\<close>

record pb_VersionTag =
  PartitionId :: "32 word"
  Sequence :: "64 word"

definition pb_VersionTag_GetPartitionId :: "pb_VersionTag option \<Rightarrow> 32 word" where [getter_simps]:
  "pb_VersionTag_GetPartitionId x = (case x of None \<Rightarrow> 0 | Some m \<Rightarrow> pb_VersionTag.PartitionId m)"

definition pb_VersionTag_GetSequence :: "pb_VersionTag option \<Rightarrow> 64 word" where [getter_simps]:
  "pb_VersionTag_GetSequence x = (case x of None \<Rightarrow> 0 | Some m \<Rightarrow> pb_VersionTag.Sequence m)"

record 'b pb_MutationID =
  Id :: "'b"

definition pb_MutationID_GetId :: "bytes pb_MutationID option \<Rightarrow> bytes" where [getter_simps]:
  "pb_MutationID_GetId x = (case x of None \<Rightarrow> [] | Some m \<Rightarrow> pb_MutationID.Id m)"

section \<open>Messages of \<^verbatim>\<open>data.proto\<close>\<close>

record pb_HandshakeRequest =
  ProtocolVersion :: "32 word"
  MinSupportedVersion :: "32 word"
  ClusterId :: "string"
  ExpectedHubGeneration :: "64 word"

definition pb_HandshakeRequest_GetProtocolVersion :: "pb_HandshakeRequest option \<Rightarrow> 32 word" where [getter_simps]:
  "pb_HandshakeRequest_GetProtocolVersion x = (case x of None \<Rightarrow> 0 | Some m \<Rightarrow> pb_HandshakeRequest.ProtocolVersion m)"

definition pb_HandshakeRequest_GetMinSupportedVersion :: "pb_HandshakeRequest option \<Rightarrow> 32 word" where [getter_simps]:
  "pb_HandshakeRequest_GetMinSupportedVersion x = (case x of None \<Rightarrow> 0 | Some m \<Rightarrow> pb_HandshakeRequest.MinSupportedVersion m)"

definition pb_HandshakeRequest_GetClusterId :: "pb_HandshakeRequest option \<Rightarrow> string" where [getter_simps]:
  "pb_HandshakeRequest_GetClusterId x = (case x of None \<Rightarrow> '''' | Some m \<Rightarrow> pb_HandshakeRequest.ClusterId m)"

definition pb_HandshakeRequest_GetExpectedHubGeneration :: "pb_HandshakeRequest option \<Rightarrow> 64 word" where [getter_simps]:
  "pb_HandshakeRequest_GetExpectedHubGeneration x = (case x of None \<Rightarrow> 0 | Some m \<Rightarrow> pb_HandshakeRequest.ExpectedHubGeneration m)"

record pb_HandshakeResponse =
  ProtocolVersion :: "32 word"
  HubGeneration :: "64 word"
  PartitionCount :: "32 word"
  StorageProfile :: "pb_StorageProfile"
  DurableHealthy :: "bool"
  ClusterId :: "string"

definition pb_HandshakeResponse_GetProtocolVersion :: "pb_HandshakeResponse option \<Rightarrow> 32 word" where [getter_simps]:
  "pb_HandshakeResponse_GetProtocolVersion x = (case x of None \<Rightarrow> 0 | Some m \<Rightarrow> pb_HandshakeResponse.ProtocolVersion m)"

definition pb_HandshakeResponse_GetHubGeneration :: "pb_HandshakeResponse option \<Rightarrow> 64 word" where [getter_simps]:
  "pb_HandshakeResponse_GetHubGeneration x = (case x of None \<Rightarrow> 0 | Some m \<Rightarrow> pb_HandshakeResponse.HubGeneration m)"

definition pb_HandshakeResponse_GetPartitionCount :: "pb_HandshakeResponse option \<Rightarrow> 32 word" where [getter_simps]:
  "pb_HandshakeResponse_GetPartitionCount x = (case x of None \<Rightarrow> 0 | Some m \<Rightarrow> pb_HandshakeResponse.PartitionCount m)"

definition pb_HandshakeResponse_GetStorageProfile :: "pb_HandshakeResponse option \<Rightarrow> pb_StorageProfile" where [getter_simps]:
  "pb_HandshakeResponse_GetStorageProfile x = (case x of None \<Rightarrow> 0 | Some m \<Rightarrow> pb_HandshakeResponse.StorageProfile m)"

definition pb_HandshakeResponse_GetDurableHealthy :: "pb_HandshakeResponse option \<Rightarrow> bool" where [getter_simps]:
  "pb_HandshakeResponse_GetDurableHealthy x = (case x of None \<Rightarrow> False | Some m \<Rightarrow> pb_HandshakeResponse.DurableHealthy m)"

definition pb_HandshakeResponse_GetClusterId :: "pb_HandshakeResponse option \<Rightarrow> string" where [getter_simps]:
  "pb_HandshakeResponse_GetClusterId x = (case x of None \<Rightarrow> '''' | Some m \<Rightarrow> pb_HandshakeResponse.ClusterId m)"

record pb_HubStatusRequest =
  HubGeneration :: "64 word"

definition pb_HubStatusRequest_GetHubGeneration :: "pb_HubStatusRequest option \<Rightarrow> 64 word" where [getter_simps]:
  "pb_HubStatusRequest_GetHubGeneration x = (case x of None \<Rightarrow> 0 | Some m \<Rightarrow> pb_HubStatusRequest.HubGeneration m)"

record pb_HubStatusResponse =
  HubGeneration :: "64 word"
  StorageProfile :: "pb_StorageProfile"
  DurableHealthy :: "bool"
  Status :: "pb_Status"

definition pb_HubStatusResponse_GetHubGeneration :: "pb_HubStatusResponse option \<Rightarrow> 64 word" where [getter_simps]:
  "pb_HubStatusResponse_GetHubGeneration x = (case x of None \<Rightarrow> 0 | Some m \<Rightarrow> pb_HubStatusResponse.HubGeneration m)"

definition pb_HubStatusResponse_GetStorageProfile :: "pb_HubStatusResponse option \<Rightarrow> pb_StorageProfile" where [getter_simps]:
  "pb_HubStatusResponse_GetStorageProfile x = (case x of None \<Rightarrow> 0 | Some m \<Rightarrow> pb_HubStatusResponse.StorageProfile m)"

definition pb_HubStatusResponse_GetDurableHealthy :: "pb_HubStatusResponse option \<Rightarrow> bool" where [getter_simps]:
  "pb_HubStatusResponse_GetDurableHealthy x = (case x of None \<Rightarrow> False | Some m \<Rightarrow> pb_HubStatusResponse.DurableHealthy m)"

definition pb_HubStatusResponse_GetStatus :: "pb_HubStatusResponse option \<Rightarrow> pb_Status" where [getter_simps]:
  "pb_HubStatusResponse_GetStatus x = (case x of None \<Rightarrow> 0 | Some m \<Rightarrow> pb_HubStatusResponse.Status m)"

record 'b pb_GetRequest =
  Key :: "'b"
  MinVersion :: "pb_VersionTag option"
  HubGeneration :: "64 word"

definition pb_GetRequest_GetKey :: "bytes pb_GetRequest option \<Rightarrow> bytes" where [getter_simps]:
  "pb_GetRequest_GetKey x = (case x of None \<Rightarrow> [] | Some m \<Rightarrow> pb_GetRequest.Key m)"

definition pb_GetRequest_GetMinVersion :: "bytes pb_GetRequest option \<Rightarrow> pb_VersionTag option" where [getter_simps]:
  "pb_GetRequest_GetMinVersion x = (case x of None \<Rightarrow> None | Some m \<Rightarrow> pb_GetRequest.MinVersion m)"

definition pb_GetRequest_GetHubGeneration :: "bytes pb_GetRequest option \<Rightarrow> 64 word" where [getter_simps]:
  "pb_GetRequest_GetHubGeneration x = (case x of None \<Rightarrow> 0 | Some m \<Rightarrow> pb_GetRequest.HubGeneration m)"

record 'b pb_GetResponse =
  Status :: "pb_Status"
  HubGeneration :: "64 word"
  Version :: "pb_VersionTag option"
  Value :: "'b"
  TtlMillis :: "64 word"
  Kind :: "pb_RecordKind"

definition pb_GetResponse_GetStatus :: "bytes pb_GetResponse option \<Rightarrow> pb_Status" where [getter_simps]:
  "pb_GetResponse_GetStatus x = (case x of None \<Rightarrow> 0 | Some m \<Rightarrow> pb_GetResponse.Status m)"

definition pb_GetResponse_GetHubGeneration :: "bytes pb_GetResponse option \<Rightarrow> 64 word" where [getter_simps]:
  "pb_GetResponse_GetHubGeneration x = (case x of None \<Rightarrow> 0 | Some m \<Rightarrow> pb_GetResponse.HubGeneration m)"

definition pb_GetResponse_GetVersion :: "bytes pb_GetResponse option \<Rightarrow> pb_VersionTag option" where [getter_simps]:
  "pb_GetResponse_GetVersion x = (case x of None \<Rightarrow> None | Some m \<Rightarrow> pb_GetResponse.Version m)"

definition pb_GetResponse_GetValue :: "bytes pb_GetResponse option \<Rightarrow> bytes" where [getter_simps]:
  "pb_GetResponse_GetValue x = (case x of None \<Rightarrow> [] | Some m \<Rightarrow> pb_GetResponse.Value m)"

definition pb_GetResponse_GetTtlMillis :: "bytes pb_GetResponse option \<Rightarrow> 64 word" where [getter_simps]:
  "pb_GetResponse_GetTtlMillis x = (case x of None \<Rightarrow> 0 | Some m \<Rightarrow> pb_GetResponse.TtlMillis m)"

definition pb_GetResponse_GetKind :: "bytes pb_GetResponse option \<Rightarrow> pb_RecordKind" where [getter_simps]:
  "pb_GetResponse_GetKind x = (case x of None \<Rightarrow> 0 | Some m \<Rightarrow> pb_GetResponse.Kind m)"

record 'b pb_MutationRequest =
  Op :: "pb_MutationOp"
  Key :: "'b"
  Value :: "'b"
  TtlMillis :: "64 word"
  MutationId :: "'b pb_MutationID option"
  Mode :: "pb_WriteMode"
  W :: "32 word"
  Confirm :: "pb_ConfirmLevel"
  TimeoutMillis :: "32 word"
  HubGeneration :: "64 word"

definition pb_MutationRequest_GetOp :: "bytes pb_MutationRequest option \<Rightarrow> pb_MutationOp" where [getter_simps]:
  "pb_MutationRequest_GetOp x = (case x of None \<Rightarrow> 0 | Some m \<Rightarrow> pb_MutationRequest.Op m)"

definition pb_MutationRequest_GetKey :: "bytes pb_MutationRequest option \<Rightarrow> bytes" where [getter_simps]:
  "pb_MutationRequest_GetKey x = (case x of None \<Rightarrow> [] | Some m \<Rightarrow> pb_MutationRequest.Key m)"

definition pb_MutationRequest_GetValue :: "bytes pb_MutationRequest option \<Rightarrow> bytes" where [getter_simps]:
  "pb_MutationRequest_GetValue x = (case x of None \<Rightarrow> [] | Some m \<Rightarrow> pb_MutationRequest.Value m)"

definition pb_MutationRequest_GetTtlMillis :: "bytes pb_MutationRequest option \<Rightarrow> 64 word" where [getter_simps]:
  "pb_MutationRequest_GetTtlMillis x = (case x of None \<Rightarrow> 0 | Some m \<Rightarrow> pb_MutationRequest.TtlMillis m)"

definition pb_MutationRequest_GetMutationId :: "bytes pb_MutationRequest option \<Rightarrow> bytes pb_MutationID option" where [getter_simps]:
  "pb_MutationRequest_GetMutationId x = (case x of None \<Rightarrow> None | Some m \<Rightarrow> pb_MutationRequest.MutationId m)"

definition pb_MutationRequest_GetMode :: "bytes pb_MutationRequest option \<Rightarrow> pb_WriteMode" where [getter_simps]:
  "pb_MutationRequest_GetMode x = (case x of None \<Rightarrow> 0 | Some m \<Rightarrow> pb_MutationRequest.Mode m)"

definition pb_MutationRequest_GetW :: "bytes pb_MutationRequest option \<Rightarrow> 32 word" where [getter_simps]:
  "pb_MutationRequest_GetW x = (case x of None \<Rightarrow> 0 | Some m \<Rightarrow> pb_MutationRequest.W m)"

definition pb_MutationRequest_GetConfirm :: "bytes pb_MutationRequest option \<Rightarrow> pb_ConfirmLevel" where [getter_simps]:
  "pb_MutationRequest_GetConfirm x = (case x of None \<Rightarrow> 0 | Some m \<Rightarrow> pb_MutationRequest.Confirm m)"

definition pb_MutationRequest_GetTimeoutMillis :: "bytes pb_MutationRequest option \<Rightarrow> 32 word" where [getter_simps]:
  "pb_MutationRequest_GetTimeoutMillis x = (case x of None \<Rightarrow> 0 | Some m \<Rightarrow> pb_MutationRequest.TimeoutMillis m)"

definition pb_MutationRequest_GetHubGeneration :: "bytes pb_MutationRequest option \<Rightarrow> 64 word" where [getter_simps]:
  "pb_MutationRequest_GetHubGeneration x = (case x of None \<Rightarrow> 0 | Some m \<Rightarrow> pb_MutationRequest.HubGeneration m)"

record pb_MutationResponse =
  Status :: "pb_Status"
  HubGeneration :: "64 word"
  Version :: "pb_VersionTag option"

definition pb_MutationResponse_GetStatus :: "pb_MutationResponse option \<Rightarrow> pb_Status" where [getter_simps]:
  "pb_MutationResponse_GetStatus x = (case x of None \<Rightarrow> 0 | Some m \<Rightarrow> pb_MutationResponse.Status m)"

definition pb_MutationResponse_GetHubGeneration :: "pb_MutationResponse option \<Rightarrow> 64 word" where [getter_simps]:
  "pb_MutationResponse_GetHubGeneration x = (case x of None \<Rightarrow> 0 | Some m \<Rightarrow> pb_MutationResponse.HubGeneration m)"

definition pb_MutationResponse_GetVersion :: "pb_MutationResponse option \<Rightarrow> pb_VersionTag option" where [getter_simps]:
  "pb_MutationResponse_GetVersion x = (case x of None \<Rightarrow> None | Some m \<Rightarrow> pb_MutationResponse.Version m)"

section \<open>Messages of \<^verbatim>\<open>control.proto\<close>\<close>

record pb_StreamWatermark =
  StreamId :: "32 word"
  AppliedThrough :: "64 word"
  HubGeneration :: "64 word"

definition pb_StreamWatermark_GetStreamId :: "pb_StreamWatermark option \<Rightarrow> 32 word" where [getter_simps]:
  "pb_StreamWatermark_GetStreamId x = (case x of None \<Rightarrow> 0 | Some m \<Rightarrow> pb_StreamWatermark.StreamId m)"

definition pb_StreamWatermark_GetAppliedThrough :: "pb_StreamWatermark option \<Rightarrow> 64 word" where [getter_simps]:
  "pb_StreamWatermark_GetAppliedThrough x = (case x of None \<Rightarrow> 0 | Some m \<Rightarrow> pb_StreamWatermark.AppliedThrough m)"

definition pb_StreamWatermark_GetHubGeneration :: "pb_StreamWatermark option \<Rightarrow> 64 word" where [getter_simps]:
  "pb_StreamWatermark_GetHubGeneration x = (case x of None \<Rightarrow> 0 | Some m \<Rightarrow> pb_StreamWatermark.HubGeneration m)"

record pb_Hello =
  NodeId :: "64 word"
  ProtocolVersion :: "32 word"
  MinSupportedVersion :: "32 word"
  Subscriptions :: "pb_StreamWatermark option list"
  ClusterId :: "string"
  ExpectedHubGeneration :: "64 word"

definition pb_Hello_GetNodeId :: "pb_Hello option \<Rightarrow> 64 word" where [getter_simps]:
  "pb_Hello_GetNodeId x = (case x of None \<Rightarrow> 0 | Some m \<Rightarrow> pb_Hello.NodeId m)"

definition pb_Hello_GetProtocolVersion :: "pb_Hello option \<Rightarrow> 32 word" where [getter_simps]:
  "pb_Hello_GetProtocolVersion x = (case x of None \<Rightarrow> 0 | Some m \<Rightarrow> pb_Hello.ProtocolVersion m)"

definition pb_Hello_GetMinSupportedVersion :: "pb_Hello option \<Rightarrow> 32 word" where [getter_simps]:
  "pb_Hello_GetMinSupportedVersion x = (case x of None \<Rightarrow> 0 | Some m \<Rightarrow> pb_Hello.MinSupportedVersion m)"

definition pb_Hello_GetSubscriptions :: "pb_Hello option \<Rightarrow> pb_StreamWatermark option list" where [getter_simps]:
  "pb_Hello_GetSubscriptions x = (case x of None \<Rightarrow> [] | Some m \<Rightarrow> pb_Hello.Subscriptions m)"

definition pb_Hello_GetClusterId :: "pb_Hello option \<Rightarrow> string" where [getter_simps]:
  "pb_Hello_GetClusterId x = (case x of None \<Rightarrow> '''' | Some m \<Rightarrow> pb_Hello.ClusterId m)"

definition pb_Hello_GetExpectedHubGeneration :: "pb_Hello option \<Rightarrow> 64 word" where [getter_simps]:
  "pb_Hello_GetExpectedHubGeneration x = (case x of None \<Rightarrow> 0 | Some m \<Rightarrow> pb_Hello.ExpectedHubGeneration m)"

record pb_Subscribe =
  HubGeneration :: "64 word"
  StreamIds :: "32 word list"

definition pb_Subscribe_GetHubGeneration :: "pb_Subscribe option \<Rightarrow> 64 word" where [getter_simps]:
  "pb_Subscribe_GetHubGeneration x = (case x of None \<Rightarrow> 0 | Some m \<Rightarrow> pb_Subscribe.HubGeneration m)"

definition pb_Subscribe_GetStreamIds :: "pb_Subscribe option \<Rightarrow> 32 word list" where [getter_simps]:
  "pb_Subscribe_GetStreamIds x = (case x of None \<Rightarrow> [] | Some m \<Rightarrow> pb_Subscribe.StreamIds m)"

record pb_StreamAcknowledgement =
  StreamId :: "32 word"
  AppliedThrough :: "64 word"

definition pb_StreamAcknowledgement_GetStreamId :: "pb_StreamAcknowledgement option \<Rightarrow> 32 word" where [getter_simps]:
  "pb_StreamAcknowledgement_GetStreamId x = (case x of None \<Rightarrow> 0 | Some m \<Rightarrow> pb_StreamAcknowledgement.StreamId m)"

definition pb_StreamAcknowledgement_GetAppliedThrough :: "pb_StreamAcknowledgement option \<Rightarrow> 64 word" where [getter_simps]:
  "pb_StreamAcknowledgement_GetAppliedThrough x = (case x of None \<Rightarrow> 0 | Some m \<Rightarrow> pb_StreamAcknowledgement.AppliedThrough m)"

record pb_ReplayRequest =
  StreamId :: "32 word"
  FromSequence :: "64 word"
  ToSequence :: "64 word"

definition pb_ReplayRequest_GetStreamId :: "pb_ReplayRequest option \<Rightarrow> 32 word" where [getter_simps]:
  "pb_ReplayRequest_GetStreamId x = (case x of None \<Rightarrow> 0 | Some m \<Rightarrow> pb_ReplayRequest.StreamId m)"

definition pb_ReplayRequest_GetFromSequence :: "pb_ReplayRequest option \<Rightarrow> 64 word" where [getter_simps]:
  "pb_ReplayRequest_GetFromSequence x = (case x of None \<Rightarrow> 0 | Some m \<Rightarrow> pb_ReplayRequest.FromSequence m)"

definition pb_ReplayRequest_GetToSequence :: "pb_ReplayRequest option \<Rightarrow> 64 word" where [getter_simps]:
  "pb_ReplayRequest_GetToSequence x = (case x of None \<Rightarrow> 0 | Some m \<Rightarrow> pb_ReplayRequest.ToSequence m)"

record pb_InvalidateConfirm =
  StreamId :: "32 word"
  StreamSequence :: "64 word"
  NodeId :: "64 word"

definition pb_InvalidateConfirm_GetStreamId :: "pb_InvalidateConfirm option \<Rightarrow> 32 word" where [getter_simps]:
  "pb_InvalidateConfirm_GetStreamId x = (case x of None \<Rightarrow> 0 | Some m \<Rightarrow> pb_InvalidateConfirm.StreamId m)"

definition pb_InvalidateConfirm_GetStreamSequence :: "pb_InvalidateConfirm option \<Rightarrow> 64 word" where [getter_simps]:
  "pb_InvalidateConfirm_GetStreamSequence x = (case x of None \<Rightarrow> 0 | Some m \<Rightarrow> pb_InvalidateConfirm.StreamSequence m)"

definition pb_InvalidateConfirm_GetNodeId :: "pb_InvalidateConfirm option \<Rightarrow> 64 word" where [getter_simps]:
  "pb_InvalidateConfirm_GetNodeId x = (case x of None \<Rightarrow> 0 | Some m \<Rightarrow> pb_InvalidateConfirm.NodeId m)"

datatype pb_ControlClientMessage_Body =
    ControlClientMessage_Hello "pb_Hello option"
  | ControlClientMessage_Subscribe "pb_Subscribe option"
  | ControlClientMessage_StreamAcknowledgement "pb_StreamAcknowledgement option"
  | ControlClientMessage_ReplayRequest "pb_ReplayRequest option"
  | ControlClientMessage_InvalidateConfirm "pb_InvalidateConfirm option"

record pb_ControlClientMessage =
  Body :: "pb_ControlClientMessage_Body option"

definition pb_ControlClientMessage_GetBody :: "pb_ControlClientMessage option \<Rightarrow> pb_ControlClientMessage_Body option" where [getter_simps]:
  "pb_ControlClientMessage_GetBody x = (case x of None \<Rightarrow> None | Some m \<Rightarrow> pb_ControlClientMessage.Body m)"

definition pb_ControlClientMessage_GetHello :: "pb_ControlClientMessage option \<Rightarrow> pb_Hello option" where [getter_simps]:
  "pb_ControlClientMessage_GetHello x = (case x of None \<Rightarrow> None | Some m \<Rightarrow>
     (case pb_ControlClientMessage.Body m of Some (ControlClientMessage_Hello y) \<Rightarrow> y | _ \<Rightarrow> None))"

definition pb_ControlClientMessage_GetSubscribe :: "pb_ControlClientMessage option \<Rightarrow> pb_Subscribe option" where [getter_simps]:
  "pb_ControlClientMessage_GetSubscribe x = (case x of None \<Rightarrow> None | Some m \<Rightarrow>
     (case pb_ControlClientMessage.Body m of Some (ControlClientMessage_Subscribe y) \<Rightarrow> y | _ \<Rightarrow> None))"

definition pb_ControlClientMessage_GetStreamAcknowledgement :: "pb_ControlClientMessage option \<Rightarrow> pb_StreamAcknowledgement option" where [getter_simps]:
  "pb_ControlClientMessage_GetStreamAcknowledgement x = (case x of None \<Rightarrow> None | Some m \<Rightarrow>
     (case pb_ControlClientMessage.Body m of Some (ControlClientMessage_StreamAcknowledgement y) \<Rightarrow> y | _ \<Rightarrow> None))"

definition pb_ControlClientMessage_GetReplayRequest :: "pb_ControlClientMessage option \<Rightarrow> pb_ReplayRequest option" where [getter_simps]:
  "pb_ControlClientMessage_GetReplayRequest x = (case x of None \<Rightarrow> None | Some m \<Rightarrow>
     (case pb_ControlClientMessage.Body m of Some (ControlClientMessage_ReplayRequest y) \<Rightarrow> y | _ \<Rightarrow> None))"

definition pb_ControlClientMessage_GetInvalidateConfirm :: "pb_ControlClientMessage option \<Rightarrow> pb_InvalidateConfirm option" where [getter_simps]:
  "pb_ControlClientMessage_GetInvalidateConfirm x = (case x of None \<Rightarrow> None | Some m \<Rightarrow>
     (case pb_ControlClientMessage.Body m of Some (ControlClientMessage_InvalidateConfirm y) \<Rightarrow> y | _ \<Rightarrow> None))"

record 'b pb_InvalidationEvent =
  StreamSequence :: "64 word"
  Key :: "'b"
  Version :: "pb_VersionTag option"
  Kind :: "pb_RecordKind"
  MutationId :: "'b pb_MutationID option"

definition pb_InvalidationEvent_GetStreamSequence :: "bytes pb_InvalidationEvent option \<Rightarrow> 64 word" where [getter_simps]:
  "pb_InvalidationEvent_GetStreamSequence x = (case x of None \<Rightarrow> 0 | Some m \<Rightarrow> pb_InvalidationEvent.StreamSequence m)"

definition pb_InvalidationEvent_GetKey :: "bytes pb_InvalidationEvent option \<Rightarrow> bytes" where [getter_simps]:
  "pb_InvalidationEvent_GetKey x = (case x of None \<Rightarrow> [] | Some m \<Rightarrow> pb_InvalidationEvent.Key m)"

definition pb_InvalidationEvent_GetVersion :: "bytes pb_InvalidationEvent option \<Rightarrow> pb_VersionTag option" where [getter_simps]:
  "pb_InvalidationEvent_GetVersion x = (case x of None \<Rightarrow> None | Some m \<Rightarrow> pb_InvalidationEvent.Version m)"

definition pb_InvalidationEvent_GetKind :: "bytes pb_InvalidationEvent option \<Rightarrow> pb_RecordKind" where [getter_simps]:
  "pb_InvalidationEvent_GetKind x = (case x of None \<Rightarrow> 0 | Some m \<Rightarrow> pb_InvalidationEvent.Kind m)"

definition pb_InvalidationEvent_GetMutationId :: "bytes pb_InvalidationEvent option \<Rightarrow> bytes pb_MutationID option" where [getter_simps]:
  "pb_InvalidationEvent_GetMutationId x = (case x of None \<Rightarrow> None | Some m \<Rightarrow> pb_InvalidationEvent.MutationId m)"

record 'b pb_InvalidationBatch =
  StreamId :: "32 word"
  HubGeneration :: "64 word"
  Events :: "'b pb_InvalidationEvent option list"

definition pb_InvalidationBatch_GetStreamId :: "bytes pb_InvalidationBatch option \<Rightarrow> 32 word" where [getter_simps]:
  "pb_InvalidationBatch_GetStreamId x = (case x of None \<Rightarrow> 0 | Some m \<Rightarrow> pb_InvalidationBatch.StreamId m)"

definition pb_InvalidationBatch_GetHubGeneration :: "bytes pb_InvalidationBatch option \<Rightarrow> 64 word" where [getter_simps]:
  "pb_InvalidationBatch_GetHubGeneration x = (case x of None \<Rightarrow> 0 | Some m \<Rightarrow> pb_InvalidationBatch.HubGeneration m)"

definition pb_InvalidationBatch_GetEvents :: "bytes pb_InvalidationBatch option \<Rightarrow> bytes pb_InvalidationEvent option list" where [getter_simps]:
  "pb_InvalidationBatch_GetEvents x = (case x of None \<Rightarrow> [] | Some m \<Rightarrow> pb_InvalidationBatch.Events m)"

record pb_StreamCheckpoint =
  StreamId :: "32 word"
  HubGeneration :: "64 word"
  StreamHead :: "64 word"

definition pb_StreamCheckpoint_GetStreamId :: "pb_StreamCheckpoint option \<Rightarrow> 32 word" where [getter_simps]:
  "pb_StreamCheckpoint_GetStreamId x = (case x of None \<Rightarrow> 0 | Some m \<Rightarrow> pb_StreamCheckpoint.StreamId m)"

definition pb_StreamCheckpoint_GetHubGeneration :: "pb_StreamCheckpoint option \<Rightarrow> 64 word" where [getter_simps]:
  "pb_StreamCheckpoint_GetHubGeneration x = (case x of None \<Rightarrow> 0 | Some m \<Rightarrow> pb_StreamCheckpoint.HubGeneration m)"

definition pb_StreamCheckpoint_GetStreamHead :: "pb_StreamCheckpoint option \<Rightarrow> 64 word" where [getter_simps]:
  "pb_StreamCheckpoint_GetStreamHead x = (case x of None \<Rightarrow> 0 | Some m \<Rightarrow> pb_StreamCheckpoint.StreamHead m)"

record pb_ReplayUnavailable =
  StreamId :: "32 word"
  HubGeneration :: "64 word"
  RequestedFrom :: "64 word"
  OldestAvailable :: "64 word"
  StreamHead :: "64 word"

definition pb_ReplayUnavailable_GetStreamId :: "pb_ReplayUnavailable option \<Rightarrow> 32 word" where [getter_simps]:
  "pb_ReplayUnavailable_GetStreamId x = (case x of None \<Rightarrow> 0 | Some m \<Rightarrow> pb_ReplayUnavailable.StreamId m)"

definition pb_ReplayUnavailable_GetHubGeneration :: "pb_ReplayUnavailable option \<Rightarrow> 64 word" where [getter_simps]:
  "pb_ReplayUnavailable_GetHubGeneration x = (case x of None \<Rightarrow> 0 | Some m \<Rightarrow> pb_ReplayUnavailable.HubGeneration m)"

definition pb_ReplayUnavailable_GetRequestedFrom :: "pb_ReplayUnavailable option \<Rightarrow> 64 word" where [getter_simps]:
  "pb_ReplayUnavailable_GetRequestedFrom x = (case x of None \<Rightarrow> 0 | Some m \<Rightarrow> pb_ReplayUnavailable.RequestedFrom m)"

definition pb_ReplayUnavailable_GetOldestAvailable :: "pb_ReplayUnavailable option \<Rightarrow> 64 word" where [getter_simps]:
  "pb_ReplayUnavailable_GetOldestAvailable x = (case x of None \<Rightarrow> 0 | Some m \<Rightarrow> pb_ReplayUnavailable.OldestAvailable m)"

definition pb_ReplayUnavailable_GetStreamHead :: "pb_ReplayUnavailable option \<Rightarrow> 64 word" where [getter_simps]:
  "pb_ReplayUnavailable_GetStreamHead x = (case x of None \<Rightarrow> 0 | Some m \<Rightarrow> pb_ReplayUnavailable.StreamHead m)"

record pb_ControlError =
  Status :: "pb_Status"
  Detail :: "string"

definition pb_ControlError_GetStatus :: "pb_ControlError option \<Rightarrow> pb_Status" where [getter_simps]:
  "pb_ControlError_GetStatus x = (case x of None \<Rightarrow> 0 | Some m \<Rightarrow> pb_ControlError.Status m)"

definition pb_ControlError_GetDetail :: "pb_ControlError option \<Rightarrow> string" where [getter_simps]:
  "pb_ControlError_GetDetail x = (case x of None \<Rightarrow> '''' | Some m \<Rightarrow> pb_ControlError.Detail m)"

datatype 'b pb_ControlServerMessage_Body =
    ControlServerMessage_InvalidationBatch "'b pb_InvalidationBatch option"
  | ControlServerMessage_StreamCheckpoint "pb_StreamCheckpoint option"
  | ControlServerMessage_ReplayUnavailable "pb_ReplayUnavailable option"
  | ControlServerMessage_ControlError "pb_ControlError option"

record 'b pb_ControlServerMessage =
  Body :: "'b pb_ControlServerMessage_Body option"

definition pb_ControlServerMessage_GetBody :: "bytes pb_ControlServerMessage option \<Rightarrow> bytes pb_ControlServerMessage_Body option" where [getter_simps]:
  "pb_ControlServerMessage_GetBody x = (case x of None \<Rightarrow> None | Some m \<Rightarrow> pb_ControlServerMessage.Body m)"

definition pb_ControlServerMessage_GetInvalidationBatch :: "bytes pb_ControlServerMessage option \<Rightarrow> bytes pb_InvalidationBatch option" where [getter_simps]:
  "pb_ControlServerMessage_GetInvalidationBatch x = (case x of None \<Rightarrow> None | Some m \<Rightarrow>
     (case pb_ControlServerMessage.Body m of Some (ControlServerMessage_InvalidationBatch y) \<Rightarrow> y | _ \<Rightarrow> None))"

definition pb_ControlServerMessage_GetStreamCheckpoint :: "bytes pb_ControlServerMessage option \<Rightarrow> pb_StreamCheckpoint option" where [getter_simps]:
  "pb_ControlServerMessage_GetStreamCheckpoint x = (case x of None \<Rightarrow> None | Some m \<Rightarrow>
     (case pb_ControlServerMessage.Body m of Some (ControlServerMessage_StreamCheckpoint y) \<Rightarrow> y | _ \<Rightarrow> None))"

definition pb_ControlServerMessage_GetReplayUnavailable :: "bytes pb_ControlServerMessage option \<Rightarrow> pb_ReplayUnavailable option" where [getter_simps]:
  "pb_ControlServerMessage_GetReplayUnavailable x = (case x of None \<Rightarrow> None | Some m \<Rightarrow>
     (case pb_ControlServerMessage.Body m of Some (ControlServerMessage_ReplayUnavailable y) \<Rightarrow> y | _ \<Rightarrow> None))"

definition pb_ControlServerMessage_GetControlError :: "bytes pb_ControlServerMessage option \<Rightarrow> pb_ControlError option" where [getter_simps]:
  "pb_ControlServerMessage_GetControlError x = (case x of None \<Rightarrow> None | Some m \<Rightarrow>
     (case pb_ControlServerMessage.Body m of Some (ControlServerMessage_ControlError y) \<Rightarrow> y | _ \<Rightarrow> None))"

end
