(* ===== verification/Control_Convert.thy ===== *)
theory Control_Convert
  imports Control_Types Pb
begin

text \<open>
  \<^verbatim>\<open>internal/control/convert.go\<close>: conversions between the control messages and their protobuf
  messages, and the envelopes of the bidirectional stream. A \<^verbatim>\<open>Proto*\<close> function returns a fresh
  non-nil message, modelled as the message itself; a \<^verbatim>\<open>FromProto*\<close> function takes a pointer that
  may be nil and returns the domain value beside an error. An \<^verbatim>\<open>any\<close> parameter is a value of
  \<open>control_any\<close>, one constructor per dynamic type the source distinguishes.

  Every message type is interpreted as a codec, every enumeration as a closed enumeration.
\<close>

section \<open>Domain to protobuf\<close>

definition ProtoStreamWatermark :: "StreamWatermark \<Rightarrow> pb_StreamWatermark" where [convert_defs]:
  "ProtoStreamWatermark s = \<lparr>pb_StreamWatermark.StreamId = StreamWatermark.StreamID s,
     AppliedThrough = StreamWatermark.AppliedThrough s,
     HubGeneration = StreamWatermark.HubGeneration s\<rparr>"

definition ProtoHello :: "hello \<Rightarrow> pb_Hello" where [convert_defs]:
  "ProtoHello m = \<lparr>pb_Hello.NodeId = Hello.NodeID m,
     ProtocolVersion = ucast (ProtocolRange.Version (Hello.Protocol m)),
     MinSupportedVersion = ucast (ProtocolRange.MinSupported (Hello.Protocol m)),
     Subscriptions = fold (\<lambda>s out. out @ [Some (ProtoStreamWatermark s)]) (Hello.Subscriptions m) [],
     ClusterId = Hello.ClusterID m,
     ExpectedHubGeneration = Hello.ExpectedHubGeneration m\<rparr>"

definition ProtoControlError :: "ControlError \<Rightarrow> pb_ControlError" where [convert_defs]:
  "ProtoControlError m = \<lparr>pb_ControlError.Status = ucast (ControlError.Status m),
     Detail = ControlError.Detail m\<rparr>"

definition ProtoSubscribe :: "subscribe \<Rightarrow> pb_Subscribe" where [convert_defs]:
  "ProtoSubscribe m = \<lparr>pb_Subscribe.HubGeneration = Subscribe.HubGeneration m,
     StreamIds = [] @ Subscribe.StreamIDs m\<rparr>"

definition ProtoInvalidationEvent :: "event \<Rightarrow> bytes pb_InvalidationEvent" where [convert_defs]:
  "ProtoInvalidationEvent e = \<lparr>pb_InvalidationEvent.StreamSequence = InvalidationEvent.StreamSequence e,
     Key = InvalidationEvent.Key e,
     Version = Some \<lparr>pb_VersionTag.PartitionId = PartitionID (InvalidationEvent.Version e),
       Sequence = VersionTag.Sequence (InvalidationEvent.Version e)\<rparr>,
     Kind = ucast (InvalidationEvent.Kind e),
     MutationId = Some \<lparr>pb_MutationID.Id = id_bytes (InvalidationEvent.MutationID e)\<rparr>\<rparr>"

definition ProtoInvalidationBatch :: "batch \<Rightarrow> bytes pb_InvalidationBatch" where [convert_defs]:
  "ProtoInvalidationBatch m = \<lparr>pb_InvalidationBatch.StreamId = InvalidationBatch.StreamID m,
     HubGeneration = InvalidationBatch.HubGeneration m,
     Events = fold (\<lambda>e out. out @ [Some (ProtoInvalidationEvent e)]) (InvalidationBatch.Events m) []\<rparr>"

definition ProtoStreamAcknowledgement :: "StreamAcknowledgement \<Rightarrow> pb_StreamAcknowledgement" where [convert_defs]:
  "ProtoStreamAcknowledgement m =
     \<lparr>pb_StreamAcknowledgement.StreamId = StreamAcknowledgement.StreamID m,
      AppliedThrough = StreamAcknowledgement.AppliedThrough m\<rparr>"

definition ProtoStreamCheckpoint :: "StreamCheckpoint \<Rightarrow> pb_StreamCheckpoint" where [convert_defs]:
  "ProtoStreamCheckpoint m = \<lparr>pb_StreamCheckpoint.StreamId = StreamCheckpoint.StreamID m,
     HubGeneration = StreamCheckpoint.HubGeneration m,
     StreamHead = StreamCheckpoint.StreamHead m\<rparr>"

definition ProtoReplayRequest :: "ReplayRequest \<Rightarrow> pb_ReplayRequest" where [convert_defs]:
  "ProtoReplayRequest m = \<lparr>pb_ReplayRequest.StreamId = ReplayRequest.StreamID m,
     FromSequence = ReplayRequest.FromSequence m, ToSequence = ReplayRequest.ToSequence m\<rparr>"

definition ProtoReplayUnavailable :: "ReplayUnavailable \<Rightarrow> pb_ReplayUnavailable" where [convert_defs]:
  "ProtoReplayUnavailable m = \<lparr>pb_ReplayUnavailable.StreamId = ReplayUnavailable.StreamID m,
     HubGeneration = ReplayUnavailable.HubGeneration m,
     RequestedFrom = ReplayUnavailable.RequestedFrom m,
     OldestAvailable = ReplayUnavailable.OldestAvailable m,
     StreamHead = ReplayUnavailable.StreamHead m\<rparr>"

definition ProtoInvalidateConfirm :: "InvalidateConfirm \<Rightarrow> pb_InvalidateConfirm" where [convert_defs]:
  "ProtoInvalidateConfirm m = \<lparr>pb_InvalidateConfirm.StreamId = InvalidateConfirm.StreamID m,
     StreamSequence = InvalidateConfirm.StreamSequence m, NodeId = InvalidateConfirm.NodeID m\<rparr>"

section \<open>Scalars from protobuf\<close>

definition mutationIDFromProto :: "bytes pb_MutationID option \<Rightarrow> MutationID result" where
  "mutationIDFromProto m =
     (if m = None then (zeroMutationID, Some (Err (Wire_err ErrMutationIDRequired)))
      else let raw = pb_MutationID_GetId m in
        if length raw = 0 then (zeroMutationID, Some (Err (Wire_err ErrMutationIDRequired)))
        else if length raw \<noteq> 16
        then (zeroMutationID, Some (Errorf ''mutation id must be %d bytes, got %d''
                [FInt 16, FInt (int (length raw))] None))
        else (copyMutationID raw, None))"

definition recordKindFromProto :: "pb_RecordKind \<Rightarrow> RecordKind result" where
  "recordKindFromProto k =
     (if k = RecordKind_RECORD_KIND_VALUE then (RecordValue, None)
      else if k = RecordKind_RECORD_KIND_TOMBSTONE then (RecordTombstone, None)
      else (0, Some (wrap (Control_err control_err.ErrInvalidRecordKind) '': record kind %v'' [FInt (sint k)])))"

definition statusFromProto :: "pb_Status \<Rightarrow> Status result" where
  "statusFromProto s =
     (if s = Status_STATUS_OK then (StatusOK, None)
      else if s = Status_STATUS_NOT_FOUND then (StatusNotFound, None)
      else if s = Status_STATUS_NOT_CAUGHT_UP then (StatusNotCaughtUp, None)
      else if s = Status_STATUS_ERR_DURABILITY_UNAVAILABLE then (StatusErrDurabilityUnavailable, None)
      else if s = Status_STATUS_ERR_BAD_GENERATION then (StatusErrBadGeneration, None)
      else if s = Status_STATUS_ERR_RATE_LIMITED then (StatusErrRateLimited, None)
      else if s = Status_STATUS_ERR_INVALID_ARGUMENT then (StatusErrInvalidArgument, None)
      else if s = Status_STATUS_ERR_WRITE_CONFIRM_TIMEOUT then (StatusErrWriteConfirmTimeout, None)
      else if s = Status_STATUS_ERR_INTERNAL then (StatusErrInternal, None)
      else (0, Some (wrap (Control_err ErrInvalidControlStatus) '': %v'' [FInt (sint s)])))"

definition control_protocolVersionFromUint32 :: "32 word \<Rightarrow> ProtocolVersion result" where
  "control_protocolVersionFromUint32 v =
     (if v > 65535
      then (0, Some (wrap (Wire_err ErrInvalidProtocolRange) '': protocol version %d exceeds uint16''
              [FInt (uint v)]))
      else (ucast v, None))"

section \<open>Protobuf to domain\<close>

text \<open>Zero values of the message types, returned beside an early error.\<close>

definition zeroHello :: hello where
  "zeroHello = \<lparr>Hello.NodeID = 0, Protocol = \<lparr>ProtocolRange.Version = 0, MinSupported = 0\<rparr>, Subscriptions = [],
     ClusterID = '''', ExpectedHubGeneration = 0\<rparr>"

definition zeroSubscribe :: subscribe where
  "zeroSubscribe = \<lparr>Subscribe.HubGeneration = 0, StreamIDs = []\<rparr>"

definition zeroInvalidationBatch :: batch where
  "zeroInvalidationBatch = \<lparr>InvalidationBatch.StreamID = 0, HubGeneration = 0, Events = []\<rparr>"

definition zeroStreamAcknowledgement :: StreamAcknowledgement where
  "zeroStreamAcknowledgement = \<lparr>StreamAcknowledgement.StreamID = 0, AppliedThrough = 0\<rparr>"

definition zeroStreamCheckpoint :: StreamCheckpoint where
  "zeroStreamCheckpoint = \<lparr>StreamCheckpoint.StreamID = 0, HubGeneration = 0, StreamHead = 0\<rparr>"

definition zeroReplayRequest :: ReplayRequest where
  "zeroReplayRequest = \<lparr>ReplayRequest.StreamID = 0, FromSequence = 0, ToSequence = 0\<rparr>"

definition zeroReplayUnavailable :: ReplayUnavailable where
  "zeroReplayUnavailable = \<lparr>ReplayUnavailable.StreamID = 0, HubGeneration = 0, RequestedFrom = 0,
     OldestAvailable = 0, StreamHead = 0\<rparr>"

definition zeroInvalidateConfirm :: InvalidateConfirm where
  "zeroInvalidateConfirm = \<lparr>InvalidateConfirm.StreamID = 0, StreamSequence = 0, NodeID = 0\<rparr>"

definition zeroControlError :: ControlError where
  "zeroControlError = \<lparr>ControlError.Status = 0, Detail = ''''\<rparr>"

text \<open>\<open>invalid_message f args\<close> is \<^verbatim>\<open>fmt.Errorf("%w" + f, ErrInvalidMessage, args...)\<close>.\<close>

abbreviation invalid_message :: "string \<Rightarrow> fmt_arg list \<Rightarrow> error option" where
  "invalid_message f args \<equiv> Some (wrap (Control_err ErrInvalidMessage) f args)"

text \<open>The loop of \<^verbatim>\<open>FromProtoHello\<close> over the watermark pointers.\<close>

fun watermarks_from :: "pb_StreamWatermark option list \<Rightarrow> StreamWatermark list \<Rightarrow> StreamWatermark list result" where
  "watermarks_from [] out = (out, None)"
| "watermarks_from (s # rest) out =
     (if s = None then ([], invalid_message '': nil subscription watermark'' [])
      else watermarks_from rest
        (out @ [\<lparr>StreamWatermark.StreamID = pb_StreamWatermark_GetStreamId s,
                 AppliedThrough = pb_StreamWatermark_GetAppliedThrough s,
                 HubGeneration = pb_StreamWatermark_GetHubGeneration s\<rparr>]))"

definition FromProtoHello :: "pb_Hello option \<Rightarrow> hello result" where
  "FromProtoHello m =
     (if m = None then (zeroHello, invalid_message '': nil hello'' []) else
      on_ok zeroHello (control_protocolVersionFromUint32 (pb_Hello_GetProtocolVersion m)) (\<lambda>version.
      on_ok zeroHello (control_protocolVersionFromUint32 (pb_Hello_GetMinSupportedVersion m)) (\<lambda>minimum.
      on_ok zeroHello (watermarks_from (pb_Hello_GetSubscriptions m) []) (\<lambda>subscriptions.
      checked Hello_Validate
        \<lparr>Hello.NodeID = pb_Hello_GetNodeId m,
         Protocol = \<lparr>ProtocolRange.Version = version, MinSupported = minimum\<rparr>,
         Subscriptions = subscriptions,
         ClusterID = pb_Hello_GetClusterId m,
         ExpectedHubGeneration = pb_Hello_GetExpectedHubGeneration m\<rparr>))))"

definition FromProtoSubscribe :: "pb_Subscribe option \<Rightarrow> subscribe result" where
  "FromProtoSubscribe m =
     (if m = None then (zeroSubscribe, invalid_message '': nil subscribe'' []) else
      checked Subscribe_Validate
        \<lparr>Subscribe.HubGeneration = pb_Subscribe_GetHubGeneration m,
         StreamIDs = [] @ pb_Subscribe_GetStreamIds m\<rparr>)"

text \<open>The loop of \<^verbatim>\<open>FromProtoInvalidationBatch\<close>: \<open>i\<close> is the index, \<open>out\<close> the events appended so far.\<close>

fun events_from :: "nat \<Rightarrow> bytes pb_InvalidationEvent option list \<Rightarrow> event list \<Rightarrow> event list result" where
  "events_from i [] out = (out, None)"
| "events_from i (e # rest) out =
     (if e = None then ([], invalid_message '': nil event at index %d'' [FInt (int i)]) else
      on_ok [] (mutationIDFromProto (pb_InvalidationEvent_GetMutationId e)) (\<lambda>id.
      on_ok [] (recordKindFromProto (pb_InvalidationEvent_GetKind e)) (\<lambda>kind.
      let version = (case pb_InvalidationEvent_GetVersion e of
                       None \<Rightarrow> zeroVersionTag
                     | v \<Rightarrow> \<lparr>PartitionID = pb_VersionTag_GetPartitionId v, Sequence = pb_VersionTag_GetSequence v\<rparr>)
      in events_from (i + 1) rest
           (out @ [\<lparr>InvalidationEvent.StreamSequence = pb_InvalidationEvent_GetStreamSequence e,
                    Key = pb_InvalidationEvent_GetKey e,
                    Version = version, Kind = kind, MutationID = id\<rparr>]))))"

definition FromProtoInvalidationBatch :: "bytes pb_InvalidationBatch option \<Rightarrow> batch result" where
  "FromProtoInvalidationBatch m =
     (if m = None then (zeroInvalidationBatch, invalid_message '': nil invalidation batch'' []) else
      on_ok zeroInvalidationBatch (events_from 0 (pb_InvalidationBatch_GetEvents m) []) (\<lambda>events.
      checked InvalidationBatch_Validate
        \<lparr>InvalidationBatch.StreamID = pb_InvalidationBatch_GetStreamId m,
         HubGeneration = pb_InvalidationBatch_GetHubGeneration m,
         Events = events\<rparr>))"

definition FromProtoStreamAcknowledgement :: "pb_StreamAcknowledgement option \<Rightarrow> StreamAcknowledgement result" where
  "FromProtoStreamAcknowledgement m =
     (if m = None then (zeroStreamAcknowledgement, invalid_message '': nil stream acknowledgement'' []) else
      checked StreamAcknowledgement_Validate
        \<lparr>StreamAcknowledgement.StreamID = pb_StreamAcknowledgement_GetStreamId m,
         AppliedThrough = pb_StreamAcknowledgement_GetAppliedThrough m\<rparr>)"

definition FromProtoStreamCheckpoint :: "pb_StreamCheckpoint option \<Rightarrow> StreamCheckpoint result" where
  "FromProtoStreamCheckpoint m =
     (if m = None then (zeroStreamCheckpoint, invalid_message '': nil stream checkpoint'' []) else
      checked StreamCheckpoint_Validate
        \<lparr>StreamCheckpoint.StreamID = pb_StreamCheckpoint_GetStreamId m,
         HubGeneration = pb_StreamCheckpoint_GetHubGeneration m,
         StreamHead = pb_StreamCheckpoint_GetStreamHead m\<rparr>)"

definition FromProtoReplayRequest :: "pb_ReplayRequest option \<Rightarrow> ReplayRequest result" where
  "FromProtoReplayRequest m =
     (if m = None then (zeroReplayRequest, invalid_message '': nil replay request'' []) else
      checked ReplayRequest_Validate
        \<lparr>ReplayRequest.StreamID = pb_ReplayRequest_GetStreamId m,
         FromSequence = pb_ReplayRequest_GetFromSequence m,
         ToSequence = pb_ReplayRequest_GetToSequence m\<rparr>)"

definition FromProtoReplayUnavailable :: "pb_ReplayUnavailable option \<Rightarrow> ReplayUnavailable result" where
  "FromProtoReplayUnavailable m =
     (if m = None then (zeroReplayUnavailable, invalid_message '': nil replay unavailable'' []) else
      checked ReplayUnavailable_Validate
        \<lparr>ReplayUnavailable.StreamID = pb_ReplayUnavailable_GetStreamId m,
         HubGeneration = pb_ReplayUnavailable_GetHubGeneration m,
         RequestedFrom = pb_ReplayUnavailable_GetRequestedFrom m,
         OldestAvailable = pb_ReplayUnavailable_GetOldestAvailable m,
         StreamHead = pb_ReplayUnavailable_GetStreamHead m\<rparr>)"

definition FromProtoInvalidateConfirm :: "pb_InvalidateConfirm option \<Rightarrow> InvalidateConfirm result" where
  "FromProtoInvalidateConfirm m =
     (if m = None then (zeroInvalidateConfirm, invalid_message '': nil invalidate confirm'' []) else
      checked InvalidateConfirm_Validate
        \<lparr>InvalidateConfirm.StreamID = pb_InvalidateConfirm_GetStreamId m,
         StreamSequence = pb_InvalidateConfirm_GetStreamSequence m,
         NodeID = pb_InvalidateConfirm_GetNodeId m\<rparr>)"

definition FromProtoControlError :: "pb_ControlError option \<Rightarrow> ControlError result" where
  "FromProtoControlError m =
     (if m = None then (zeroControlError, invalid_message '': nil control error'' []) else
      on_ok zeroControlError (statusFromProto (pb_ControlError_GetStatus m)) (\<lambda>status.
      checked ControlError_Validate
        \<lparr>ControlError.Status = status, Detail = pb_ControlError_GetDetail m\<rparr>))"

section \<open>Stream envelopes\<close>

text \<open>
  The dynamic types that the envelope functions meet in an \<^verbatim>\<open>any\<close>: each message type by value and by
  pointer, the nil interface, and any other type, named as \<^verbatim>\<open>%T\<close> prints it.
\<close>

datatype control_any =
    AnyNil
  | AnyHello hello
  | AnyHelloPtr "hello option"
  | AnySubscribe subscribe
  | AnySubscribePtr "subscribe option"
  | AnyStreamAcknowledgement StreamAcknowledgement
  | AnyStreamAcknowledgementPtr "StreamAcknowledgement option"
  | AnyReplayRequest ReplayRequest
  | AnyReplayRequestPtr "ReplayRequest option"
  | AnyInvalidateConfirm InvalidateConfirm
  | AnyInvalidateConfirmPtr "InvalidateConfirm option"
  | AnyInvalidationBatch batch
  | AnyInvalidationBatchPtr "batch option"
  | AnyStreamCheckpoint StreamCheckpoint
  | AnyStreamCheckpointPtr "StreamCheckpoint option"
  | AnyReplayUnavailable ReplayUnavailable
  | AnyReplayUnavailablePtr "ReplayUnavailable option"
  | AnyControlError ControlError
  | AnyControlErrorPtr "ControlError option"
  | AnyOther string

fun type_name :: "control_any \<Rightarrow> string" where
  "type_name AnyNil = ''<nil>''"
| "type_name (AnyHello _) = ''control.Hello''"
| "type_name (AnyHelloPtr _) = ''*control.Hello''"
| "type_name (AnySubscribe _) = ''control.Subscribe''"
| "type_name (AnySubscribePtr _) = ''*control.Subscribe''"
| "type_name (AnyStreamAcknowledgement _) = ''control.StreamAcknowledgement''"
| "type_name (AnyStreamAcknowledgementPtr _) = ''*control.StreamAcknowledgement''"
| "type_name (AnyReplayRequest _) = ''control.ReplayRequest''"
| "type_name (AnyReplayRequestPtr _) = ''*control.ReplayRequest''"
| "type_name (AnyInvalidateConfirm _) = ''control.InvalidateConfirm''"
| "type_name (AnyInvalidateConfirmPtr _) = ''*control.InvalidateConfirm''"
| "type_name (AnyInvalidationBatch _) = ''control.InvalidationBatch''"
| "type_name (AnyInvalidationBatchPtr _) = ''*control.InvalidationBatch''"
| "type_name (AnyStreamCheckpoint _) = ''control.StreamCheckpoint''"
| "type_name (AnyStreamCheckpointPtr _) = ''*control.StreamCheckpoint''"
| "type_name (AnyReplayUnavailable _) = ''control.ReplayUnavailable''"
| "type_name (AnyReplayUnavailablePtr _) = ''*control.ReplayUnavailable''"
| "type_name (AnyControlError _) = ''control.ControlError''"
| "type_name (AnyControlErrorPtr _) = ''*control.ControlError''"
| "type_name (AnyOther t) = t"

abbreviation client_message :: "pb_ControlClientMessage_Body \<Rightarrow> pb_ControlClientMessage option result" where
  "client_message body \<equiv> (Some \<lparr>pb_ControlClientMessage.Body = Some body\<rparr>, None)"

definition ProtoClientMessage :: "control_any \<Rightarrow> pb_ControlClientMessage option result" where
  "ProtoClientMessage body = (case body of
     AnyHello v \<Rightarrow> client_message (ControlClientMessage_Hello (Some (ProtoHello v)))
   | AnyHelloPtr None \<Rightarrow> (None, invalid_message '': nil *Hello'' [])
   | AnyHelloPtr (Some v) \<Rightarrow> client_message (ControlClientMessage_Hello (Some (ProtoHello v)))
   | AnySubscribe v \<Rightarrow> client_message (ControlClientMessage_Subscribe (Some (ProtoSubscribe v)))
   | AnySubscribePtr None \<Rightarrow> (None, invalid_message '': nil *Subscribe'' [])
   | AnySubscribePtr (Some v) \<Rightarrow> client_message (ControlClientMessage_Subscribe (Some (ProtoSubscribe v)))
   | AnyStreamAcknowledgement v \<Rightarrow>
       client_message (ControlClientMessage_StreamAcknowledgement (Some (ProtoStreamAcknowledgement v)))
   | AnyStreamAcknowledgementPtr None \<Rightarrow> (None, invalid_message '': nil *StreamAcknowledgement'' [])
   | AnyStreamAcknowledgementPtr (Some v) \<Rightarrow>
       client_message (ControlClientMessage_StreamAcknowledgement (Some (ProtoStreamAcknowledgement v)))
   | AnyReplayRequest v \<Rightarrow> client_message (ControlClientMessage_ReplayRequest (Some (ProtoReplayRequest v)))
   | AnyReplayRequestPtr None \<Rightarrow> (None, invalid_message '': nil *ReplayRequest'' [])
   | AnyReplayRequestPtr (Some v) \<Rightarrow>
       client_message (ControlClientMessage_ReplayRequest (Some (ProtoReplayRequest v)))
   | AnyInvalidateConfirm v \<Rightarrow>
       client_message (ControlClientMessage_InvalidateConfirm (Some (ProtoInvalidateConfirm v)))
   | AnyInvalidateConfirmPtr None \<Rightarrow> (None, invalid_message '': nil *InvalidateConfirm'' [])
   | AnyInvalidateConfirmPtr (Some v) \<Rightarrow>
       client_message (ControlClientMessage_InvalidateConfirm (Some (ProtoInvalidateConfirm v)))
   | _ \<Rightarrow> (None, invalid_message '': unsupported client body %T'' [FStr (type_name body)]))"

abbreviation server_message ::
  "bytes pb_ControlServerMessage_Body \<Rightarrow> bytes pb_ControlServerMessage option result" where
  "server_message body \<equiv> (Some \<lparr>pb_ControlServerMessage.Body = Some body\<rparr>, None)"

definition ProtoServerMessage :: "control_any \<Rightarrow> bytes pb_ControlServerMessage option result" where
  "ProtoServerMessage body = (case body of
     AnyInvalidationBatch v \<Rightarrow>
       server_message (ControlServerMessage_InvalidationBatch (Some (ProtoInvalidationBatch v)))
   | AnyInvalidationBatchPtr None \<Rightarrow> (None, invalid_message '': nil *InvalidationBatch'' [])
   | AnyInvalidationBatchPtr (Some v) \<Rightarrow>
       server_message (ControlServerMessage_InvalidationBatch (Some (ProtoInvalidationBatch v)))
   | AnyStreamCheckpoint v \<Rightarrow>
       server_message (ControlServerMessage_StreamCheckpoint (Some (ProtoStreamCheckpoint v)))
   | AnyStreamCheckpointPtr None \<Rightarrow> (None, invalid_message '': nil *StreamCheckpoint'' [])
   | AnyStreamCheckpointPtr (Some v) \<Rightarrow>
       server_message (ControlServerMessage_StreamCheckpoint (Some (ProtoStreamCheckpoint v)))
   | AnyReplayUnavailable v \<Rightarrow>
       server_message (ControlServerMessage_ReplayUnavailable (Some (ProtoReplayUnavailable v)))
   | AnyReplayUnavailablePtr None \<Rightarrow> (None, invalid_message '': nil *ReplayUnavailable'' [])
   | AnyReplayUnavailablePtr (Some v) \<Rightarrow>
       server_message (ControlServerMessage_ReplayUnavailable (Some (ProtoReplayUnavailable v)))
   | AnyControlError v \<Rightarrow> server_message (ControlServerMessage_ControlError (Some (ProtoControlError v)))
   | AnyControlErrorPtr None \<Rightarrow> (None, invalid_message '': nil *ControlError'' [])
   | AnyControlErrorPtr (Some v) \<Rightarrow>
       server_message (ControlServerMessage_ControlError (Some (ProtoControlError v)))
   | _ \<Rightarrow> (None, invalid_message '': unsupported server body %T'' [FStr (type_name body)]))"

text \<open>Returning a \<^verbatim>\<open>(T, error)\<close> pair as \<^verbatim>\<open>(any, error)\<close> boxes the value and keeps the error.\<close>

abbreviation boxed :: "('a \<Rightarrow> control_any) \<Rightarrow> 'a result \<Rightarrow> control_any result" where
  "boxed c r \<equiv> map_prod c (\<lambda>err. err) r"

definition FromProtoClientMessage :: "pb_ControlClientMessage option \<Rightarrow> control_any result" where
  "FromProtoClientMessage m =
     (if m = None then (AnyNil, invalid_message '': nil client message'' []) else
      (case pb_ControlClientMessage_GetBody m of
         Some (ControlClientMessage_Hello b) \<Rightarrow> boxed AnyHello (FromProtoHello b)
       | Some (ControlClientMessage_Subscribe b) \<Rightarrow> boxed AnySubscribe (FromProtoSubscribe b)
       | Some (ControlClientMessage_StreamAcknowledgement b) \<Rightarrow>
           boxed AnyStreamAcknowledgement (FromProtoStreamAcknowledgement b)
       | Some (ControlClientMessage_ReplayRequest b) \<Rightarrow> boxed AnyReplayRequest (FromProtoReplayRequest b)
       | Some (ControlClientMessage_InvalidateConfirm b) \<Rightarrow>
           boxed AnyInvalidateConfirm (FromProtoInvalidateConfirm b)
       | None \<Rightarrow> (AnyNil, invalid_message '': empty client body'' [])))"

definition FromProtoServerMessage :: "bytes pb_ControlServerMessage option \<Rightarrow> control_any result" where
  "FromProtoServerMessage m =
     (if m = None then (AnyNil, invalid_message '': nil server message'' []) else
      (case pb_ControlServerMessage_GetBody m of
         Some (ControlServerMessage_InvalidationBatch b) \<Rightarrow>
           boxed AnyInvalidationBatch (FromProtoInvalidationBatch b)
       | Some (ControlServerMessage_StreamCheckpoint b) \<Rightarrow>
           boxed AnyStreamCheckpoint (FromProtoStreamCheckpoint b)
       | Some (ControlServerMessage_ReplayUnavailable b) \<Rightarrow>
           boxed AnyReplayUnavailable (FromProtoReplayUnavailable b)
       | Some (ControlServerMessage_ControlError b) \<Rightarrow> boxed AnyControlError (FromProtoControlError b)
       | None \<Rightarrow> (AnyNil, invalid_message '': empty server body'' [])))"

section \<open>Enumerations and versions fail closed\<close>

interpretation control_version: closed_enum "\<lambda>_. True" ucast control_protocolVersionFromUint32
  by unfold_locales
    (auto simp: control_protocolVersionFromUint32_def ucast_32_16 split: if_splits)

interpretation control_status: closed_enum Status_Valid ucast statusFromProto
  by unfold_locales (auto simp: statusFromProto_def Status_Valid_iff split: if_splits)

interpretation control_kind: closed_enum RecordKind_Valid ucast recordKindFromProto
  by unfold_locales (auto simp: recordKindFromProto_def RecordKind_Valid_def split: if_splits)

lemma mutationIDFromProto_bytes [simp]:
  "mutationIDFromProto (Some \<lparr>pb_MutationID.Id = id_bytes i\<rparr>) = (i, None)"
  by (simp add: mutationIDFromProto_def getter_simps Let_def)

section \<open>Codecs\<close>

lemma fold_snoc_map: "fold (\<lambda>x out. out @ [f x]) xs out = out @ map f xs"
  by (induction xs arbitrary: out) simp_all

lemma watermarks_from_map:
  "watermarks_from (map (\<lambda>s. Some (ProtoStreamWatermark s)) ws) out = (out @ ws, None)"
  by (induction ws arbitrary: out) (simp_all add: ProtoStreamWatermark_def getter_simps)

lemma events_from_map:
  assumes "\<forall>e \<in> set es. RecordKind_Valid (InvalidationEvent.Kind e)"
  shows "events_from i (map (\<lambda>e. Some (ProtoInvalidationEvent e)) es) out = (out @ es, None)"
  using assms
  by (induction es arbitrary: i out)
    (simp_all add: ProtoInvalidationEvent_def getter_simps control_kind.enum_from_to Let_def)

lemma valid_event_kind: "valid_event s e \<Longrightarrow> RecordKind_Valid (InvalidationEvent.Kind e)"
  by (auto simp: valid_event_def RecordKind_Valid_def)

lemma mutationIDFromProto_None:
  "mutationIDFromProto m = (i, None) \<longleftrightarrow> m = Some \<lparr>pb_MutationID.Id = id_bytes i\<rparr>"
  by (cases m) (auto simp: mutationIDFromProto_def getter_simps Let_def id_bytes_copyMutationID)

lemma watermarks_from_exact:
  "watermarks_from ss out = (r, None) \<Longrightarrow>
     \<exists>ws. r = out @ ws \<and> ss = map (\<lambda>s. Some (ProtoStreamWatermark s)) ws"
proof (induction ss out rule: watermarks_from.induct)
  case (2 s rest out)
  then obtain m where [simp]: "s = Some m" by (auto split: if_splits)
  let ?w = "\<lparr>StreamWatermark.StreamID = pb_StreamWatermark.StreamId m,
      AppliedThrough = pb_StreamWatermark.AppliedThrough m, HubGeneration = pb_StreamWatermark.HubGeneration m\<rparr>"
  from 2 obtain ws where "r = (out @ [?w]) @ ws" "rest = map (\<lambda>s. Some (ProtoStreamWatermark s)) ws"
    by (auto simp: getter_simps)
  then show ?case
    by (intro exI [of _ "?w # ws"]) (simp add: ProtoStreamWatermark_def)
qed simp

text \<open>A nil version pointer decodes to the zero version, which no valid event carries.\<close>

lemma events_from_exact:
  "events_from i es out = (r, None) \<Longrightarrow> \<forall>d \<in> set r. VersionTag.Sequence (InvalidationEvent.Version d) \<noteq> 0 \<Longrightarrow>
     \<exists>ds. r = out @ ds \<and> es = map (\<lambda>d. Some (ProtoInvalidationEvent d)) ds"
proof (induction es arbitrary: i out)
  case (Cons e rest)
  then obtain m where e [simp]: "e = Some m" by (auto split: if_splits)
  from Cons.prems(1) obtain id kind where
    id: "pb_InvalidationEvent.MutationId m = Some \<lparr>pb_MutationID.Id = id_bytes id\<rparr>"
    and kind: "recordKindFromProto (pb_InvalidationEvent.Kind m) = (kind, None)"
    by (auto simp: on_ok_None mutationIDFromProto_None getter_simps)
  define version where "version = (case pb_InvalidationEvent.Version m of None \<Rightarrow> zeroVersionTag
    | v \<Rightarrow> \<lparr>PartitionID = pb_VersionTag_GetPartitionId v, Sequence = pb_VersionTag_GetSequence v\<rparr>)"
  let ?d = "\<lparr>InvalidationEvent.StreamSequence = pb_InvalidationEvent.StreamSequence m,
      Key = pb_InvalidationEvent.Key m, Version = version, Kind = kind, MutationID = id\<rparr>"
  have "events_from (i + 1) rest (out @ [?d]) = (r, None)"
    using Cons.prems(1) id kind by (simp add: getter_simps Let_def version_def)
  from Cons.IH [OF this Cons.prems(2)] obtain ds
    where ds: "r = (out @ [?d]) @ ds" "rest = map (\<lambda>d. Some (ProtoInvalidationEvent d)) ds"
    by blast
  moreover have "VersionTag.Sequence version \<noteq> 0" using Cons.prems(2) ds by simp
  ultimately show ?case
    using id control_kind.enum_to_from [OF kind]
    by (intro exI [of _ "?d # ds"])
      (auto simp: ProtoInvalidationEvent_def version_def zeroVersionTag_def getter_simps split: option.splits)
qed simp

interpretation hello_codec: exact_codec Hello_Validate valid_Hello ProtoHello FromProtoHello
proof unfold_locales
  show "FromProtoHello (Some (ProtoHello d)) = (d, None)" if "valid_Hello d" for d
    using that Hello_Validate_iff [of d]
    by (simp add: FromProtoHello_def ProtoHello_def getter_simps fold_snoc_map watermarks_from_map
        control_version.enum_from_to)
  show "valid_Hello d" if "FromProtoHello p = (d, None)" for p d
    using that by (auto simp: FromProtoHello_def on_ok_None Hello_Validate_iff split: if_splits)
  show "m = ProtoHello d" if "FromProtoHello (Some m) = (d, None)" for m d
    using that
    by (auto simp: FromProtoHello_def ProtoHello_def on_ok_None getter_simps fold_snoc_map
        dest!: watermarks_from_exact control_version.enum_to_from)
qed (simp_all add: FromProtoHello_def Hello_Validate_iff)

interpretation subscribe_codec: exact_codec Subscribe_Validate valid_Subscribe ProtoSubscribe FromProtoSubscribe
  by unfold_locales
    (auto simp: FromProtoSubscribe_def ProtoSubscribe_def getter_simps Subscribe_Validate_iff
      split: if_splits)

interpretation batch_codec: exact_codec InvalidationBatch_Validate valid_batch ProtoInvalidationBatch
  FromProtoInvalidationBatch
proof unfold_locales
  show "FromProtoInvalidationBatch (Some (ProtoInvalidationBatch d)) = (d, None)" if "valid_batch d" for d
  proof -
    have "\<forall>e \<in> set (InvalidationBatch.Events d). RecordKind_Valid (InvalidationEvent.Kind e)"
      using that valid_event_kind by (auto simp: valid_batch_def)
    then show ?thesis
      using that InvalidationBatch_Validate_iff [of d]
      by (simp add: FromProtoInvalidationBatch_def ProtoInvalidationBatch_def getter_simps fold_snoc_map
          events_from_map)
  qed
  show "valid_batch d" if "FromProtoInvalidationBatch p = (d, None)" for p d
    using that by (auto simp: FromProtoInvalidationBatch_def on_ok_None
        InvalidationBatch_Validate_iff split: if_splits)
  show "m = ProtoInvalidationBatch d" if "FromProtoInvalidationBatch (Some m) = (d, None)" for m d
  proof -
    from that have events: "events_from 0 (pb_InvalidationBatch.Events m) [] = (InvalidationBatch.Events d, None)"
      and d: "d = \<lparr>InvalidationBatch.StreamID = pb_InvalidationBatch.StreamId m,
         HubGeneration = pb_InvalidationBatch.HubGeneration m, Events = InvalidationBatch.Events d\<rparr>"
      and "valid_batch d"
      by (auto simp: FromProtoInvalidationBatch_def on_ok_None getter_simps InvalidationBatch_Validate_iff)
    then have "\<forall>e \<in> set (InvalidationBatch.Events d). VersionTag.Sequence (InvalidationEvent.Version e) \<noteq> 0"
      by (simp add: valid_batch_def valid_event_def)
    with events_from_exact [OF events] have
      "pb_InvalidationBatch.Events m = map (\<lambda>e. Some (ProtoInvalidationEvent e)) (InvalidationBatch.Events d)"
      by simp
    then show ?thesis
      by (subst d) (simp add: ProtoInvalidationBatch_def fold_snoc_map)
  qed
qed (simp_all add: FromProtoInvalidationBatch_def InvalidationBatch_Validate_iff)

interpretation ack_codec: exact_codec StreamAcknowledgement_Validate valid_ack ProtoStreamAcknowledgement
  FromProtoStreamAcknowledgement
  by unfold_locales
    (auto simp: FromProtoStreamAcknowledgement_def ProtoStreamAcknowledgement_def getter_simps
      StreamAcknowledgement_Validate_iff split: if_splits)

interpretation checkpoint_codec: exact_codec StreamCheckpoint_Validate valid_checkpoint ProtoStreamCheckpoint
  FromProtoStreamCheckpoint
  by unfold_locales
    (auto simp: FromProtoStreamCheckpoint_def ProtoStreamCheckpoint_def getter_simps
      StreamCheckpoint_Validate_iff split: if_splits)

interpretation replay_codec: exact_codec ReplayRequest_Validate valid_ReplayRequest ProtoReplayRequest
  FromProtoReplayRequest
  by unfold_locales
    (auto simp: FromProtoReplayRequest_def ProtoReplayRequest_def getter_simps
      ReplayRequest_Validate_iff split: if_splits)

interpretation unavailable_codec: exact_codec ReplayUnavailable_Validate valid_ReplayUnavailable
  ProtoReplayUnavailable FromProtoReplayUnavailable
  by unfold_locales
    (auto simp: FromProtoReplayUnavailable_def ProtoReplayUnavailable_def getter_simps
      ReplayUnavailable_Validate_iff split: if_splits)

interpretation confirm_codec: exact_codec InvalidateConfirm_Validate valid_confirm ProtoInvalidateConfirm
  FromProtoInvalidateConfirm
  by unfold_locales
    (auto simp: FromProtoInvalidateConfirm_def ProtoInvalidateConfirm_def getter_simps
      InvalidateConfirm_Validate_iff split: if_splits)

lemma valid_ControlError_status: "valid_ControlError m \<Longrightarrow> Status_Valid (ControlError.Status m)"
  by (auto simp: valid_ControlError_def Status_Valid_iff)

interpretation control_error_codec: exact_codec ControlError_Validate valid_ControlError ProtoControlError
  FromProtoControlError
proof unfold_locales
  show "FromProtoControlError (Some (ProtoControlError d)) = (d, None)" if "valid_ControlError d" for d
    using that ControlError_Validate_iff [of d] valid_ControlError_status [OF that]
    by (simp add: FromProtoControlError_def ProtoControlError_def getter_simps control_status.enum_from_to)
  show "valid_ControlError d" if "FromProtoControlError p = (d, None)" for p d
    using that by (auto simp: FromProtoControlError_def on_ok_None ControlError_Validate_iff
        split: if_splits)
  show "m = ProtoControlError d" if "FromProtoControlError (Some m) = (d, None)" for m d
    using that by (auto simp: FromProtoControlError_def ProtoControlError_def on_ok_None getter_simps
        dest!: control_status.enum_to_from)
qed (simp_all add: FromProtoControlError_def ControlError_Validate_iff)

section \<open>Correctness of the envelopes\<close>

text \<open>What a pointer body stands for, and which bodies belong to which direction of the stream.\<close>

fun control_deref :: "control_any \<Rightarrow> control_any" where
  "control_deref (AnyHelloPtr p) = (case p of None \<Rightarrow> AnyNil | Some v \<Rightarrow> AnyHello v)"
| "control_deref (AnySubscribePtr p) = (case p of None \<Rightarrow> AnyNil | Some v \<Rightarrow> AnySubscribe v)"
| "control_deref (AnyStreamAcknowledgementPtr p) = (case p of None \<Rightarrow> AnyNil | Some v \<Rightarrow> AnyStreamAcknowledgement v)"
| "control_deref (AnyReplayRequestPtr p) = (case p of None \<Rightarrow> AnyNil | Some v \<Rightarrow> AnyReplayRequest v)"
| "control_deref (AnyInvalidateConfirmPtr p) = (case p of None \<Rightarrow> AnyNil | Some v \<Rightarrow> AnyInvalidateConfirm v)"
| "control_deref (AnyInvalidationBatchPtr p) = (case p of None \<Rightarrow> AnyNil | Some v \<Rightarrow> AnyInvalidationBatch v)"
| "control_deref (AnyStreamCheckpointPtr p) = (case p of None \<Rightarrow> AnyNil | Some v \<Rightarrow> AnyStreamCheckpoint v)"
| "control_deref (AnyReplayUnavailablePtr p) = (case p of None \<Rightarrow> AnyNil | Some v \<Rightarrow> AnyReplayUnavailable v)"
| "control_deref (AnyControlErrorPtr p) = (case p of None \<Rightarrow> AnyNil | Some v \<Rightarrow> AnyControlError v)"
| "control_deref b = b"

fun client_body :: "control_any \<Rightarrow> error option option" where
  "client_body (AnyHello v) = Some (Hello_Validate v)"
| "client_body (AnySubscribe v) = Some (Subscribe_Validate v)"
| "client_body (AnyStreamAcknowledgement v) = Some (StreamAcknowledgement_Validate v)"
| "client_body (AnyReplayRequest v) = Some (ReplayRequest_Validate v)"
| "client_body (AnyInvalidateConfirm v) = Some (InvalidateConfirm_Validate v)"
| "client_body _ = None"

fun server_body :: "control_any \<Rightarrow> error option option" where
  "server_body (AnyInvalidationBatch v) = Some (InvalidationBatch_Validate v)"
| "server_body (AnyStreamCheckpoint v) = Some (StreamCheckpoint_Validate v)"
| "server_body (AnyReplayUnavailable v) = Some (ReplayUnavailable_Validate v)"
| "server_body (AnyControlError v) = Some (ControlError_Validate v)"
| "server_body _ = None"

lemmas client_accept_iffs = hello_codec.accept_iff subscribe_codec.accept_iff ack_codec.accept_iff
  replay_codec.accept_iff confirm_codec.accept_iff

lemmas server_accept_iffs = batch_codec.accept_iff checkpoint_codec.accept_iff
  unavailable_codec.accept_iff control_error_codec.accept_iff

lemma boxed_None: "map_prod c (\<lambda>err. err) r = (b, None) \<longleftrightarrow> (\<exists>v. b = c v \<and> r = (v, None))"
  by (cases r) auto

lemma client_envelope_iff:
  "FromProtoClientMessage (Some m) = (b, None) \<longleftrightarrow>
     client_body b = Some None \<and> ProtoClientMessage b = (Some m, None)"
proof -
  obtain x where m: "m = \<lparr>pb_ControlClientMessage.Body = x\<rparr>" by (cases m)
  show ?thesis
    unfolding m FromProtoClientMessage_def ProtoClientMessage_def
    by (cases b)
      (auto simp: getter_simps boxed_None client_accept_iffs
        split: option.splits pb_ControlClientMessage_Body.splits)
qed

lemma server_envelope_iff:
  "FromProtoServerMessage (Some m) = (b, None) \<longleftrightarrow>
     server_body b = Some None \<and> ProtoServerMessage b = (Some m, None)"
proof -
  obtain x where m: "m = \<lparr>pb_ControlServerMessage.Body = x\<rparr>" by (cases m)
  show ?thesis
    unfolding m FromProtoServerMessage_def ProtoServerMessage_def
    by (cases b)
      (auto simp: getter_simps boxed_None server_accept_iffs
        split: option.splits pb_ControlServerMessage_Body.splits)
qed

lemma client_envelope_all:
  "FromProtoClientMessage p = (b, None) \<longleftrightarrow> client_body b = Some None \<and> ProtoClientMessage b = (p, None)"
proof (cases p)
  case None
  then show ?thesis
    by (cases b) (auto simp: FromProtoClientMessage_def ProtoClientMessage_def)
next
  case (Some m)
  then show ?thesis using client_envelope_iff [of m b] by simp
qed

lemma server_envelope_all:
  "FromProtoServerMessage p = (b, None) \<longleftrightarrow> server_body b = Some None \<and> ProtoServerMessage b = (p, None)"
proof (cases p)
  case None
  then show ?thesis
    by (cases b) (auto simp: FromProtoServerMessage_def ProtoServerMessage_def)
next
  case (Some m)
  then show ?thesis using server_envelope_iff [of m b] by simp
qed

text \<open>C14. The client envelope is exact: a node-to-hub message decodes without an error to a body \<open>b\<close>
  exactly when \<open>b\<close> is one of the five client payloads, passes its own validation, and the message is
  the one \<^verbatim>\<open>ProtoClientMessage\<close> builds from \<open>b\<close>. So nothing is truncated, defaulted or misrouted on
  the way, and no two messages decode to the same payload.\<close>

theorem client_envelope_exact:
  "FromProtoClientMessage p = (b, None) \<longleftrightarrow>
     client_body b = Some None \<and> ProtoClientMessage b = (p, None)"
  by (rule client_envelope_all)

text \<open>C15. The server envelope is exact in the same sense for the four hub-to-node payloads.\<close>

theorem server_envelope_exact:
  "FromProtoServerMessage p = (b, None) \<longleftrightarrow>
     server_body b = Some None \<and> ProtoServerMessage b = (p, None)"
  by (rule server_envelope_all)

text \<open>Wrapping depends only on what the argument stands for: a non-nil pointer is wrapped like the
  value behind it, a body is wrapped exactly when it is (a pointer to) a payload of that direction,
  no body is accepted in both directions, and every refusal is an \<^verbatim>\<open>ErrInvalidMessage\<close> without a
  message.\<close>

theorem envelope_wrapping:
  "(snd (ProtoClientMessage b) = None \<longleftrightarrow> client_body (control_deref b) \<noteq> None)
   \<and> (snd (ProtoServerMessage b) = None \<longleftrightarrow> server_body (control_deref b) \<noteq> None)
   \<and> (client_body (control_deref b) = None \<or> server_body (control_deref b) = None)
   \<and> (client_body (control_deref b) \<noteq> None \<longrightarrow> ProtoClientMessage b = ProtoClientMessage (control_deref b))
   \<and> (server_body (control_deref b) \<noteq> None \<longrightarrow> ProtoServerMessage b = ProtoServerMessage (control_deref b))
   \<and> (snd (ProtoClientMessage b) \<noteq> None \<longrightarrow> fst (ProtoClientMessage b) = None
        \<and> errors_Is (snd (ProtoClientMessage b)) (Control_err ErrInvalidMessage))
   \<and> (snd (ProtoServerMessage b) \<noteq> None \<longrightarrow> fst (ProtoServerMessage b) = None
        \<and> errors_Is (snd (ProtoServerMessage b)) (Control_err ErrInvalidMessage))"
  by (cases b) (simp_all add: ProtoClientMessage_def ProtoServerMessage_def split: option.split)

theorem envelope_wrapping_witness:
  "ProtoClientMessage (AnyStreamAcknowledgementPtr (Some \<lparr>StreamAcknowledgement.StreamID = 1, AppliedThrough = 2\<rparr>))
     = ProtoClientMessage (AnyStreamAcknowledgement \<lparr>StreamAcknowledgement.StreamID = 1, AppliedThrough = 2\<rparr>)
   \<and> errors_Is (snd (ProtoClientMessage (AnyControlErrorPtr None))) (Control_err ErrInvalidMessage)"
proof
  show "ProtoClientMessage (AnyStreamAcknowledgementPtr (Some \<lparr>StreamAcknowledgement.StreamID = 1, AppliedThrough = 2\<rparr>))
     = ProtoClientMessage (AnyStreamAcknowledgement \<lparr>StreamAcknowledgement.StreamID = 1, AppliedThrough = 2\<rparr>)"
    using envelope_wrapping [of "AnyStreamAcknowledgementPtr
        (Some \<lparr>StreamAcknowledgement.StreamID = 1, AppliedThrough = 2\<rparr>)"] by simp
  show "errors_Is (snd (ProtoClientMessage (AnyControlErrorPtr None))) (Control_err ErrInvalidMessage)"
    using envelope_wrapping [of "AnyControlErrorPtr None"] by simp
qed

text \<open>Enumerations and versions of the control stream fail closed: a status, a record kind or a
  protocol version is decoded without an error exactly when the received 32-bit number is the widened
  code of a known status, of a known kind, or of a 16-bit version, and it decodes to that code.\<close>

theorem control_enums_fail_closed:
  "(statusFromProto n = (s, None) \<longleftrightarrow> Status_Valid s \<and> n = ucast s)
   \<and> (recordKindFromProto n = (k, None) \<longleftrightarrow> RecordKind_Valid k \<and> n = ucast k)
   \<and> (control_protocolVersionFromUint32 n = (v, None) \<longleftrightarrow> n = ucast v)"
  using control_status.enum_from_to control_status.enum_to_from control_kind.enum_from_to
    control_kind.enum_to_from control_version.enum_from_to control_version.enum_to_from
  by metis

text \<open>A hello that advertises a protocol version or a minimum that does not fit 16 bits is refused
  with \<^verbatim>\<open>ErrInvalidProtocolRange\<close> and the zero value, whatever else it contains.\<close>

theorem Hello_version_overflow:
  assumes "65535 < pb_Hello.ProtocolVersion m \<or> 65535 < pb_Hello.MinSupportedVersion m"
  shows "fst (FromProtoHello (Some m)) = zeroHello
    \<and> errors_Is (snd (FromProtoHello (Some m))) (Wire_err ErrInvalidProtocolRange)"
  using assms
  by (auto simp: FromProtoHello_def getter_simps control_protocolVersionFromUint32_def on_ok_def)

theorem Hello_version_overflow_witness:
  "errors_Is (snd (FromProtoHello (Some (ProtoHello zeroHello\<lparr>pb_Hello.ProtocolVersion := 65537\<rparr>))))
     (Wire_err ErrInvalidProtocolRange)"
  using Hello_version_overflow [of "ProtoHello zeroHello\<lparr>pb_Hello.ProtocolVersion := 65537\<rparr>"] by simp

end
