(* ===== verification/Rpc_Types.thy ===== *)
theory Rpc_Types
  imports Wire_Record Wire_Protocol
begin

text \<open>
  \<^verbatim>\<open>internal/rpc/types.go\<close>, \<^verbatim>\<open>status.go\<close> and \<^verbatim>\<open>ports.go\<close>: the messages of the data plane, their \<^verbatim>\<open>Validate\<close>
  methods, the projection of a mutation onto the shared write policy, and the classification of
  statuses by what a response carries. Slice fields are parametric in their representation.
\<close>

definition DefaultRPCPort :: nat where "DefaultRPCPort = 7400"

section \<open>Statuses\<close>

definition StatusCarriesCommittedVersion :: "Status \<Rightarrow> bool" where
  "StatusCarriesCommittedVersion s \<longleftrightarrow> s = StatusOK \<or> s = StatusErrWriteConfirmTimeout"

definition StatusCarriesGetRecord :: "Status \<Rightarrow> bool" where
  "StatusCarriesGetRecord s \<longleftrightarrow> s = StatusOK"

definition RetrySameMutationID :: "Status \<Rightarrow> bool" where
  "RetrySameMutationID s \<longleftrightarrow> Status_Retryable s"

section \<open>Operations\<close>

type_synonym Op = "8 word"

abbreviation OpSet :: Op where "OpSet \<equiv> 1"

abbreviation OpDelete :: Op where "OpDelete \<equiv> 2"

definition Op_Valid :: "Op \<Rightarrow> bool" where
  "Op_Valid op \<longleftrightarrow> op = OpSet \<or> op = OpDelete"

section \<open>Session messages\<close>

definition validateClusterID :: "string \<Rightarrow> error option" where
  "validateClusterID i = (if TrimSpace i = '''' then Some (Err (Rpc_err rpc_err.ErrInvalidClusterID)) else None)"

record HandshakeRequest =
  Protocol :: ProtocolRange
  ClusterID :: string
  ExpectedHubGeneration :: "64 word"

definition HandshakeRequest_Validate :: "HandshakeRequest \<Rightarrow> error option" where
  "HandshakeRequest_Validate m =
     (case ProtocolRange_Validate (HandshakeRequest.Protocol m) of Some err \<Rightarrow> Some err
      | None \<Rightarrow> validateClusterID (HandshakeRequest.ClusterID m))"

record Handshake =
  ProtocolVersion :: ProtocolVersion
  HubGeneration :: "64 word"
  PartitionCount :: "32 word"
  StorageProfile :: StorageProfile
  DurableHealthy :: bool
  ClusterID :: string

definition Handshake_Validate :: "Handshake \<Rightarrow> error option" where
  "Handshake_Validate m =
     (if ProtocolVersion m < MinSupportedProtocolVersion \<or> ProtocolVersion m > CurrentProtocolVersion
      then Some (wrap (Wire_err ErrIncompatibleProtocolRanges) '': unsupported protocol version %d''
                   [FInt (uint (ProtocolVersion m))])
      else if Handshake.HubGeneration m = 0 then Some (Err (Rpc_err rpc_err.ErrInvalidHubGeneration))
      else if PartitionCount m = 0 then Some (Err (Partition_err ErrInvalidPartitionCount))
      else if \<not> StorageProfile_Valid (Handshake.StorageProfile m)
      then Some (wrap (Wire_err ErrInvalidStorageProfile) '': %d'' [FInt (uint (Handshake.StorageProfile m))])
      else if Handshake.StorageProfile m = StorageMemory \<and> Handshake.DurableHealthy m
      then Some (Err (Rpc_err ErrInvalidDurableHealth))
      else validateClusterID (Handshake.ClusterID m))"

record HubStatusRequest =
  HubGeneration :: "64 word"

definition HubStatusRequest_Validate :: "HubStatusRequest \<Rightarrow> error option" where
  "HubStatusRequest_Validate m =
     (if HubStatusRequest.HubGeneration m = 0
      then Some (Err (Rpc_err rpc_err.ErrInvalidHubGeneration)) else None)"

record HubStatus =
  HubGeneration :: "64 word"
  StorageProfile :: StorageProfile
  DurableHealthy :: bool
  Status :: Status

definition HubStatus_Validate :: "HubStatus \<Rightarrow> error option" where
  "HubStatus_Validate m =
     (if HubStatus.HubGeneration m = 0 then Some (Err (Rpc_err rpc_err.ErrInvalidHubGeneration))
      else if \<not> Status_Valid (HubStatus.Status m)
      then Some (wrap (Rpc_err ErrInvalidStatus) '': %s'' [FStr (Status_String (HubStatus.Status m))])
      else if HubStatus.Status m = StatusOK
      then (if \<not> StorageProfile_Valid (HubStatus.StorageProfile m)
            then Some (wrap (Wire_err ErrInvalidStorageProfile) '': %d''
                         [FInt (uint (HubStatus.StorageProfile m))])
            else if HubStatus.StorageProfile m = StorageMemory \<and> HubStatus.DurableHealthy m
            then Some (Err (Rpc_err ErrInvalidDurableHealth))
            else None)
      else if HubStatus.Status m = StatusErrBadGeneration \<or> HubStatus.Status m = StatusErrInvalidArgument
      then None
      else Some (wrap (Rpc_err ErrInvalidStatus) '': unexpected hub status %s''
                   [FStr (Status_String (HubStatus.Status m))]))"

section \<open>Reads\<close>

record ('b, 'v) rpc_GetRequest =
  Key :: 'b
  MinVersion :: "'v option"
  HubGeneration :: "64 word"

definition rpc_validateKey :: "bytes \<Rightarrow> error option" where
  "rpc_validateKey key =
     (if length key = 0 then Some (Err (Wire_err ErrKeyEmpty))
      else if length key > MaxKeyLen
      then Some (wrap (Wire_err ErrKeyTooLarge) '': got %d, max %d''
                   [FInt (int (length key)), FInt (int MaxKeyLen)])
      else None)"

definition rpc_GetRequest_Validate :: "(bytes, VersionTag) rpc_GetRequest \<Rightarrow> error option" where
  "rpc_GetRequest_Validate m =
     (if rpc_GetRequest.HubGeneration m = 0 then Some (Err (Rpc_err rpc_err.ErrInvalidHubGeneration))
      else rpc_validateKey (rpc_GetRequest.Key m))"

definition rpc_GetRequest_ValidateForPartitions :: "(bytes, VersionTag) rpc_GetRequest \<Rightarrow> 32 word \<Rightarrow> error option go" where
  "rpc_GetRequest_ValidateForPartitions m partitionCount =
     (case rpc_GetRequest_Validate m of Some err \<Rightarrow> Return (Some err) | None \<Rightarrow>
        wire_GetRequest_Validate
          \<lparr>wire_GetRequest.Key = rpc_GetRequest.Key m, MinVersion = rpc_GetRequest.MinVersion m\<rparr>
          partitionCount)"

record 'b GetResponse =
  Status :: Status
  HubGeneration :: "64 word"
  Version :: VersionTag
  Value :: 'b
  TTLMillis :: "64 word"
  Kind :: RecordKind

definition response_fields :: "'b GetResponse \<Rightarrow> 'b GetRecordFields" where
  "response_fields m = \<lparr>GetRecordFields.Status = GetResponse.Status m, Version = GetResponse.Version m,
     Kind = GetResponse.Kind m, Value = GetResponse.Value m\<rparr>"

definition GetResponse_Validate :: "bytes GetResponse \<Rightarrow> error option" where
  "GetResponse_Validate m =
     (if GetResponse.HubGeneration m = 0 then Some (Err (Rpc_err rpc_err.ErrInvalidHubGeneration)) else
     (case GetRecordFields_Validate (response_fields m) of Some err \<Rightarrow> Some err | None \<Rightarrow>
      if \<not> StatusCarriesGetRecord (GetResponse.Status m) \<and> GetResponse.TTLMillis m \<noteq> 0
      then Some (Err (Record_err ErrInvalidResultTTL))
      else None))"

section \<open>Mutations\<close>

record 'b MutationRequest =
  Op :: Op
  Key :: 'b
  Value :: 'b
  TTLMillis :: "64 word"
  MutationID :: MutationID
  Mode :: WriteMode
  W :: "16 word"
  Confirm :: ConfirmLevel
  Timeout :: "32 word"
  HubGeneration :: "64 word"

definition MutationRequest_WriteOptions :: "'b MutationRequest \<Rightarrow> WriteOptions" where
  "MutationRequest_WriteOptions m = \<lparr>WriteOptions.W = MutationRequest.W m, Mode = MutationRequest.Mode m,
     ConfirmLevel = MutationRequest.Confirm m,
     Timeout = ucast (MutationRequest.Timeout m) * word_of_int Millisecond\<rparr>"

definition MutationRequest_Validate :: "bytes MutationRequest \<Rightarrow> error option" where
  "MutationRequest_Validate m =
     (if MutationRequest.HubGeneration m = 0 then Some (Err (Rpc_err rpc_err.ErrInvalidHubGeneration))
      else if \<not> Op_Valid (MutationRequest.Op m)
      then Some (wrap (Rpc_err ErrInvalidOp) '': %d'' [FInt (uint (MutationRequest.Op m))])
      else let opts = MutationRequest_WriteOptions m in
        if MutationRequest.Op m = OpSet
        then wire_SetRequest_Validate
          \<lparr>wire_SetRequest.Key = MutationRequest.Key m, Value = MutationRequest.Value m,
           TTLMillis = MutationRequest.TTLMillis m, MutationID = MutationRequest.MutationID m,
           Options = opts\<rparr>
        else if MutationRequest.Op m = OpDelete
        then (if length (MutationRequest.Value m) \<noteq> 0 then Some (Err (Record_err ErrUnexpectedValue))
              else if MutationRequest.TTLMillis m \<noteq> 0 then Some (Err (Rpc_err ErrUnexpectedTTL))
              else wire_DeleteRequest_Validate
                \<lparr>wire_DeleteRequest.Key = MutationRequest.Key m, MutationID = MutationRequest.MutationID m,
                 Options = opts\<rparr>)
        else Some (wrap (Rpc_err ErrInvalidOp) '': %d'' [FInt (uint (MutationRequest.Op m))]))"

record MutationResponse =
  Status :: Status
  HubGeneration :: "64 word"
  Version :: VersionTag

definition MutationResponse_Validate :: "MutationResponse \<Rightarrow> error option" where
  "MutationResponse_Validate m =
     (if \<not> Status_Valid (MutationResponse.Status m)
      then Some (wrap (Rpc_err ErrInvalidMutationStatus) '': %s''
                   [FStr (Status_String (MutationResponse.Status m))])
      else if MutationResponse.Status m = StatusNotFound \<or> MutationResponse.Status m = StatusNotCaughtUp
      then Some (wrap (Rpc_err ErrInvalidMutationStatus) '': %s''
                   [FStr (Status_String (MutationResponse.Status m))])
      else if MutationResponse.HubGeneration m = 0
      then Some (Err (Rpc_err rpc_err.ErrInvalidHubGeneration))
      else if StatusCarriesCommittedVersion (MutationResponse.Status m)
      then VersionTag_ValidateCommitted (MutationResponse.Version m)
      else if \<not> VersionTag_IsZero (MutationResponse.Version m)
      then Some (Err (Record_err ErrUnexpectedVersion))
      else None)"

section \<open>Specification\<close>

definition valid_HandshakeRequest :: "HandshakeRequest \<Rightarrow> bool" where
  "valid_HandshakeRequest m \<longleftrightarrow>
     valid_range (HandshakeRequest.Protocol m) \<and> \<not> all_space (HandshakeRequest.ClusterID m)"

definition valid_profile_health :: "StorageProfile \<Rightarrow> bool \<Rightarrow> bool" where
  "valid_profile_health p healthy \<longleftrightarrow> p = StorageDurable \<or> (p = StorageMemory \<and> \<not> healthy)"

definition valid_Handshake :: "Handshake \<Rightarrow> bool" where
  "valid_Handshake m \<longleftrightarrow>
     ProtocolVersion m \<in> supported CurrentProtocolRange \<and> Handshake.HubGeneration m \<noteq> 0
     \<and> PartitionCount m \<noteq> 0 \<and> valid_profile_health (Handshake.StorageProfile m) (Handshake.DurableHealthy m)
     \<and> \<not> all_space (Handshake.ClusterID m)"

definition valid_HubStatusRequest :: "HubStatusRequest \<Rightarrow> bool" where
  "valid_HubStatusRequest m \<longleftrightarrow> HubStatusRequest.HubGeneration m \<noteq> 0"

definition valid_HubStatus :: "HubStatus \<Rightarrow> bool" where
  "valid_HubStatus m \<longleftrightarrow>
     HubStatus.HubGeneration m \<noteq> 0
     \<and> (HubStatus.Status m = StatusOK \<and> valid_profile_health (HubStatus.StorageProfile m) (HubStatus.DurableHealthy m)
        \<or> HubStatus.Status m \<in> {StatusErrBadGeneration, StatusErrInvalidArgument})"

definition valid_rpc_GetRequest :: "(bytes, VersionTag) rpc_GetRequest \<Rightarrow> bool" where
  "valid_rpc_GetRequest m \<longleftrightarrow> rpc_GetRequest.HubGeneration m \<noteq> 0 \<and> valid_key (rpc_GetRequest.Key m)"

definition valid_GetResponse :: "bytes GetResponse \<Rightarrow> bool" where
  "valid_GetResponse m \<longleftrightarrow>
     GetResponse.HubGeneration m \<noteq> 0 \<and> valid_GetRecordFields (response_fields m)
     \<and> (GetResponse.Status m = StatusOK \<or> GetResponse.TTLMillis m = 0)"

definition valid_MutationRequest :: "bytes MutationRequest \<Rightarrow> bool" where
  "valid_MutationRequest m \<longleftrightarrow>
     MutationRequest.HubGeneration m \<noteq> 0 \<and> valid_key (MutationRequest.Key m)
     \<and> MutationRequest.MutationID m \<noteq> zeroMutationID
     \<and> MutationRequest.Mode m \<in> {WriteFast, WriteSync} \<and> MutationRequest.Confirm m = ConfirmInvalidateApplied
     \<and> (MutationRequest.Op m = OpSet \<and> length (MutationRequest.Value m) \<le> MaxValueLen
        \<or> MutationRequest.Op m = OpDelete \<and> MutationRequest.Value m = [] \<and> MutationRequest.TTLMillis m = 0)"

definition valid_MutationResponse :: "MutationResponse \<Rightarrow> bool" where
  "valid_MutationResponse m \<longleftrightarrow>
     MutationResponse.HubGeneration m \<noteq> 0
     \<and> (MutationResponse.Status m \<in> {StatusOK, StatusErrWriteConfirmTimeout}
          \<and> Sequence (MutationResponse.Version m) \<noteq> 0
        \<or> MutationResponse.Status m \<in> {StatusErrDurabilityUnavailable, StatusErrBadGeneration,
            StatusErrRateLimited, StatusErrInvalidArgument, StatusErrInternal}
          \<and> MutationResponse.Version m = zeroVersionTag)"

lemma validateClusterID_iff [valid_simps]: "validateClusterID c = None \<longleftrightarrow> \<not> all_space c"
  by (simp add: validateClusterID_def TrimSpace_Nil_iff)

lemma HandshakeRequest_Validate_iff [valid_simps]:
  "HandshakeRequest_Validate m = None \<longleftrightarrow> valid_HandshakeRequest m"
  by (auto simp: HandshakeRequest_Validate_def valid_HandshakeRequest_def validateClusterID_iff
      simp flip: ProtocolRange_Validate_iff split: option.splits)

lemma supported_current:
  "v \<in> supported CurrentProtocolRange \<longleftrightarrow> \<not> (v < MinSupportedProtocolVersion \<or> v > CurrentProtocolVersion)"
  unfolding supported_def CurrentProtocolRange_def de_Morgan_disj not_less by simp

lemma Handshake_Validate_iff [valid_simps]: "Handshake_Validate m = None \<longleftrightarrow> valid_Handshake m"
  by (auto simp: Handshake_Validate_def valid_Handshake_def validateClusterID_iff supported_current
      StorageProfile_Valid_def valid_profile_health_def)

lemma HubStatusRequest_Validate_iff [valid_simps]:
  "HubStatusRequest_Validate m = None \<longleftrightarrow> valid_HubStatusRequest m"
  by (simp add: HubStatusRequest_Validate_def valid_HubStatusRequest_def)

lemma HubStatus_Validate_iff [valid_simps]: "HubStatus_Validate m = None \<longleftrightarrow> valid_HubStatus m"
  by (auto simp: HubStatus_Validate_def valid_HubStatus_def Status_Valid_iff StorageProfile_Valid_def
      valid_profile_health_def)

lemma rpc_validateKey_iff [valid_simps]: "rpc_validateKey key = None \<longleftrightarrow> valid_key key"
  by (simp add: rpc_validateKey_def valid_key_def Suc_le_eq)

lemma rpc_GetRequest_Validate_iff [valid_simps]:
  "rpc_GetRequest_Validate m = None \<longleftrightarrow> valid_rpc_GetRequest m"
  by (simp add: rpc_GetRequest_Validate_def valid_rpc_GetRequest_def rpc_validateKey_iff)

lemma GetResponse_Validate_iff [valid_simps]: "GetResponse_Validate m = None \<longleftrightarrow> valid_GetResponse m"
  by (auto simp: GetResponse_Validate_def valid_GetResponse_def StatusCarriesGetRecord_def
      simp flip: GetRecordFields_Validate_iff split: option.splits)

text \<open>The timeout of a request is a number of milliseconds below \<open>2\<^sup>32\<close>, so its product with a
  million nanoseconds fits a signed 64-bit duration and is a whole number of milliseconds.\<close>

lemma sint_timeout:
  "sint (ucast (t :: 32 word) * word_of_int Millisecond :: 64 word) = uint t * Millisecond"
proof -
  have "0 \<le> uint t" "uint t < 2 ^ 32" using unsigned_less [of t, where 'a = int] by simp_all
  then have "0 \<le> uint t * Millisecond" and upper: "uint t * Millisecond < 2 ^ 63"
    by (simp_all add: Millisecond_def)
  then have lower: "- (2 ^ 63) \<le> uint t * Millisecond" by linarith
  have "ucast t * word_of_int Millisecond = (word_of_int (uint t * Millisecond) :: 64 word)"
    by (simp only: ucast_eq of_int_mult)
  moreover have "sint (word_of_int (uint t * Millisecond) :: 64 word) = uint t * Millisecond"
    using lower upper unfolding int_word_sint by (simp add: mod_pos_pos_trivial)
  ultimately show ?thesis by metis
qed

lemma timeout_whole_millis: "whole_millis (WriteOptions.Timeout (MutationRequest_WriteOptions m))"
  unfolding whole_millis_def MutationRequest_WriteOptions_def using sint_timeout by auto

lemma MutationRequest_options_valid:
  "valid_WriteOptions (MutationRequest_WriteOptions m) \<longleftrightarrow>
     MutationRequest.Mode m \<in> {WriteFast, WriteSync} \<and> MutationRequest.Confirm m = ConfirmInvalidateApplied"
  using timeout_whole_millis [of m] by (simp add: valid_WriteOptions_def) (simp add: MutationRequest_WriteOptions_def)

lemma MutationRequest_Validate_iff [valid_simps]:
  "MutationRequest_Validate m = None \<longleftrightarrow> valid_MutationRequest m"
  by (auto simp: MutationRequest_Validate_def valid_MutationRequest_def Op_Valid_def Let_def
      wire_SetRequest_Validate_iff wire_DeleteRequest_Validate_iff valid_SetRequest_def valid_DeleteRequest_def
      MutationRequest_options_valid)

lemma MutationResponse_Validate_iff [valid_simps]:
  "MutationResponse_Validate m = None \<longleftrightarrow> valid_MutationResponse m"
  by (auto simp: MutationResponse_Validate_def valid_MutationResponse_def Status_Valid_iff
      StatusCarriesCommittedVersion_def VersionTag_ValidateCommitted_def VersionTag_IsZero_def zeroVersionTag_def)

section \<open>Correctness\<close>

lemma WriteOptions_Validate_timeout:
  assumes "whole_millis t" "whole_millis u"
  shows "WriteOptions_Validate (opts\<lparr>WriteOptions.Timeout := t\<rparr>)
    = WriteOptions_Validate (opts\<lparr>WriteOptions.Timeout := u\<rparr>)"
  using assms by (simp add: WriteOptions_Validate_def whole_millis_iff)

lemma options_timeout:
  "MutationRequest_WriteOptions (m\<lparr>MutationRequest.Timeout := t\<rparr>)
     = (MutationRequest_WriteOptions m)\<lparr>WriteOptions.Timeout := ucast t * word_of_int Millisecond\<rparr>"
  by (simp add: MutationRequest_WriteOptions_def)

lemma MutationRequest_options_timeout:
  "WriteOptions_Validate (MutationRequest_WriteOptions (m\<lparr>MutationRequest.Timeout := t\<rparr>))
     = WriteOptions_Validate (MutationRequest_WriteOptions m)"
proof -
  have "WriteOptions_Validate (MutationRequest_WriteOptions (m\<lparr>MutationRequest.Timeout := t\<rparr>))
    = WriteOptions_Validate (MutationRequest_WriteOptions (m\<lparr>MutationRequest.Timeout := MutationRequest.Timeout m\<rparr>))"
    unfolding options_timeout
    by (rule WriteOptions_Validate_timeout; unfold whole_millis_def; use sint_timeout in blast)
  then show ?thesis by simp
qed


text \<open>C19. An accepted mutation response carries a committed version exactly when its status says the
  commit happened (success, or the write-confirmation timeout); every status that lets the caller
  retry with the same identity comes with no version at all, so a retry never follows a reported
  commit.\<close>

theorem MutationResponse_commit_or_retry:
  assumes "MutationResponse_Validate m = None"
  shows "(StatusCarriesCommittedVersion (MutationResponse.Status m) \<longleftrightarrow>
            Sequence (MutationResponse.Version m) \<noteq> 0)
    \<and> (\<not> StatusCarriesCommittedVersion (MutationResponse.Status m) \<longleftrightarrow>
            VersionTag_IsZero (MutationResponse.Version m))
    \<and> \<not> (RetrySameMutationID (MutationResponse.Status m) \<and> Sequence (MutationResponse.Version m) \<noteq> 0)"
  using assms unfolding MutationResponse_Validate_iff
  by (auto simp: valid_MutationResponse_def StatusCarriesCommittedVersion_def VersionTag_IsZero_def
      zeroVersionTag_def RetrySameMutationID_def Status_Retryable_def Status_Class_def)

theorem MutationResponse_commit_or_retry_witness:
  "MutationResponse_Validate \<lparr>MutationResponse.Status = StatusErrWriteConfirmTimeout, HubGeneration = 4,
     Version = \<lparr>PartitionID = 1, Sequence = 8\<rparr>\<rparr> = None
   \<and> \<not> RetrySameMutationID StatusErrWriteConfirmTimeout"
proof -
  let ?m = "\<lparr>MutationResponse.Status = StatusErrWriteConfirmTimeout, HubGeneration = 4,
     Version = \<lparr>PartitionID = 1, Sequence = 8\<rparr>\<rparr>"
  have ok: "MutationResponse_Validate ?m = None"
    by (simp add: MutationResponse_Validate_iff valid_MutationResponse_def)
  with MutationResponse_commit_or_retry [OF ok] show ?thesis by simp
qed

text \<open>C20. The get responses accepted are exactly those with a hub generation whose record fields encode
  one of the three outcomes of a read, where only a live value or a tombstone may carry a TTL.\<close>

theorem GetResponse_accepted:
  "GetResponse_Validate m = None \<longleftrightarrow>
     GetResponse.HubGeneration m \<noteq> 0
     \<and> (\<exists>w. outcome_valid w \<and> response_fields m = outcome_fields w
          \<and> (GetResponse.TTLMillis m = 0 \<or> (\<exists>v b. w = Live v b) \<or> (\<exists>v. w = Deleted v)))"
proof -
  have "GetResponse.Status m = StatusOK \<longleftrightarrow> (\<exists>v b. w = Live v b) \<or> (\<exists>v. w = Deleted v)"
    if "outcome_valid w" "response_fields m = outcome_fields w" for w
    using that by (cases w) (auto simp: response_fields_def)
  then show ?thesis
    unfolding GetResponse_Validate_iff valid_GetResponse_def valid_GetRecordFields_def by metis
qed

text \<open>C21. A get request checked against a partition table never panics, even for a zero partition count;
  it is accepted exactly when its own checks pass, the partition count is positive, and a minimum
  version, if any, names the partition the key is routed to.\<close>

theorem ValidateForPartitions_accepted:
  "(\<exists>e. rpc_GetRequest_ValidateForPartitions m n = Return e)
   \<and> (rpc_GetRequest_ValidateForPartitions m n = Return None \<longleftrightarrow>
        rpc_GetRequest_Validate m = None \<and> 0 < n
        \<and> (\<forall>v. rpc_GetRequest.MinVersion m = Some v \<longrightarrow> PartitionOf (rpc_GetRequest.Key m) n = Return (PartitionID v)))"
proof -
  let ?r = "\<lparr>wire_GetRequest.Key = rpc_GetRequest.Key m, MinVersion = rpc_GetRequest.MinVersion m\<rparr>"
  show ?thesis
  proof (cases "rpc_GetRequest_Validate m")
    case None
    then have "valid_key (rpc_GetRequest.Key m)"
      by (simp add: rpc_GetRequest_Validate_iff valid_rpc_GetRequest_def)
    with None wire_GetRequest_Validate_verdict [of ?r n] show ?thesis
      by (simp add: rpc_GetRequest_ValidateForPartitions_def word_gt_0)
  qed (simp add: rpc_GetRequest_ValidateForPartitions_def)
qed

theorem ValidateForPartitions_accepted_witness:
  "rpc_GetRequest_ValidateForPartitions
     \<lparr>rpc_GetRequest.Key = [0x61], MinVersion = Some \<lparr>PartitionID = 232, Sequence = 1\<rparr>, HubGeneration = 5\<rparr> 257 = Return None
   \<and> PartitionOf [0x61] 257 = Return 232"
proof -
  let ?m = "\<lparr>rpc_GetRequest.Key = [0x61 :: byte], MinVersion = Some \<lparr>PartitionID = 232, Sequence = 1\<rparr>, HubGeneration = 5\<rparr>"
  have "rpc_GetRequest_ValidateForPartitions ?m 257 = Return None" by code_simp
  with ValidateForPartitions_accepted [of ?m 257] show ?thesis by simp
qed

text \<open>An accepted handshake speaks a version this build supports, names a generation and at least
  one partition, and claims durable health only on a durable profile.\<close>

theorem Handshake_accepted:
  "Handshake_Validate m = None \<longleftrightarrow>
     ProtocolVersion m \<in> supported CurrentProtocolRange \<and> Handshake.HubGeneration m \<noteq> 0
     \<and> 0 < PartitionCount m \<and> StorageProfile_Valid (Handshake.StorageProfile m)
     \<and> (Handshake.DurableHealthy m \<longrightarrow> Handshake.StorageProfile m = StorageDurable)
     \<and> \<not> all_space (Handshake.ClusterID m)"
  unfolding Handshake_Validate_iff valid_Handshake_def valid_profile_health_def StorageProfile_Valid_def word_gt_0
  by (cases "Handshake.StorageProfile m = StorageDurable") auto

theorem Handshake_accepted_witness:
  "Handshake_Validate \<lparr>ProtocolVersion = 1, HubGeneration = 2, PartitionCount = 257, StorageProfile = StorageDurable,
     DurableHealthy = True, ClusterID = ''c''\<rparr> = None
   \<and> 1 \<in> supported CurrentProtocolRange"
proof -
  let ?m = "\<lparr>ProtocolVersion = 1, HubGeneration = 2, PartitionCount = 257, StorageProfile = StorageDurable,
     DurableHealthy = True, ClusterID = ''c''\<rparr>"
  have "Handshake_Validate ?m = None" by code_simp
  with Handshake_accepted [of ?m] show ?thesis by simp
qed

end
