(* ===== verification/Rpc_Convert.thy ===== *)
theory Rpc_Convert
  imports Rpc_Types Pb
begin

text \<open>
  \<^verbatim>\<open>internal/rpc/convert.go\<close>: conversions between the data-plane messages and their protobuf
  messages. As in the control conversions, a \<^verbatim>\<open>Proto*\<close> function returns a fresh message and a
  \<^verbatim>\<open>FromProto*\<close> function takes a pointer that may be nil. Requests and the handshake are exact
  codecs; responses with a version tag accept nil for the zero version and are codecs; the hub
  status is a decoder only, because decoding is stricter than \<^verbatim>\<open>Validate\<close>.
\<close>

section \<open>Domain to protobuf\<close>

definition ProtoVersionTag :: "VersionTag \<Rightarrow> pb_VersionTag" where [convert_defs]:
  "ProtoVersionTag v = \<lparr>pb_VersionTag.PartitionId = PartitionID v, Sequence = VersionTag.Sequence v\<rparr>"

definition ProtoMutationID :: "MutationID \<Rightarrow> bytes pb_MutationID" where [convert_defs]:
  "ProtoMutationID i = \<lparr>pb_MutationID.Id = id_bytes i\<rparr>"

definition ProtoStatus :: "Status \<Rightarrow> pb_Status" where "ProtoStatus s = ucast s"

definition ProtoRecordKind :: "RecordKind \<Rightarrow> pb_RecordKind" where "ProtoRecordKind k = ucast k"

definition ProtoWriteMode :: "WriteMode \<Rightarrow> pb_WriteMode" where "ProtoWriteMode m = ucast m"

definition ProtoStorageProfile :: "StorageProfile \<Rightarrow> pb_StorageProfile" where
  "ProtoStorageProfile p = ucast p"

definition ProtoConfirmLevel :: "ConfirmLevel \<Rightarrow> pb_ConfirmLevel" where
  "ProtoConfirmLevel c = ucast c"

definition ProtoMutationOp :: "Op \<Rightarrow> pb_MutationOp" where
  "ProtoMutationOp op =
     (if op = OpSet then MutationOp_MUTATION_OP_SET
      else if op = OpDelete then MutationOp_MUTATION_OP_DELETE
      else MutationOp_MUTATION_OP_UNSPECIFIED)"

definition ProtoHandshakeRequest :: "HandshakeRequest \<Rightarrow> pb_HandshakeRequest" where [convert_defs]:
  "ProtoHandshakeRequest m =
     \<lparr>pb_HandshakeRequest.ProtocolVersion = ucast (ProtocolRange.Version (HandshakeRequest.Protocol m)),
      MinSupportedVersion = ucast (ProtocolRange.MinSupported (HandshakeRequest.Protocol m)),
      ClusterId = HandshakeRequest.ClusterID m,
      ExpectedHubGeneration = HandshakeRequest.ExpectedHubGeneration m\<rparr>"

definition ProtoHandshake :: "Handshake \<Rightarrow> pb_HandshakeResponse" where [convert_defs]:
  "ProtoHandshake m =
     \<lparr>pb_HandshakeResponse.ProtocolVersion = ucast (Handshake.ProtocolVersion m),
      HubGeneration = Handshake.HubGeneration m,
      PartitionCount = Handshake.PartitionCount m,
      StorageProfile = ProtoStorageProfile (Handshake.StorageProfile m),
      DurableHealthy = Handshake.DurableHealthy m,
      ClusterId = Handshake.ClusterID m\<rparr>"

definition ProtoHubStatusRequest :: "HubStatusRequest \<Rightarrow> pb_HubStatusRequest" where [convert_defs]:
  "ProtoHubStatusRequest m = \<lparr>pb_HubStatusRequest.HubGeneration = HubStatusRequest.HubGeneration m\<rparr>"

definition ProtoHubStatus :: "HubStatus \<Rightarrow> pb_HubStatusResponse" where [convert_defs]:
  "ProtoHubStatus m =
     \<lparr>pb_HubStatusResponse.HubGeneration = HubStatus.HubGeneration m,
      StorageProfile = ProtoStorageProfile (HubStatus.StorageProfile m),
      DurableHealthy = HubStatus.DurableHealthy m,
      Status = ProtoStatus (HubStatus.Status m)\<rparr>"

definition ProtoGetRequest :: "(bytes, VersionTag) rpc_GetRequest \<Rightarrow> bytes pb_GetRequest" where [convert_defs]:
  "ProtoGetRequest m =
     \<lparr>pb_GetRequest.Key = rpc_GetRequest.Key m,
      MinVersion = (case rpc_GetRequest.MinVersion m of None \<Rightarrow> None | Some v \<Rightarrow> Some (ProtoVersionTag v)),
      HubGeneration = rpc_GetRequest.HubGeneration m\<rparr>"

definition ProtoGetResponse :: "bytes GetResponse \<Rightarrow> bytes pb_GetResponse" where [convert_defs]:
  "ProtoGetResponse m =
     \<lparr>pb_GetResponse.Status = ProtoStatus (GetResponse.Status m),
      HubGeneration = GetResponse.HubGeneration m,
      Version = Some (ProtoVersionTag (GetResponse.Version m)),
      Value = GetResponse.Value m,
      TtlMillis = GetResponse.TTLMillis m,
      Kind = ProtoRecordKind (GetResponse.Kind m)\<rparr>"

definition ProtoMutationRequest :: "bytes MutationRequest \<Rightarrow> bytes pb_MutationRequest" where [convert_defs]:
  "ProtoMutationRequest m =
     \<lparr>pb_MutationRequest.Op = ProtoMutationOp (MutationRequest.Op m),
      Key = MutationRequest.Key m,
      Value = MutationRequest.Value m,
      TtlMillis = MutationRequest.TTLMillis m,
      MutationId = Some (ProtoMutationID (MutationRequest.MutationID m)),
      Mode = ProtoWriteMode (MutationRequest.Mode m),
      W = ucast (MutationRequest.W m),
      Confirm = ProtoConfirmLevel (MutationRequest.Confirm m),
      TimeoutMillis = MutationRequest.Timeout m,
      HubGeneration = MutationRequest.HubGeneration m\<rparr>"

definition ProtoMutationResponse :: "MutationResponse \<Rightarrow> pb_MutationResponse" where [convert_defs]:
  "ProtoMutationResponse m =
     \<lparr>pb_MutationResponse.Status = ProtoStatus (MutationResponse.Status m),
      HubGeneration = MutationResponse.HubGeneration m,
      Version = Some (ProtoVersionTag (MutationResponse.Version m))\<rparr>"

section \<open>Scalars from protobuf\<close>

definition FromProtoVersionTag :: "pb_VersionTag option \<Rightarrow> VersionTag" where
  "FromProtoVersionTag v =
     (if v = None then zeroVersionTag
      else \<lparr>PartitionID = pb_VersionTag_GetPartitionId v, Sequence = pb_VersionTag_GetSequence v\<rparr>)"

definition FromProtoMutationID :: "bytes pb_MutationID option \<Rightarrow> MutationID result" where
  "FromProtoMutationID m =
     (if m = None then (zeroMutationID, Some (Err (Wire_err ErrMutationIDRequired)))
      else let raw = pb_MutationID_GetId m in
        if length raw = 0 then (zeroMutationID, Some (Err (Wire_err ErrMutationIDRequired)))
        else if length raw \<noteq> 16
        then (zeroMutationID, Some (Errorf ''mutation id must be %d bytes, got %d''
                [FInt 16, FInt (int (length raw))] None))
        else (copyMutationID raw, None))"

definition FromProtoStatus :: "pb_Status \<Rightarrow> Status result" where
  "FromProtoStatus s =
     (if s = Status_STATUS_OK then (StatusOK, None)
      else if s = Status_STATUS_NOT_FOUND then (StatusNotFound, None)
      else if s = Status_STATUS_NOT_CAUGHT_UP then (StatusNotCaughtUp, None)
      else if s = Status_STATUS_ERR_DURABILITY_UNAVAILABLE then (StatusErrDurabilityUnavailable, None)
      else if s = Status_STATUS_ERR_BAD_GENERATION then (StatusErrBadGeneration, None)
      else if s = Status_STATUS_ERR_RATE_LIMITED then (StatusErrRateLimited, None)
      else if s = Status_STATUS_ERR_INVALID_ARGUMENT then (StatusErrInvalidArgument, None)
      else if s = Status_STATUS_ERR_WRITE_CONFIRM_TIMEOUT then (StatusErrWriteConfirmTimeout, None)
      else if s = Status_STATUS_ERR_INTERNAL then (StatusErrInternal, None)
      else (0, Some (wrap (Rpc_err ErrInvalidStatus) '': %v'' [FInt (sint s)])))"

definition FromProtoRecordKind :: "pb_RecordKind \<Rightarrow> RecordKind result" where
  "FromProtoRecordKind k =
     (if k = RecordKind_RECORD_KIND_VALUE then (RecordValue, None)
      else if k = RecordKind_RECORD_KIND_TOMBSTONE then (RecordTombstone, None)
      else (0, Some (wrap (Rpc_err ErrInvalidEnum) '': record kind %v'' [FInt (sint k)])))"

definition FromProtoWriteMode :: "pb_WriteMode \<Rightarrow> WriteMode result" where
  "FromProtoWriteMode m =
     (if m = WriteMode_WRITE_MODE_FAST then (WriteFast, None)
      else if m = WriteMode_WRITE_MODE_SYNC then (WriteSync, None)
      else (0, Some (wrap (Rpc_err ErrInvalidEnum) '': write mode %v'' [FInt (sint m)])))"

definition FromProtoStorageProfile :: "pb_StorageProfile \<Rightarrow> StorageProfile result" where
  "FromProtoStorageProfile p =
     (if p = StorageProfile_STORAGE_PROFILE_MEMORY then (StorageMemory, None)
      else if p = StorageProfile_STORAGE_PROFILE_DURABLE then (StorageDurable, None)
      else (0, Some (wrap (Rpc_err ErrInvalidEnum) '': storage profile %v'' [FInt (sint p)])))"

definition FromProtoConfirmLevel :: "pb_ConfirmLevel \<Rightarrow> ConfirmLevel result" where
  "FromProtoConfirmLevel c =
     (if c = ConfirmLevel_CONFIRM_LEVEL_INVALIDATE_APPLIED then (ConfirmInvalidateApplied, None)
      else (0, Some (wrap (Rpc_err ErrInvalidEnum) '': confirm level %v'' [FInt (sint c)])))"

definition FromProtoMutationOp :: "pb_MutationOp \<Rightarrow> Op result" where
  "FromProtoMutationOp op =
     (if op = MutationOp_MUTATION_OP_SET then (OpSet, None)
      else if op = MutationOp_MUTATION_OP_DELETE then (OpDelete, None)
      else (0, Some (wrap (Rpc_err ErrInvalidOp) '': %v'' [FInt (sint op)])))"

definition rpc_protocolVersionFromUint32 :: "32 word \<Rightarrow> ProtocolVersion result" where
  "rpc_protocolVersionFromUint32 v =
     (if v > 65535
      then (0, Some (wrap (Wire_err ErrInvalidProtocolRange) '': protocol version %d exceeds uint16''
              [FInt (uint v)]))
      else (ucast v, None))"

section \<open>Messages from protobuf\<close>

definition zeroHandshakeRequest :: HandshakeRequest where
  "zeroHandshakeRequest = \<lparr>HandshakeRequest.Protocol = \<lparr>ProtocolRange.Version = 0, MinSupported = 0\<rparr>,
     ClusterID = '''', ExpectedHubGeneration = 0\<rparr>"

definition zeroHandshake :: Handshake where
  "zeroHandshake = \<lparr>Handshake.ProtocolVersion = 0, HubGeneration = 0, PartitionCount = 0, StorageProfile = 0,
     DurableHealthy = False, ClusterID = ''''\<rparr>"

definition zeroHubStatusRequest :: HubStatusRequest where
  "zeroHubStatusRequest = \<lparr>HubStatusRequest.HubGeneration = 0\<rparr>"

definition zeroHubStatus :: HubStatus where
  "zeroHubStatus = \<lparr>HubStatus.HubGeneration = 0, StorageProfile = 0, DurableHealthy = False, Status = 0\<rparr>"

definition zero_rpc_GetRequest :: "(bytes, VersionTag) rpc_GetRequest" where
  "zero_rpc_GetRequest = \<lparr>rpc_GetRequest.Key = [], MinVersion = None, HubGeneration = 0\<rparr>"

definition zeroGetResponse :: "bytes GetResponse" where
  "zeroGetResponse = \<lparr>GetResponse.Status = 0, HubGeneration = 0, Version = zeroVersionTag, Value = [],
     TTLMillis = 0, Kind = 0\<rparr>"

definition zeroMutationRequest :: "bytes MutationRequest" where
  "zeroMutationRequest = \<lparr>MutationRequest.Op = 0, Key = [], Value = [], TTLMillis = 0, MutationID = zeroMutationID,
     Mode = 0, W = 0, Confirm = 0, Timeout = 0, HubGeneration = 0\<rparr>"

definition zeroMutationResponse :: MutationResponse where
  "zeroMutationResponse = \<lparr>MutationResponse.Status = 0, HubGeneration = 0, Version = zeroVersionTag\<rparr>"

definition FromProtoHandshakeRequest :: "pb_HandshakeRequest option \<Rightarrow> HandshakeRequest result" where
  "FromProtoHandshakeRequest m =
     (if m = None then (zeroHandshakeRequest, Some (Errorf ''nil handshake request'' [] None)) else
      on_ok zeroHandshakeRequest (rpc_protocolVersionFromUint32 (pb_HandshakeRequest_GetProtocolVersion m)) (\<lambda>version.
      on_ok zeroHandshakeRequest (rpc_protocolVersionFromUint32 (pb_HandshakeRequest_GetMinSupportedVersion m)) (\<lambda>minimum.
      checked HandshakeRequest_Validate
        \<lparr>HandshakeRequest.Protocol = \<lparr>ProtocolRange.Version = version, MinSupported = minimum\<rparr>,
         ClusterID = pb_HandshakeRequest_GetClusterId m,
         ExpectedHubGeneration = pb_HandshakeRequest_GetExpectedHubGeneration m\<rparr>)))"

definition FromProtoHandshake :: "pb_HandshakeResponse option \<Rightarrow> Handshake result" where
  "FromProtoHandshake m =
     (if m = None then (zeroHandshake, Some (Errorf ''nil handshake response'' [] None)) else
      on_ok zeroHandshake (rpc_protocolVersionFromUint32 (pb_HandshakeResponse_GetProtocolVersion m)) (\<lambda>version.
      on_ok zeroHandshake (FromProtoStorageProfile (pb_HandshakeResponse_GetStorageProfile m)) (\<lambda>profile.
      checked Handshake_Validate
        \<lparr>Handshake.ProtocolVersion = version,
         HubGeneration = pb_HandshakeResponse_GetHubGeneration m,
         PartitionCount = pb_HandshakeResponse_GetPartitionCount m,
         StorageProfile = profile,
         DurableHealthy = pb_HandshakeResponse_GetDurableHealthy m,
         ClusterID = pb_HandshakeResponse_GetClusterId m\<rparr>)))"

definition FromProtoHubStatusRequest :: "pb_HubStatusRequest option \<Rightarrow> HubStatusRequest result" where
  "FromProtoHubStatusRequest m =
     (if m = None then (zeroHubStatusRequest, Some (Errorf ''nil hub status request'' [] None)) else
      checked HubStatusRequest_Validate
        \<lparr>HubStatusRequest.HubGeneration = pb_HubStatusRequest_GetHubGeneration m\<rparr>)"

definition FromProtoHubStatus :: "pb_HubStatusResponse option \<Rightarrow> HubStatus result" where
  "FromProtoHubStatus m =
     (if m = None then (zeroHubStatus, Some (Errorf ''nil hub status'' [] None)) else
      on_ok zeroHubStatus (FromProtoStatus (pb_HubStatusResponse_GetStatus m)) (\<lambda>status.
      on_ok zeroHubStatus (FromProtoStorageProfile (pb_HubStatusResponse_GetStorageProfile m)) (\<lambda>profile.
      checked HubStatus_Validate
        \<lparr>HubStatus.HubGeneration = pb_HubStatusResponse_GetHubGeneration m,
         StorageProfile = profile,
         DurableHealthy = pb_HubStatusResponse_GetDurableHealthy m,
         Status = status\<rparr>)))"

definition FromProtoGetRequest :: "bytes pb_GetRequest option \<Rightarrow> (bytes, VersionTag) rpc_GetRequest result" where
  "FromProtoGetRequest m = (case m of
     None \<Rightarrow> (zero_rpc_GetRequest, Some (Errorf ''nil get request'' [] None))
   | Some p \<Rightarrow>
      checked rpc_GetRequest_Validate
        \<lparr>rpc_GetRequest.Key = pb_GetRequest_GetKey m,
         MinVersion = (if pb_GetRequest.MinVersion p \<noteq> None
                       then Some (FromProtoVersionTag (pb_GetRequest_GetMinVersion m)) else None),
         HubGeneration = pb_GetRequest_GetHubGeneration m\<rparr>)"

definition FromProtoGetResponse :: "bytes pb_GetResponse option \<Rightarrow> bytes GetResponse result" where
  "FromProtoGetResponse m =
     (if m = None then (zeroGetResponse, Some (Errorf ''nil get response'' [] None)) else
      on_ok zeroGetResponse (FromProtoStatus (pb_GetResponse_GetStatus m)) (\<lambda>status.
      on_ok zeroGetResponse (FromProtoRecordKind (pb_GetResponse_GetKind m)) (\<lambda>kind.
      checked GetResponse_Validate
        \<lparr>GetResponse.Status = status,
         HubGeneration = pb_GetResponse_GetHubGeneration m,
         Version = FromProtoVersionTag (pb_GetResponse_GetVersion m),
         Value = pb_GetResponse_GetValue m,
         TTLMillis = pb_GetResponse_GetTtlMillis m,
         Kind = kind\<rparr>)))"

definition FromProtoMutationRequest :: "bytes pb_MutationRequest option \<Rightarrow> bytes MutationRequest result" where
  "FromProtoMutationRequest m =
     (if m = None then (zeroMutationRequest, Some (Errorf ''nil mutation request'' [] None)) else
      on_ok zeroMutationRequest (FromProtoMutationID (pb_MutationRequest_GetMutationId m)) (\<lambda>id.
      if pb_MutationRequest_GetW m > 65535
      then (zeroMutationRequest, Some (wrap (Wire_err ErrInvalidWriteTimeout) '': w out of range'' []))
      else
      on_ok zeroMutationRequest (FromProtoMutationOp (pb_MutationRequest_GetOp m)) (\<lambda>op.
      on_ok zeroMutationRequest (FromProtoWriteMode (pb_MutationRequest_GetMode m)) (\<lambda>mode.
      on_ok zeroMutationRequest (FromProtoConfirmLevel (pb_MutationRequest_GetConfirm m)) (\<lambda>confirm.
      checked MutationRequest_Validate
        \<lparr>MutationRequest.Op = op,
         Key = pb_MutationRequest_GetKey m,
         Value = pb_MutationRequest_GetValue m,
         TTLMillis = pb_MutationRequest_GetTtlMillis m,
         MutationID = id,
         Mode = mode,
         W = ucast (pb_MutationRequest_GetW m),
         Confirm = confirm,
         Timeout = pb_MutationRequest_GetTimeoutMillis m,
         HubGeneration = pb_MutationRequest_GetHubGeneration m\<rparr>)))))"

definition FromProtoMutationResponse :: "pb_MutationResponse option \<Rightarrow> MutationResponse result" where
  "FromProtoMutationResponse m =
     (if m = None then (zeroMutationResponse, Some (Errorf ''nil mutation response'' [] None)) else
      on_ok zeroMutationResponse (FromProtoStatus (pb_MutationResponse_GetStatus m)) (\<lambda>status.
      checked MutationResponse_Validate
        \<lparr>MutationResponse.Status = status,
         HubGeneration = pb_MutationResponse_GetHubGeneration m,
         Version = FromProtoVersionTag (pb_MutationResponse_GetVersion m)\<rparr>))"

section \<open>Enumerations and versions fail closed\<close>

interpretation rpc_version: closed_enum "\<lambda>_. True" ucast rpc_protocolVersionFromUint32
  by unfold_locales
    (auto simp: rpc_protocolVersionFromUint32_def ucast_32_16 split: if_splits)

interpretation rpc_status: closed_enum Status_Valid ProtoStatus FromProtoStatus
  by unfold_locales (auto simp: FromProtoStatus_def ProtoStatus_def Status_Valid_iff split: if_splits)

interpretation rpc_kind: closed_enum RecordKind_Valid ProtoRecordKind FromProtoRecordKind
  by unfold_locales (auto simp: FromProtoRecordKind_def ProtoRecordKind_def RecordKind_Valid_def split: if_splits)

interpretation rpc_mode: closed_enum WriteMode_Valid ProtoWriteMode FromProtoWriteMode
  by unfold_locales (auto simp: FromProtoWriteMode_def ProtoWriteMode_def WriteMode_Valid_def split: if_splits)

interpretation rpc_profile: closed_enum StorageProfile_Valid ProtoStorageProfile FromProtoStorageProfile
  by unfold_locales
    (auto simp: FromProtoStorageProfile_def ProtoStorageProfile_def StorageProfile_Valid_def split: if_splits)

interpretation rpc_confirm: closed_enum ConfirmLevel_Valid ProtoConfirmLevel FromProtoConfirmLevel
  by unfold_locales
    (auto simp: FromProtoConfirmLevel_def ProtoConfirmLevel_def ConfirmLevel_Valid_def split: if_splits)

interpretation rpc_op: closed_enum Op_Valid ProtoMutationOp FromProtoMutationOp
  by unfold_locales (auto simp: FromProtoMutationOp_def ProtoMutationOp_def Op_Valid_def split: if_splits)

lemmas rpc_enum_from_to = rpc_version.enum_from_to rpc_status.enum_from_to rpc_kind.enum_from_to
  rpc_mode.enum_from_to rpc_profile.enum_from_to rpc_confirm.enum_from_to rpc_op.enum_from_to

lemmas rpc_enum_to_from = rpc_version.enum_to_from rpc_status.enum_to_from rpc_kind.enum_to_from
  rpc_mode.enum_to_from rpc_profile.enum_to_from rpc_confirm.enum_to_from rpc_op.enum_to_from

lemma FromProtoMutationID_None:
  "FromProtoMutationID m = (i, None) \<longleftrightarrow> m = Some (ProtoMutationID i)"
  by (cases m) (auto simp: FromProtoMutationID_def ProtoMutationID_def getter_simps Let_def
      id_bytes_copyMutationID)

lemma FromProtoMutationID_Proto [simp]: "FromProtoMutationID (Some (ProtoMutationID i)) = (i, None)"
  by (simp add: FromProtoMutationID_None)

lemma FromProtoVersionTag_Proto [simp]: "FromProtoVersionTag (Some (ProtoVersionTag v)) = v"
  by (simp add: FromProtoVersionTag_def ProtoVersionTag_def getter_simps)

lemma ProtoVersionTag_FromProto [simp]: "ProtoVersionTag (FromProtoVersionTag (Some t)) = t"
  by (simp add: FromProtoVersionTag_def ProtoVersionTag_def getter_simps)

section \<open>Codecs\<close>

interpretation handshake_request_codec: exact_codec HandshakeRequest_Validate valid_HandshakeRequest
  ProtoHandshakeRequest FromProtoHandshakeRequest
  by unfold_locales
    (auto simp: FromProtoHandshakeRequest_def ProtoHandshakeRequest_def getter_simps on_ok_None
      HandshakeRequest_Validate_iff rpc_enum_from_to dest!: rpc_enum_to_from split: if_splits)

interpretation handshake_codec: exact_codec Handshake_Validate valid_Handshake ProtoHandshake FromProtoHandshake
proof unfold_locales
  show "FromProtoHandshake (Some (ProtoHandshake d)) = (d, None)" if "valid_Handshake d" for d
  proof -
    have "StorageProfile_Valid (Handshake.StorageProfile d)"
      using that by (auto simp: valid_Handshake_def valid_profile_health_def StorageProfile_Valid_def)
    with that show ?thesis
      by (simp add: FromProtoHandshake_def ProtoHandshake_def getter_simps Handshake_Validate_iff rpc_enum_from_to)
  qed
qed (auto simp: FromProtoHandshake_def ProtoHandshake_def getter_simps on_ok_None Handshake_Validate_iff
    dest!: rpc_enum_to_from split: if_splits)

interpretation status_request_codec: exact_codec HubStatusRequest_Validate valid_HubStatusRequest
  ProtoHubStatusRequest FromProtoHubStatusRequest
  by unfold_locales
    (auto simp: FromProtoHubStatusRequest_def ProtoHubStatusRequest_def getter_simps
      HubStatusRequest_Validate_iff split: if_splits)

definition decodable_HubStatus :: "HubStatus \<Rightarrow> bool" where
  "decodable_HubStatus m \<longleftrightarrow> valid_HubStatus m \<and> StorageProfile_Valid (HubStatus.StorageProfile m)"

lemma valid_HubStatus_status: "valid_HubStatus m \<Longrightarrow> Status_Valid (HubStatus.Status m)"
  by (auto simp: valid_HubStatus_def Status_Valid_iff)

interpretation hub_status_codec: decoder decodable_HubStatus ProtoHubStatus FromProtoHubStatus
proof unfold_locales
  show "FromProtoHubStatus (Some (ProtoHubStatus d)) = (d, None)" if "decodable_HubStatus d" for d
    using that valid_HubStatus_status [of d]
    by (simp add: decodable_HubStatus_def FromProtoHubStatus_def ProtoHubStatus_def getter_simps
        HubStatus_Validate_iff rpc_enum_from_to)
qed (auto simp: FromProtoHubStatus_def decodable_HubStatus_def on_ok_None HubStatus_Validate_iff
    dest!: rpc_enum_to_from split: if_splits)

interpretation get_request_codec: exact_codec rpc_GetRequest_Validate valid_rpc_GetRequest
  ProtoGetRequest FromProtoGetRequest
proof unfold_locales
  show "FromProtoGetRequest (Some (ProtoGetRequest d)) = (d, None)" if "valid_rpc_GetRequest d" for d
    using that by (cases "rpc_GetRequest.MinVersion d")
      (simp_all add: FromProtoGetRequest_def ProtoGetRequest_def getter_simps rpc_GetRequest_Validate_iff)
  show "m = ProtoGetRequest d" if "FromProtoGetRequest (Some m) = (d, None)" for m d
    using that by (cases "pb_GetRequest.MinVersion m")
      (auto simp: FromProtoGetRequest_def ProtoGetRequest_def getter_simps)
qed (auto simp: FromProtoGetRequest_def rpc_GetRequest_Validate_iff split: option.splits)

lemma valid_GetResponse_parts:
  assumes "valid_GetResponse m"
  shows "Status_Valid (GetResponse.Status m)" and "RecordKind_Valid (GetResponse.Kind m)"
proof -
  obtain w where "outcome_valid w" "response_fields m = outcome_fields w"
    using assms by (auto simp: valid_GetResponse_def valid_GetRecordFields_def)
  then show "Status_Valid (GetResponse.Status m)" "RecordKind_Valid (GetResponse.Kind m)"
    by (cases w; auto simp: response_fields_def Status_Valid_iff RecordKind_Valid_def)+
qed

interpretation get_response_codec: codec GetResponse_Validate valid_GetResponse ProtoGetResponse FromProtoGetResponse
proof unfold_locales
  show "FromProtoGetResponse (Some (ProtoGetResponse d)) = (d, None)" if "valid_GetResponse d" for d
    using that valid_GetResponse_parts [OF that]
    by (simp add: FromProtoGetResponse_def ProtoGetResponse_def getter_simps GetResponse_Validate_iff rpc_enum_from_to)
qed (auto simp: FromProtoGetResponse_def on_ok_None GetResponse_Validate_iff split: if_splits)

lemma valid_MutationRequest_parts:
  assumes "valid_MutationRequest m"
  shows "Op_Valid (MutationRequest.Op m)" and "WriteMode_Valid (MutationRequest.Mode m)"
    and "ConfirmLevel_Valid (MutationRequest.Confirm m)"
  using assms by (auto simp: valid_MutationRequest_def Op_Valid_def WriteMode_Valid_def ConfirmLevel_Valid_def)

interpretation mutation_request_codec: exact_codec MutationRequest_Validate valid_MutationRequest
  ProtoMutationRequest FromProtoMutationRequest
proof unfold_locales
  show "FromProtoMutationRequest (Some (ProtoMutationRequest d)) = (d, None)" if "valid_MutationRequest d" for d
    using that valid_MutationRequest_parts [OF that]
    by (simp add: FromProtoMutationRequest_def ProtoMutationRequest_def getter_simps
        MutationRequest_Validate_iff rpc_enum_from_to)
  show "m = ProtoMutationRequest d" if "FromProtoMutationRequest (Some m) = (d, None)" for m d
    using that
    by (auto simp: FromProtoMutationRequest_def ProtoMutationRequest_def getter_simps on_ok_None
        FromProtoMutationID_None ucast_32_16 dest!: rpc_enum_to_from split: if_splits)
qed (auto simp: FromProtoMutationRequest_def on_ok_None MutationRequest_Validate_iff split: if_splits)

lemma valid_MutationResponse_status: "valid_MutationResponse m \<Longrightarrow> Status_Valid (MutationResponse.Status m)"
  by (auto simp: valid_MutationResponse_def Status_Valid_iff)

interpretation mutation_response_codec: codec MutationResponse_Validate valid_MutationResponse
  ProtoMutationResponse FromProtoMutationResponse
proof unfold_locales
  show "FromProtoMutationResponse (Some (ProtoMutationResponse d)) = (d, None)" if "valid_MutationResponse d" for d
    using that valid_MutationResponse_status [OF that]
    by (simp add: FromProtoMutationResponse_def ProtoMutationResponse_def getter_simps
        MutationResponse_Validate_iff rpc_enum_from_to)
qed (auto simp: FromProtoMutationResponse_def on_ok_None MutationResponse_Validate_iff split: if_splits)

section \<open>Correctness\<close>

text \<open>C22. The requests of the data plane and the handshake are decoded exactly: a message is accepted
  as a domain value exactly when the value passes its own validation and the message is the one the
  encoder builds from it. In particular \<open>W\<close>, the operation, the mode, the level and the protocol
  versions are never truncated into an accepted value.\<close>

theorem rpc_requests_exact:
  "(FromProtoMutationRequest p = (d, None) \<longleftrightarrow>
      MutationRequest_Validate d = None \<and> p = Some (ProtoMutationRequest d))
   \<and> (FromProtoGetRequest q = (g, None) \<longleftrightarrow>
      rpc_GetRequest_Validate g = None \<and> q = Some (ProtoGetRequest g))
   \<and> (FromProtoHandshakeRequest r = (h, None) \<longleftrightarrow>
      HandshakeRequest_Validate h = None \<and> r = Some (ProtoHandshakeRequest h))
   \<and> (FromProtoHandshake s = (k, None) \<longleftrightarrow> Handshake_Validate k = None \<and> s = Some (ProtoHandshake k))
   \<and> (FromProtoHubStatusRequest u = (l, None) \<longleftrightarrow>
      HubStatusRequest_Validate l = None \<and> u = Some (ProtoHubStatusRequest l))"
  by (intro conjI mutation_request_codec.accept_iff get_request_codec.accept_iff
      handshake_request_codec.accept_iff handshake_codec.accept_iff status_request_codec.accept_iff)

text \<open>A version tag pointer that decodes to \<open>v\<close>: the encoded tag, or nil for the zero version.\<close>

lemma FromProtoVersionTag_iff:
  "FromProtoVersionTag t = v \<longleftrightarrow> t = Some (ProtoVersionTag v) \<or> (VersionTag_IsZero v \<and> t = None)"
  by (cases t) (auto simp: FromProtoVersionTag_def ProtoVersionTag_def VersionTag_IsZero_def zeroVersionTag_def
      getter_simps)

lemma get_response_accept:
  "FromProtoGetResponse (Some m) = (d, None) \<longleftrightarrow>
     GetResponse_Validate d = None
     \<and> (m = ProtoGetResponse d
        \<or> VersionTag_IsZero (GetResponse.Version d) \<and> m = (ProtoGetResponse d)\<lparr>pb_GetResponse.Version := None\<rparr>)"
  (is "?l \<longleftrightarrow> ?r")
proof
  assume ?l
  then obtain s k where s: "FromProtoStatus (pb_GetResponse.Status m) = (s, None)"
    and k: "FromProtoRecordKind (pb_GetResponse.Kind m) = (k, None)"
    and d: "GetResponse_Validate d = None" "GetResponse.Status d = s" "GetResponse.Kind d = k"
      "GetResponse.HubGeneration d = pb_GetResponse.HubGeneration m" "GetResponse.Value d = pb_GetResponse.Value m"
      "GetResponse.TTLMillis d = pb_GetResponse.TtlMillis m"
      "FromProtoVersionTag (pb_GetResponse.Version m) = GetResponse.Version d"
    by (auto simp: FromProtoGetResponse_def on_ok_None getter_simps)
  then show ?r
    using rpc_enum_to_from(2) [OF s] rpc_enum_to_from(3) [OF k]
    unfolding FromProtoVersionTag_iff ProtoGetResponse_def
    by (cases m) auto
next
  assume r: ?r
  have "FromProtoGetResponse (Some (ProtoGetResponse d)) = (d, None)"
    using r get_response_codec.roundtrip by blast
  then show ?l
    using r by (auto simp: FromProtoGetResponse_def ProtoGetResponse_def getter_simps on_ok_None FromProtoVersionTag_def
        ProtoVersionTag_def
        VersionTag_IsZero_def zeroVersionTag_def)
qed

lemma mutation_response_accept:
  "FromProtoMutationResponse (Some m) = (d, None) \<longleftrightarrow>
     MutationResponse_Validate d = None
     \<and> (m = ProtoMutationResponse d
        \<or> VersionTag_IsZero (MutationResponse.Version d)
          \<and> m = (ProtoMutationResponse d)\<lparr>pb_MutationResponse.Version := None\<rparr>)"
  (is "?l \<longleftrightarrow> ?r")
proof
  assume ?l
  then obtain s where s: "FromProtoStatus (pb_MutationResponse.Status m) = (s, None)"
    and d: "MutationResponse_Validate d = None" "MutationResponse.Status d = s"
      "MutationResponse.HubGeneration d = pb_MutationResponse.HubGeneration m"
      "FromProtoVersionTag (pb_MutationResponse.Version m) = MutationResponse.Version d"
    by (auto simp: FromProtoMutationResponse_def on_ok_None getter_simps)
  then show ?r
    using rpc_enum_to_from(2) [OF s]
    unfolding FromProtoVersionTag_iff ProtoMutationResponse_def
    by (cases m) auto
next
  assume r: ?r
  have "FromProtoMutationResponse (Some (ProtoMutationResponse d)) = (d, None)"
    using r mutation_response_codec.roundtrip by blast
  then show ?l
    using r by (auto simp: FromProtoMutationResponse_def ProtoMutationResponse_def getter_simps on_ok_None
        FromProtoVersionTag_def ProtoVersionTag_def VersionTag_IsZero_def zeroVersionTag_def)
qed

text \<open>C23. A read or mutation response is accepted as a domain value exactly when the value passes its
  own validation and the message is its encoding, or its encoding with the version left out in the
  case of a zero version. So a response that reports a commit or a record is accepted from one
  message only.\<close>

theorem rpc_responses_decode:
  "(FromProtoGetResponse p = (d, None) \<longleftrightarrow>
      GetResponse_Validate d = None
      \<and> (p = Some (ProtoGetResponse d)
         \<or> VersionTag_IsZero (GetResponse.Version d)
           \<and> p = Some ((ProtoGetResponse d)\<lparr>pb_GetResponse.Version := None\<rparr>)))
   \<and> (FromProtoMutationResponse q = (e, None) \<longleftrightarrow>
      MutationResponse_Validate e = None
      \<and> (q = Some (ProtoMutationResponse e)
         \<or> VersionTag_IsZero (MutationResponse.Version e)
           \<and> q = Some ((ProtoMutationResponse e)\<lparr>pb_MutationResponse.Version := None\<rparr>)))"
  using get_response_codec.decoded_not_nil [of p d] mutation_response_codec.decoded_not_nil [of q e]
    get_response_accept mutation_response_accept
  by (intro conjI; cases p; cases q) auto

text \<open>C24. A hub status can be received exactly when it passes validation and its storage profile is a
  known one, whatever its status. \<^verbatim>\<open>HubStatus.Validate\<close> alone is weaker: beside a bad-generation or
  invalid-argument status it accepts any profile, so there are statuses it accepts that no peer can
  decode.\<close>

theorem HubStatus_decodable:
  "((\<exists>p. FromProtoHubStatus p = (m, None)) \<longleftrightarrow>
      HubStatus_Validate m = None \<and> StorageProfile_Valid (HubStatus.StorageProfile m))
   \<and> (\<exists>s. HubStatus_Validate s = None \<and> (\<nexists>p. FromProtoHubStatus p = (s, None)))"
proof
  show *: "(\<exists>p. FromProtoHubStatus p = (m, None)) \<longleftrightarrow>
      HubStatus_Validate m = None \<and> StorageProfile_Valid (HubStatus.StorageProfile m)" for m
    unfolding hub_status_codec.decode_iff decodable_HubStatus_def HubStatus_Validate_iff ..
  have "HubStatus_Validate \<lparr>HubStatus.HubGeneration = 1, StorageProfile = 2, DurableHealthy = False,
      Status = StatusErrBadGeneration\<rparr> = None"
    by (simp add: HubStatus_Validate_iff valid_HubStatus_def)
  then show "\<exists>s. HubStatus_Validate s = None \<and> (\<nexists>p. FromProtoHubStatus p = (s, None))"
    unfolding * by (intro exI conjI) (auto simp: StorageProfile_Valid_def)
qed

text \<open>The enumerations of the data plane fail closed: each decoder accepts exactly the numbers of
  the known members, and inverts the encoder on them.\<close>

theorem rpc_enums_fail_closed:
  "(FromProtoStatus n = (s, None) \<longleftrightarrow> Status_Valid s \<and> n = ProtoStatus s)
   \<and> (FromProtoRecordKind n = (k, None) \<longleftrightarrow> RecordKind_Valid k \<and> n = ProtoRecordKind k)
   \<and> (FromProtoWriteMode n = (w, None) \<longleftrightarrow> WriteMode_Valid w \<and> n = ProtoWriteMode w)
   \<and> (FromProtoStorageProfile n = (f, None) \<longleftrightarrow> StorageProfile_Valid f \<and> n = ProtoStorageProfile f)
   \<and> (FromProtoConfirmLevel n = (c, None) \<longleftrightarrow> ConfirmLevel_Valid c \<and> n = ProtoConfirmLevel c)
   \<and> (FromProtoMutationOp n = (x, None) \<longleftrightarrow> Op_Valid x \<and> n = ProtoMutationOp x)
   \<and> (rpc_protocolVersionFromUint32 n = (v, None) \<longleftrightarrow> n = ucast v)"
  by (intro conjI) (use rpc_enum_from_to rpc_enum_to_from in metis)+

text \<open>A mutation whose \<open>W\<close> does not fit 16 bits is refused with a zero request; the error it
  returns wraps the sentinel for a negative write timeout, although no timeout is involved.\<close>

theorem MutationRequest_w_out_of_range:
  assumes "pb_MutationRequest.MutationId m = Some (ProtoMutationID i)" "65535 < pb_MutationRequest.W m"
  shows "fst (FromProtoMutationRequest (Some m)) = zeroMutationRequest
    \<and> errors_Is (snd (FromProtoMutationRequest (Some m))) (Wire_err ErrInvalidWriteTimeout)"
  using assms by (simp add: FromProtoMutationRequest_def getter_simps)

theorem MutationRequest_w_out_of_range_witness:
  "errors_Is (snd (FromProtoMutationRequest (Some (ProtoMutationRequest zeroMutationRequest\<lparr>pb_MutationRequest.W := 65536\<rparr>))))
     (Wire_err ErrInvalidWriteTimeout)"
  using MutationRequest_w_out_of_range [of "ProtoMutationRequest zeroMutationRequest\<lparr>pb_MutationRequest.W := 65536\<rparr>"
      zeroMutationID]
  by (simp add: ProtoMutationRequest_def zeroMutationRequest_def)

end
