(* ===== verification/Rpc_Dedup.thy ===== *)
theory Rpc_Dedup
  imports Rpc_Types
begin

text \<open>
  \<^verbatim>\<open>internal/rpc/dedup.go\<close>: the key under which a hub retains the outcome of a mutation, and the
  fingerprint it compares when a mutation identity is used again.
\<close>

definition DefaultDedupWindow :: int where "DefaultDedupWindow = 5 * (60 * Second)"

section \<open>Keys\<close>

record DedupKey =
  NodeID :: "64 word"
  MutationID :: MutationID

definition DedupKey_Validate :: "DedupKey \<Rightarrow> error option" where
  "DedupKey_Validate k =
     (if NodeID k = 0 then Some (Err (Rpc_err rpc_err.ErrInvalidNodeID))
      else if MutationID_IsZero (DedupKey.MutationID k) then Some (Err (Wire_err ErrMutationIDRequired))
      else None)"

section \<open>Fingerprints\<close>

record 'b MutationFingerprint =
  Op :: Op
  Key :: 'b
  Value :: 'b
  TTLMillis :: "64 word"
  Mode :: WriteMode
  W :: "16 word"
  Confirm :: ConfirmLevel

definition Fingerprint :: "bytes MutationRequest \<Rightarrow> bytes MutationFingerprint" where
  "Fingerprint req =
     \<lparr>MutationFingerprint.Op = MutationRequest.Op req,
      Key = MutationRequest.Key req,
      Value = MutationRequest.Value req,
      TTLMillis = MutationRequest.TTLMillis req,
      Mode = MutationRequest.Mode req,
      W = MutationRequest.W req,
      Confirm = MutationRequest.Confirm req\<rparr>"

definition MutationFingerprint_Equal :: "bytes MutationFingerprint \<Rightarrow> bytes MutationFingerprint \<Rightarrow> bool" where
  "MutationFingerprint_Equal f other \<longleftrightarrow>
     MutationFingerprint.Op f = MutationFingerprint.Op other
     \<and> MutationFingerprint.TTLMillis f = MutationFingerprint.TTLMillis other
     \<and> MutationFingerprint.Mode f = MutationFingerprint.Mode other
     \<and> MutationFingerprint.W f = MutationFingerprint.W other
     \<and> MutationFingerprint.Confirm f = MutationFingerprint.Confirm other
     \<and> MutationFingerprint.Key f = MutationFingerprint.Key other
     \<and> MutationFingerprint.Value f = MutationFingerprint.Value other"

definition CheckMatch :: "bytes MutationFingerprint \<Rightarrow> bytes MutationFingerprint \<Rightarrow> error option" where
  "CheckMatch f other =
     (if \<not> MutationFingerprint_Equal f other then Some (Err (Rpc_err ErrMutationFingerprintMismatch)) else None)"

lemma MutationFingerprint_Equal_iff [simp]: "MutationFingerprint_Equal f g \<longleftrightarrow> f = g"
  by (cases f; cases g) (auto simp: MutationFingerprint_Equal_def)

lemma CheckMatch_iff: "CheckMatch f g = None \<longleftrightarrow> f = g"
  by (simp add: CheckMatch_def)

definition valid_DedupKey :: "DedupKey \<Rightarrow> bool" where
  "valid_DedupKey k \<longleftrightarrow> NodeID k \<noteq> 0 \<and> DedupKey.MutationID k \<noteq> zeroMutationID"

lemma DedupKey_Validate_iff [valid_simps]: "DedupKey_Validate k = None \<longleftrightarrow> valid_DedupKey k"
  by (simp add: DedupKey_Validate_def valid_DedupKey_def MutationID_IsZero_def)

interpretation dedup_key: validated DedupKey_Validate valid_DedupKey
  by unfold_locales (rule DedupKey_Validate_iff)

section \<open>Correctness\<close>

text \<open>Two requests that may stand for the same mutation: equal but for the wait, the identity and the
  hub generation.\<close>

definition same_content :: "bytes MutationRequest \<Rightarrow> bytes MutationRequest \<Rightarrow> bool" where
  "same_content a b \<longleftrightarrow>
     b = a\<lparr>MutationRequest.Timeout := MutationRequest.Timeout b,
           MutationRequest.MutationID := MutationRequest.MutationID b,
           MutationRequest.HubGeneration := MutationRequest.HubGeneration b\<rparr>"

lemma same_content_iff: "same_content a b \<longleftrightarrow> Fingerprint a = Fingerprint b"
  by (cases a; cases b) (auto simp: same_content_def Fingerprint_def)

text \<open>C27. A reused mutation identity matches the retained fingerprint exactly when the new request
  differs from the retained one at most in its timeout, identity and hub generation; every other
  difference is reported as a fingerprint mismatch. So a retry may lengthen its wait, and stays
  valid, but can never pass off other content as the retained mutation.\<close>

theorem fingerprint_matches_same_content:
  "(CheckMatch (Fingerprint a) (Fingerprint b) = None \<longleftrightarrow> same_content a b)
   \<and> (CheckMatch (Fingerprint a) (Fingerprint b) \<noteq> None \<longleftrightarrow>
        CheckMatch (Fingerprint a) (Fingerprint b) = Some (Err (Rpc_err ErrMutationFingerprintMismatch)))
   \<and> CheckMatch (Fingerprint a) (Fingerprint (a\<lparr>MutationRequest.Timeout := t\<rparr>)) = None
   \<and> MutationFingerprint_Equal (Fingerprint a) (Fingerprint b)
       = MutationFingerprint_Equal (Fingerprint b) (Fingerprint a)"
proof (intro conjI)
  show "CheckMatch (Fingerprint a) (Fingerprint (a\<lparr>MutationRequest.Timeout := t\<rparr>)) = None"
    by (simp add: CheckMatch_iff Fingerprint_def)
qed (auto simp: CheckMatch_iff same_content_iff, auto simp: CheckMatch_def)

end
