(* ===== verification/L1.thy ===== *)
theory L1
  imports Wire_Record
begin

text \<open>
  \<^verbatim>\<open>internal/l1/hub.go\<close> and \<^verbatim>\<open>fake_contract.go\<close>: the result of an authoritative read as the node's
  local cache consumes it, and the mutation snapshot that the fake hub's commit barrier observes.
  The interface \<^verbatim>\<open>HubClient\<close> has no implementation in the repository, and \<^verbatim>\<open>FakeHooks\<close> is a record of
  test callbacks; neither has behaviour of its own to model.
\<close>

text \<open>The errors of a read, by the names this package gives them.\<close>

abbreviation l1_ErrInvalidGetStatus :: sentinel where "l1_ErrInvalidGetStatus \<equiv> Record_err ErrInvalidGetStatus"

abbreviation l1_ErrMissingVersion :: sentinel where "l1_ErrMissingVersion \<equiv> Record_err ErrMissingVersion"

abbreviation l1_ErrUnexpectedVersion :: sentinel where "l1_ErrUnexpectedVersion \<equiv> Record_err ErrUnexpectedVersion"

abbreviation l1_ErrUnexpectedValue :: sentinel where "l1_ErrUnexpectedValue \<equiv> Record_err ErrUnexpectedValue"

abbreviation l1_ErrInvalidRecordKind :: sentinel where
  "l1_ErrInvalidRecordKind \<equiv> Record_err record_err.ErrInvalidRecordKind"

abbreviation l1_ErrInvalidResultTTL :: sentinel where "l1_ErrInvalidResultTTL \<equiv> Record_err ErrInvalidResultTTL"

type_synonym l1_Op = "8 word"

abbreviation l1_OpGet :: l1_Op where "l1_OpGet \<equiv> 0"

abbreviation l1_OpSet :: l1_Op where "l1_OpSet \<equiv> 1"

abbreviation l1_OpDelete :: l1_Op where "l1_OpDelete \<equiv> 2"

record 'b Mutation =
  Op :: l1_Op
  Key :: 'b
  Value :: 'b
  TTL :: duration
  Options :: WriteOptions

record 'b GetResult =
  Value :: 'b
  HubGeneration :: "64 word"
  Version :: VersionTag
  TTL :: duration
  Kind :: RecordKind
  Status :: Status

definition result_fields :: "'b GetResult \<Rightarrow> 'b GetRecordFields" where
  "result_fields r = \<lparr>GetRecordFields.Status = GetResult.Status r, Version = GetResult.Version r,
     Kind = GetResult.Kind r, Value = GetResult.Value r\<rparr>"

definition GetResult_Validate :: "bytes GetResult \<Rightarrow> error option" where
  "GetResult_Validate r =
     (if sint (GetResult.TTL r) < 0 then Some (Err (Record_err ErrInvalidResultTTL)) else
     (case GetRecordFields_Validate (result_fields r) of Some err \<Rightarrow> Some err | None \<Rightarrow>
      if GetResult.Status r \<noteq> StatusOK \<and> GetResult.TTL r \<noteq> 0 then Some (Err (Record_err ErrInvalidResultTTL))
      else None))"

definition valid_GetResult :: "bytes GetResult \<Rightarrow> bool" where
  "valid_GetResult r \<longleftrightarrow>
     0 \<le> sint (GetResult.TTL r) \<and> valid_GetRecordFields (result_fields r)
     \<and> (GetResult.Status r = StatusOK \<or> GetResult.TTL r = 0)"

lemma GetResult_Validate_iff [valid_simps]: "GetResult_Validate r = None \<longleftrightarrow> valid_GetResult r"
  by (auto simp: GetResult_Validate_def valid_GetResult_def simp flip: GetRecordFields_Validate_iff
      split: option.splits)

interpretation get_result: validated GetResult_Validate valid_GetResult
  by unfold_locales (rule GetResult_Validate_iff)

text \<open>C31. A read result is accepted exactly when its TTL is a non-negative duration and it is one of the
  three outcomes of a read, with a TTL only beside a live value or a tombstone; a result without
  record data is a zero value but for its status and hub generation.\<close>

theorem GetResult_accepted:
  "GetResult_Validate r = None \<longleftrightarrow>
     (\<exists>v b. outcome_valid (Live v b) \<and> 0 \<le> sint (GetResult.TTL r) \<and> result_fields r = outcome_fields (Live v b))
   \<or> (\<exists>v. outcome_valid (Deleted v) \<and> 0 \<le> sint (GetResult.TTL r) \<and> result_fields r = outcome_fields (Deleted v))
   \<or> (\<exists>s. outcome_valid (NoRecord s)
        \<and> r = \<lparr>GetResult.Value = [], HubGeneration = GetResult.HubGeneration r, Version = zeroVersionTag,
               TTL = 0, Kind = 0, Status = s\<rparr>)"
  (is "_ \<longleftrightarrow> ?live \<or> ?deleted \<or> ?none")
proof
  assume "GetResult_Validate r = None"
  then obtain w where w: "outcome_valid w" "result_fields r = outcome_fields w"
    and ttl: "0 \<le> sint (GetResult.TTL r)" "GetResult.Status r = StatusOK \<or> GetResult.TTL r = 0"
    by (auto simp: GetResult_Validate_iff valid_GetResult_def valid_GetRecordFields_def)
  show "?live \<or> ?deleted \<or> ?none"
  proof (cases w)
    case (NoRecord s)
    with w ttl have ?none by (cases r) (auto simp: result_fields_def)
    then show ?thesis by blast
  qed (use w ttl in blast)+
next
  assume "?live \<or> ?deleted \<or> ?none"
  then show "GetResult_Validate r = None"
  proof (elim disjE exE conjE)
    fix s
    assume s: "outcome_valid (NoRecord s)" "r = \<lparr>GetResult.Value = [], HubGeneration = GetResult.HubGeneration r,
      Version = zeroVersionTag, TTL = 0, Kind = 0, Status = s\<rparr>"
    then have "result_fields r = outcome_fields (NoRecord s)" "GetResult.TTL r = 0"
      by (metis (no_types) GetResult.select_convs outcome_fields.simps(3) result_fields_def)+
    with s show ?thesis
      unfolding GetResult_Validate_iff valid_GetResult_def valid_GetRecordFields_def
      by (auto simp del: outcome_valid.simps outcome_fields.simps)
  qed (auto simp: GetResult_Validate_iff valid_GetResult_def valid_GetRecordFields_def result_fields_def
      simp del: outcome_valid.simps)
qed

text \<open>The rules of a read result in the order they are checked, each with the error of its violation.\<close>

definition read_rules :: "bytes GetResult \<Rightarrow> (bool \<times> sentinel) list" where
  "read_rules r = (let ok = GetResult.Status r = StatusOK in
     [(0 \<le> sint (GetResult.TTL r), l1_ErrInvalidResultTTL),
      (Status_Valid (GetResult.Status r) \<and> GetResult.Status r \<noteq> StatusErrWriteConfirmTimeout, l1_ErrInvalidGetStatus),
      (ok \<longrightarrow> Sequence (GetResult.Version r) \<noteq> 0, l1_ErrMissingVersion),
      (ok \<longrightarrow> GetResult.Kind r \<in> {RecordValue, RecordTombstone}, l1_ErrInvalidRecordKind),
      (ok \<longrightarrow> GetResult.Kind r = RecordTombstone \<longrightarrow> GetResult.Value r = [], l1_ErrUnexpectedValue),
      (ok \<longrightarrow> length (GetResult.Value r) \<le> MaxValueLen, Wire_err ErrValueTooLarge),
      (\<not> ok \<longrightarrow> GetResult.Version r = zeroVersionTag, l1_ErrUnexpectedVersion),
      (\<not> ok \<longrightarrow> GetResult.Value r = [], l1_ErrUnexpectedValue),
      (\<not> ok \<longrightarrow> GetResult.Kind r = 0, l1_ErrInvalidRecordKind),
      (\<not> ok \<longrightarrow> GetResult.TTL r = 0, l1_ErrInvalidResultTTL)])"

text \<open>C32. A refused read result is refused with the error of the first rule it breaks: the TTL, the status, then
  for \<^verbatim>\<open>StatusOK\<close> the version, the kind, a tombstone's value and the length of a value, and for any
  other status a version, a value, a kind or a TTL that should not be there. The error matches that sentinel and no other.\<close>

theorem GetResult_diagnosis:
  "case dropWhile fst (read_rules r) of
     [] \<Rightarrow> GetResult_Validate r = None
   | (_, s) # _ \<Rightarrow> \<exists>e. GetResult_Validate r = Some e \<and> (\<forall>t. error_Is e t \<longleftrightarrow> t = s)"
proof -
  obtain v g ver ttl k s where r: "r = \<lparr>GetResult.Value = v, HubGeneration = g, Version = ver, TTL = ttl, Kind = k, Status = s\<rparr>"
    by (cases r)
  show ?thesis
    by (auto simp: r read_rules_def Let_def GetResult_Validate_def result_fields_def GetRecordFields_Validate_def
      VersionTag_ValidateCommitted_def RecordKind_Valid_def VersionTag_IsZero_def zeroVersionTag_def)
qed

end
