(* ===== verification/Ownership.thy ===== *)
theory Ownership
  imports Control_Types Rpc_Dedup L1 "HOL-Library.State_Monad"
begin

text \<open>
  Ownership of mutable memory: \<^verbatim>\<open>wire.CopyBytes\<close> and the \<^verbatim>\<open>Clone\<close> methods of all packages, over an
  explicit heap. A Go slice is nil or a window into an array; arrays and the cells behind
  \<^verbatim>\<open>*VersionTag\<close> pointers are the objects of the heap, addressed by allocation order. The capacity
  of a slice is left out: the sources reslice or append only to slices they have just allocated.

  The record types are those of the value-level theories with \<^typ>\<open>bytes\<close> replaced by slices, so each
  value function reads a heap-level message back into the value the other theories reason about.
\<close>

section \<open>Heap\<close>

datatype slice = NilSlice | Slice nat nat nat

datatype obj =
    OBytes bytes
  | OWatermarks "StreamWatermark list"
  | OIds "32 word list"
  | OEvents "slice InvalidationEvent list"
  | OTag VersionTag

type_synonym heap = "obj list"

definition window :: "nat \<Rightarrow> nat \<Rightarrow> 'a list \<Rightarrow> 'a list" where
  "window off n xs = take n (drop off xs)"

text \<open>The contents of an object read at its type, and the part of it a slice shows.\<close>

fun un_bytes :: "obj \<Rightarrow> bytes" where
  "un_bytes (OBytes b) = b"
| "un_bytes _ = []"

fun un_watermarks :: "obj \<Rightarrow> StreamWatermark list" where
  "un_watermarks (OWatermarks b) = b"
| "un_watermarks _ = []"

fun un_ids :: "obj \<Rightarrow> 32 word list" where
  "un_ids (OIds b) = b"
| "un_ids _ = []"

fun un_events :: "obj \<Rightarrow> slice InvalidationEvent list" where
  "un_events (OEvents b) = b"
| "un_events _ = []"

definition slice_of :: "(obj \<Rightarrow> 'a list) \<Rightarrow> heap \<Rightarrow> slice \<Rightarrow> 'a list" where
  "slice_of un h s = (case s of NilSlice \<Rightarrow> [] | Slice a off n \<Rightarrow> window off n (un (h ! a)))"

abbreviation bytes_of :: "heap \<Rightarrow> slice \<Rightarrow> bytes" where "bytes_of \<equiv> slice_of un_bytes"

abbreviation watermarks_of :: "heap \<Rightarrow> slice \<Rightarrow> StreamWatermark list" where
  "watermarks_of \<equiv> slice_of un_watermarks"

abbreviation ids_of :: "heap \<Rightarrow> slice \<Rightarrow> 32 word list" where "ids_of \<equiv> slice_of un_ids"

abbreviation events_of :: "heap \<Rightarrow> slice \<Rightarrow> slice InvalidationEvent list" where
  "events_of \<equiv> slice_of un_events"

definition tag_of :: "heap \<Rightarrow> nat \<Rightarrow> VersionTag" where
  "tag_of h a = (case h ! a of OTag v \<Rightarrow> v | _ \<Rightarrow> zeroVersionTag)"

definition alloc :: "obj \<Rightarrow> (heap, nat) state" where
  "alloc x = State (\<lambda>h. (length h, h @ [x]))"

definition load :: "(heap \<Rightarrow> 'a) \<Rightarrow> (heap, 'a) state" where
  "load f = State (\<lambda>h. (f h, h))"

lemma run_alloc [simp]: "run_state (alloc x) h = (length h, h @ [x])"
  by (simp add: alloc_def)

lemma run_load [simp]: "run_state (load f) h = (f h, h)"
  by (simp add: load_def)

text \<open>\<open>append_nil mk xs\<close> is \<^verbatim>\<open>append([]T(nil), xs...)\<close>: nil for no elements, else a fresh array.\<close>

definition append_nil :: "('a list \<Rightarrow> obj) \<Rightarrow> 'a list \<Rightarrow> (heap, slice) state" where
  "append_nil mk xs =
     (if xs = [] then State_Monad.return NilSlice
      else do { a \<leftarrow> alloc (mk xs); State_Monad.return (Slice a 0 (length xs)) })"

definition CopyBytes :: "slice \<Rightarrow> (heap, slice) state" where
  "CopyBytes b = do { xs \<leftarrow> load (\<lambda>h. bytes_of h b); append_nil OBytes xs }"

section \<open>Clone methods\<close>

definition wire_GetRequest_Clone ::
  "(slice, nat) wire_GetRequest \<Rightarrow> (heap, (slice, nat) wire_GetRequest) state" where
  "wire_GetRequest_Clone r = do {
     key \<leftarrow> CopyBytes (wire_GetRequest.Key r);
     case wire_GetRequest.MinVersion r of
       None \<Rightarrow> State_Monad.return \<lparr>wire_GetRequest.Key = key, MinVersion = None\<rparr>
     | Some p \<Rightarrow> do {
         version \<leftarrow> load (\<lambda>h. tag_of h p);
         q \<leftarrow> alloc (OTag version);
         State_Monad.return \<lparr>wire_GetRequest.Key = key, MinVersion = Some q\<rparr> } }"

definition wire_SetRequest_Clone :: "slice wire_SetRequest \<Rightarrow> (heap, slice wire_SetRequest) state" where
  "wire_SetRequest_Clone r = do {
     key \<leftarrow> CopyBytes (wire_SetRequest.Key r);
     value \<leftarrow> CopyBytes (wire_SetRequest.Value r);
     State_Monad.return (r\<lparr>wire_SetRequest.Key := key, wire_SetRequest.Value := value\<rparr>) }"

definition wire_DeleteRequest_Clone :: "slice wire_DeleteRequest \<Rightarrow> (heap, slice wire_DeleteRequest) state" where
  "wire_DeleteRequest_Clone r = do {
     key \<leftarrow> CopyBytes (wire_DeleteRequest.Key r);
     State_Monad.return (r\<lparr>wire_DeleteRequest.Key := key\<rparr>) }"

definition Hello_Clone :: "slice Hello \<Rightarrow> (heap, slice Hello) state" where
  "Hello_Clone m = do {
     ws \<leftarrow> load (\<lambda>h. watermarks_of h (Hello.Subscriptions m));
     s \<leftarrow> append_nil OWatermarks ws;
     State_Monad.return (m\<lparr>Hello.Subscriptions := s\<rparr>) }"

definition Subscribe_Clone :: "slice Subscribe \<Rightarrow> (heap, slice Subscribe) state" where
  "Subscribe_Clone m = do {
     ids \<leftarrow> load (\<lambda>h. ids_of h (Subscribe.StreamIDs m));
     s \<leftarrow> append_nil OIds ids;
     State_Monad.return (m\<lparr>Subscribe.StreamIDs := s\<rparr>) }"

text \<open>\<^verbatim>\<open>events[i].Key = k\<close> through a slice.\<close>

definition store_key :: "slice \<Rightarrow> nat \<Rightarrow> slice \<Rightarrow> (heap, unit) state" where
  "store_key s i k = State (\<lambda>h. ((), case s of NilSlice \<Rightarrow> h | Slice a off n \<Rightarrow>
     (case h ! a of
        OEvents es \<Rightarrow> h[a := OEvents (es[off + i := (es ! (off + i))\<lparr>InvalidationEvent.Key := k\<rparr>])]
      | _ \<Rightarrow> h)))"

primrec clone_keys :: "slice \<Rightarrow> nat list \<Rightarrow> (heap, unit) state" where
  "clone_keys s [] = State_Monad.return ()"
| "clone_keys s (i # rest) = do {
     e \<leftarrow> load (\<lambda>h. events_of h s ! i);
     k \<leftarrow> CopyBytes (InvalidationEvent.Key e);
     store_key s i k;
     clone_keys s rest }"

definition InvalidationBatch_Clone :: "slice InvalidationBatch \<Rightarrow> (heap, slice InvalidationBatch) state" where
  "InvalidationBatch_Clone m = do {
     es \<leftarrow> load (\<lambda>h. events_of h (InvalidationBatch.Events m));
     s \<leftarrow> append_nil OEvents es;
     clone_keys s [0..<length es];
     State_Monad.return (m\<lparr>InvalidationBatch.Events := s\<rparr>) }"

definition rpc_GetRequest_Clone ::
  "(slice, nat) rpc_GetRequest \<Rightarrow> (heap, (slice, nat) rpc_GetRequest) state" where
  "rpc_GetRequest_Clone m = do {
     key \<leftarrow> CopyBytes (rpc_GetRequest.Key m);
     case rpc_GetRequest.MinVersion m of
       None \<Rightarrow> State_Monad.return
         \<lparr>rpc_GetRequest.Key = key, MinVersion = None, HubGeneration = rpc_GetRequest.HubGeneration m\<rparr>
     | Some p \<Rightarrow> do {
         version \<leftarrow> load (\<lambda>h. tag_of h p);
         q \<leftarrow> alloc (OTag version);
         State_Monad.return
           \<lparr>rpc_GetRequest.Key = key, MinVersion = Some q, HubGeneration = rpc_GetRequest.HubGeneration m\<rparr> } }"

definition GetResponse_Clone :: "slice GetResponse \<Rightarrow> (heap, slice GetResponse) state" where
  "GetResponse_Clone m = do {
     value \<leftarrow> CopyBytes (GetResponse.Value m);
     State_Monad.return (m\<lparr>GetResponse.Value := value\<rparr>) }"

definition MutationRequest_Clone :: "slice MutationRequest \<Rightarrow> (heap, slice MutationRequest) state" where
  "MutationRequest_Clone m = do {
     key \<leftarrow> CopyBytes (MutationRequest.Key m);
     value \<leftarrow> CopyBytes (MutationRequest.Value m);
     State_Monad.return (m\<lparr>MutationRequest.Key := key, MutationRequest.Value := value\<rparr>) }"

definition MutationFingerprint_Clone ::
  "slice MutationFingerprint \<Rightarrow> (heap, slice MutationFingerprint) state" where
  "MutationFingerprint_Clone f = do {
     key \<leftarrow> CopyBytes (MutationFingerprint.Key f);
     value \<leftarrow> CopyBytes (MutationFingerprint.Value f);
     State_Monad.return (f\<lparr>MutationFingerprint.Key := key, MutationFingerprint.Value := value\<rparr>) }"

text \<open>\<^verbatim>\<open>Fingerprint\<close> again, now with the copies of key and value it takes.\<close>

definition Fingerprint_copy :: "slice MutationRequest \<Rightarrow> (heap, slice MutationFingerprint) state" where
  "Fingerprint_copy req = do {
     key \<leftarrow> CopyBytes (MutationRequest.Key req);
     value \<leftarrow> CopyBytes (MutationRequest.Value req);
     State_Monad.return
       \<lparr>MutationFingerprint.Op = MutationRequest.Op req, Key = key, Value = value,
        TTLMillis = MutationRequest.TTLMillis req, Mode = MutationRequest.Mode req,
        W = MutationRequest.W req, Confirm = MutationRequest.Confirm req\<rparr> }"

definition GetResult_Clone :: "slice GetResult \<Rightarrow> (heap, slice GetResult) state" where
  "GetResult_Clone r = do {
     value \<leftarrow> CopyBytes (GetResult.Value r);
     State_Monad.return (r\<lparr>GetResult.Value := value\<rparr>) }"

definition Mutation_Clone :: "slice Mutation \<Rightarrow> (heap, slice Mutation) state" where
  "Mutation_Clone m = do {
     key \<leftarrow> CopyBytes (Mutation.Key m);
     value \<leftarrow> CopyBytes (Mutation.Value m);
     State_Monad.return (m\<lparr>Mutation.Key := key, Mutation.Value := value\<rparr>) }"

section \<open>Writes and framing\<close>

text \<open>
  \<open>writes L h h'\<close>: from \<open>h\<close> to \<open>h'\<close> the program allocated any number of objects and changed existing
  ones only at addresses in \<open>L\<close>. This is all that code holding references to \<open>L\<close> can do.
\<close>

definition writes :: "nat set \<Rightarrow> heap \<Rightarrow> heap \<Rightarrow> bool" where
  "writes L h h' \<longleftrightarrow> length h \<le> length h' \<and> (\<forall>b < length h. b \<notin> L \<longrightarrow> h' ! b = h ! b)"

lemma writes_refl [simp, intro]: "writes L h h"
  by (simp add: writes_def)

lemma writes_trans: "writes L h1 h2 \<Longrightarrow> writes K h2 h3 \<Longrightarrow> writes (L \<union> K) h1 h3"
  by (auto simp: writes_def)

lemma writes_mono: "writes L h h' \<Longrightarrow> L \<inter> {..<length h} \<subseteq> K \<Longrightarrow> writes K h h'"
  by (auto simp: writes_def)

lemma writes_append [simp]: "writes L h (h @ xs)"
  by (simp add: writes_def nth_append)

lemma writes_update: "a \<in> L \<Longrightarrow> writes L h (h[a := x])"
  by (simp add: writes_def) (metis nth_list_update_neq)

definition slice_refs :: "slice \<Rightarrow> nat set" where
  "slice_refs s = (case s of NilSlice \<Rightarrow> {} | Slice a off n \<Rightarrow> {a})"

lemma slice_refs_simps [simp]: "slice_refs NilSlice = {}" "slice_refs (Slice a off n) = {a}"
  by (simp_all add: slice_refs_def)

definition array_ok :: "('a list \<Rightarrow> obj) \<Rightarrow> heap \<Rightarrow> slice \<Rightarrow> bool" where
  "array_ok mk h s \<longleftrightarrow> (case s of NilSlice \<Rightarrow> True
     | Slice a off n \<Rightarrow> a < length h \<and> (\<exists>b. h ! a = mk b \<and> off + n \<le> length b))"

lemma array_ok_bounded: "array_ok mk h s \<Longrightarrow> slice_refs s \<subseteq> {..<length h}"
  by (cases s) (simp_all add: array_ok_def)

text \<open>
  One kind of array in the heap: how an object of that kind is made and read. Slices of that kind are
  framed by writes elsewhere, and \<open>append_nil\<close> copies one into fresh memory.
\<close>

locale array_kind =
  fixes mk :: "'a list \<Rightarrow> obj" and un :: "obj \<Rightarrow> 'a list"
  assumes un_mk: "un (mk b) = b"
begin

lemma frame:
  assumes "array_ok mk h s" "writes L h h'" "slice_refs s \<inter> L = {}"
  shows "array_ok mk h' s \<and> slice_of un h' s = slice_of un h s"
  using assms by (cases s) (auto simp: array_ok_def slice_of_def writes_def)

lemma copy:
  assumes "run_state (append_nil mk xs) h = (c, h')"
  shows "writes {} h h' \<and> array_ok mk h' c \<and> slice_of un h' c = xs
    \<and> slice_refs c \<subseteq> {length h..<length h'}"
  using assms
  by (auto simp: append_nil_def array_ok_def slice_of_def window_def un_mk State_Monad.bind_def
      split: if_splits)

end

interpretation byte_arrays: array_kind OBytes un_bytes by unfold_locales simp

interpretation watermark_arrays: array_kind OWatermarks un_watermarks by unfold_locales simp

interpretation id_arrays: array_kind OIds un_ids by unfold_locales simp

interpretation event_arrays: array_kind OEvents un_events by unfold_locales simp

lemma run_bind: "run_state (State_Monad.bind x f) h = (let (a, h1) = run_state x h in run_state (f a) h1)"
  by (simp add: State_Monad.bind_def)

lemma CopyBytes_spec:
  assumes "run_state (CopyBytes s) h = (c, h')"
  shows "writes {} h h' \<and> array_ok OBytes h' c \<and> bytes_of h' c = bytes_of h s
    \<and> slice_refs c \<subseteq> {length h..<length h'}"
  using byte_arrays.copy assms by (simp add: CopyBytes_def run_bind)

section \<open>Owned copies\<close>

text \<open>
  A type of messages on the heap: when a message is well formed, which objects it reaches, and which
  value it stands for. Writes elsewhere change none of the three.
\<close>

locale owned =
  fixes ok :: "heap \<Rightarrow> 'r \<Rightarrow> bool" and refs :: "heap \<Rightarrow> 'r \<Rightarrow> nat set" and val :: "heap \<Rightarrow> 'r \<Rightarrow> 'v"
  assumes bounded: "ok h r \<Longrightarrow> refs h r \<subseteq> {..<length h}"
    and frame: "ok h r \<Longrightarrow> writes L h h' \<Longrightarrow> refs h r \<inter> L = {} \<Longrightarrow>
      ok h' r \<and> refs h' r = refs h r \<and> val h' r = val h r"

text \<open>
  A copying operation: it writes to no existing object, its result stands for \<open>f\<close> of the value of its
  argument and reaches fresh objects only. Then neither owner can disturb the other.
\<close>

locale owned_copy = src: owned ok refs val + dst: owned ok' refs' val'
  for ok :: "heap \<Rightarrow> 'r \<Rightarrow> bool" and refs :: "heap \<Rightarrow> 'r \<Rightarrow> nat set" and val :: "heap \<Rightarrow> 'r \<Rightarrow> 'v"
    and ok' :: "heap \<Rightarrow> 's \<Rightarrow> bool" and refs' :: "heap \<Rightarrow> 's \<Rightarrow> nat set" and val' :: "heap \<Rightarrow> 's \<Rightarrow> 'w" +
  fixes copy :: "'r \<Rightarrow> (heap, 's) state" and f :: "'v \<Rightarrow> 'w"
  assumes copy_spec: "ok h r \<Longrightarrow> run_state (copy r) h = (c, h') \<Longrightarrow>
    writes {} h h' \<and> ok' h' c \<and> val' h' c = f (val h r) \<and> refs' h' c \<subseteq> {length h..<length h'}"
begin

lemma independent:
  assumes "ok h r" "run_state (copy r) h = (c, h')"
  shows "val' h' c = f (val h r) \<and> val h' r = val h r
    \<and> (writes (refs' h' c) h' h1 \<longrightarrow> val h1 r = val h r)
    \<and> (writes (- refs' h' c) h' h2 \<longrightarrow> val' h2 c = f (val h r))"
proof (intro conjI impI)
  note spec = copy_spec [OF assms]
  have src: "ok h' r \<and> refs h' r = refs h r \<and> val h' r = val h r"
    using src.frame [OF assms(1), of "{}" h'] spec by simp
  show "val' h' c = f (val h r)" "val h' r = val h r" using spec src by simp_all
  have "refs h' r \<inter> refs' h' c = {}"
    using src.bounded [OF assms(1)] spec src by fastforce
  then show "val h1 r = val h r" if "writes (refs' h' c) h' h1"
    using src.frame [of h' r _ h1] src that by metis
  show "val' h2 c = f (val h r)" if "writes (- refs' h' c) h' h2"
    using dst.frame [of h' c _ h2] spec that by (metis Compl_disjoint)
qed

end

section \<open>Messages with byte slices\<close>

text \<open>Messages with one byte slice.\<close>

lemma copy_one:
  assumes "(case run_state (CopyBytes s) h of (a, h1) \<Rightarrow> (F a, h1)) = (c, h')"
  shows "\<exists>a. c = F a \<and> writes {} h h' \<and> array_ok OBytes h' a \<and> bytes_of h' a = bytes_of h s
    \<and> slice_refs a \<subseteq> {length h..<length h'}"
  using assms CopyBytes_spec [of s h] by (auto split: prod.splits)

definition delete_request_ok :: "heap \<Rightarrow> slice wire_DeleteRequest \<Rightarrow> bool" where
  "delete_request_ok h r \<longleftrightarrow> array_ok OBytes h (wire_DeleteRequest.Key r)"

definition delete_request_refs :: "heap \<Rightarrow> slice wire_DeleteRequest \<Rightarrow> nat set" where
  "delete_request_refs h r = slice_refs (wire_DeleteRequest.Key r)"

definition delete_request_val :: "heap \<Rightarrow> slice wire_DeleteRequest \<Rightarrow> bytes wire_DeleteRequest" where
  "delete_request_val h r = \<lparr>wire_DeleteRequest.Key = bytes_of h (wire_DeleteRequest.Key r),
     MutationID = wire_DeleteRequest.MutationID r,
     Options = wire_DeleteRequest.Options r\<rparr>"

interpretation delete_request: owned_copy delete_request_ok delete_request_refs delete_request_val delete_request_ok delete_request_refs delete_request_val wire_DeleteRequest_Clone "\<lambda>v. v"
  by unfold_locales
    (auto simp: delete_request_ok_def delete_request_refs_def delete_request_val_def wire_DeleteRequest_Clone_def
      dest!: copy_one dest: byte_arrays.frame subsetD [OF array_ok_bounded])

definition get_response_ok :: "heap \<Rightarrow> slice GetResponse \<Rightarrow> bool" where
  "get_response_ok h r \<longleftrightarrow> array_ok OBytes h (GetResponse.Value r)"

definition get_response_refs :: "heap \<Rightarrow> slice GetResponse \<Rightarrow> nat set" where
  "get_response_refs h r = slice_refs (GetResponse.Value r)"

definition get_response_val :: "heap \<Rightarrow> slice GetResponse \<Rightarrow> bytes GetResponse" where
  "get_response_val h r = \<lparr>GetResponse.Status = GetResponse.Status r,
     HubGeneration = GetResponse.HubGeneration r,
     Version = GetResponse.Version r,
     Value = bytes_of h (GetResponse.Value r),
     TTLMillis = GetResponse.TTLMillis r,
     Kind = GetResponse.Kind r\<rparr>"

interpretation get_response: owned_copy get_response_ok get_response_refs get_response_val get_response_ok get_response_refs get_response_val GetResponse_Clone "\<lambda>v. v"
  by unfold_locales
    (auto simp: get_response_ok_def get_response_refs_def get_response_val_def GetResponse_Clone_def
      dest!: copy_one dest: byte_arrays.frame subsetD [OF array_ok_bounded])

definition get_result_ok :: "heap \<Rightarrow> slice GetResult \<Rightarrow> bool" where
  "get_result_ok h r \<longleftrightarrow> array_ok OBytes h (GetResult.Value r)"

definition get_result_refs :: "heap \<Rightarrow> slice GetResult \<Rightarrow> nat set" where
  "get_result_refs h r = slice_refs (GetResult.Value r)"

definition get_result_val :: "heap \<Rightarrow> slice GetResult \<Rightarrow> bytes GetResult" where
  "get_result_val h r = \<lparr>GetResult.Value = bytes_of h (GetResult.Value r),
     HubGeneration = GetResult.HubGeneration r,
     Version = GetResult.Version r,
     TTL = GetResult.TTL r,
     Kind = GetResult.Kind r,
     Status = GetResult.Status r\<rparr>"

interpretation get_result: owned_copy get_result_ok get_result_refs get_result_val get_result_ok get_result_refs get_result_val GetResult_Clone "\<lambda>v. v"
  by unfold_locales
    (auto simp: get_result_ok_def get_result_refs_def get_result_val_def GetResult_Clone_def
      dest!: copy_one dest: byte_arrays.frame subsetD [OF array_ok_bounded])

text \<open>
  Messages with a key and a value slice, copied one after the other: the value read from the heap is
  built from the contents of the two slices, and \<open>put\<close> puts the copies into the result.
\<close>

definition pair_ok :: "('r \<Rightarrow> slice) \<Rightarrow> ('r \<Rightarrow> slice) \<Rightarrow> heap \<Rightarrow> 'r \<Rightarrow> bool" where
  "pair_ok key payload h r \<longleftrightarrow> array_ok OBytes h (key r) \<and> array_ok OBytes h (payload r)"

definition pair_refs :: "('r \<Rightarrow> slice) \<Rightarrow> ('r \<Rightarrow> slice) \<Rightarrow> heap \<Rightarrow> 'r \<Rightarrow> nat set" where
  "pair_refs key payload h r = slice_refs (key r) \<union> slice_refs (payload r)"

lemma copy_two:
  assumes "array_ok OBytes h t"
    and "run_state (do { a \<leftarrow> CopyBytes s; b \<leftarrow> CopyBytes t; State_Monad.return (F a b) }) h = (c, h')"
  shows "\<exists>a b. c = F a b \<and> writes {} h h' \<and> array_ok OBytes h' a \<and> array_ok OBytes h' b
    \<and> bytes_of h' a = bytes_of h s \<and> bytes_of h' b = bytes_of h t
    \<and> slice_refs a \<subseteq> {length h..<length h'} \<and> slice_refs b \<subseteq> {length h..<length h'}"
proof -
  obtain a h1 where 1: "run_state (CopyBytes s) h = (a, h1)" by fastforce
  obtain b h2 where 2: "run_state (CopyBytes t) h1 = (b, h2)" by fastforce
  note s1 = CopyBytes_spec [OF 1] and s2 = CopyBytes_spec [OF 2]
  have "c = F a b" "h' = h2" using assms(2) 1 2 by (simp_all add: run_bind)
  moreover have "bytes_of h1 t = bytes_of h t"
    using byte_arrays.frame [OF assms(1), of "{}" h1] s1 by simp
  moreover have "array_ok OBytes h2 a \<and> bytes_of h2 a = bytes_of h1 a"
    using byte_arrays.frame [of h1 a "{}" h2] s1 s2 by simp
  moreover have "length h \<le> length h1" "length h1 \<le> length h2" "writes {} h h2"
    using s1 s2 writes_trans [of "{}" h h1 "{}" h2] by (auto simp: writes_def)
  ultimately show ?thesis
    using s1 s2 by (intro exI [of _ a] exI [of _ b]) (auto simp: subset_iff)
qed

locale two_slices =
  fixes key payload :: "'r \<Rightarrow> slice" and val :: "heap \<Rightarrow> 'r \<Rightarrow> 'v" and build :: "'r \<Rightarrow> bytes \<Rightarrow> bytes \<Rightarrow> 'v"
    and key' payload' :: "'s \<Rightarrow> slice" and val' :: "heap \<Rightarrow> 's \<Rightarrow> 'w" and build' :: "'s \<Rightarrow> bytes \<Rightarrow> bytes \<Rightarrow> 'w"
    and copy :: "'r \<Rightarrow> (heap, 's) state" and put :: "'r \<Rightarrow> slice \<Rightarrow> slice \<Rightarrow> 's" and f :: "'v \<Rightarrow> 'w"
  assumes val: "val h r = build r (bytes_of h (key r)) (bytes_of h (payload r))"
    and val': "val' h s = build' s (bytes_of h (key' s)) (bytes_of h (payload' s))"
    and copy: "copy r = do { a \<leftarrow> CopyBytes (key r); b \<leftarrow> CopyBytes (payload r); State_Monad.return (put r a b) }"
    and put: "key' (put r a b) = a" "payload' (put r a b) = b" "build' (put r a b) x y = f (build r x y)"
begin

lemma pair_frame:
  assumes "pair_ok k v h r" "writes L h h'" "pair_refs k v h r \<inter> L = {}"
  shows "pair_ok k v h' r \<and> bytes_of h' (k r) = bytes_of h (k r) \<and> bytes_of h' (v r) = bytes_of h (v r)"
  using assms byte_arrays.frame [of h "k r" L h'] byte_arrays.frame [of h "v r" L h']
  by (simp add: pair_ok_def pair_refs_def Int_Un_distrib2)

lemma pair_bounded: "pair_ok k v h r \<Longrightarrow> pair_refs k v h r \<subseteq> {..<length h}"
  by (auto simp: pair_ok_def pair_refs_def dest: subsetD [OF array_ok_bounded])

lemma pair_copy:
  assumes "pair_ok key payload h r" "run_state (copy r) h = (c, h')"
  shows "writes {} h h' \<and> pair_ok key' payload' h' c \<and> val' h' c = f (val h r)
    \<and> pair_refs key' payload' h' c \<subseteq> {length h..<length h'}"
proof -
  have "array_ok OBytes h (payload r)" using assms(1) by (simp add: pair_ok_def)
  from copy_two [OF this assms(2) [unfolded copy]] obtain a b where
    "c = put r a b" "writes {} h h'" "array_ok OBytes h' a" "array_ok OBytes h' b"
    "bytes_of h' a = bytes_of h (key r)" "bytes_of h' b = bytes_of h (payload r)"
    "slice_refs a \<subseteq> {length h..<length h'}" "slice_refs b \<subseteq> {length h..<length h'}"
    by blast
  then show ?thesis by (simp add: pair_ok_def pair_refs_def val val' put)
qed

end

sublocale two_slices \<subseteq> pair: owned_copy "pair_ok key payload" "pair_refs key payload" val
  "pair_ok key' payload'" "pair_refs key' payload'" val' copy f
proof
  show "pair_refs key payload h r \<subseteq> {..<length h}" if "pair_ok key payload h r" for h r
    using that by (rule pair_bounded)
  show "pair_refs key' payload' h s \<subseteq> {..<length h}" if "pair_ok key' payload' h s" for h s
    using that by (rule pair_bounded)
  show "pair_ok key payload h' r \<and> pair_refs key payload h' r = pair_refs key payload h r \<and> val h' r = val h r"
    if "pair_ok key payload h r" "writes L h h'" "pair_refs key payload h r \<inter> L = {}" for h r L h'
    using pair_frame [OF that] by (simp add: val pair_refs_def)
  show "pair_ok key' payload' h' s \<and> pair_refs key' payload' h' s = pair_refs key' payload' h s \<and> val' h' s = val' h s"
    if "pair_ok key' payload' h s" "writes L h h'" "pair_refs key' payload' h s \<inter> L = {}" for h s L h'
    using pair_frame [OF that] by (simp add: val' pair_refs_def)
qed (rule pair_copy)

definition set_request_val :: "heap \<Rightarrow> slice wire_SetRequest \<Rightarrow> bytes wire_SetRequest" where
  "set_request_val h r = \<lparr>wire_SetRequest.Key = bytes_of h (wire_SetRequest.Key r),
     Value = bytes_of h (wire_SetRequest.Value r),
     TTLMillis = wire_SetRequest.TTLMillis r,
     MutationID = wire_SetRequest.MutationID r,
     Options = wire_SetRequest.Options r\<rparr>"

definition mutation_request_val :: "heap \<Rightarrow> slice MutationRequest \<Rightarrow> bytes MutationRequest" where
  "mutation_request_val h r = \<lparr>MutationRequest.Op = MutationRequest.Op r,
     Key = bytes_of h (MutationRequest.Key r),
     Value = bytes_of h (MutationRequest.Value r),
     TTLMillis = MutationRequest.TTLMillis r,
     MutationID = MutationRequest.MutationID r,
     Mode = MutationRequest.Mode r,
     W = MutationRequest.W r,
     Confirm = MutationRequest.Confirm r,
     Timeout = MutationRequest.Timeout r,
     HubGeneration = MutationRequest.HubGeneration r\<rparr>"

definition fingerprint_val :: "heap \<Rightarrow> slice MutationFingerprint \<Rightarrow> bytes MutationFingerprint" where
  "fingerprint_val h r = \<lparr>MutationFingerprint.Op = MutationFingerprint.Op r,
     Key = bytes_of h (MutationFingerprint.Key r),
     Value = bytes_of h (MutationFingerprint.Value r),
     TTLMillis = MutationFingerprint.TTLMillis r,
     Mode = MutationFingerprint.Mode r,
     W = MutationFingerprint.W r,
     Confirm = MutationFingerprint.Confirm r\<rparr>"

definition mutation_val :: "heap \<Rightarrow> slice Mutation \<Rightarrow> bytes Mutation" where
  "mutation_val h r = \<lparr>Mutation.Op = Mutation.Op r,
     Key = bytes_of h (Mutation.Key r),
     Value = bytes_of h (Mutation.Value r),
     TTL = Mutation.TTL r,
     Options = Mutation.Options r\<rparr>"

interpretation set_request: two_slices wire_SetRequest.Key wire_SetRequest.Value set_request_val
  "\<lambda>r k v. \<lparr>wire_SetRequest.Key = k, Value = v, TTLMillis = wire_SetRequest.TTLMillis r, MutationID = wire_SetRequest.MutationID r, Options = wire_SetRequest.Options r\<rparr>"
  wire_SetRequest.Key wire_SetRequest.Value set_request_val
  "\<lambda>r k v. \<lparr>wire_SetRequest.Key = k, Value = v, TTLMillis = wire_SetRequest.TTLMillis r, MutationID = wire_SetRequest.MutationID r, Options = wire_SetRequest.Options r\<rparr>"
  wire_SetRequest_Clone "\<lambda>r a b. r\<lparr>wire_SetRequest.Key := a, wire_SetRequest.Value := b\<rparr>" "\<lambda>v. v"
  by unfold_locales (simp_all add: set_request_val_def wire_SetRequest_Clone_def)

interpretation mutation_request: two_slices MutationRequest.Key MutationRequest.Value mutation_request_val
  "\<lambda>r k v. \<lparr>MutationRequest.Op = MutationRequest.Op r, Key = k, Value = v, TTLMillis = MutationRequest.TTLMillis r, MutationID = MutationRequest.MutationID r, Mode = MutationRequest.Mode r, W = MutationRequest.W r, Confirm = MutationRequest.Confirm r, Timeout = MutationRequest.Timeout r, HubGeneration = MutationRequest.HubGeneration r\<rparr>"
  MutationRequest.Key MutationRequest.Value mutation_request_val
  "\<lambda>r k v. \<lparr>MutationRequest.Op = MutationRequest.Op r, Key = k, Value = v, TTLMillis = MutationRequest.TTLMillis r, MutationID = MutationRequest.MutationID r, Mode = MutationRequest.Mode r, W = MutationRequest.W r, Confirm = MutationRequest.Confirm r, Timeout = MutationRequest.Timeout r, HubGeneration = MutationRequest.HubGeneration r\<rparr>"
  MutationRequest_Clone "\<lambda>r a b. r\<lparr>MutationRequest.Key := a, MutationRequest.Value := b\<rparr>" "\<lambda>v. v"
  by unfold_locales (simp_all add: mutation_request_val_def MutationRequest_Clone_def)

interpretation fingerprint: two_slices MutationFingerprint.Key MutationFingerprint.Value fingerprint_val
  "\<lambda>r k v. \<lparr>MutationFingerprint.Op = MutationFingerprint.Op r, Key = k, Value = v, TTLMillis = MutationFingerprint.TTLMillis r, Mode = MutationFingerprint.Mode r, W = MutationFingerprint.W r, Confirm = MutationFingerprint.Confirm r\<rparr>"
  MutationFingerprint.Key MutationFingerprint.Value fingerprint_val
  "\<lambda>r k v. \<lparr>MutationFingerprint.Op = MutationFingerprint.Op r, Key = k, Value = v, TTLMillis = MutationFingerprint.TTLMillis r, Mode = MutationFingerprint.Mode r, W = MutationFingerprint.W r, Confirm = MutationFingerprint.Confirm r\<rparr>"
  MutationFingerprint_Clone "\<lambda>r a b. r\<lparr>MutationFingerprint.Key := a, MutationFingerprint.Value := b\<rparr>" "\<lambda>v. v"
  by unfold_locales (simp_all add: fingerprint_val_def MutationFingerprint_Clone_def)

interpretation mutation: two_slices Mutation.Key Mutation.Value mutation_val
  "\<lambda>r k v. \<lparr>Mutation.Op = Mutation.Op r, Key = k, Value = v, TTL = Mutation.TTL r, Options = Mutation.Options r\<rparr>"
  Mutation.Key Mutation.Value mutation_val
  "\<lambda>r k v. \<lparr>Mutation.Op = Mutation.Op r, Key = k, Value = v, TTL = Mutation.TTL r, Options = Mutation.Options r\<rparr>"
  Mutation_Clone "\<lambda>r a b. r\<lparr>Mutation.Key := a, Mutation.Value := b\<rparr>" "\<lambda>v. v"
  by unfold_locales (simp_all add: mutation_val_def Mutation_Clone_def)

text \<open>The fingerprint a hub retains is an owned copy of the request's content.\<close>

interpretation retained: two_slices MutationRequest.Key MutationRequest.Value mutation_request_val
  "\<lambda>r k v. \<lparr>MutationRequest.Op = MutationRequest.Op r, Key = k, Value = v, TTLMillis = MutationRequest.TTLMillis r, MutationID = MutationRequest.MutationID r, Mode = MutationRequest.Mode r, W = MutationRequest.W r, Confirm = MutationRequest.Confirm r, Timeout = MutationRequest.Timeout r, HubGeneration = MutationRequest.HubGeneration r\<rparr>"
  MutationFingerprint.Key MutationFingerprint.Value fingerprint_val
  "\<lambda>r k v. \<lparr>MutationFingerprint.Op = MutationFingerprint.Op r, Key = k, Value = v, TTLMillis = MutationFingerprint.TTLMillis r, Mode = MutationFingerprint.Mode r, W = MutationFingerprint.W r, Confirm = MutationFingerprint.Confirm r\<rparr>"
  Fingerprint_copy
  "\<lambda>r a b. \<lparr>MutationFingerprint.Op = MutationRequest.Op r, Key = a, Value = b,
     TTLMillis = MutationRequest.TTLMillis r, Mode = MutationRequest.Mode r,
     W = MutationRequest.W r, Confirm = MutationRequest.Confirm r\<rparr>"
  Rpc_Dedup.Fingerprint
  by unfold_locales (simp_all add: mutation_request_val_def fingerprint_val_def Fingerprint_copy_def Fingerprint_def)

section \<open>Messages with a version pointer\<close>

definition tag_ok :: "heap \<Rightarrow> nat option \<Rightarrow> bool" where
  "tag_ok h p \<longleftrightarrow> (case p of None \<Rightarrow> True | Some a \<Rightarrow> a < length h \<and> (\<exists>v. h ! a = OTag v))"

abbreviation tag_refs :: "nat option \<Rightarrow> nat set" where "tag_refs \<equiv> set_option"

definition tag_val :: "heap \<Rightarrow> nat option \<Rightarrow> VersionTag option" where
  "tag_val h p = map_option (tag_of h) p"

lemma tag_frame:
  "tag_ok h p \<Longrightarrow> writes L h h' \<Longrightarrow> tag_refs p \<inter> L = {} \<Longrightarrow> tag_ok h' p \<and> tag_val h' p = tag_val h p"
  by (cases p) (auto simp: tag_ok_def tag_val_def tag_of_def writes_def)

text \<open>\<^verbatim>\<open>if p != nil { v := *p; q = &v }\<close>: nil stays nil, a version is copied into a fresh cell.\<close>

definition copy_tag :: "nat option \<Rightarrow> (heap, nat option) state" where
  "copy_tag p = (case p of None \<Rightarrow> State_Monad.return None
     | Some a \<Rightarrow> do { v \<leftarrow> load (\<lambda>h. tag_of h a); q \<leftarrow> alloc (OTag v); State_Monad.return (Some q) })"

lemma copy_tag_spec:
  assumes "run_state (copy_tag p) h = (q, h')"
  shows "writes {} h h' \<and> tag_ok h' q \<and> tag_val h' q = tag_val h p \<and> tag_refs q \<subseteq> {length h..<length h'}"
  using assms by (auto simp: copy_tag_def run_bind tag_ok_def tag_val_def tag_of_def split: option.splits)

lemma copy_key_tag:
  assumes "tag_ok h p"
    and "run_state (do { a \<leftarrow> CopyBytes s; q \<leftarrow> copy_tag p; State_Monad.return (F a q) }) h = (c, h')"
  shows "\<exists>a q. c = F a q \<and> writes {} h h' \<and> array_ok OBytes h' a \<and> tag_ok h' q
    \<and> bytes_of h' a = bytes_of h s \<and> tag_val h' q = tag_val h p
    \<and> slice_refs a \<subseteq> {length h..<length h'} \<and> tag_refs q \<subseteq> {length h..<length h'}"
proof -
  obtain a h1 where 1: "run_state (CopyBytes s) h = (a, h1)" by fastforce
  obtain q h2 where 2: "run_state (copy_tag p) h1 = (q, h2)" by fastforce
  note s1 = CopyBytes_spec [OF 1] and s2 = copy_tag_spec [OF 2]
  have "c = F a q" "h' = h2" using assms(2) 1 2 by (simp_all add: run_bind)
  moreover have "tag_val h1 p = tag_val h p"
    using tag_frame [OF assms(1), of "{}" h1] s1 by simp
  moreover have "array_ok OBytes h2 a \<and> bytes_of h2 a = bytes_of h1 a"
    using byte_arrays.frame [of h1 a "{}" h2] s1 s2 by simp
  moreover have "length h \<le> length h1" "length h1 \<le> length h2" "writes {} h h2"
    using s1 s2 writes_trans [of "{}" h h1 "{}" h2] by (auto simp: writes_def)
  ultimately show ?thesis
    using s1 s2 by (intro exI [of _ a] exI [of _ q]) (auto simp: subset_iff)
qed

locale key_tag =
  fixes key :: "'r \<Rightarrow> slice" and tag :: "'r \<Rightarrow> nat option" and val :: "heap \<Rightarrow> 'r \<Rightarrow> 'v"
    and build :: "'r \<Rightarrow> bytes \<Rightarrow> VersionTag option \<Rightarrow> 'v"
    and copy :: "'r \<Rightarrow> (heap, 'r) state" and put :: "'r \<Rightarrow> slice \<Rightarrow> nat option \<Rightarrow> 'r"
  assumes val: "val h r = build r (bytes_of h (key r)) (tag_val h (tag r))"
    and copy: "copy r = do { a \<leftarrow> CopyBytes (key r); q \<leftarrow> copy_tag (tag r); State_Monad.return (put r a q) }"
    and put: "key (put r a q) = a" "tag (put r a q) = q" "build (put r a q) x y = build r x y"

definition key_tag_ok :: "('r \<Rightarrow> slice) \<Rightarrow> ('r \<Rightarrow> nat option) \<Rightarrow> heap \<Rightarrow> 'r \<Rightarrow> bool" where
  "key_tag_ok key tag h r \<longleftrightarrow> array_ok OBytes h (key r) \<and> tag_ok h (tag r)"

definition key_tag_refs :: "('r \<Rightarrow> slice) \<Rightarrow> ('r \<Rightarrow> nat option) \<Rightarrow> heap \<Rightarrow> 'r \<Rightarrow> nat set" where
  "key_tag_refs key tag h r = slice_refs (key r) \<union> tag_refs (tag r)"

sublocale key_tag \<subseteq> pointed: owned_copy "key_tag_ok key tag" "key_tag_refs key tag" val
  "key_tag_ok key tag" "key_tag_refs key tag" val copy "\<lambda>v. v"
proof
  show "key_tag_refs key tag h r \<subseteq> {..<length h}" if "key_tag_ok key tag h r" for h r
    using that by (auto simp: key_tag_ok_def key_tag_refs_def tag_ok_def dest: subsetD [OF array_ok_bounded])
  show "key_tag_ok key tag h' r \<and> key_tag_refs key tag h' r = key_tag_refs key tag h r \<and> val h' r = val h r"
    if "key_tag_ok key tag h r" "writes L h h'" "key_tag_refs key tag h r \<inter> L = {}" for h r L h'
    using that byte_arrays.frame [of h "key r" L h'] tag_frame [of h "tag r" L h']
    by (simp add: key_tag_ok_def key_tag_refs_def val Int_Un_distrib2)
  show "writes {} h h' \<and> key_tag_ok key tag h' c \<and> val h' c = val h r
      \<and> key_tag_refs key tag h' c \<subseteq> {length h..<length h'}"
    if "key_tag_ok key tag h r" "run_state (copy r) h = (c, h')" for h r c h'
  proof -
    have "tag_ok h (tag r)" using that(1) by (simp add: key_tag_ok_def)
    from copy_key_tag [OF this that(2) [unfolded copy]] obtain a q where
      "c = put r a q" "writes {} h h'" "array_ok OBytes h' a" "tag_ok h' q"
      "bytes_of h' a = bytes_of h (key r)" "tag_val h' q = tag_val h (tag r)"
      "slice_refs a \<subseteq> {length h..<length h'}" "tag_refs q \<subseteq> {length h..<length h'}"
      by blast
    then show ?thesis by (simp add: key_tag_ok_def key_tag_refs_def val put)
  qed
qed

definition wire_get_val :: "heap \<Rightarrow> (slice, nat) wire_GetRequest \<Rightarrow> (bytes, VersionTag) wire_GetRequest" where
  "wire_get_val h r = \<lparr>wire_GetRequest.Key = bytes_of h (wire_GetRequest.Key r),
     MinVersion = tag_val h (wire_GetRequest.MinVersion r)\<rparr>"

definition rpc_get_val :: "heap \<Rightarrow> (slice, nat) rpc_GetRequest \<Rightarrow> (bytes, VersionTag) rpc_GetRequest" where
  "rpc_get_val h r = \<lparr>rpc_GetRequest.Key = bytes_of h (rpc_GetRequest.Key r),
     MinVersion = tag_val h (rpc_GetRequest.MinVersion r), HubGeneration = rpc_GetRequest.HubGeneration r\<rparr>"

interpretation wire_get: key_tag wire_GetRequest.Key wire_GetRequest.MinVersion wire_get_val
  "\<lambda>r k t. \<lparr>wire_GetRequest.Key = k, MinVersion = t\<rparr>" wire_GetRequest_Clone
  "\<lambda>r a q. \<lparr>wire_GetRequest.Key = a, MinVersion = q\<rparr>"
  by unfold_locales
    (simp_all add: wire_get_val_def wire_GetRequest_Clone_def copy_tag_def split: option.split)

interpretation rpc_get: key_tag rpc_GetRequest.Key rpc_GetRequest.MinVersion rpc_get_val
  "\<lambda>r k t. \<lparr>rpc_GetRequest.Key = k, MinVersion = t, HubGeneration = rpc_GetRequest.HubGeneration r\<rparr>"
  rpc_GetRequest_Clone
  "\<lambda>r a q. \<lparr>rpc_GetRequest.Key = a, MinVersion = q, HubGeneration = rpc_GetRequest.HubGeneration r\<rparr>"
  by unfold_locales
    (simp_all add: rpc_get_val_def rpc_GetRequest_Clone_def copy_tag_def split: option.split)

section \<open>Control messages\<close>

definition hello_ok :: "heap \<Rightarrow> slice Hello \<Rightarrow> bool" where
  "hello_ok h m \<longleftrightarrow> array_ok OWatermarks h (Hello.Subscriptions m)"

definition hello_refs :: "heap \<Rightarrow> slice Hello \<Rightarrow> nat set" where
  "hello_refs h m = slice_refs (Hello.Subscriptions m)"

definition hello_val :: "heap \<Rightarrow> slice Hello \<Rightarrow> hello" where
  "hello_val h m = \<lparr>Hello.NodeID = Hello.NodeID m, Protocol = Hello.Protocol m,
     Subscriptions = watermarks_of h (Hello.Subscriptions m), ClusterID = Hello.ClusterID m,
     ExpectedHubGeneration = Hello.ExpectedHubGeneration m\<rparr>"

interpretation hello_clone: owned_copy hello_ok hello_refs hello_val hello_ok hello_refs hello_val Hello_Clone "\<lambda>v. v"
proof unfold_locales
  show "writes {} h h' \<and> hello_ok h' c \<and> hello_val h' c = hello_val h r \<and> hello_refs h' c \<subseteq> {length h..<length h'}"
    if "run_state (Hello_Clone r) h = (c, h')" for h r c h'
  proof -
    obtain s h1 where s: "run_state (append_nil OWatermarks (watermarks_of h (Hello.Subscriptions r))) h = (s, h1)" by fastforce
    with that have "c = r\<lparr>Hello.Subscriptions := s\<rparr>" "h1 = h'" by (simp_all add: Hello_Clone_def run_bind)
    with watermark_arrays.copy [of _ h s h'] s show ?thesis
      by (simp add: hello_ok_def hello_refs_def hello_val_def)
  qed
qed (auto simp: hello_ok_def hello_refs_def hello_val_def dest: watermark_arrays.frame subsetD [OF array_ok_bounded])

definition subscribe_ok :: "heap \<Rightarrow> slice Subscribe \<Rightarrow> bool" where
  "subscribe_ok h m \<longleftrightarrow> array_ok OIds h (Subscribe.StreamIDs m)"

definition subscribe_refs :: "heap \<Rightarrow> slice Subscribe \<Rightarrow> nat set" where
  "subscribe_refs h m = slice_refs (Subscribe.StreamIDs m)"

definition subscribe_val :: "heap \<Rightarrow> slice Subscribe \<Rightarrow> subscribe" where
  "subscribe_val h m = \<lparr>Subscribe.HubGeneration = Subscribe.HubGeneration m,
     StreamIDs = ids_of h (Subscribe.StreamIDs m)\<rparr>"

interpretation subscribe_clone: owned_copy subscribe_ok subscribe_refs subscribe_val
  subscribe_ok subscribe_refs subscribe_val Subscribe_Clone "\<lambda>v. v"
proof unfold_locales
  show "writes {} h h' \<and> subscribe_ok h' c \<and> subscribe_val h' c = subscribe_val h r
      \<and> subscribe_refs h' c \<subseteq> {length h..<length h'}"
    if "run_state (Subscribe_Clone r) h = (c, h')" for h r c h'
  proof -
    obtain s h1 where s: "run_state (append_nil OIds (ids_of h (Subscribe.StreamIDs r))) h = (s, h1)" by fastforce
    with that have "c = r\<lparr>Subscribe.StreamIDs := s\<rparr>" "h1 = h'" by (simp_all add: Subscribe_Clone_def run_bind)
    with id_arrays.copy [of _ h s h'] s show ?thesis
      by (simp add: subscribe_ok_def subscribe_refs_def subscribe_val_def)
  qed
qed (auto simp: subscribe_ok_def subscribe_refs_def subscribe_val_def dest: id_arrays.frame subsetD [OF array_ok_bounded])

section \<open>Invalidation batches\<close>

text \<open>A batch owns two levels: the array of events, and behind every event the array of its key.\<close>

definition event_val :: "heap \<Rightarrow> slice InvalidationEvent \<Rightarrow> event" where
  "event_val h e = \<lparr>InvalidationEvent.StreamSequence = InvalidationEvent.StreamSequence e,
     Key = bytes_of h (InvalidationEvent.Key e), Version = InvalidationEvent.Version e,
     Kind = InvalidationEvent.Kind e, MutationID = InvalidationEvent.MutationID e\<rparr>"

definition batch_ok :: "heap \<Rightarrow> slice InvalidationBatch \<Rightarrow> bool" where
  "batch_ok h m \<longleftrightarrow> array_ok OEvents h (InvalidationBatch.Events m)
     \<and> (\<forall>e \<in> set (events_of h (InvalidationBatch.Events m)). array_ok OBytes h (InvalidationEvent.Key e))"

definition batch_refs :: "heap \<Rightarrow> slice InvalidationBatch \<Rightarrow> nat set" where
  "batch_refs h m = slice_refs (InvalidationBatch.Events m)
     \<union> (\<Union>e \<in> set (events_of h (InvalidationBatch.Events m)). slice_refs (InvalidationEvent.Key e))"

definition batch_val :: "heap \<Rightarrow> slice InvalidationBatch \<Rightarrow> batch" where
  "batch_val h m = \<lparr>InvalidationBatch.StreamID = InvalidationBatch.StreamID m,
     HubGeneration = InvalidationBatch.HubGeneration m,
     Events = map (event_val h) (events_of h (InvalidationBatch.Events m))\<rparr>"

lemma event_frame:
  assumes "array_ok OBytes h (InvalidationEvent.Key e)" "writes L h h'" "slice_refs (InvalidationEvent.Key e) \<inter> L = {}"
  shows "array_ok OBytes h' (InvalidationEvent.Key e) \<and> event_val h' e = event_val h e"
  using byte_arrays.frame [OF assms] by (simp add: event_val_def)

lemma batch_frame:
  assumes "batch_ok h m" "writes L h h'" "batch_refs h m \<inter> L = {}"
  shows "batch_ok h' m \<and> batch_refs h' m = batch_refs h m \<and> batch_val h' m = batch_val h m"
proof -
  have events: "array_ok OEvents h' (InvalidationBatch.Events m)
      \<and> events_of h' (InvalidationBatch.Events m) = events_of h (InvalidationBatch.Events m)"
  proof (rule event_arrays.frame [OF _ assms(2)])
    show "array_ok OEvents h (InvalidationBatch.Events m)" using assms(1) by (simp add: batch_ok_def)
    show "slice_refs (InvalidationBatch.Events m) \<inter> L = {}" using assms(3) by (auto simp: batch_refs_def)
  qed
  have "array_ok OBytes h' (InvalidationEvent.Key e) \<and> event_val h' e = event_val h e"
    if "e \<in> set (events_of h (InvalidationBatch.Events m))" for e
  proof (rule event_frame [OF _ assms(2)])
    show "array_ok OBytes h (InvalidationEvent.Key e)" using assms(1) that by (simp add: batch_ok_def)
    show "slice_refs (InvalidationEvent.Key e) \<inter> L = {}" using assms(3) that by (auto simp: batch_refs_def)
  qed
  with events show ?thesis by (simp add: batch_ok_def batch_refs_def batch_val_def)
qed

lemma batch_bounded: "batch_ok h m \<Longrightarrow> batch_refs h m \<subseteq> {..<length h}"
  by (auto simp: batch_ok_def batch_refs_def dest: subsetD [OF array_ok_bounded])

lemma bytes_not_events: "array_ok OBytes h s \<Longrightarrow> h ! a = OEvents es \<Longrightarrow> slice_refs s \<inter> {a} = {}"
  by (cases s) (auto simp: array_ok_def)

lemma run_store_key:
  assumes "h ! a = OEvents es"
  shows "run_state (store_key (Slice a 0 n) i k) h
    = ((), h[a := OEvents (es[i := (es ! i)\<lparr>InvalidationEvent.Key := k\<rparr>])])"
  using assms by (simp add: store_key_def)

text \<open>The loop over indices \<open>js\<close> of a fresh event array: it changes only that array, leaves the other
  events alone, and gives each visited event a fresh key of the same contents.\<close>

lemma clone_keys_spec:
  assumes "run_state (clone_keys (Slice a 0 n) js) h = (u, h')" "a < length h" "h ! a = OEvents es" "length es = n"
    and "distinct js" "set js \<subseteq> {..<n}" "\<forall>j \<in> set js. array_ok OBytes h (InvalidationEvent.Key (es ! j))"
  shows "\<exists>es'. h' ! a = OEvents es' \<and> length es' = n \<and> writes {a} h h'
    \<and> (\<forall>j < n. j \<notin> set js \<longrightarrow> es' ! j = es ! j)
    \<and> (\<forall>j \<in> set js. array_ok OBytes h' (InvalidationEvent.Key (es' ! j)) \<and> event_val h' (es' ! j) = event_val h (es ! j)
         \<and> slice_refs (InvalidationEvent.Key (es' ! j)) \<subseteq> {length h..<length h'})"
  using assms
proof (induction js arbitrary: h es)
  case (Cons i js)
  let ?e = "es ! i"
  obtain k h1 where k: "run_state (CopyBytes (InvalidationEvent.Key ?e)) h = (k, h1)" by fastforce
  note k_spec = CopyBytes_spec [OF k]
  define es2 where "es2 = es[i := ?e\<lparr>InvalidationEvent.Key := k\<rparr>]"
  define h2 where "h2 = h1[a := OEvents es2]"
  have i: "i < n" "i \<notin> set js" using Cons.prems by simp_all
  have h1a: "h1 ! a = OEvents es" "a < length h1" using k_spec Cons.prems(2,3) by (auto simp: writes_def)
  have h12: "writes {a} h1 h2" and h2a: "h2 ! a = OEvents es2" "a < length h2"
    using h1a by (simp_all add: h2_def writes_def nth_list_update)
  have h02: "writes {a} h h2" using writes_trans [of "{}" h h1 "{a}" h2] k_spec h12 by simp
  have len: "length h \<le> length h1" "length h1 \<le> length h2" using k_spec h12 by (simp_all add: writes_def)
  have "events_of h (Slice a 0 n) ! i = ?e"
    using Cons.prems(3,4) i by (simp add: slice_of_def window_def)
  then have run: "run_state (clone_keys (Slice a 0 n) js) h2 = (u, h')"
    using Cons.prems(1) k run_store_key [OF h1a(1)] by (simp add: run_bind h2_def es2_def)
  have others: "array_ok OBytes h2 (InvalidationEvent.Key (es ! j)) \<and> event_val h2 (es ! j) = event_val h (es ! j)"
    if "j \<in> set js" for j
    using event_frame [OF _ h02] bytes_not_events [OF _ Cons.prems(3)] Cons.prems(7) that by simp
  have es2: "es2 ! j = es ! j" if "j \<noteq> i" for j using that by (simp add: es2_def)
  have "\<forall>j \<in> set js. array_ok OBytes h2 (InvalidationEvent.Key (es2 ! j))"
    using others es2 i(2) by metis
  from Cons.IH [OF run h2a(2,1) _ _ _ this] obtain es' where es':
    "h' ! a = OEvents es'" "length es' = n" "writes {a} h2 h'" "\<forall>j < n. j \<notin> set js \<longrightarrow> es' ! j = es2 ! j"
    "\<forall>j \<in> set js. array_ok OBytes h' (InvalidationEvent.Key (es' ! j)) \<and> event_val h' (es' ! j) = event_val h2 (es2 ! j)
       \<and> slice_refs (InvalidationEvent.Key (es' ! j)) \<subseteq> {length h2..<length h'}"
    using Cons.prems(4-6) by (auto simp: es2_def)
  have fresh: "slice_refs k \<inter> {a} = {}" using k_spec Cons.prems(2) by auto
  have new: "array_ok OBytes h1 (InvalidationEvent.Key (?e\<lparr>InvalidationEvent.Key := k\<rparr>))
      \<and> event_val h1 (?e\<lparr>InvalidationEvent.Key := k\<rparr>) = event_val h ?e"
    using k_spec by (simp add: event_val_def)
  have "es' ! i = ?e\<lparr>InvalidationEvent.Key := k\<rparr>"
    using es'(4) i Cons.prems(4) by (simp add: es2_def)
  moreover have "writes {a} h1 h'" using writes_trans [OF h12 es'(3)] by simp
  ultimately have at_i: "array_ok OBytes h' (InvalidationEvent.Key (es' ! i)) \<and> event_val h' (es' ! i) = event_val h ?e
      \<and> slice_refs (InvalidationEvent.Key (es' ! i)) \<subseteq> {length h..<length h'}"
    using event_frame [of h1 "?e\<lparr>InvalidationEvent.Key := k\<rparr>" "{a}" h'] new fresh k_spec
    by (auto simp: writes_def subset_iff)
  have "writes {a} h h'" using writes_trans [OF h02 es'(3)] by simp
  moreover have "array_ok OBytes h' (InvalidationEvent.Key (es' ! j)) \<and> event_val h' (es' ! j) = event_val h (es ! j)
      \<and> slice_refs (InvalidationEvent.Key (es' ! j)) \<subseteq> {length h..<length h'}" if "j \<in> set (i # js)" for j
  proof (cases "j = i")
    case False
    then have "j \<in> set js" using that by simp
    then show ?thesis using es'(5) others es2 [OF False] len by fastforce
  qed (use at_i in simp)
  ultimately show ?case using es' es2 by (intro exI [of _ es']) auto
qed auto

lemma InvalidationBatch_Clone_spec:
  assumes ok: "batch_ok h m" and run: "run_state (InvalidationBatch_Clone m) h = (c, h')"
  shows "writes {} h h' \<and> batch_ok h' c \<and> batch_val h' c = batch_val h m
    \<and> batch_refs h' c \<subseteq> {length h..<length h'}"
proof -
  let ?es = "events_of h (InvalidationBatch.Events m)" and ?n = "length (events_of h (InvalidationBatch.Events m))"
  show ?thesis
  proof (cases "?es = []")
    case True
    then have "c = m\<lparr>InvalidationBatch.Events := NilSlice\<rparr>" "h' = h"
      using run by (simp_all add: InvalidationBatch_Clone_def run_bind append_nil_def)
    with True show ?thesis
      by (simp add: batch_ok_def batch_val_def batch_refs_def array_ok_def slice_of_def)
  next
    case False
    define a where "a = length h"
    define h1 where "h1 = h @ [OEvents ?es]"
    obtain h2 where loop: "run_state (clone_keys (Slice a 0 ?n) [0..<?n]) h1 = ((), h2)"
      by (cases "run_state (clone_keys (Slice a 0 ?n) [0..<?n]) h1") simp
    have c: "c = m\<lparr>InvalidationBatch.Events := Slice a 0 ?n\<rparr>" "h' = h2"
      using run False loop by (simp_all add: InvalidationBatch_Clone_def run_bind append_nil_def a_def h1_def)
    have h1: "writes {} h h1" "a < length h1" "h1 ! a = OEvents ?es" by (simp_all add: h1_def a_def)
    have kept: "array_ok OBytes h1 (InvalidationEvent.Key e) \<and> event_val h1 e = event_val h e" if "e \<in> set ?es" for e
      using event_frame [OF _ h1(1)] ok that by (simp add: batch_ok_def)
    then have "\<forall>j \<in> set [0..<?n]. array_ok OBytes h1 (InvalidationEvent.Key (?es ! j))" by simp
    moreover have "set [0..<?n] \<subseteq> {..<?n}" by auto
    ultimately obtain es' where es':
      "h2 ! a = OEvents es'" "length es' = ?n" "writes {a} h1 h2"
      "\<forall>j < ?n. array_ok OBytes h2 (InvalidationEvent.Key (es' ! j)) \<and> event_val h2 (es' ! j) = event_val h1 (?es ! j)
         \<and> slice_refs (InvalidationEvent.Key (es' ! j)) \<subseteq> {length h1..<length h2}"
      using clone_keys_spec [OF loop h1(2,3) refl distinct_upt] by fastforce
    have events: "events_of h2 (Slice a 0 ?n) = es'"
      using es'(1,2) by (simp add: slice_of_def window_def)
    have vals: "map (event_val h2) es' = map (event_val h) ?es"
    proof (rule nth_equalityI)
      fix j assume "j < length (map (event_val h2) es')"
      then have "j < ?n" "?es ! j \<in> set ?es" using es'(2) by simp_all
      then have "event_val h2 (es' ! j) = event_val h (?es ! j)" using es'(4) kept by metis
      with \<open>j < ?n\<close> show "map (event_val h2) es' ! j = map (event_val h) ?es ! j" using es'(2) by simp
    qed (simp add: es'(2))
    have old: "writes {} h h2"
      using writes_trans [OF h1(1) es'(3)] by (rule writes_mono) (simp add: a_def)
    have a: "length h \<le> a" "a < length h2" using es'(3) h1(2) by (simp_all add: writes_def a_def)
    have keys: "array_ok OBytes h2 (InvalidationEvent.Key e)
        \<and> slice_refs (InvalidationEvent.Key e) \<subseteq> {length h..<length h2}" if e: "e \<in> set es'" for e
    proof -
      obtain j where j: "j < length es'" "e = es' ! j" using e by (auto simp: in_set_conv_nth)
      then have "j < ?n" using es'(2) by (simp only:)
      with j(2) have "array_ok OBytes h2 (InvalidationEvent.Key e)"
        "slice_refs (InvalidationEvent.Key e) \<subseteq> {length h1..<length h2}"
        using es'(4) by blast+
      moreover have "{length h1..<length h2} \<subseteq> {length h..<length h2}" by (auto simp: h1_def)
      ultimately show ?thesis by blast
    qed
    have "array_ok OEvents h2 (Slice a 0 ?n)" using a es'(1,2) by (simp add: array_ok_def)
    then have "batch_ok h2 c" unfolding batch_ok_def c(1) using keys by (simp add: events)
    moreover have "batch_val h2 c = batch_val h m" unfolding batch_val_def c(1) by (simp add: events vals)
    moreover have "batch_refs h2 c \<subseteq> {length h..<length h2}"
      unfolding batch_refs_def c(1) using keys a by (simp add: events UN_subset_iff)
    ultimately show ?thesis using old c(2) by blast
  qed
qed

interpretation batch_clone: owned_copy batch_ok batch_refs batch_val batch_ok batch_refs batch_val
  InvalidationBatch_Clone "\<lambda>v. v"
  by unfold_locales (fact batch_bounded batch_frame InvalidationBatch_Clone_spec)+

section \<open>Correctness\<close>

text \<open>C35. The clone of an invalidation batch reads as the same batch, and from then on neither copy can
  see what happens to the other: writes through the clone, on both levels, leave the original's
  value alone, and writes to anything but the clone's own memory leave the clone's value alone.\<close>

theorem InvalidationBatch_Clone_owned:
  assumes "batch_ok h m" "run_state (InvalidationBatch_Clone m) h = (c, h')"
  shows "batch_val h' c = batch_val h m \<and> batch_val h' m = batch_val h m
    \<and> (writes (batch_refs h' c) h' h1 \<longrightarrow> batch_val h1 m = batch_val h m)
    \<and> (writes (- batch_refs h' c) h' h2 \<longrightarrow> batch_val h2 c = batch_val h m)"
  by (rule batch_clone.independent [OF assms])

definition sample_heap :: heap where
  "sample_heap = [OBytes [0x61, 0x62],
     OEvents [\<lparr>InvalidationEvent.StreamSequence = 10, Key = Slice 0 1 1,
       Version = \<lparr>PartitionID = 3, Sequence = 100\<rparr>, Kind = RecordValue, MutationID = zeroMutationID\<rparr>]]"

definition sample_batch_ref :: "slice InvalidationBatch" where
  "sample_batch_ref = \<lparr>InvalidationBatch.StreamID = 3, HubGeneration = 9, Events = Slice 1 0 1\<rparr>"

theorem InvalidationBatch_Clone_owned_witness:
  "let (c, h') = run_state (InvalidationBatch_Clone sample_batch_ref) sample_heap;
       h1 = h'[3 := OBytes [0x7a]]
   in batch_val h1 sample_batch_ref = batch_val sample_heap sample_batch_ref \<and> batch_val h1 c \<noteq> batch_val h' c"
proof -
  let ?e = "\<lambda>k. \<lparr>InvalidationEvent.StreamSequence = 10, Key = k,
       Version = \<lparr>PartitionID = 3, Sequence = 100\<rparr>, Kind = RecordValue, MutationID = zeroMutationID\<rparr>"
  let ?h' = "sample_heap @ [OEvents [?e (Slice 3 0 1)], OBytes [0x62]]"
  let ?c = "sample_batch_ref\<lparr>InvalidationBatch.Events := Slice 2 0 1\<rparr>"
  have run: "run_state (InvalidationBatch_Clone sample_batch_ref) sample_heap = (?c, ?h')"
    by (simp add: InvalidationBatch_Clone_def run_bind append_nil_def CopyBytes_def slice_of_def window_def
        sample_heap_def sample_batch_ref_def store_key_def)
  have ok: "batch_ok sample_heap sample_batch_ref"
    by (simp add: batch_ok_def array_ok_def slice_of_def window_def sample_heap_def sample_batch_ref_def)
  have "writes (batch_refs ?h' ?c) ?h' (?h'[3 := OBytes [0x7a]])"
    by (rule writes_update) (simp add: batch_refs_def slice_of_def window_def sample_heap_def)
  then have "batch_val (?h'[3 := OBytes [0x7a]]) sample_batch_ref = batch_val sample_heap sample_batch_ref"
    using InvalidationBatch_Clone_owned [OF ok run] by blast
  moreover have "batch_val (?h'[3 := OBytes [0x7a]]) ?c \<noteq> batch_val ?h' ?c"
    by (simp add: batch_val_def event_val_def slice_of_def window_def sample_heap_def)
  ultimately show ?thesis by (simp only: run Let_def prod.case simp_thms)
qed

text \<open>The clone of a get request owns its key bytes and the cell of its minimum version: it reads as
  the same request, and neither side sees the other's writes.\<close>

theorem GetRequest_Clone_owned:
  assumes "key_tag_ok rpc_GetRequest.Key rpc_GetRequest.MinVersion h m"
    and "run_state (rpc_GetRequest_Clone m) h = (c, h')"
  shows "rpc_get_val h' c = rpc_get_val h m \<and> rpc_get_val h' m = rpc_get_val h m
    \<and> (writes (key_tag_refs rpc_GetRequest.Key rpc_GetRequest.MinVersion h' c) h' h1 \<longrightarrow>
         rpc_get_val h1 m = rpc_get_val h m)
    \<and> (writes (- key_tag_refs rpc_GetRequest.Key rpc_GetRequest.MinVersion h' c) h' h2 \<longrightarrow>
         rpc_get_val h2 c = rpc_get_val h m)"
  by (rule rpc_get.pointed.independent [OF assms])

theorem GetRequest_Clone_owned_witness:
  "let m = \<lparr>rpc_GetRequest.Key = Slice 0 0 1, MinVersion = Some 1, HubGeneration = 5\<rparr>;
       h = [OBytes [0x61], OTag \<lparr>PartitionID = 2, Sequence = 7\<rparr>];
       (c, h') = run_state (rpc_GetRequest_Clone m) h
   in rpc_get_val (h'[1 := OTag zeroVersionTag]) c = rpc_get_val h m"
proof -
  let ?m = "\<lparr>rpc_GetRequest.Key = Slice 0 0 1, MinVersion = Some 1, HubGeneration = 5\<rparr>"
  let ?h = "[OBytes [0x61], OTag \<lparr>PartitionID = 2, Sequence = 7\<rparr>]"
  let ?c = "\<lparr>rpc_GetRequest.Key = Slice 2 0 1, MinVersion = Some 3, HubGeneration = 5\<rparr>"
  let ?h' = "?h @ [OBytes [0x61], OTag \<lparr>PartitionID = 2, Sequence = 7\<rparr>]"
  have run: "run_state (rpc_GetRequest_Clone ?m) ?h = (?c, ?h')"
    by (simp add: rpc_GetRequest_Clone_def run_bind append_nil_def CopyBytes_def slice_of_def window_def tag_of_def)
  have ok: "key_tag_ok rpc_GetRequest.Key rpc_GetRequest.MinVersion ?h ?m"
    by (simp add: key_tag_ok_def array_ok_def tag_ok_def)
  have "writes (- key_tag_refs rpc_GetRequest.Key rpc_GetRequest.MinVersion ?h' ?c) ?h' (?h'[1 := OTag zeroVersionTag])"
    by (rule writes_update) (simp add: key_tag_refs_def)
  then have "rpc_get_val (?h'[1 := OTag zeroVersionTag]) ?c = rpc_get_val ?h ?m"
    using GetRequest_Clone_owned [OF ok run] by blast
  then show ?thesis by (simp only: run Let_def prod.case simp_thms)
qed

text \<open>The fingerprint a hub takes of a request refines the value-level fingerprint and is its own:
  whatever the caller later writes into its buffers, the retained fingerprint matches exactly the
  requests with the content the original request had when the fingerprint was taken.\<close>

theorem Fingerprint_retained:
  assumes "pair_ok MutationRequest.Key MutationRequest.Value h r"
    and "run_state (Fingerprint_copy r) h = (c, h')"
    and "writes (- pair_refs MutationFingerprint.Key MutationFingerprint.Value h' c) h' h1"
  shows "fingerprint_val h1 c = Rpc_Dedup.Fingerprint (mutation_request_val h r)
    \<and> (CheckMatch (fingerprint_val h1 c) (Rpc_Dedup.Fingerprint b) = None \<longleftrightarrow>
         same_content (mutation_request_val h r) b)"
proof -
  have "fingerprint_val h1 c = Rpc_Dedup.Fingerprint (mutation_request_val h r)"
    using retained.pair.independent [OF assms(1,2)] assms(3) by blast
  then show ?thesis by (simp add: CheckMatch_iff same_content_iff)
qed

definition sample_request :: "slice MutationRequest" where
  "sample_request = \<lparr>MutationRequest.Op = OpSet, Key = Slice 0 0 1, Value = Slice 0 1 2, TTLMillis = 0,
     MutationID = zeroMutationID, Mode = WriteFast, W = 0, Confirm = ConfirmInvalidateApplied, Timeout = 5,
     HubGeneration = 4\<rparr>"

theorem Fingerprint_retained_witness:
  "let h = [OBytes [0x61, 0x62, 0x63]]; (c, h') = run_state (Fingerprint_copy sample_request) h
   in fingerprint_val (h'[0 := OBytes [0, 0, 0]]) c = Rpc_Dedup.Fingerprint (mutation_request_val h sample_request)"
proof -
  let ?h = "[OBytes [0x61, 0x62, 0x63]]"
  let ?c = "\<lparr>MutationFingerprint.Op = OpSet, Key = Slice 1 0 1, Value = Slice 2 0 2, TTLMillis = 0,
     Mode = WriteFast, W = 0, Confirm = ConfirmInvalidateApplied\<rparr>"
  let ?h' = "?h @ [OBytes [0x61], OBytes [0x62, 0x63]]"
  have run: "run_state (Fingerprint_copy sample_request) ?h = (?c, ?h')"
    by (simp add: Fingerprint_copy_def sample_request_def run_bind append_nil_def CopyBytes_def slice_of_def window_def)
  have ok: "pair_ok MutationRequest.Key MutationRequest.Value ?h sample_request"
    by (simp add: pair_ok_def array_ok_def sample_request_def)
  have "writes (- pair_refs MutationFingerprint.Key MutationFingerprint.Value ?h' ?c) ?h' (?h'[0 := OBytes [0, 0, 0]])"
    by (rule writes_update) (simp add: pair_refs_def)
  from Fingerprint_retained [OF ok run this]
  have "fingerprint_val (?h'[0 := OBytes [0, 0, 0]]) ?c = Rpc_Dedup.Fingerprint (mutation_request_val ?h sample_request)"
    by blast
  then show ?thesis by (simp only: run Let_def prod.case simp_thms)
qed

end
