(* ===== verification/Conversion_Ownership.thy ===== *)
theory Conversion_Ownership
  imports Ownership Control_Convert Rpc_Convert
begin

text \<open>
  The conversions between messages and protobuf messages again, over the heap of \<open>Ownership\<close>: those that
  copy byte slices (\<^verbatim>\<open>ProtoMutationRequest\<close>, \<^verbatim>\<open>FromProtoMutationRequest\<close>, \<^verbatim>\<open>ProtoGetResponse\<close>,
  \<^verbatim>\<open>FromProtoGetResponse\<close>, \<^verbatim>\<open>ProtoInvalidationBatch\<close>, \<^verbatim>\<open>FromProtoInvalidationBatch\<close>). Each refines the
  conversion of the value-level theories, and what it returns shares no memory with its argument, so
  the receive buffer of a decoded message can be reused and a sent message can outlive its source.

  A protobuf message and the messages nested in it are always freshly allocated by the conversions or
  by the runtime, so only their byte slices are objects of the heap; the nesting itself stays a tree.
\<close>

section \<open>Results over the heap\<close>

definition on_ok_st :: "'b \<Rightarrow> (heap \<Rightarrow> 'a result) \<Rightarrow> ('a \<Rightarrow> (heap, 'b result) state) \<Rightarrow> (heap, 'b result) state" where
  "on_ok_st zero r k = do {
     x \<leftarrow> load r;
     (case x of (v, None) \<Rightarrow> k v | (v, Some err) \<Rightarrow> State_Monad.return (zero, Some err)) }"

definition checked_st :: "('v \<Rightarrow> error option) \<Rightarrow> (heap \<Rightarrow> 'r \<Rightarrow> 'v) \<Rightarrow> 'r \<Rightarrow> (heap, 'r result) state" where
  "checked_st validate val out = do {
     err \<leftarrow> load (\<lambda>h. validate (val h out));
     State_Monad.return (out, err) }"

text \<open>\<open>yields ok refs val h m r\<close>: run from \<open>h\<close>, \<open>m\<close> changes no existing object and returns a message in
  fresh memory and an error that stand for the value-level result \<open>r\<close>.\<close>

definition yields ::
  "(heap \<Rightarrow> 'r \<Rightarrow> bool) \<Rightarrow> (heap \<Rightarrow> 'r \<Rightarrow> nat set) \<Rightarrow> (heap \<Rightarrow> 'r \<Rightarrow> 'v) \<Rightarrow> heap \<Rightarrow> (heap, 'r result) state
    \<Rightarrow> 'v result \<Rightarrow> bool" where
  "yields ok refs val h m r \<longleftrightarrow> (\<forall>c e h'. run_state m h = ((c, e), h') \<longrightarrow>
     writes {} h h' \<and> ok h' c \<and> refs h' c \<subseteq> {length h..<length h'} \<and> (val h' c, e) = r)"

lemma yields_return:
  "ok h z \<Longrightarrow> refs h z = {} \<Longrightarrow> val h z = v \<Longrightarrow> yields ok refs val h (State_Monad.return (z, e)) (v, e)"
  by (simp add: yields_def)

lemma yields_on_ok:
  assumes "ok h z" "refs h z = {}" "val h z = v"
    and "\<And>x. r h = (x, None) \<Longrightarrow> yields ok refs val h (k x) (k' x)"
  shows "yields ok refs val h (on_ok_st z r k) (on_ok v (r h) k')"
proof -
  obtain x e where r: "r h = (x, e)" by fastforce
  show ?thesis
    using assms r by (cases e) (simp_all add: yields_def on_ok_st_def run_bind)
qed

lemma yields_if:
  assumes "b \<Longrightarrow> yields ok refs val h m r" "\<not> b \<Longrightarrow> yields ok refs val h m' r'"
  shows "yields ok refs val h (if b then m else m') (if b then r else r')"
  using assms by simp

lemma yields_checked:
  assumes "\<And>c h'. run_state m h = (c, h') \<Longrightarrow>
    writes {} h h' \<and> ok h' c \<and> refs h' c \<subseteq> {length h..<length h'} \<and> val h' c = v"
  shows "yields ok refs val h (State_Monad.bind m (checked_st validate val)) (checked validate v)"
  using assms
  by (cases "run_state m h") (auto simp: yields_def checked_st_def run_bind checked_def)

text \<open>A type of messages on the heap extended to the results of fallible functions.\<close>

definition res_ok :: "(heap \<Rightarrow> 'r \<Rightarrow> bool) \<Rightarrow> heap \<Rightarrow> 'r result \<Rightarrow> bool" where
  "res_ok ok h r = ok h (fst r)"

definition res_refs :: "(heap \<Rightarrow> 'r \<Rightarrow> nat set) \<Rightarrow> heap \<Rightarrow> 'r result \<Rightarrow> nat set" where
  "res_refs refs h r = refs h (fst r)"

definition res_val :: "(heap \<Rightarrow> 'r \<Rightarrow> 'v) \<Rightarrow> heap \<Rightarrow> 'r result \<Rightarrow> 'v result" where
  "res_val val h r = (val h (fst r), snd r)"

context owned
begin

lemma result: "owned (res_ok ok) (res_refs refs) (res_val val)"
proof unfold_locales
  show "res_refs refs h r \<subseteq> {..<length h}" if "res_ok ok h r" for h r
    using bounded [of h "fst r"] that by (simp add: res_ok_def res_refs_def)
  show "res_ok ok h' r \<and> res_refs refs h' r = res_refs refs h r \<and> res_val val h' r = res_val val h r"
    if "res_ok ok h r" "writes L h h'" "res_refs refs h r \<inter> L = {}" for h r L h'
    using frame [of h "fst r" L h'] that by (simp add: res_ok_def res_refs_def res_val_def)
qed

end

lemma yields_copy:
  assumes "yields ok refs val h m r" "run_state m h = (c, h')"
  shows "writes {} h h' \<and> res_ok ok h' c \<and> res_val val h' c = r \<and> res_refs refs h' c \<subseteq> {length h..<length h'}"
  using assms by (cases c) (auto simp: yields_def res_ok_def res_refs_def res_val_def)

section \<open>Messages that own byte slices only\<close>

definition flat_ok :: "('r \<Rightarrow> slice set) \<Rightarrow> heap \<Rightarrow> 'r \<Rightarrow> bool" where
  "flat_ok slices h r \<longleftrightarrow> (\<forall>s \<in> slices r. array_ok OBytes h s)"

definition flat_refs :: "('r \<Rightarrow> slice set) \<Rightarrow> heap \<Rightarrow> 'r \<Rightarrow> nat set" where
  "flat_refs slices h r = (\<Union>s \<in> slices r. slice_refs s)"

locale flat =
  fixes slices :: "'r \<Rightarrow> slice set" and val :: "heap \<Rightarrow> 'r \<Rightarrow> 'v"
  assumes val_cong: "\<forall>s \<in> slices r. bytes_of h' s = bytes_of h s \<Longrightarrow> val h' r = val h r"
begin

lemma flat_frame:
  assumes "flat_ok slices h r" "writes L h h'" "flat_refs slices h r \<inter> L = {}"
  shows "flat_ok slices h' r \<and> flat_refs slices h' r = flat_refs slices h r \<and> val h' r = val h r"
proof -
  have "array_ok OBytes h' s \<and> bytes_of h' s = bytes_of h s" if "s \<in> slices r" for s
    using that assms by (intro byte_arrays.frame [OF _ assms(2)]) (auto simp: flat_ok_def flat_refs_def)
  then show ?thesis by (simp add: flat_ok_def flat_refs_def val_cong)
qed

lemma flat_bounded: "flat_ok slices h r \<Longrightarrow> flat_refs slices h r \<subseteq> {..<length h}"
  by (auto simp: flat_ok_def flat_refs_def dest!: array_ok_bounded)

end

sublocale flat \<subseteq> owned "flat_ok slices" "flat_refs slices" val
  by unfold_locales (rule flat_bounded flat_frame; assumption)+

text \<open>A possibly nil message.\<close>

definition opt_slices :: "('r \<Rightarrow> slice set) \<Rightarrow> 'r option \<Rightarrow> slice set" where
  "opt_slices slices m = (case m of None \<Rightarrow> {} | Some p \<Rightarrow> slices p)"

lemma opt_slices_simps [simp]: "opt_slices f None = {}" "opt_slices f (Some p) = f p"
  by (simp_all add: opt_slices_def)

context flat
begin

lemma pointer: "flat (opt_slices slices) (\<lambda>h. map_option (val h))"
proof unfold_locales
  show "map_option (val h') m = map_option (val h) m" if "\<forall>s \<in> opt_slices slices m. bytes_of h' s = bytes_of h s" for m h' h
    using that val_cong by (cases m) simp_all
qed

end

text \<open>A slice of fresh memory with given contents.\<close>

definition fresh_bytes :: "heap \<Rightarrow> heap \<Rightarrow> slice \<Rightarrow> bytes \<Rightarrow> bool" where
  "fresh_bytes h h' s xs \<longleftrightarrow>
     array_ok OBytes h' s \<and> bytes_of h' s = xs \<and> slice_refs s \<subseteq> {length h..<length h'}"

lemma fresh_CopyBytes:
  "run_state (CopyBytes s) h = (c, h') \<Longrightarrow> writes {} h h' \<and> fresh_bytes h h' c (bytes_of h s)"
  using CopyBytes_spec unfolding fresh_bytes_def by blast

lemma fresh_later: "fresh_bytes h h1 s xs \<Longrightarrow> writes {} h1 h2 \<Longrightarrow> fresh_bytes h h2 s xs"
  using byte_arrays.frame [of h1 s "{}" h2] by (auto simp: fresh_bytes_def writes_def)

lemma fresh_earlier: "fresh_bytes h1 h2 s xs \<Longrightarrow> writes {} h h1 \<Longrightarrow> fresh_bytes h h2 s xs"
  by (auto simp: fresh_bytes_def writes_def)

section \<open>Mutation requests\<close>

definition mutation_slices :: "slice MutationRequest \<Rightarrow> slice set" where
  "mutation_slices m = {MutationRequest.Key m, MutationRequest.Value m}"

definition pb_id_val :: "heap \<Rightarrow> slice pb_MutationID \<Rightarrow> bytes pb_MutationID" where
  "pb_id_val h i = \<lparr>pb_MutationID.Id = bytes_of h (pb_MutationID.Id i)\<rparr>"

definition pb_mutation_slices :: "slice pb_MutationRequest \<Rightarrow> slice set" where
  "pb_mutation_slices m = {pb_MutationRequest.Key m, pb_MutationRequest.Value m}
     \<union> pb_MutationID.Id ` set_option (pb_MutationRequest.MutationId m)"

definition pb_mutation_val :: "heap \<Rightarrow> slice pb_MutationRequest \<Rightarrow> bytes pb_MutationRequest" where
  "pb_mutation_val h m =
     \<lparr>pb_MutationRequest.Op = pb_MutationRequest.Op m,
      Key = bytes_of h (pb_MutationRequest.Key m),
      Value = bytes_of h (pb_MutationRequest.Value m),
      TtlMillis = pb_MutationRequest.TtlMillis m,
      MutationId = map_option (pb_id_val h) (pb_MutationRequest.MutationId m),
      Mode = pb_MutationRequest.Mode m,
      W = pb_MutationRequest.W m,
      Confirm = pb_MutationRequest.Confirm m,
      TimeoutMillis = pb_MutationRequest.TimeoutMillis m,
      HubGeneration = pb_MutationRequest.HubGeneration m\<rparr>"

interpretation mutation_flat: flat mutation_slices mutation_request_val
  by unfold_locales (simp add: mutation_slices_def mutation_request_val_def)

interpretation pb_mutation_flat: flat pb_mutation_slices pb_mutation_val
  by unfold_locales (auto simp: pb_mutation_slices_def pb_mutation_val_def pb_id_val_def intro: option.map_cong)

interpretation pb_mutation_pointer: flat "opt_slices pb_mutation_slices" "\<lambda>h. map_option (pb_mutation_val h)"
  by (rule pb_mutation_flat.pointer)

interpretation mutation_result: owned "res_ok (flat_ok mutation_slices)" "res_refs (flat_refs mutation_slices)"
  "res_val mutation_request_val"
  by (rule mutation_flat.result)

text \<open>\<^verbatim>\<open>id[:]\<close> slices the array of the by-value parameter, which escapes to a fresh heap object.\<close>

definition ProtoMutationID_copy :: "MutationID \<Rightarrow> (heap, slice pb_MutationID) state" where
  "ProtoMutationID_copy i = do {
     a \<leftarrow> alloc (OBytes (id_bytes i));
     State_Monad.return \<lparr>pb_MutationID.Id = Slice a 0 16\<rparr> }"

definition ProtoMutationRequest_copy :: "slice MutationRequest \<Rightarrow> (heap, slice pb_MutationRequest) state" where
  "ProtoMutationRequest_copy m = do {
     key \<leftarrow> CopyBytes (MutationRequest.Key m);
     value \<leftarrow> CopyBytes (MutationRequest.Value m);
     id \<leftarrow> ProtoMutationID_copy (MutationRequest.MutationID m);
     State_Monad.return
       \<lparr>pb_MutationRequest.Op = ProtoMutationOp (MutationRequest.Op m),
        Key = key,
        Value = value,
        TtlMillis = MutationRequest.TTLMillis m,
        MutationId = Some id,
        Mode = ProtoWriteMode (MutationRequest.Mode m),
        W = ucast (MutationRequest.W m),
        Confirm = ProtoConfirmLevel (MutationRequest.Confirm m),
        TimeoutMillis = MutationRequest.Timeout m,
        HubGeneration = MutationRequest.HubGeneration m\<rparr> }"

definition nilMutationRequest :: "slice MutationRequest" where
  "nilMutationRequest = \<lparr>MutationRequest.Op = 0, Key = NilSlice, Value = NilSlice, TTLMillis = 0,
     MutationID = zeroMutationID, Mode = 0, W = 0, Confirm = 0, Timeout = 0, HubGeneration = 0\<rparr>"

definition FromProtoMutationRequest_copy ::
  "slice pb_MutationRequest option \<Rightarrow> (heap, slice MutationRequest result) state" where
  "FromProtoMutationRequest_copy m = (case m of
     None \<Rightarrow> State_Monad.return (nilMutationRequest, Some (Errorf ''nil mutation request'' [] None))
   | Some p \<Rightarrow>
      on_ok_st nilMutationRequest
        (\<lambda>h. FromProtoMutationID (map_option (pb_id_val h) (pb_MutationRequest.MutationId p))) (\<lambda>id.
      if pb_MutationRequest.W p > 65535
      then State_Monad.return
        (nilMutationRequest, Some (wrap (Wire_err ErrInvalidWriteTimeout) '': w out of range'' []))
      else
      on_ok_st nilMutationRequest (\<lambda>_. FromProtoMutationOp (pb_MutationRequest.Op p)) (\<lambda>op.
      on_ok_st nilMutationRequest (\<lambda>_. FromProtoWriteMode (pb_MutationRequest.Mode p)) (\<lambda>mode.
      on_ok_st nilMutationRequest (\<lambda>_. FromProtoConfirmLevel (pb_MutationRequest.Confirm p)) (\<lambda>confirm.
      do { out \<leftarrow> do {
             key \<leftarrow> CopyBytes (pb_MutationRequest.Key p);
             value \<leftarrow> CopyBytes (pb_MutationRequest.Value p);
             State_Monad.return
               \<lparr>MutationRequest.Op = op,
                Key = key,
                Value = value,
                TTLMillis = pb_MutationRequest.TtlMillis p,
                MutationID = id,
                Mode = mode,
                W = ucast (pb_MutationRequest.W p),
                Confirm = confirm,
                Timeout = pb_MutationRequest.TimeoutMillis p,
                HubGeneration = pb_MutationRequest.HubGeneration p\<rparr> };
           checked_st MutationRequest_Validate mutation_request_val out })))))"

lemma nilMutationRequest_val [simp]:
  "flat_ok mutation_slices h nilMutationRequest" "flat_refs mutation_slices h nilMutationRequest = {}"
  "mutation_request_val h nilMutationRequest = zeroMutationRequest"
  by (simp_all add: flat_ok_def flat_refs_def mutation_slices_def nilMutationRequest_def mutation_request_val_def
      zeroMutationRequest_def array_ok_def slice_of_def)

lemma FromProtoMutationRequest_copy_yields:
  assumes ok: "flat_ok (opt_slices pb_mutation_slices) h m"
  shows "yields (flat_ok mutation_slices) (flat_refs mutation_slices) mutation_request_val h
    (FromProtoMutationRequest_copy m) (FromProtoMutationRequest (map_option (pb_mutation_val h) m))"
proof (cases m)
  case None
  then show ?thesis
    by (simp add: FromProtoMutationRequest_copy_def FromProtoMutationRequest_def yields_return)
next
  case (Some p)
  have payload: "array_ok OBytes h (pb_MutationRequest.Value p)"
    using ok Some by (simp add: flat_ok_def pb_mutation_slices_def)
  let ?q = "pb_mutation_val h p"
  have q: "pb_MutationRequest.MutationId ?q = map_option (pb_id_val h) (pb_MutationRequest.MutationId p)"
    "pb_MutationRequest.W ?q = pb_MutationRequest.W p" "pb_MutationRequest.Op ?q = pb_MutationRequest.Op p"
    "pb_MutationRequest.Mode ?q = pb_MutationRequest.Mode p"
    "pb_MutationRequest.Confirm ?q = pb_MutationRequest.Confirm p"
    by (simp_all add: pb_mutation_val_def)
  show ?thesis
    unfolding Some FromProtoMutationRequest_copy_def FromProtoMutationRequest_def option.map option.case getter_simps q
    by (simp only: option.distinct if_False,
        intro yields_on_ok yields_if yields_return yields_checked nilMutationRequest_val,
        drule copy_two [OF payload],
        auto simp: flat_ok_def flat_refs_def mutation_slices_def mutation_request_val_def pb_mutation_val_def)
qed

interpretation receive_mutation: owned_copy "flat_ok (opt_slices pb_mutation_slices)"
  "flat_refs (opt_slices pb_mutation_slices)" "\<lambda>h. map_option (pb_mutation_val h)"
  "res_ok (flat_ok mutation_slices)" "res_refs (flat_refs mutation_slices)" "res_val mutation_request_val"
  FromProtoMutationRequest_copy FromProtoMutationRequest
  by unfold_locales (rule yields_copy [OF FromProtoMutationRequest_copy_yields])

lemma ProtoMutationID_copy_spec:
  assumes "run_state (ProtoMutationID_copy i) h = (c, h')"
  shows "writes {} h h' \<and> fresh_bytes h h' (pb_MutationID.Id c) (id_bytes i)"
  using assms by (auto simp: ProtoMutationID_copy_def run_bind fresh_bytes_def array_ok_def slice_of_def window_def)

lemma ProtoMutationRequest_copy_spec:
  assumes ok: "flat_ok mutation_slices h m" and run: "run_state (ProtoMutationRequest_copy m) h = (c, h')"
  shows "writes {} h h' \<and> flat_ok pb_mutation_slices h' c \<and> pb_mutation_val h' c = ProtoMutationRequest (mutation_request_val h m)
    \<and> flat_refs pb_mutation_slices h' c \<subseteq> {length h..<length h'}"
proof -
  obtain key h1 where 1: "run_state (CopyBytes (MutationRequest.Key m)) h = (key, h1)" by fastforce
  obtain payload h2 where 2: "run_state (CopyBytes (MutationRequest.Value m)) h1 = (payload, h2)" by fastforce
  obtain i where 3: "run_state (ProtoMutationID_copy (MutationRequest.MutationID m)) h2 = (i, h')"
    using run 1 2 by (simp add: ProtoMutationRequest_copy_def run_bind split: prod.splits)
  note s1 = fresh_CopyBytes [OF 1] and s2 = fresh_CopyBytes [OF 2] and s3 = ProtoMutationID_copy_spec [OF 3]
  have writes: "writes {} h h2" "writes {} h h'" "writes {} h1 h'"
    using s1 s2 s3 writes_trans by (metis Un_empty)+
  have "bytes_of h1 (MutationRequest.Value m) = bytes_of h (MutationRequest.Value m)"
    using byte_arrays.frame [of h _ "{}" h1] s1 ok by (simp add: flat_ok_def mutation_slices_def)
  then have "fresh_bytes h h' key (bytes_of h (MutationRequest.Key m))"
    "fresh_bytes h h' payload (bytes_of h (MutationRequest.Value m))"
    "fresh_bytes h h' (pb_MutationID.Id i) (id_bytes (MutationRequest.MutationID m))"
    using s1 s2 s3 writes by (metis fresh_later fresh_earlier)+
  with run 1 2 3 writes show ?thesis
    by (auto simp: ProtoMutationRequest_copy_def run_bind fresh_bytes_def flat_ok_def flat_refs_def pb_mutation_slices_def
        pb_mutation_val_def pb_id_val_def ProtoMutationRequest_def ProtoMutationID_def mutation_request_val_def)
qed

interpretation send_mutation: owned_copy "flat_ok mutation_slices" "flat_refs mutation_slices" mutation_request_val
  "flat_ok pb_mutation_slices" "flat_refs pb_mutation_slices" pb_mutation_val
  ProtoMutationRequest_copy ProtoMutationRequest
  by unfold_locales (rule ProtoMutationRequest_copy_spec)

section \<open>Get responses\<close>

definition response_slices :: "slice GetResponse \<Rightarrow> slice set" where
  "response_slices m = {GetResponse.Value m}"

definition pb_response_slices :: "slice pb_GetResponse \<Rightarrow> slice set" where
  "pb_response_slices m = {pb_GetResponse.Value m}"

definition pb_response_val :: "heap \<Rightarrow> slice pb_GetResponse \<Rightarrow> bytes pb_GetResponse" where
  "pb_response_val h m =
     \<lparr>pb_GetResponse.Status = pb_GetResponse.Status m,
      HubGeneration = pb_GetResponse.HubGeneration m,
      Version = pb_GetResponse.Version m,
      Value = bytes_of h (pb_GetResponse.Value m),
      TtlMillis = pb_GetResponse.TtlMillis m,
      Kind = pb_GetResponse.Kind m\<rparr>"

interpretation response_flat: flat response_slices get_response_val
  by unfold_locales (simp add: response_slices_def get_response_val_def)

interpretation pb_response_flat: flat pb_response_slices pb_response_val
  by unfold_locales (simp add: pb_response_slices_def pb_response_val_def)

interpretation pb_response_pointer: flat "opt_slices pb_response_slices" "\<lambda>h. map_option (pb_response_val h)"
  by (rule pb_response_flat.pointer)

interpretation response_result: owned "res_ok (flat_ok response_slices)" "res_refs (flat_refs response_slices)"
  "res_val get_response_val"
  by (rule response_flat.result)

definition ProtoGetResponse_copy :: "slice GetResponse \<Rightarrow> (heap, slice pb_GetResponse) state" where
  "ProtoGetResponse_copy m = do {
     value \<leftarrow> CopyBytes (GetResponse.Value m);
     State_Monad.return
       \<lparr>pb_GetResponse.Status = ProtoStatus (GetResponse.Status m),
        HubGeneration = GetResponse.HubGeneration m,
        Version = Some (ProtoVersionTag (GetResponse.Version m)),
        Value = value,
        TtlMillis = GetResponse.TTLMillis m,
        Kind = ProtoRecordKind (GetResponse.Kind m)\<rparr> }"

definition nilGetResponse :: "slice GetResponse" where
  "nilGetResponse = \<lparr>GetResponse.Status = 0, HubGeneration = 0, Version = zeroVersionTag, Value = NilSlice,
     TTLMillis = 0, Kind = 0\<rparr>"

definition FromProtoGetResponse_copy ::
  "slice pb_GetResponse option \<Rightarrow> (heap, slice GetResponse result) state" where
  "FromProtoGetResponse_copy m = (case m of
     None \<Rightarrow> State_Monad.return (nilGetResponse, Some (Errorf ''nil get response'' [] None))
   | Some p \<Rightarrow>
      on_ok_st nilGetResponse (\<lambda>_. FromProtoStatus (pb_GetResponse.Status p)) (\<lambda>status.
      on_ok_st nilGetResponse (\<lambda>_. FromProtoRecordKind (pb_GetResponse.Kind p)) (\<lambda>kind.
      do { out \<leftarrow> do {
             value \<leftarrow> CopyBytes (pb_GetResponse.Value p);
             State_Monad.return
               \<lparr>GetResponse.Status = status,
                HubGeneration = pb_GetResponse.HubGeneration p,
                Version = FromProtoVersionTag (pb_GetResponse.Version p),
                Value = value,
                TTLMillis = pb_GetResponse.TtlMillis p,
                Kind = kind\<rparr> };
           checked_st GetResponse_Validate get_response_val out })))"

lemma nilGetResponse_val [simp]:
  "flat_ok response_slices h nilGetResponse" "flat_refs response_slices h nilGetResponse = {}"
  "get_response_val h nilGetResponse = zeroGetResponse"
  by (simp_all add: flat_ok_def flat_refs_def response_slices_def nilGetResponse_def get_response_val_def
      zeroGetResponse_def array_ok_def slice_of_def)

lemma FromProtoGetResponse_copy_yields:
  "yields (flat_ok response_slices) (flat_refs response_slices) get_response_val h
    (FromProtoGetResponse_copy m) (FromProtoGetResponse (map_option (pb_response_val h) m))"
proof (cases m)
  case None
  then show ?thesis by (simp add: FromProtoGetResponse_copy_def FromProtoGetResponse_def yields_return)
next
  case (Some p)
  have q: "pb_GetResponse.Status (pb_response_val h p) = pb_GetResponse.Status p"
    "pb_GetResponse.Kind (pb_response_val h p) = pb_GetResponse.Kind p"
    by (simp_all add: pb_response_val_def)
  show ?thesis
    unfolding Some FromProtoGetResponse_copy_def FromProtoGetResponse_def option.map option.case getter_simps q
    by (simp only: option.distinct if_False,
        intro yields_on_ok yields_checked nilGetResponse_val,
        simp only: run_bind run_state_return Let_def, drule copy_one,
        auto simp: flat_ok_def flat_refs_def response_slices_def get_response_val_def pb_response_val_def)
qed

interpretation receive_response: owned_copy "flat_ok (opt_slices pb_response_slices)"
  "flat_refs (opt_slices pb_response_slices)" "\<lambda>h. map_option (pb_response_val h)"
  "res_ok (flat_ok response_slices)" "res_refs (flat_refs response_slices)" "res_val get_response_val"
  FromProtoGetResponse_copy FromProtoGetResponse
  by unfold_locales (rule yields_copy [OF FromProtoGetResponse_copy_yields])

interpretation send_response: owned_copy "flat_ok response_slices" "flat_refs response_slices" get_response_val
  "flat_ok pb_response_slices" "flat_refs pb_response_slices" pb_response_val
  ProtoGetResponse_copy ProtoGetResponse
  by unfold_locales
    (auto simp: ProtoGetResponse_copy_def ProtoGetResponse_def flat_ok_def flat_refs_def response_slices_def
      pb_response_slices_def get_response_val_def pb_response_val_def dest!: copy_one)

section \<open>Get requests\<close>

definition pb_get_slices :: "slice pb_GetRequest \<Rightarrow> slice set" where
  "pb_get_slices m = {pb_GetRequest.Key m}"

definition pb_get_val :: "heap \<Rightarrow> slice pb_GetRequest \<Rightarrow> bytes pb_GetRequest" where
  "pb_get_val h m =
     \<lparr>pb_GetRequest.Key = bytes_of h (pb_GetRequest.Key m),
      MinVersion = pb_GetRequest.MinVersion m,
      HubGeneration = pb_GetRequest.HubGeneration m\<rparr>"

abbreviation get_ok :: "heap \<Rightarrow> (slice, nat) rpc_GetRequest \<Rightarrow> bool" where
  "get_ok \<equiv> key_tag_ok rpc_GetRequest.Key rpc_GetRequest.MinVersion"

abbreviation get_refs :: "heap \<Rightarrow> (slice, nat) rpc_GetRequest \<Rightarrow> nat set" where
  "get_refs \<equiv> key_tag_refs rpc_GetRequest.Key rpc_GetRequest.MinVersion"

interpretation pb_get_flat: flat pb_get_slices pb_get_val
  by unfold_locales (simp add: pb_get_slices_def pb_get_val_def)

interpretation pb_get_pointer: flat "opt_slices pb_get_slices" "\<lambda>h. map_option (pb_get_val h)"
  by (rule pb_get_flat.pointer)

interpretation get_request_result: owned "res_ok get_ok" "res_refs get_refs" "res_val rpc_get_val"
  by (rule owned.result) (rule rpc_get.pointed.src.owned_axioms)

definition ProtoGetRequest_copy :: "(slice, nat) rpc_GetRequest \<Rightarrow> (heap, slice pb_GetRequest) state" where
  "ProtoGetRequest_copy m = do {
     key \<leftarrow> CopyBytes (rpc_GetRequest.Key m);
     minimum \<leftarrow> load (\<lambda>h. map_option (\<lambda>p. ProtoVersionTag (tag_of h p)) (rpc_GetRequest.MinVersion m));
     State_Monad.return
       \<lparr>pb_GetRequest.Key = key,
        MinVersion = minimum,
        HubGeneration = rpc_GetRequest.HubGeneration m\<rparr> }"

definition nilGetRequest :: "(slice, nat) rpc_GetRequest" where
  "nilGetRequest = \<lparr>rpc_GetRequest.Key = NilSlice, MinVersion = None, HubGeneration = 0\<rparr>"

definition FromProtoGetRequest_copy ::
  "slice pb_GetRequest option \<Rightarrow> (heap, (slice, nat) rpc_GetRequest result) state" where
  "FromProtoGetRequest_copy m = (case m of
     None \<Rightarrow> State_Monad.return (nilGetRequest, Some (Errorf ''nil get request'' [] None))
   | Some p \<Rightarrow>
      do { out \<leftarrow> do {
             key \<leftarrow> CopyBytes (pb_GetRequest.Key p);
             minimum \<leftarrow> (case pb_GetRequest.MinVersion p of
                None \<Rightarrow> State_Monad.return None
              | Some v \<Rightarrow> do { q \<leftarrow> alloc (OTag (FromProtoVersionTag (Some v))); State_Monad.return (Some q) });
             State_Monad.return
               \<lparr>rpc_GetRequest.Key = key,
                MinVersion = minimum,
                HubGeneration = pb_GetRequest.HubGeneration p\<rparr> };
           checked_st rpc_GetRequest_Validate rpc_get_val out })"

lemma ProtoGetRequest_copy_spec:
  assumes "get_ok h m" "run_state (ProtoGetRequest_copy m) h = (c, h')"
  shows "writes {} h h' \<and> flat_ok pb_get_slices h' c \<and> pb_get_val h' c = ProtoGetRequest (rpc_get_val h m)
    \<and> flat_refs pb_get_slices h' c \<subseteq> {length h..<length h'}"
proof -
  obtain key h1 where 1: "run_state (CopyBytes (rpc_GetRequest.Key m)) h = (key, h1)" by fastforce
  note s1 = fresh_CopyBytes [OF 1]
  have "tag_val h1 (rpc_GetRequest.MinVersion m) = tag_val h (rpc_GetRequest.MinVersion m)"
    using tag_frame [of h _ "{}" h1] assms(1) s1 by (simp add: key_tag_ok_def)
  then have "map_option (\<lambda>p. ProtoVersionTag (tag_of h1 p)) (rpc_GetRequest.MinVersion m)
      = map_option ProtoVersionTag (tag_val h (rpc_GetRequest.MinVersion m))"
    by (cases "rpc_GetRequest.MinVersion m") (simp_all add: tag_val_def)
  with assms 1 s1 show ?thesis
    by (auto simp: ProtoGetRequest_copy_def run_bind fresh_bytes_def flat_ok_def flat_refs_def pb_get_slices_def
        pb_get_val_def rpc_get_val_def ProtoGetRequest_def split: option.splits)
qed

lemma FromProtoGetRequest_copy_yields:
  "yields get_ok get_refs rpc_get_val h
    (FromProtoGetRequest_copy m) (FromProtoGetRequest (map_option (pb_get_val h) m))"
proof (cases m)
  case None
  then show ?thesis
    by (simp add: FromProtoGetRequest_copy_def FromProtoGetRequest_def yields_def nilGetRequest_def zero_rpc_GetRequest_def
        rpc_get_val_def key_tag_ok_def key_tag_refs_def array_ok_def tag_ok_def tag_val_def slice_of_def)
next
  case (Some p)
  obtain key h1 where 1: "run_state (CopyBytes (pb_GetRequest.Key p)) h = (key, h1)" by fastforce
  note s1 = fresh_CopyBytes [OF 1]
  have tagged: "fresh_bytes h (h1 @ [OTag v]) key (bytes_of h (pb_GetRequest.Key p))"
    "writes {} h (h1 @ [OTag v])" "length h \<le> length h1" for v
    using s1 fresh_later [of h h1 key "bytes_of h (pb_GetRequest.Key p)" "h1 @ [OTag v]"]
      writes_trans [of "{}" h h1 "{}" "h1 @ [OTag v]"] writes_append [of "{}" h1 "[OTag v]"]
    by (simp_all add: writes_def [of _ h h1])
  show ?thesis
    unfolding Some FromProtoGetRequest_copy_def FromProtoGetRequest_def option.map option.case getter_simps
    by (rule yields_checked)
      (use 1 s1 tagged in \<open>auto simp: run_bind fresh_bytes_def key_tag_ok_def key_tag_refs_def tag_ok_def tag_val_def tag_of_def
        pb_get_val_def rpc_get_val_def split: option.splits\<close>)
qed

interpretation receive_get: owned_copy "flat_ok (opt_slices pb_get_slices)"
  "flat_refs (opt_slices pb_get_slices)" "\<lambda>h. map_option (pb_get_val h)"
  "res_ok get_ok" "res_refs get_refs" "res_val rpc_get_val"
  FromProtoGetRequest_copy FromProtoGetRequest
  by unfold_locales (rule yields_copy [OF FromProtoGetRequest_copy_yields])

interpretation send_get: owned_copy get_ok get_refs rpc_get_val
  "flat_ok pb_get_slices" "flat_refs pb_get_slices" pb_get_val ProtoGetRequest_copy ProtoGetRequest
  by unfold_locales (rule ProtoGetRequest_copy_spec)

section \<open>Invalidation batches\<close>

definition pb_event_slices :: "slice pb_InvalidationEvent \<Rightarrow> slice set" where
  "pb_event_slices e = {pb_InvalidationEvent.Key e}
     \<union> pb_MutationID.Id ` set_option (pb_InvalidationEvent.MutationId e)"

definition pb_event_val :: "heap \<Rightarrow> slice pb_InvalidationEvent \<Rightarrow> bytes pb_InvalidationEvent" where
  "pb_event_val h e =
     \<lparr>pb_InvalidationEvent.StreamSequence = pb_InvalidationEvent.StreamSequence e,
      Key = bytes_of h (pb_InvalidationEvent.Key e),
      Version = pb_InvalidationEvent.Version e,
      Kind = pb_InvalidationEvent.Kind e,
      MutationId = map_option (pb_id_val h) (pb_InvalidationEvent.MutationId e)\<rparr>"

definition pb_batch_slices :: "slice pb_InvalidationBatch \<Rightarrow> slice set" where
  "pb_batch_slices m = (\<Union>e \<in> set (pb_InvalidationBatch.Events m). opt_slices pb_event_slices e)"

definition pb_batch_val :: "heap \<Rightarrow> slice pb_InvalidationBatch \<Rightarrow> bytes pb_InvalidationBatch" where
  "pb_batch_val h m =
     \<lparr>pb_InvalidationBatch.StreamId = pb_InvalidationBatch.StreamId m,
      HubGeneration = pb_InvalidationBatch.HubGeneration m,
      Events = map (map_option (pb_event_val h)) (pb_InvalidationBatch.Events m)\<rparr>"

interpretation pb_event_flat: flat pb_event_slices pb_event_val
  by unfold_locales (auto simp: pb_event_slices_def pb_event_val_def pb_id_val_def intro: option.map_cong)

interpretation pb_event_pointer: flat "opt_slices pb_event_slices" "\<lambda>h. map_option (pb_event_val h)"
  by (rule pb_event_flat.pointer)

interpretation pb_batch_flat: flat pb_batch_slices pb_batch_val
  by unfold_locales (auto simp: pb_batch_slices_def pb_batch_val_def intro!: pb_event_pointer.val_cong)

interpretation pb_batch_pointer: flat "opt_slices pb_batch_slices" "\<lambda>h. map_option (pb_batch_val h)"
  by (rule pb_batch_flat.pointer)

interpretation batch_result: owned "res_ok batch_ok" "res_refs batch_refs" "res_val batch_val"
  by (rule batch_clone.src.result)

text \<open>The loop of \<^verbatim>\<open>ProtoInvalidationBatch\<close>. \<^verbatim>\<open>e.MutationID[:]\<close> slices a field of the loop variable; the
  module asks for Go 1.25, where every iteration has a loop variable of its own, so every event gets
  an identity array of its own.\<close>

primrec proto_events ::
  "slice InvalidationEvent list \<Rightarrow> slice pb_InvalidationEvent option list \<Rightarrow>
    (heap, slice pb_InvalidationEvent option list) state" where
  "proto_events [] out = State_Monad.return out"
| "proto_events (e # rest) out = do {
     key \<leftarrow> CopyBytes (InvalidationEvent.Key e);
     i \<leftarrow> alloc (OBytes (id_bytes (InvalidationEvent.MutationID e)));
     proto_events rest (out @ [Some
       \<lparr>pb_InvalidationEvent.StreamSequence = InvalidationEvent.StreamSequence e,
        Key = key,
        Version = Some \<lparr>pb_VersionTag.PartitionId = PartitionID (InvalidationEvent.Version e),
          Sequence = VersionTag.Sequence (InvalidationEvent.Version e)\<rparr>,
        Kind = ucast (InvalidationEvent.Kind e),
        MutationId = Some \<lparr>pb_MutationID.Id = Slice i 0 16\<rparr>\<rparr>]) }"

definition ProtoInvalidationBatch_copy :: "slice InvalidationBatch \<Rightarrow> (heap, slice pb_InvalidationBatch) state" where
  "ProtoInvalidationBatch_copy m = do {
     es \<leftarrow> load (\<lambda>h. events_of h (InvalidationBatch.Events m));
     events \<leftarrow> proto_events es [];
     State_Monad.return
       \<lparr>pb_InvalidationBatch.StreamId = InvalidationBatch.StreamID m,
        HubGeneration = InvalidationBatch.HubGeneration m,
        Events = events\<rparr> }"

text \<open>\<^verbatim>\<open>out.Events = append(out.Events, e)\<close> within the capacity that \<^verbatim>\<open>make\<close> has reserved at \<open>a\<close>.\<close>

definition append_event :: "nat \<Rightarrow> slice InvalidationEvent \<Rightarrow> (heap, unit) state" where
  "append_event a e = State (\<lambda>h. ((), h[a := OEvents (un_events (h ! a) @ [e])]))"

primrec events_from_copy :: "nat \<Rightarrow> nat \<Rightarrow> slice pb_InvalidationEvent option list \<Rightarrow> (heap, error option) state" where
  "events_from_copy a i [] = State_Monad.return None"
| "events_from_copy a i (e # rest) = (case e of
     None \<Rightarrow> State_Monad.return (invalid_message '': nil event at index %d'' [FInt (int i)])
   | Some p \<Rightarrow> do {
       x \<leftarrow> load (\<lambda>h. mutationIDFromProto (map_option (pb_id_val h) (pb_InvalidationEvent.MutationId p)));
       (case x of (_, Some err) \<Rightarrow> State_Monad.return (Some err) | (mutationID, None) \<Rightarrow>
       (case recordKindFromProto (pb_InvalidationEvent.Kind p) of
          (_, Some err) \<Rightarrow> State_Monad.return (Some err) | (kind, None) \<Rightarrow> do {
         key \<leftarrow> CopyBytes (pb_InvalidationEvent.Key p);
         append_event a
           \<lparr>InvalidationEvent.StreamSequence = pb_InvalidationEvent.StreamSequence p,
            Key = key,
            Version = (case pb_InvalidationEvent.Version p of None \<Rightarrow> zeroVersionTag
              | Some v \<Rightarrow> \<lparr>PartitionID = pb_VersionTag.PartitionId v, Sequence = pb_VersionTag.Sequence v\<rparr>),
            Kind = kind, MutationID = mutationID\<rparr>;
         events_from_copy a (i + 1) rest })) })"

definition nilInvalidationBatch :: "slice InvalidationBatch" where
  "nilInvalidationBatch = \<lparr>InvalidationBatch.StreamID = 0, HubGeneration = 0, Events = NilSlice\<rparr>"

definition FromProtoInvalidationBatch_copy ::
  "slice pb_InvalidationBatch option \<Rightarrow> (heap, slice InvalidationBatch result) state" where
  "FromProtoInvalidationBatch_copy m = (case m of
     None \<Rightarrow> State_Monad.return (nilInvalidationBatch, invalid_message '': nil invalidation batch'' [])
   | Some p \<Rightarrow> do {
       a \<leftarrow> alloc (OEvents []);
       err \<leftarrow> events_from_copy a 0 (pb_InvalidationBatch.Events p);
       (case err of Some err \<Rightarrow> State_Monad.return (nilInvalidationBatch, Some err)
        | None \<Rightarrow> do {
            n \<leftarrow> load (\<lambda>h. length (un_events (h ! a)));
            checked_st InvalidationBatch_Validate batch_val
              \<lparr>InvalidationBatch.StreamID = pb_InvalidationBatch.StreamId p,
               HubGeneration = pb_InvalidationBatch.HubGeneration p,
               Events = Slice a 0 n\<rparr> }) })"

lemma proto_events_spec:
  assumes "run_state (proto_events es out) h = (r, h')"
    and "\<forall>e \<in> set es. array_ok OBytes h (InvalidationEvent.Key e)"
  shows "writes {} h h' \<and> (\<exists>ps. r = out @ ps
    \<and> map (map_option (pb_event_val h')) ps = map (\<lambda>e. Some (ProtoInvalidationEvent (event_val h e))) es
    \<and> (\<forall>s \<in> \<Union> (set (map (opt_slices pb_event_slices) ps)). array_ok OBytes h' s \<and> slice_refs s \<subseteq> {length h..<length h'}))"
  using assms
proof (induction es arbitrary: out h)
  case (Cons e es)
  obtain key h1 where 1: "run_state (CopyBytes (InvalidationEvent.Key e)) h = (key, h1)" by fastforce
  define h2 where "h2 = h1 @ [OBytes (id_bytes (InvalidationEvent.MutationID e))]"
  define p where "p = \<lparr>pb_InvalidationEvent.StreamSequence = InvalidationEvent.StreamSequence e,
        Key = key,
        Version = Some \<lparr>pb_VersionTag.PartitionId = PartitionID (InvalidationEvent.Version e),
          Sequence = VersionTag.Sequence (InvalidationEvent.Version e)\<rparr>,
        Kind = ucast (InvalidationEvent.Kind e),
        MutationId = Some \<lparr>pb_MutationID.Id = Slice (length h1) 0 16\<rparr>\<rparr>"
  have run: "run_state (proto_events es (out @ [Some p])) h2 = (r, h')"
    using Cons.prems(1) 1 by (simp add: run_bind h2_def p_def)
  note s1 = fresh_CopyBytes [OF 1]
  have h12: "writes {} h1 h2" by (simp add: h2_def)
  then have h02: "writes {} h h2" using s1 writes_trans [of "{}" h h1 "{}" h2] by simp
  have kept: "array_ok OBytes h2 (InvalidationEvent.Key x) \<and> event_val h2 x = event_val h x" if "x \<in> set es" for x
    using event_frame [OF _ h02] Cons.prems(2) that by simp
  then obtain ps where ps: "writes {} h2 h'" "r = (out @ [Some p]) @ ps"
    "map (map_option (pb_event_val h')) ps = map (\<lambda>e. Some (ProtoInvalidationEvent (event_val h2 e))) es"
    "\<forall>s \<in> \<Union> (set (map (opt_slices pb_event_slices) ps)). array_ok OBytes h' s \<and> slice_refs s \<subseteq> {length h2..<length h'}"
    using Cons.IH [OF run] by blast
  have "fresh_bytes h h2 key (bytes_of h (InvalidationEvent.Key e))" using fresh_later [OF _ h12] s1 by blast
  moreover have "fresh_bytes h h2 (Slice (length h1) 0 16) (id_bytes (InvalidationEvent.MutationID e))"
    using s1 by (simp add: fresh_bytes_def h2_def array_ok_def slice_of_def window_def writes_def)
  ultimately have new: "fresh_bytes h h' key (bytes_of h (InvalidationEvent.Key e))"
    "fresh_bytes h h' (Slice (length h1) 0 16) (id_bytes (InvalidationEvent.MutationID e))"
    using fresh_later [OF _ ps(1)] by blast+
  have "map (\<lambda>e. Some (ProtoInvalidationEvent (event_val h2 e))) es
      = map (\<lambda>e. Some (ProtoInvalidationEvent (event_val h e))) es"
    using kept by simp
  moreover have "pb_event_val h' p = ProtoInvalidationEvent (event_val h e)"
    using new by (simp add: fresh_bytes_def pb_event_val_def pb_id_val_def p_def ProtoInvalidationEvent_def event_val_def)
  moreover have "array_ok OBytes h' s \<and> slice_refs s \<subseteq> {length h..<length h'}" if "s \<in> pb_event_slices p" for s
    using that new by (auto simp: pb_event_slices_def p_def fresh_bytes_def)
  moreover have "writes {} h h'" using writes_trans [OF h02 ps(1)] by simp
  moreover have "length h \<le> length h2" using h02 by (simp add: writes_def)
  ultimately show ?case using ps(2-4) by (intro conjI exI [of _ "Some p # ps"]) fastforce+
qed simp

lemma ProtoInvalidationBatch_copy_spec:
  assumes ok: "batch_ok h m" and run: "run_state (ProtoInvalidationBatch_copy m) h = (c, h')"
  shows "writes {} h h' \<and> flat_ok pb_batch_slices h' c \<and> pb_batch_val h' c = ProtoInvalidationBatch (batch_val h m)
    \<and> flat_refs pb_batch_slices h' c \<subseteq> {length h..<length h'}"
proof -
  let ?es = "events_of h (InvalidationBatch.Events m)"
  obtain ps where loop: "run_state (proto_events ?es []) h = (ps, h')" "pb_InvalidationBatch.Events c = ps"
    and c: "pb_InvalidationBatch.StreamId c = InvalidationBatch.StreamID m"
      "pb_InvalidationBatch.HubGeneration c = InvalidationBatch.HubGeneration m"
    using run by (auto simp: ProtoInvalidationBatch_copy_def run_bind split: prod.splits)
  have "\<forall>e \<in> set ?es. array_ok OBytes h (InvalidationEvent.Key e)" using ok by (simp add: batch_ok_def)
  note spec = proto_events_spec [OF loop(1) this, simplified]
  from spec show ?thesis
    by (auto simp: flat_ok_def flat_refs_def pb_batch_slices_def pb_batch_val_def ProtoInvalidationBatch_def
        batch_val_def fold_snoc_map comp_def loop(2) c)
qed

interpretation send_batch: owned_copy batch_ok batch_refs batch_val
  "flat_ok pb_batch_slices" "flat_refs pb_batch_slices" pb_batch_val
  ProtoInvalidationBatch_copy ProtoInvalidationBatch
  by unfold_locales (rule ProtoInvalidationBatch_copy_spec)

text \<open>The array under construction: it holds the events appended so far, whose keys are in fresh memory.\<close>

definition building :: "nat \<Rightarrow> nat \<Rightarrow> heap \<Rightarrow> slice InvalidationEvent list \<Rightarrow> bool" where
  "building base a h acc \<longleftrightarrow> base \<le> a \<and> a < length h \<and> h ! a = OEvents acc
     \<and> (\<forall>e \<in> set acc. array_ok OBytes h (InvalidationEvent.Key e)
          \<and> slice_refs (InvalidationEvent.Key e) \<subseteq> {base..<length h})"

lemma building_append:
  assumes b: "building base a h acc" and key: "run_state (CopyBytes s) h = (key, h1)"
    and e: "InvalidationEvent.Key e = key" and h2: "run_state (append_event a e) h1 = (u, h2)"
  shows "writes {a} h h2 \<and> building base a h2 (acc @ [e]) \<and> map (event_val h2) acc = map (event_val h) acc
    \<and> event_val h2 e = (event_val h e)\<lparr>InvalidationEvent.Key := bytes_of h s\<rparr>"
proof -
  note s1 = fresh_CopyBytes [OF key]
  have a: "base \<le> a" "a < length h" "h ! a = OEvents acc" "a < length h1" "h1 ! a = OEvents acc"
    using b s1 by (auto simp: building_def writes_def)
  have h2: "h2 = h1[a := OEvents (acc @ [e])]" using h2 a(5) by (simp add: append_event_def)
  have w12: "writes {a} h1 h2" unfolding h2 by (rule writes_update) simp
  then have w02: "writes {a} h h2" using s1 writes_trans [of "{}" h h1 "{a}" h2] by simp
  have len: "length h \<le> length h1" "length h1 = length h2" using s1 h2 by (simp_all add: writes_def)
  have old: "array_ok OBytes h2 (InvalidationEvent.Key x) \<and> event_val h2 x = event_val h x" if "x \<in> set acc" for x
    using b that event_frame [OF _ w02] bytes_not_events [OF _ a(3)] by (simp add: building_def)
  have "slice_refs key \<inter> {a} = {}" using s1 a(2) by (auto simp: fresh_bytes_def)
  then have new: "array_ok OBytes h2 key \<and> bytes_of h2 key = bytes_of h s"
    using byte_arrays.frame [OF _ w12] s1 by (simp add: fresh_bytes_def)
  have "slice_refs key \<subseteq> {base..<length h2}"
    using s1 len a(1,2) by (auto simp: fresh_bytes_def)
  moreover have "slice_refs (InvalidationEvent.Key x) \<subseteq> {base..<length h2}" if "x \<in> set acc" for x
  proof -
    have "{base..<length h} \<subseteq> {base..<length h2}" using len by simp
    then show ?thesis using b that unfolding building_def by blast
  qed
  moreover have "h2 ! a = OEvents (acc @ [e])" "a < length h2" using h2 a(4) by simp_all
  ultimately have "building base a h2 (acc @ [e])"
    using a(1) old new e unfolding building_def by simp
  then show ?thesis using w02 old new e by (simp add: event_val_def)
qed

lemma events_from_copy_spec:
  assumes "run_state (events_from_copy a i es) h = (err, h')" "building base a h acc"
    and "\<forall>e \<in> set es. flat_ok (opt_slices pb_event_slices) h e"
  shows "writes {a} h h' \<and>
    (case events_from i (map (map_option (pb_event_val h)) es) (map (event_val h) acc) of
       (_, Some e) \<Rightarrow> err = Some e
     | (out, None) \<Rightarrow> err = None \<and> (\<exists>acc'. building base a h' acc' \<and> map (event_val h') acc' = out))"
  using assms
proof (induction es arbitrary: i h acc)
  case (Cons x es)
  show ?case
  proof (cases x)
    case None
    then show ?thesis using Cons.prems(1) by auto
  next
    case (Some p)
    obtain uid e1 where uid: "mutationIDFromProto (map_option (pb_id_val h) (pb_InvalidationEvent.MutationId p)) = (uid, e1)"
      by fastforce
    obtain kind e2 where kind: "recordKindFromProto (pb_InvalidationEvent.Kind p) = (kind, e2)" by fastforce
    have q: "pb_InvalidationEvent.MutationId (pb_event_val h p) = map_option (pb_id_val h) (pb_InvalidationEvent.MutationId p)"
      "pb_InvalidationEvent.Kind (pb_event_val h p) = pb_InvalidationEvent.Kind p"
      by (simp_all add: pb_event_val_def)
    show ?thesis
    proof (cases "e1 = None \<and> e2 = None")
      case False
      let ?e = "case e1 of None \<Rightarrow> e2 | Some _ \<Rightarrow> e1"
      have "events_from i (map (map_option (pb_event_val h)) (x # es)) (map (event_val h) acc) = ([], ?e)"
        using False uid kind Some by (cases e1; cases e2) (simp_all add: getter_simps q)
      moreover have "run_state (events_from_copy a i (x # es)) h = (?e, h)"
        using False uid kind Some by (cases e1; cases e2) (simp_all add: run_bind)
      ultimately show ?thesis using False Cons.prems(1) by (cases e1; cases e2) auto
    next
      case True
      obtain key h1 where key: "run_state (CopyBytes (pb_InvalidationEvent.Key p)) h = (key, h1)" by fastforce
      define e where "e = \<lparr>InvalidationEvent.StreamSequence = pb_InvalidationEvent.StreamSequence p,
            Key = key,
            Version = (case pb_InvalidationEvent.Version p of None \<Rightarrow> zeroVersionTag
              | Some v \<Rightarrow> \<lparr>PartitionID = pb_VersionTag.PartitionId v, Sequence = pb_VersionTag.Sequence v\<rparr>),
            Kind = kind, MutationID = uid\<rparr>"
      obtain h2 where app: "run_state (append_event a e) h1 = ((), h2)" by (simp add: append_event_def)
      have run: "run_state (events_from_copy a (i + 1) es) h2 = (err, h')"
        using Cons.prems(1) uid kind Some True key app by (simp add: run_bind e_def)
      have "InvalidationEvent.Key e = key" by (simp add: e_def)
      note step = building_append [OF Cons.prems(2) key this app]
      have "h ! a = OEvents acc" using Cons.prems(2) by (simp add: building_def)
      then have apart: "flat_refs (opt_slices pb_event_slices) h y \<inter> {a} = {}" if "y \<in> set es" for y
        using Cons.prems(3) that bytes_not_events by (fastforce simp: flat_ok_def flat_refs_def)
      have kept: "flat_ok (opt_slices pb_event_slices) h2 y \<and> map_option (pb_event_val h2) y = map_option (pb_event_val h) y"
        if "y \<in> set es" for y
        using pb_event_pointer.flat_frame [OF _ _ apart [OF that], of h2] Cons.prems(3) step that by simp
      note rest = Cons.IH [OF run conjunct1 [OF conjunct2 [OF step]]]
      have "map (map_option (pb_event_val h2)) es = map (map_option (pb_event_val h)) es" using kept by simp
      moreover have "map (event_val h2) (acc @ [e]) = map (event_val h) acc @
          [(event_val h e)\<lparr>InvalidationEvent.Key := bytes_of h (pb_InvalidationEvent.Key p)\<rparr>]"
        using step by simp
      moreover have "events_from i (map (map_option (pb_event_val h)) (x # es)) (map (event_val h) acc)
          = events_from (i + 1) (map (map_option (pb_event_val h)) es) (map (event_val h) acc @
              [(event_val h e)\<lparr>InvalidationEvent.Key := bytes_of h (pb_InvalidationEvent.Key p)\<rparr>])"
        using Some True uid kind
        by (simp add: getter_simps q) (simp add: pb_event_val_def event_val_def e_def pb_VersionTag_GetPartitionId_def
            pb_VersionTag_GetSequence_def split: option.split)
      ultimately have "events_from i (map (map_option (pb_event_val h)) (x # es)) (map (event_val h) acc)
          = events_from (i + 1) (map (map_option (pb_event_val h2)) es) (map (event_val h2) (acc @ [e]))"
        by (simp only:)
      then show ?thesis using rest kept step writes_trans [of "{a}" h h2 "{a}" h'] by simp
    qed
  qed
qed auto

lemma building_batch:
  assumes "building base a h acc" "InvalidationBatch.Events m = Slice a 0 (length acc)"
  shows "batch_ok h m \<and> batch_refs h m \<subseteq> {base..<length h}
    \<and> batch_val h m = \<lparr>InvalidationBatch.StreamID = InvalidationBatch.StreamID m,
        HubGeneration = InvalidationBatch.HubGeneration m, Events = map (event_val h) acc\<rparr>"
proof -
  have "events_of h (Slice a 0 (length acc)) = acc" "array_ok OEvents h (Slice a 0 (length acc))"
    using assms(1) by (simp_all add: building_def slice_of_def window_def array_ok_def)
  with assms show ?thesis
    by (auto simp: batch_ok_def batch_refs_def batch_val_def building_def UN_subset_iff)
qed

lemma nilInvalidationBatch_val [simp]:
  "batch_ok h nilInvalidationBatch" "batch_refs h nilInvalidationBatch = {}"
  "batch_val h nilInvalidationBatch = zeroInvalidationBatch"
  by (simp_all add: batch_ok_def batch_refs_def batch_val_def nilInvalidationBatch_def zeroInvalidationBatch_def
      array_ok_def slice_of_def)

lemma FromProtoInvalidationBatch_copy_yields:
  assumes ok: "flat_ok (opt_slices pb_batch_slices) h m"
  shows "yields batch_ok batch_refs batch_val h
    (FromProtoInvalidationBatch_copy m) (FromProtoInvalidationBatch (map_option (pb_batch_val h) m))"
proof (cases m)
  case None
  then show ?thesis
    by (simp add: FromProtoInvalidationBatch_copy_def FromProtoInvalidationBatch_def yields_return)
next
  case (Some p)
  define h1 where "h1 = h @ [OEvents []]"
  obtain err h2 where loop: "run_state (events_from_copy (length h) 0 (pb_InvalidationBatch.Events p)) h1 = (err, h2)"
    by fastforce
  have h1: "building (length h) (length h) h1 []" "writes {} h h1" by (simp_all add: building_def h1_def)
  have kept: "flat_ok (opt_slices pb_event_slices) h1 e \<and> map_option (pb_event_val h1) e = map_option (pb_event_val h) e"
    if "e \<in> set (pb_InvalidationBatch.Events p)" for e
    using pb_event_pointer.flat_frame [of h e "{}" h1] h1(2) ok Some that
    by (auto simp: flat_ok_def pb_batch_slices_def)
  let ?from = "events_from 0 (map (map_option (pb_event_val h)) (pb_InvalidationBatch.Events p)) []"
  have same: "map (map_option (pb_event_val h1)) (pb_InvalidationBatch.Events p)
      = map (map_option (pb_event_val h)) (pb_InvalidationBatch.Events p)"
    using kept by simp
  have spec: "writes {length h} h1 h2 \<and> (case ?from of (_, Some e) \<Rightarrow> err = Some e
     | (out, None) \<Rightarrow> err = None \<and> (\<exists>acc'. building (length h) (length h) h2 acc' \<and> map (event_val h2) acc' = out))"
    using events_from_copy_spec [OF loop h1(1)] kept unfolding same by simp
  have writes: "writes {} h h2"
    using writes_trans [OF h1(2)] spec by (blast intro: writes_mono)
  have run: "run_state (FromProtoInvalidationBatch_copy m) h = (case err of
      Some e \<Rightarrow> ((nilInvalidationBatch, Some e), h2)
    | None \<Rightarrow> run_state (checked_st InvalidationBatch_Validate batch_val
              \<lparr>InvalidationBatch.StreamID = pb_InvalidationBatch.StreamId p,
               HubGeneration = pb_InvalidationBatch.HubGeneration p,
               Events = Slice (length h) 0 (length (un_events (h2 ! length h)))\<rparr>) h2)"
    using loop by (simp add: FromProtoInvalidationBatch_copy_def Some run_bind h1_def split: option.split)
  have val: "FromProtoInvalidationBatch (map_option (pb_batch_val h) m) = on_ok zeroInvalidationBatch ?from (\<lambda>events.
      checked InvalidationBatch_Validate
        \<lparr>InvalidationBatch.StreamID = pb_InvalidationBatch.StreamId p,
         HubGeneration = pb_InvalidationBatch.HubGeneration p, Events = events\<rparr>)"
    by (simp add: FromProtoInvalidationBatch_def Some getter_simps pb_batch_val_def)
  show ?thesis
  proof (cases err)
    case (Some e)
    then have "snd ?from = Some e" using spec by (auto split: prod.splits option.splits)
    then show ?thesis
      unfolding yields_def run val using Some writes by (cases ?from) simp
  next
    case None
    then obtain acc where acc: "building (length h) (length h) h2 acc" "?from = (map (event_val h2) acc, None)"
      using spec by (auto split: prod.splits option.splits)
    then have n: "length (un_events (h2 ! length h)) = length acc" by (simp add: building_def)
    show ?thesis
      unfolding yields_def run val None n acc(2)
      using writes building_batch [OF acc(1)] by (auto simp: checked_st_def run_bind checked_def)
  qed
qed

interpretation receive_batch: owned_copy "flat_ok (opt_slices pb_batch_slices)"
  "flat_refs (opt_slices pb_batch_slices)" "\<lambda>h. map_option (pb_batch_val h)"
  "res_ok batch_ok" "res_refs batch_refs" "res_val batch_val"
  FromProtoInvalidationBatch_copy FromProtoInvalidationBatch
  by unfold_locales (rule yields_copy [OF FromProtoInvalidationBatch_copy_yields])

section \<open>Samples\<close>

definition sample_mutation :: "bytes MutationRequest" where
  "sample_mutation = \<lparr>MutationRequest.Op = OpSet, Key = [0x61], Value = [0x62, 0x63], TTLMillis = 0,
     MutationID = NewMutationID 1 1, Mode = WriteFast, W = 0, Confirm = ConfirmInvalidateApplied, Timeout = 5,
     HubGeneration = 4\<rparr>"

text \<open>A receive buffer with key and value in one array, and the message decoded into it.\<close>

definition receive_heap :: heap where
  "receive_heap = [OBytes [0x61, 0x62, 0x63], OBytes (id_bytes (NewMutationID 1 1))]"

definition sample_pb_mutation :: "slice pb_MutationRequest" where
  "sample_pb_mutation = \<lparr>pb_MutationRequest.Op = MutationOp_MUTATION_OP_SET, Key = Slice 0 0 1, Value = Slice 0 1 2,
     TtlMillis = 0, MutationId = Some \<lparr>pb_MutationID.Id = Slice 1 0 16\<rparr>, Mode = 0, W = 0, Confirm = 0,
     TimeoutMillis = 5, HubGeneration = 4\<rparr>"

definition sample_pb_event :: "64 word \<Rightarrow> slice pb_InvalidationEvent" where
  "sample_pb_event n = \<lparr>pb_InvalidationEvent.StreamSequence = n, Key = Slice 0 0 1,
     Version = Some \<lparr>pb_VersionTag.PartitionId = 3, Sequence = 100\<rparr>, Kind = 0,
     MutationId = Some \<lparr>pb_MutationID.Id = Slice 1 0 16\<rparr>\<rparr>"

definition sample_pb_batch :: "slice pb_InvalidationBatch" where
  "sample_pb_batch = \<lparr>pb_InvalidationBatch.StreamId = 3, HubGeneration = 9,
     Events = [Some (sample_pb_event 10), Some (sample_pb_event 11)]\<rparr>"

definition publish_heap :: heap where
  "publish_heap = [OBytes [0x61], OEvents (map (\<lambda>n. \<lparr>InvalidationEvent.StreamSequence = n, Key = Slice 0 0 1,
     Version = \<lparr>PartitionID = 3, Sequence = 100\<rparr>, Kind = RecordValue, MutationID = NewMutationID 1 1\<rparr>) [10, 11])]"

definition published_batch :: "slice InvalidationBatch" where
  "published_batch = \<lparr>InvalidationBatch.StreamID = 3, HubGeneration = 9, Events = Slice 1 0 2\<rparr>"

lemma sample_mutation_valid: "MutationRequest_Validate sample_mutation = None"
  by (simp add: MutationRequest_Validate_iff valid_MutationRequest_def sample_mutation_def valid_key_def MaxKeyLen_def
      MaxValueLen_def MutationID_IsZero_def [symmetric])

lemma sample_pb_mutation_val:
  "flat_ok (opt_slices pb_mutation_slices) receive_heap (Some sample_pb_mutation)"
  "pb_mutation_val receive_heap sample_pb_mutation = ProtoMutationRequest sample_mutation"
  by (simp_all add: flat_ok_def pb_mutation_slices_def array_ok_def sample_pb_mutation_def receive_heap_def
      pb_mutation_val_def pb_id_val_def slice_of_def window_def ProtoMutationRequest_def sample_mutation_def
      ProtoMutationOp_def ProtoMutationID_def ProtoWriteMode_def ProtoConfirmLevel_def)

lemma sample_pb_batch_val:
  "flat_ok (opt_slices pb_batch_slices) receive_heap (Some sample_pb_batch)"
  "pb_batch_val receive_heap sample_pb_batch = ProtoInvalidationBatch sample_batch"
  by (simp_all add: flat_ok_def pb_batch_slices_def pb_event_slices_def array_ok_def sample_pb_batch_def
      sample_pb_event_def receive_heap_def pb_batch_val_def pb_event_val_def pb_id_val_def slice_of_def window_def
      ProtoInvalidationBatch_def ProtoInvalidationEvent_def sample_batch_def sample_event_def)

lemma published_batch_val: "batch_ok publish_heap published_batch" "batch_val publish_heap published_batch = sample_batch"
  by (simp_all add: batch_ok_def batch_val_def event_val_def array_ok_def slice_of_def window_def publish_heap_def
      published_batch_def sample_batch_def sample_event_def)

section \<open>Correctness\<close>

text \<open>C36. The receive path of a mutation, from the buffer of the decoded message to the fingerprint the hub
  retains: when decoding succeeds, the message was the encoding of a valid request, and whatever is
  later written to anything but the fingerprint itself (the receive buffer is reused, the decoded
  request is changed), the fingerprint goes on to match exactly the requests with that content.\<close>

theorem received_mutation_retained:
  assumes "flat_ok (opt_slices pb_mutation_slices) h m"
    and "run_state (FromProtoMutationRequest_copy m) h = ((r, None), h1)"
    and "run_state (Fingerprint_copy r) h1 = (f, h2)"
    and "writes (- pair_refs MutationFingerprint.Key MutationFingerprint.Value h2 f) h2 h3"
  shows "\<exists>d. map_option (pb_mutation_val h) m = Some (ProtoMutationRequest d) \<and> MutationRequest_Validate d = None
    \<and> (\<forall>b. CheckMatch (fingerprint_val h3 f) (Rpc_Dedup.Fingerprint b) = None \<longleftrightarrow> same_content d b)"
proof -
  let ?d = "mutation_request_val h1 r"
  have spec: "flat_ok mutation_slices h1 r"
    "FromProtoMutationRequest (map_option (pb_mutation_val h) m) = (?d, None)"
    using receive_mutation.copy_spec [OF assms(1,2)] by (simp_all add: res_ok_def res_val_def)
  then have "pair_ok MutationRequest.Key MutationRequest.Value h1 r"
    by (simp add: flat_ok_def mutation_slices_def pair_ok_def)
  then have "fingerprint_val h3 f = Rpc_Dedup.Fingerprint ?d"
    using retained.pair.independent [OF _ assms(3)] assms(4) by blast
  with spec(2) show ?thesis
    by (auto simp: mutation_request_codec.accept_iff CheckMatch_iff same_content_iff)
qed

theorem received_mutation_retained_witness:
  "let (x, h1) = run_state (FromProtoMutationRequest_copy (Some sample_pb_mutation)) receive_heap;
       (f, h2) = run_state (Fingerprint_copy (fst x)) h1
   in snd x = None \<and> CheckMatch (fingerprint_val (h2[0 := OBytes [0, 0, 0]]) f) (Rpc_Dedup.Fingerprint sample_mutation) = None"
proof -
  obtain r e h1 where 1: "run_state (FromProtoMutationRequest_copy (Some sample_pb_mutation)) receive_heap = ((r, e), h1)"
    by (metis prod.collapse)
  obtain f h2 where 2: "run_state (Fingerprint_copy r) h1 = (f, h2)" by fastforce
  have dec: "FromProtoMutationRequest (Some (ProtoMutationRequest sample_mutation)) = (sample_mutation, None)"
    using sample_mutation_valid by (simp add: mutation_request_codec.accept_iff)
  have spec: "flat_ok mutation_slices h1 r" "e = None" "writes {} receive_heap h1"
    using receive_mutation.copy_spec [OF sample_pb_mutation_val(1) 1] dec
    by (simp_all add: res_ok_def res_val_def sample_pb_mutation_val(2))
  have "pair_refs MutationFingerprint.Key MutationFingerprint.Value h2 f \<subseteq> {length h1..<length h2}"
    using retained.pair.copy_spec [OF _ 2] spec(1) by (simp add: flat_ok_def mutation_slices_def pair_ok_def)
  moreover have "0 < length h1" using spec(3) by (cases h1) (simp_all add: writes_def receive_heap_def)
  ultimately have "writes (- pair_refs MutationFingerprint.Key MutationFingerprint.Value h2 f) h2 (h2[0 := OBytes [0, 0, 0]])"
    by (intro writes_update) fastforce
  from received_mutation_retained [OF sample_pb_mutation_val(1) 1 [unfolded spec(2)] 2 this]
  have "CheckMatch (fingerprint_val (h2[0 := OBytes [0, 0, 0]]) f) (Rpc_Dedup.Fingerprint sample_mutation) = None"
    using sample_mutation_valid mutation_request_codec.to_pb_inj
    by (auto simp: sample_pb_mutation_val(2) same_content_iff MutationRequest_Validate_iff)
  then show ?thesis using 1 2 spec(2) by simp
qed

text \<open>C37. Decoding an invalidation batch on the heap refines the value-level decoder, errors included, and
  the decoded batch is the receiver's own: later writes elsewhere, the receive buffer among them, do
  not change it, and its own writes do not reach the message it came from.\<close>

theorem received_batch_owned:
  assumes "flat_ok (opt_slices pb_batch_slices) h m"
    and "run_state (FromProtoInvalidationBatch_copy m) h = ((b, err), h1)"
    and "writes (- batch_refs h1 b) h1 h2" "writes (batch_refs h1 b) h1 h3"
  shows "(batch_val h2 b, err) = FromProtoInvalidationBatch (map_option (pb_batch_val h) m)
    \<and> map_option (pb_batch_val h3) m = map_option (pb_batch_val h) m"
  using receive_batch.independent [OF assms(1,2)] assms(3,4)
  by (simp add: res_val_def res_refs_def)

theorem received_batch_owned_witness:
  "let ((b, err), h1) = run_state (FromProtoInvalidationBatch_copy (Some sample_pb_batch)) receive_heap
   in err = None \<and> batch_val (h1[0 := OBytes [0x7a]]) b = sample_batch"
proof -
  obtain b err h1 where 1: "run_state (FromProtoInvalidationBatch_copy (Some sample_pb_batch)) receive_heap = ((b, err), h1)"
    by (metis prod.collapse)
  have dec: "FromProtoInvalidationBatch (Some (ProtoInvalidationBatch sample_batch)) = (sample_batch, None)"
    using sample_batch_valid by (simp add: batch_codec.from_to)
  have "batch_refs h1 b \<subseteq> {length receive_heap..<length h1}"
    using receive_batch.copy_spec [OF sample_pb_batch_val(1) 1] by (simp add: res_refs_def)
  then have "writes (- batch_refs h1 b) h1 (h1[0 := OBytes [0x7a]])"
    by (intro writes_update) (auto simp: receive_heap_def)
  from received_batch_owned [OF sample_pb_batch_val(1) 1 this writes_refl]
  have "(batch_val (h1[0 := OBytes [0x7a]]) b, err) = (sample_batch, None)"
    by (simp add: sample_pb_batch_val(2) dec)
  then show ?thesis using 1 by simp
qed

text \<open>C38. What a hub sends is the batch as it was when it was converted: every event gets a key and a
  mutation identity of its own, and whatever the hub writes to its buffers while the message is
  still queued, a receiver decodes the batch of that moment.\<close>

theorem sent_batch_owned:
  assumes "batch_ok h m" "InvalidationBatch_Validate (batch_val h m) = None"
    and "run_state (ProtoInvalidationBatch_copy m) h = (c, h1)"
    and "writes (- flat_refs pb_batch_slices h1 c) h1 h2"
  shows "FromProtoInvalidationBatch (Some (pb_batch_val h2 c)) = (batch_val h m, None)"
proof -
  have "pb_batch_val h2 c = ProtoInvalidationBatch (batch_val h m)"
    using send_batch.independent [OF assms(1,3)] assms(4) by blast
  then show ?thesis using batch_codec.roundtrip [OF assms(2)] by simp
qed

theorem sent_batch_owned_witness:
  "let (c, h1) = run_state (ProtoInvalidationBatch_copy published_batch) publish_heap
   in FromProtoInvalidationBatch (Some (pb_batch_val (h1[0 := OBytes [0], 1 := OEvents []]) c)) = (sample_batch, None)"
proof -
  obtain c h1 where 1: "run_state (ProtoInvalidationBatch_copy published_batch) publish_heap = (c, h1)" by fastforce
  have "flat_refs pb_batch_slices h1 c \<subseteq> {length publish_heap..<length h1}"
    using send_batch.copy_spec [OF published_batch_val(1) 1] by simp
  then have "0 \<in> - flat_refs pb_batch_slices h1 c" "1 \<in> - flat_refs pb_batch_slices h1 c"
    by (auto simp: publish_heap_def)
  then have "writes (- flat_refs pb_batch_slices h1 c) h1 (h1[0 := OBytes [0], 1 := OEvents []])"
    using writes_trans [OF writes_update writes_update] by (metis Un_absorb)
  moreover have "InvalidationBatch_Validate (batch_val publish_heap published_batch) = None"
    using sample_batch_valid by (simp add: published_batch_val(2) InvalidationBatch_Validate_iff)
  ultimately show ?thesis
    using sent_batch_owned [OF published_batch_val(1) _ 1] 1 by (simp add: published_batch_val(2))
qed

end
