(* ===== verification/Encoded_Size.thy ===== *)
theory Encoded_Size
  imports Control_Convert
begin

text \<open>
  The size of a control message on the wire against \<^verbatim>\<open>EstimatedEncodedSize\<close> and
  \<^verbatim>\<open>MaxControlMessageBytes\<close>. The encoder is the protobuf runtime, which is not part of the
  repository: its size functions are a parameter, a record \<open>S\<close> of type \<open>sizes\<close>, and the hypothesis
  \<open>proto3 S\<close> states the documented proto3 format for the messages of \<^verbatim>\<open>control.proto\<close>: a
  varint spends a byte per seven bits, all field numbers are below 16 so every tag is one byte, a
  scalar field with its zero value is left out, an enumeration is encoded as the 64-bit sign
  extension of its number, and a string, bytes or message field carries its length.
\<close>

section \<open>The wire format as a hypothesis\<close>

record sizes =
  varint :: "nat \<Rightarrow> nat"
  version_size :: "pb_VersionTag \<Rightarrow> nat"
  id_size :: "bytes pb_MutationID \<Rightarrow> nat"
  event_size :: "bytes pb_InvalidationEvent \<Rightarrow> nat"
  batch_size :: "bytes pb_InvalidationBatch \<Rightarrow> nat"
  checkpoint_size :: "pb_StreamCheckpoint \<Rightarrow> nat"
  unavailable_size :: "pb_ReplayUnavailable \<Rightarrow> nat"
  error_size :: "pb_ControlError \<Rightarrow> nat"
  server_size :: "bytes pb_ControlServerMessage \<Rightarrow> nat"
  hello_size :: "pb_Hello \<Rightarrow> nat"
  client_size :: "pb_ControlClientMessage \<Rightarrow> nat"

definition scalar :: "sizes \<Rightarrow> nat \<Rightarrow> nat" where
  "scalar S n = (if n = 0 then 0 else 1 + varint S n)"

definition enum_field :: "sizes \<Rightarrow> 32 word \<Rightarrow> nat" where
  "enum_field S k = scalar S (unat (scast k :: 64 word))"

definition len_field :: "sizes \<Rightarrow> nat \<Rightarrow> nat" where
  "len_field S n = 1 + varint S n + n"

definition bytes_field :: "sizes \<Rightarrow> nat \<Rightarrow> nat" where
  "bytes_field S n = (if n = 0 then 0 else len_field S n)"

definition msg_field :: "sizes \<Rightarrow> ('m \<Rightarrow> nat) \<Rightarrow> 'm option \<Rightarrow> nat" where
  "msg_field S f m = (case m of None \<Rightarrow> 0 | Some x \<Rightarrow> len_field S (f x))"

text \<open>A message in a list or in a oneof is encoded even where the pointer is nil, then with no contents.\<close>

definition elem_field :: "sizes \<Rightarrow> ('m \<Rightarrow> nat) \<Rightarrow> 'm option \<Rightarrow> nat" where
  "elem_field S f m = len_field S (case m of None \<Rightarrow> 0 | Some x \<Rightarrow> f x)"

definition varint_ok :: "sizes \<Rightarrow> bool" where
  "varint_ok S \<longleftrightarrow> (\<forall>n k. n < 128 ^ Suc k \<longrightarrow> varint S n \<le> Suc k)"

locale proto3 =
  fixes S :: sizes
  assumes varint_ok: "varint_ok S"
    and version_size: "version_size S v =
      scalar S (unat (pb_VersionTag.PartitionId v)) + scalar S (unat (pb_VersionTag.Sequence v))"
    and id_size: "id_size S i = bytes_field S (length (pb_MutationID.Id i))"
    and event_size: "event_size S e = scalar S (unat (pb_InvalidationEvent.StreamSequence e))
      + bytes_field S (length (pb_InvalidationEvent.Key e))
      + msg_field S (version_size S) (pb_InvalidationEvent.Version e)
      + enum_field S (pb_InvalidationEvent.Kind e)
      + msg_field S (id_size S) (pb_InvalidationEvent.MutationId e)"
    and batch_size: "batch_size S b = scalar S (unat (pb_InvalidationBatch.StreamId b))
      + scalar S (unat (pb_InvalidationBatch.HubGeneration b))
      + (\<Sum>e \<leftarrow> pb_InvalidationBatch.Events b. elem_field S (event_size S) e)"
    and checkpoint_size: "checkpoint_size S c = scalar S (unat (pb_StreamCheckpoint.StreamId c))
      + scalar S (unat (pb_StreamCheckpoint.HubGeneration c)) + scalar S (unat (pb_StreamCheckpoint.StreamHead c))"
    and unavailable_size: "unavailable_size S u = scalar S (unat (pb_ReplayUnavailable.StreamId u))
      + scalar S (unat (pb_ReplayUnavailable.HubGeneration u)) + scalar S (unat (pb_ReplayUnavailable.RequestedFrom u))
      + scalar S (unat (pb_ReplayUnavailable.OldestAvailable u)) + scalar S (unat (pb_ReplayUnavailable.StreamHead u))"
    and error_size: "error_size S r =
      enum_field S (pb_ControlError.Status r) + bytes_field S (length (pb_ControlError.Detail r))"
    and server_size: "server_size S p = (case pb_ControlServerMessage.Body p of
        None \<Rightarrow> 0
      | Some (ControlServerMessage_InvalidationBatch m) \<Rightarrow> elem_field S (batch_size S) m
      | Some (ControlServerMessage_StreamCheckpoint m) \<Rightarrow> elem_field S (checkpoint_size S) m
      | Some (ControlServerMessage_ReplayUnavailable m) \<Rightarrow> elem_field S (unavailable_size S) m
      | Some (ControlServerMessage_ControlError m) \<Rightarrow> elem_field S (error_size S) m)"
    and hello_size: "bytes_field S (length (pb_Hello.ClusterId h)) \<le> hello_size S h"
    and client_size: "pb_ControlClientMessage.Body q = Some (ControlClientMessage_Hello g) \<Longrightarrow>
      client_size S q = elem_field S (hello_size S) g"
begin

lemma varint_le: "n < 128 ^ Suc k \<Longrightarrow> varint S n \<le> Suc k"
  using varint_ok by (simp add: varint_ok_def)

lemma scalar_le: "n < 128 ^ Suc k \<Longrightarrow> scalar S n \<le> k + 2"
  using varint_le [of n k] by (simp add: scalar_def)

lemma len_field_le: "n \<le> m \<Longrightarrow> n < 128 ^ Suc k \<Longrightarrow> len_field S n \<le> k + 2 + m"
  using varint_le [of n k] by (simp add: len_field_def)

lemma bytes_field_le: "n < 128 ^ Suc k \<Longrightarrow> bytes_field S n \<le> k + 2 + n"
  using len_field_le [of n n k] by (simp add: bytes_field_def)

lemma scalar64_le: "scalar S (unat (w :: 64 word)) \<le> 11"
proof -
  have "unat w < 2 ^ 64" using unsigned_less [of w, where 'a = nat] by simp
  also have "(2 :: nat) ^ 64 \<le> 128 ^ Suc 9" by simp
  finally show ?thesis using scalar_le [of "unat w" 9] by simp
qed

lemma scalar32_le: "scalar S (unat (w :: 32 word)) \<le> 6"
proof -
  have "unat w < 2 ^ 32" using unsigned_less [of w, where 'a = nat] by simp
  also have "(2 :: nat) ^ 32 \<le> 128 ^ Suc 4" by simp
  finally show ?thesis using scalar_le [of "unat w" 4] by simp
qed

text \<open>The codes of the known statuses and kinds fit one byte.\<close>

lemma enum_small: "k \<in> {0, 1, 2, 3, 4, 5, 6, 7, 8} \<Longrightarrow> enum_field S k \<le> 2"
proof -
  assume "k \<in> {0, 1, 2, 3, 4, 5, 6, 7, 8}"
  then have "unat (scast k :: 64 word) < 128 ^ Suc 0" by auto
  then show ?thesis unfolding enum_field_def by (rule order_trans [OF scalar_le]) simp
qed

lemma version_size_le: "version_size S v \<le> 17"
  using scalar32_le [of "pb_VersionTag.PartitionId v"] scalar64_le [of "pb_VersionTag.Sequence v"]
  by (simp add: version_size)

lemma event_size_le:
  assumes "valid_event s e"
  shows "event_size S (ProtoInvalidationEvent e) \<le> 55 + length (InvalidationEvent.Key e)"
proof -
  let ?k = "length (InvalidationEvent.Key e)"
  have "bytes_field S ?k \<le> 3 + ?k"
    using assms bytes_field_le [of ?k 1] by (simp add: valid_event_def valid_key_def MaxKeyLen_def)
  moreover have "len_field S (version_size S v) \<le> 19" for v
    using len_field_le [of "version_size S v" 17 0] version_size_le [of v] by simp
  note this [of "\<lparr>pb_VersionTag.PartitionId = PartitionID (InvalidationEvent.Version e),
      Sequence = VersionTag.Sequence (InvalidationEvent.Version e)\<rparr>"]
  moreover have "bytes_field S 16 \<le> 18" using bytes_field_le [of 16 0] by simp
  then have "len_field S (bytes_field S 16) \<le> 20" using len_field_le [of "bytes_field S 16" 18 0] by simp
  moreover have "enum_field S (ucast (InvalidationEvent.Kind e)) \<le> 2"
    using assms by (intro enum_small) (auto simp: valid_event_def)
  ultimately show ?thesis
    using scalar64_le [of "InvalidationEvent.StreamSequence e"]
    by (simp add: event_size ProtoInvalidationEvent_def msg_field_def id_size)
qed

text \<open>An event of a valid batch, with its tag and length, fits the per-event budget, and the fixed fields
  and the envelope fit the message budget.\<close>

lemma event_field_le:
  assumes "valid_event s e"
  shows "elem_field S (event_size S) (Some (ProtoInvalidationEvent e))
    \<le> eventEncodedOverhead + length (InvalidationEvent.Key e)"
proof -
  let ?k = "length (InvalidationEvent.Key e)"
  have "?k \<le> 4096" using assms by (simp add: valid_event_def valid_key_def MaxKeyLen_def)
  then have "len_field S (event_size S (ProtoInvalidationEvent e)) \<le> 1 + 2 + (55 + ?k)"
    using event_size_le [OF assms] by (intro len_field_le) simp_all
  then show ?thesis by (simp add: elem_field_def eventEncodedOverhead_def)
qed

lemma batch_size_le:
  assumes "valid_batch m"
  shows "batch_size S (ProtoInvalidationBatch m) + controlMessageOverhead \<le> EstimatedEncodedSize m + 17"
proof -
  have "(\<Sum>e \<leftarrow> InvalidationBatch.Events m. elem_field S (event_size S) (Some (ProtoInvalidationEvent e)))
      \<le> (\<Sum>e \<leftarrow> InvalidationBatch.Events m. eventEncodedOverhead + length (InvalidationEvent.Key e))"
    using assms by (intro sum_list_mono event_field_le [of "InvalidationBatch.StreamID m"]) (simp add: valid_batch_def)
  then show ?thesis
    using scalar32_le [of "InvalidationBatch.StreamID m"] scalar64_le [of "InvalidationBatch.HubGeneration m"]
    by (simp add: batch_size ProtoInvalidationBatch_def fold_snoc_map size_estimate_sum comp_def)
qed

lemma batch_message_le:
  assumes "valid_batch m"
  shows "len_field S (batch_size S (ProtoInvalidationBatch m)) \<le> EstimatedEncodedSize m"
proof -
  let ?n = "batch_size S (ProtoInvalidationBatch m)"
  have "?n + 111 \<le> EstimatedEncodedSize m" "EstimatedEncodedSize m \<le> 3 * 2 ^ 20"
    using batch_size_le [OF assms] assms
    by (simp_all add: controlMessageOverhead_def valid_batch_def MaxControlMessageBytes_def)
  moreover from this have "len_field S ?n \<le> 3 + 2 + ?n" by (intro len_field_le) simp_all
  ultimately show ?thesis by simp
qed

lemma server_message_le:
  assumes "server_body b = Some None" "ProtoServerMessage b = (Some p, None)"
  shows "server_size S p \<le> MaxControlMessageBytes"
proof (cases b)
  case (AnyInvalidationBatch m)
  then show ?thesis
    using assms batch_message_le [of m]
    by (auto simp: ProtoServerMessage_def server_size elem_field_def InvalidationBatch_Validate_iff valid_batch_def)
next
  case (AnyStreamCheckpoint c)
  have "checkpoint_size S (ProtoStreamCheckpoint c) \<le> 28"
    using scalar32_le [of "StreamCheckpoint.StreamID c"] scalar64_le [of "StreamCheckpoint.HubGeneration c"]
      scalar64_le [of "StreamCheckpoint.StreamHead c"]
    by (simp add: checkpoint_size ProtoStreamCheckpoint_def)
  then have "len_field S (checkpoint_size S (ProtoStreamCheckpoint c)) \<le> 0 + 2 + 28"
    by (intro len_field_le) simp_all
  then show ?thesis
    using assms AnyStreamCheckpoint
    by (auto simp: ProtoServerMessage_def server_size elem_field_def MaxControlMessageBytes_def)
next
  case (AnyReplayUnavailable u)
  have "unavailable_size S (ProtoReplayUnavailable u) \<le> 50"
    using scalar32_le [of "ReplayUnavailable.StreamID u"] scalar64_le [of "ReplayUnavailable.HubGeneration u"]
      scalar64_le [of "ReplayUnavailable.RequestedFrom u"]
      scalar64_le [of "ReplayUnavailable.OldestAvailable u"] scalar64_le [of "ReplayUnavailable.StreamHead u"]
    by (simp add: unavailable_size ProtoReplayUnavailable_def)
  then have "len_field S (unavailable_size S (ProtoReplayUnavailable u)) \<le> 0 + 2 + 50"
    by (intro len_field_le) simp_all
  then show ?thesis
    using assms AnyReplayUnavailable
    by (auto simp: ProtoServerMessage_def server_size elem_field_def MaxControlMessageBytes_def)
next
  case (AnyControlError r)
  then have r: "valid_ControlError r" using assms(1) by (simp add: ControlError_Validate_iff)
  then have "enum_field S (ucast (ControlError.Status r)) \<le> 2"
    by (intro enum_small) (auto simp: valid_ControlError_def)
  moreover have "bytes_field S (length (ControlError.Detail r)) \<le> 1 + 2 + length (ControlError.Detail r)"
    using r by (intro bytes_field_le) (simp add: valid_ControlError_def MaxControlErrorDetail_def)
  ultimately have "error_size S (ProtoControlError r) \<le> 261"
    using r by (simp add: error_size ProtoControlError_def valid_ControlError_def MaxControlErrorDetail_def)
  then have "len_field S (error_size S (ProtoControlError r)) \<le> 1 + 2 + 261"
    by (intro len_field_le) simp_all
  then show ?thesis
    using assms AnyControlError
    by (auto simp: ProtoServerMessage_def server_size elem_field_def MaxControlMessageBytes_def)
qed (use assms(1) in simp_all)

lemma hello_message_ge:
  assumes "ProtoClientMessage (AnyHello h) = (Some q, None)"
  shows "length (Hello.ClusterID h) \<le> client_size S q"
proof -
  have "length (Hello.ClusterID h) \<le> bytes_field S (length (Hello.ClusterID h))"
    by (simp add: bytes_field_def len_field_def)
  also have "\<dots> \<le> hello_size S (ProtoHello h)"
    using hello_size [of "ProtoHello h"] by (simp add: ProtoHello_def)
  also have "\<dots> \<le> client_size S q"
    using assms by (auto simp: ProtoClientMessage_def client_size elem_field_def len_field_def)
  finally show ?thesis .
qed

end

section \<open>The format implemented\<close>

text \<open>The hypothesis can hold: the sizes of the proto3 format, computed.\<close>

fun varint_len :: "nat \<Rightarrow> nat" where
  "varint_len n = (if n < 128 then 1 else 1 + varint_len (n div 128))"

declare varint_len.simps [simp del]

lemma varint_len_le: "n < 128 ^ Suc k \<Longrightarrow> varint_len n \<le> Suc k"
proof (induction k arbitrary: n)
  case 0
  then show ?case by (simp add: varint_len.simps)
next
  case (Suc k)
  then have "n div 128 < 128 ^ Suc k" by (simp add: less_mult_imp_div_less mult.commute)
  then show ?case using Suc.IH [of "n div 128"] by (subst varint_len.simps) simp
qed

definition wire_varint :: sizes where
  "wire_varint = \<lparr>varint = varint_len, version_size = \<lambda>_. 0, id_size = \<lambda>_. 0, event_size = \<lambda>_. 0,
     batch_size = \<lambda>_. 0, checkpoint_size = \<lambda>_. 0, unavailable_size = \<lambda>_. 0, error_size = \<lambda>_. 0,
     server_size = \<lambda>_. 0, hello_size = \<lambda>_. 0, client_size = \<lambda>_. 0\<rparr>"

text \<open>Field sizes depend on the varint only.\<close>

lemma field_sizes_varint:
  assumes "varint S = varint_len"
  shows "scalar S = scalar wire_varint" "enum_field S = enum_field wire_varint"
    "len_field S = len_field wire_varint" "bytes_field S = bytes_field wire_varint"
proof -
  show eqs: "scalar S = scalar wire_varint" "len_field S = len_field wire_varint" for n
    using assms by (simp_all add: fun_eq_iff scalar_def len_field_def wire_varint_def)
  show "enum_field S = enum_field wire_varint" "bytes_field S = bytes_field wire_varint"
    by (simp_all add: fun_eq_iff enum_field_def bytes_field_def eqs)
qed

lemma msg_field_varint: "varint S = varint_len \<Longrightarrow> msg_field S f = msg_field wire_varint f"
  by (simp add: fun_eq_iff msg_field_def field_sizes_varint(3) split: option.split)

lemma elem_field_varint: "varint S = varint_len \<Longrightarrow> elem_field S f = elem_field wire_varint f"
  by (simp add: fun_eq_iff elem_field_def field_sizes_varint(3))

definition wire_version_size :: "pb_VersionTag \<Rightarrow> nat" where
  "wire_version_size v = scalar wire_varint (unat (pb_VersionTag.PartitionId v))
     + scalar wire_varint (unat (pb_VersionTag.Sequence v))"

definition wire_id_size :: "bytes pb_MutationID \<Rightarrow> nat" where
  "wire_id_size i = bytes_field wire_varint (length (pb_MutationID.Id i))"

definition wire_event_size :: "bytes pb_InvalidationEvent \<Rightarrow> nat" where
  "wire_event_size e = scalar wire_varint (unat (pb_InvalidationEvent.StreamSequence e))
     + bytes_field wire_varint (length (pb_InvalidationEvent.Key e))
     + msg_field wire_varint wire_version_size (pb_InvalidationEvent.Version e)
     + enum_field wire_varint (pb_InvalidationEvent.Kind e)
     + msg_field wire_varint wire_id_size (pb_InvalidationEvent.MutationId e)"

definition wire_batch_size :: "bytes pb_InvalidationBatch \<Rightarrow> nat" where
  "wire_batch_size b = scalar wire_varint (unat (pb_InvalidationBatch.StreamId b))
     + scalar wire_varint (unat (pb_InvalidationBatch.HubGeneration b))
     + (\<Sum>e \<leftarrow> pb_InvalidationBatch.Events b. elem_field wire_varint wire_event_size e)"

definition wire_checkpoint_size :: "pb_StreamCheckpoint \<Rightarrow> nat" where
  "wire_checkpoint_size c = scalar wire_varint (unat (pb_StreamCheckpoint.StreamId c))
     + scalar wire_varint (unat (pb_StreamCheckpoint.HubGeneration c))
     + scalar wire_varint (unat (pb_StreamCheckpoint.StreamHead c))"

definition wire_unavailable_size :: "pb_ReplayUnavailable \<Rightarrow> nat" where
  "wire_unavailable_size u = scalar wire_varint (unat (pb_ReplayUnavailable.StreamId u))
     + scalar wire_varint (unat (pb_ReplayUnavailable.HubGeneration u))
     + scalar wire_varint (unat (pb_ReplayUnavailable.RequestedFrom u))
     + scalar wire_varint (unat (pb_ReplayUnavailable.OldestAvailable u))
     + scalar wire_varint (unat (pb_ReplayUnavailable.StreamHead u))"

definition wire_error_size :: "pb_ControlError \<Rightarrow> nat" where
  "wire_error_size r = enum_field wire_varint (pb_ControlError.Status r)
     + bytes_field wire_varint (length (pb_ControlError.Detail r))"

definition wire_server_size :: "bytes pb_ControlServerMessage \<Rightarrow> nat" where
  "wire_server_size p = (case pb_ControlServerMessage.Body p of
      None \<Rightarrow> 0
    | Some (ControlServerMessage_InvalidationBatch m) \<Rightarrow> elem_field wire_varint wire_batch_size m
    | Some (ControlServerMessage_StreamCheckpoint m) \<Rightarrow> elem_field wire_varint wire_checkpoint_size m
    | Some (ControlServerMessage_ReplayUnavailable m) \<Rightarrow> elem_field wire_varint wire_unavailable_size m
    | Some (ControlServerMessage_ControlError m) \<Rightarrow> elem_field wire_varint wire_error_size m)"

definition wire_watermark_size :: "pb_StreamWatermark \<Rightarrow> nat" where
  "wire_watermark_size w = scalar wire_varint (unat (pb_StreamWatermark.StreamId w))
     + scalar wire_varint (unat (pb_StreamWatermark.AppliedThrough w))
     + scalar wire_varint (unat (pb_StreamWatermark.HubGeneration w))"

definition wire_hello_size :: "pb_Hello \<Rightarrow> nat" where
  "wire_hello_size h = scalar wire_varint (unat (pb_Hello.NodeId h))
     + scalar wire_varint (unat (pb_Hello.ProtocolVersion h))
     + scalar wire_varint (unat (pb_Hello.MinSupportedVersion h))
     + (\<Sum>w \<leftarrow> pb_Hello.Subscriptions h. elem_field wire_varint wire_watermark_size w)
     + bytes_field wire_varint (length (pb_Hello.ClusterId h))
     + scalar wire_varint (unat (pb_Hello.ExpectedHubGeneration h))"

text \<open>The other client messages have no string or bytes field; their sizes are not used.\<close>

definition wire_client_size :: "pb_ControlClientMessage \<Rightarrow> nat" where
  "wire_client_size p = (case pb_ControlClientMessage.Body p of
      Some (ControlClientMessage_Hello m) \<Rightarrow> elem_field wire_varint wire_hello_size m
    | _ \<Rightarrow> 0)"

definition wire_sizes :: sizes where
  "wire_sizes = \<lparr>varint = varint_len, version_size = wire_version_size, id_size = wire_id_size,
     event_size = wire_event_size, batch_size = wire_batch_size, checkpoint_size = wire_checkpoint_size,
     unavailable_size = wire_unavailable_size, error_size = wire_error_size, server_size = wire_server_size,
     hello_size = wire_hello_size, client_size = wire_client_size\<rparr>"

lemma varint_wire_sizes: "varint wire_sizes = varint_len"
  by (simp add: wire_sizes_def)

lemmas wire_fields = field_sizes_varint [OF varint_wire_sizes] msg_field_varint [OF varint_wire_sizes]
  elem_field_varint [OF varint_wire_sizes]

lemma wire_sizes_simps [simp]:
  "version_size wire_sizes = wire_version_size" "id_size wire_sizes = wire_id_size"
  "event_size wire_sizes = wire_event_size" "batch_size wire_sizes = wire_batch_size"
  "checkpoint_size wire_sizes = wire_checkpoint_size" "unavailable_size wire_sizes = wire_unavailable_size"
  "error_size wire_sizes = wire_error_size" "server_size wire_sizes = wire_server_size"
  "hello_size wire_sizes = wire_hello_size" "client_size wire_sizes = wire_client_size"
  by (simp_all add: wire_sizes_def)

lemmas wire_size_defs = wire_version_size_def wire_id_size_def wire_event_size_def wire_batch_size_def
  wire_checkpoint_size_def wire_unavailable_size_def wire_error_size_def wire_server_size_def
  wire_hello_size_def wire_client_size_def

interpretation wire: proto3 wire_sizes
proof unfold_locales
  show "varint_ok wire_sizes"
    by (simp add: varint_ok_def varint_wire_sizes varint_len_le del: power_Suc)
qed (simp_all add: wire_fields wire_size_defs cong: option.case_cong pb_ControlServerMessage_Body.case_cong)

text \<open>A hello whose cluster identity is as long as one likes.\<close>

definition long_hello :: "nat \<Rightarrow> hello" where
  "long_hello n = \<lparr>Hello.NodeID = 1, Protocol = CurrentProtocolRange, Subscriptions = [],
     ClusterID = replicate (Suc n) (CHR ''c''), ExpectedHubGeneration = 0\<rparr>"

lemma long_hello_valid: "Hello_Validate (long_hello n) = None"
proof -
  have "valid_range CurrentProtocolRange"
    by (simp add: ProtocolRange_Validate_iff [symmetric]) code_simp
  moreover have "\<not> all_space (CHR ''c'' # s)" for s
  proof
    assume "all_space (CHR ''c'' # s)"
    then show False by (cases rule: all_space_cases) (auto simp: space_runes_def)
  qed
  ultimately show ?thesis
    by (simp add: Hello_Validate_iff valid_Hello_def valid_cluster_id_def long_hello_def)
qed

section \<open>Correctness\<close>

text \<open>C39. Every server payload that passes its own validation is encoded in at most
  \<^verbatim>\<open>MaxControlMessageBytes\<close>, and for an invalidation batch the estimate its validation is based on is an
  upper bound of the encoded size, envelope included.\<close>

theorem server_messages_fit:
  assumes "proto3 S" "server_body b = Some None" "ProtoServerMessage b = (Some p, None)"
  shows "server_size S p \<le> MaxControlMessageBytes
    \<and> (\<forall>m. b = AnyInvalidationBatch m \<longrightarrow> server_size S p \<le> EstimatedEncodedSize m)"
proof (intro conjI allI impI)
  show "server_size S p \<le> MaxControlMessageBytes"
    using assms by (rule proto3.server_message_le)
  fix m assume b: "b = AnyInvalidationBatch m"
  then have "valid_batch m" using assms(2) by (simp add: InvalidationBatch_Validate_iff)
  then have "len_field S (batch_size S (ProtoInvalidationBatch m)) \<le> EstimatedEncodedSize m"
    by (rule proto3.batch_message_le [OF assms(1)])
  with b assms(3) show "server_size S p \<le> EstimatedEncodedSize m"
    by (auto simp: ProtoServerMessage_def proto3.server_size [OF assms(1)] elem_field_def)
qed

theorem server_messages_fit_witness:
  "wire_server_size \<lparr>pb_ControlServerMessage.Body =
     Some (ControlServerMessage_InvalidationBatch (Some (ProtoInvalidationBatch sample_batch)))\<rparr>
   \<le> EstimatedEncodedSize sample_batch"
proof -
  have "server_body (AnyInvalidationBatch sample_batch) = Some None"
    using sample_batch_valid by (simp add: InvalidationBatch_Validate_iff)
  from server_messages_fit [OF wire.proto3_axioms this] show ?thesis
    by (simp add: ProtoServerMessage_def wire_sizes_def)
qed

text \<open>C40. Nothing bounds a client message: \<^verbatim>\<open>Hello.Validate\<close> puts no limit on the cluster identity, so a
  hello passes validation and is wrapped although its encoding exceeds \<^verbatim>\<open>MaxControlMessageBytes\<close>, by
  as much as one likes.\<close>

theorem client_message_unbounded:
  assumes "proto3 S"
  shows "\<exists>h q. Hello_Validate h = None \<and> ProtoClientMessage (AnyHello h) = (Some q, None)
    \<and> MaxControlMessageBytes + n < client_size S q"
proof -
  let ?h = "long_hello (MaxControlMessageBytes + n)"
  obtain q where q: "ProtoClientMessage (AnyHello ?h) = (Some q, None)"
    by (simp add: ProtoClientMessage_def)
  have "MaxControlMessageBytes + n < client_size S q"
    using proto3.hello_message_ge [OF assms q] by (simp add: long_hello_def)
  then show ?thesis using q long_hello_valid by blast
qed

theorem client_message_unbounded_witness:
  "\<exists>h q. Hello_Validate h = None \<and> ProtoClientMessage (AnyHello h) = (Some q, None)
    \<and> 3145728 < wire_client_size q"
  using client_message_unbounded [OF wire.proto3_axioms, of 0]
  by (simp add: MaxControlMessageBytes_def wire_sizes_def)

end
