(* ===== verification/Publication.thy ===== *)
theory Publication
  imports Control_Convert
begin

text \<open>
  Progress of publication: \<^verbatim>\<open>control/types.go\<close> leaves it to the hub to split what it publishes into
  batches that pass \<^verbatim>\<open>InvalidationBatch.Validate\<close>. Here the limits are shown to leave room for that:
  any run of well-formed events can be published and is delivered in order.
\<close>

section \<open>Batches that always fit\<close>

text \<open>The number of events that fit one message whatever their keys.\<close>

definition safe_batch_events :: nat where
  "safe_batch_events = (MaxControlMessageBytes - controlMessageOverhead) div (eventEncodedOverhead + MaxKeyLen)"

lemma safe_batch_events_eq: "safe_batch_events = 756"
  by (simp add: safe_batch_events_def MaxControlMessageBytes_def controlMessageOverhead_def eventEncodedOverhead_def
      MaxKeyLen_def)

definition batch_for :: "32 word \<Rightarrow> 64 word \<Rightarrow> event list \<Rightarrow> batch" where
  "batch_for s g es = \<lparr>InvalidationBatch.StreamID = s, HubGeneration = g, Events = es\<rparr>"

lemma batch_for_simps [simp]:
  "InvalidationBatch.StreamID (batch_for s g es) = s" "InvalidationBatch.HubGeneration (batch_for s g es) = g"
  "InvalidationBatch.Events (batch_for s g es) = es"
  by (simp_all add: batch_for_def)

lemma size_estimate_le:
  assumes "\<forall>e \<in> set es. valid_event s e"
  shows "EstimatedEncodedSize (batch_for s g es)
    \<le> controlMessageOverhead + length es * (eventEncodedOverhead + MaxKeyLen)"
proof -
  have "(\<Sum>e \<leftarrow> es. eventEncodedOverhead + length (InvalidationEvent.Key e))
      \<le> (\<Sum>e \<leftarrow> es. eventEncodedOverhead + MaxKeyLen)"
    using assms by (intro sum_list_mono) (simp add: valid_event_def valid_key_def)
  then show ?thesis by (simp add: size_estimate_sum sum_list_triv)
qed

lemma safe_batch_valid:
  assumes "\<forall>e \<in> set es. valid_event s e" "contiguous es" "es \<noteq> []" "length es \<le> safe_batch_events" "g \<noteq> 0"
  shows "valid_batch (batch_for s g es)"
proof -
  have "length es * (eventEncodedOverhead + MaxKeyLen) \<le> safe_batch_events * (eventEncodedOverhead + MaxKeyLen)"
    using assms(4) by (rule mult_le_mono1)
  then have "EstimatedEncodedSize (batch_for s g es) \<le> MaxControlMessageBytes"
    using size_estimate_le [OF assms(1), of g]
    by (simp add: safe_batch_events_eq MaxControlMessageBytes_def controlMessageOverhead_def eventEncodedOverhead_def MaxKeyLen_def)
  with assms show ?thesis
    by (simp add: valid_batch_def Suc_le_eq safe_batch_events_eq MaxBatchEvents_def)
qed

section \<open>A run in batches\<close>

function chunks :: "nat \<Rightarrow> 'a list \<Rightarrow> 'a list list" where
  "chunks k xs = (if xs = [] \<or> k = 0 then [] else take k xs # chunks k (drop k xs))"
  by pat_completeness auto
termination by (relation "measure (\<lambda>(_, xs). length xs)") auto

declare chunks.simps [simp del]

lemma concat_chunks: "0 < k \<Longrightarrow> concat (chunks k xs) = xs"
  by (induction k xs rule: chunks.induct) (subst chunks.simps, auto)

lemma length_chunks: "0 < k \<Longrightarrow> length (chunks k xs) \<le> length xs div k + 1"
proof (induction k xs rule: chunks.induct)
  case (1 k xs)
  show ?case
  proof (cases "xs = [] \<or> length xs \<le> k")
    case True
    then have "chunks k (drop k xs) = []" by (auto simp: chunks.simps [of k "[]"])
    then show ?thesis using 1(2) by (subst chunks.simps) simp
  next
    case False
    then have "length (chunks k xs) = Suc (length (chunks k (drop k xs)))" using 1(2) by (subst chunks.simps) simp
    also have "\<dots> \<le> Suc ((length xs - k) div k + 1)" using 1 False by simp
    also have "\<dots> = length xs div k + 1" using False 1(2) by (simp add: le_div_geq)
    finally show ?thesis .
  qed
qed

lemma chunks_contiguous:
  "contiguous es \<Longrightarrow> c \<in> set (chunks k es) \<Longrightarrow> contiguous c \<and> c \<noteq> [] \<and> length c \<le> k \<and> set c \<subseteq> set es"
proof (induction k es rule: chunks.induct)
  case (1 k es)
  then have nonempty: "es \<noteq> []" "0 < k" and cases: "c = take k es \<or> c \<in> set (chunks k (drop k es))"
    by (subst (asm) chunks.simps, simp split: if_splits)+
  show ?case
  proof (cases "c = take k es")
    case True
    then show ?thesis using nonempty 1(2) contiguous_take by (auto dest: in_set_takeD)
  next
    case False
    then have c: "c \<in> set (chunks k (drop k es))" using cases by blast
    then have "k < length es" by (auto simp: chunks.simps [of k "drop k es"] split: if_splits)
    then have "contiguous (drop k es)" using 1(2) by (intro contiguous_drop)
    then show ?thesis using 1(1) [OF _ _ c] nonempty set_drop_subset [of k es] by auto
  qed
qed

section \<open>Correctness\<close>

text \<open>C13. Publication never gets stuck: whatever events the hub has to announce on a stream, as long as each is
  well formed and their sequences form one run, there are batches that all pass validation, that a
  node decodes without an error, and whose decoded events, in order, are the run; one batch per
  756 events is enough, however long the keys.\<close>

theorem publication_possible:
  assumes "\<forall>e \<in> set es. InvalidationEvent_validate e s = None" "contiguous es" "g \<noteq> 0"
  shows "\<exists>bs. (\<forall>b \<in> set bs. InvalidationBatch.StreamID b = s \<and> InvalidationBatch.HubGeneration b = g
        \<and> InvalidationBatch_Validate b = None
        \<and> FromProtoInvalidationBatch (Some (ProtoInvalidationBatch b)) = (b, None))
    \<and> concat (map (\<lambda>b. InvalidationBatch.Events (fst (FromProtoInvalidationBatch (Some (ProtoInvalidationBatch b))))) bs) = es
    \<and> length bs \<le> length es div 756 + 1"
proof (intro exI conjI ballI)
  let ?bs = "map (batch_for s g) (chunks 756 es)"
  have valid: "valid_batch b" if b: "b \<in> set ?bs" for b
  proof -
    obtain c where c: "c \<in> set (chunks 756 es)" "b = batch_for s g c" using b by auto
    with chunks_contiguous [OF assms(2) c(1)] assms(1,3) show ?thesis
      unfolding c(2) by (intro safe_batch_valid) (auto simp: safe_batch_events_eq InvalidationEvent_validate_iff)
  qed
  then show decoded: "FromProtoInvalidationBatch (Some (ProtoInvalidationBatch b)) = (b, None)" if "b \<in> set ?bs" for b
    using that by (intro batch_codec.from_to) blast
  show "InvalidationBatch_Validate b = None" if "b \<in> set ?bs" for b
    using valid [OF that] by (simp add: InvalidationBatch_Validate_iff)
  show "InvalidationBatch.StreamID b = s" "InvalidationBatch.HubGeneration b = g" if "b \<in> set ?bs" for b
    using that by auto
  have "map (\<lambda>b. InvalidationBatch.Events (fst (FromProtoInvalidationBatch (Some (ProtoInvalidationBatch b))))) ?bs
      = map InvalidationBatch.Events ?bs"
    using decoded by (intro map_cong) simp_all
  also have "concat \<dots> = es" by (simp add: comp_def concat_chunks)
  finally show "concat (map (\<lambda>b. InvalidationBatch.Events (fst (FromProtoInvalidationBatch (Some (ProtoInvalidationBatch b))))) ?bs) = es" .
  show "length ?bs \<le> length es div 756 + 1" using length_chunks [of 756 es] by simp
qed

theorem publication_possible_witness:
  "\<exists>bs. concat (map (\<lambda>b. InvalidationBatch.Events (fst (FromProtoInvalidationBatch (Some (ProtoInvalidationBatch b))))) bs)
      = [sample_event 10, sample_event 11] \<and> length bs \<le> 1"
proof -
  have "\<forall>e \<in> set [sample_event 10, sample_event 11]. InvalidationEvent_validate e 3 = None"
    "contiguous [sample_event 10, sample_event 11]"
    using sample_batch_valid by (simp_all add: valid_batch_def sample_batch_def InvalidationEvent_validate_iff)
  from publication_possible [OF this, of 9] show ?thesis by auto
qed

text \<open>The bound is sharp: with keys of maximal length one more event is too many.\<close>

definition long_event :: "nat \<Rightarrow> event" where
  "long_event n = \<lparr>InvalidationEvent.StreamSequence = of_nat (Suc n), Key = replicate MaxKeyLen 0,
     Version = \<lparr>PartitionID = 3, Sequence = 1\<rparr>, Kind = RecordValue, MutationID = NewMutationID 1 1\<rparr>"

lemma safe_batch_events_sharp:
  "InvalidationBatch_Validate (batch_for 3 9 (map long_event [0..<757])) \<noteq> None"
proof -
  have "EstimatedEncodedSize (batch_for 3 9 (map long_event [0..<757])) = 128 + 757 * 4160"
    by (simp add: size_estimate_sum comp_def long_event_def sum_list_triv controlMessageOverhead_def
        eventEncodedOverhead_def MaxKeyLen_def del: upt_rec_numeral)
  then show ?thesis by (simp add: InvalidationBatch_Validate_iff valid_batch_def MaxControlMessageBytes_def)
qed

end
