(* ===== verification/Ownership_System.thy ===== *)
theory Ownership_System
  imports Conversion_Ownership
begin

text \<open>
  All copying operations together: a program that holds any number of messages in one heap, passes
  them through the \<^verbatim>\<open>Clone\<close> methods, \<^verbatim>\<open>Fingerprint\<close> and the conversions in any order, writes to messages it
  holds, receives new ones and forgets old ones. Such a program cannot tell the heap from immutable
  values: its runs refine the runs of a system whose state is the list of the messages' values.
\<close>

section \<open>Messages of every kind\<close>

text \<open>
  One type for the messages of all packages. The parameters are the types of byte slices, version
  pointers, watermark, identifier and event slices: references into the heap or what they stand for.
\<close>

datatype ('b, 'v, 'w, 'i, 'e) message =
    Wire_Set "'b wire_SetRequest" | Wire_Delete "'b wire_DeleteRequest" | Wire_Get "('b, 'v) wire_GetRequest"
  | Rpc_Mutation "'b MutationRequest" | Rpc_Fingerprint "'b MutationFingerprint"
  | Rpc_Get "('b, 'v) rpc_GetRequest" | Rpc_Response "'b GetResponse"
  | L1_Result "'b GetResult" | L1_Mutation "'b Mutation"
  | Control_Hello "'w Hello" | Control_Subscribe "'i Subscribe" | Control_Batch "'e InvalidationBatch"
  | Pb_Mutation "'b pb_MutationRequest" | Pb_Get "'b pb_GetRequest" | Pb_Response "'b pb_GetResponse"
  | Pb_Batch "'b pb_InvalidationBatch"

type_synonym ref_message = "(slice, nat, slice, slice, slice) message"

type_synonym value_message =
  "(bytes, VersionTag, StreamWatermark list, 32 word list, event list) message"

fun message_ok :: "heap \<Rightarrow> ref_message \<Rightarrow> bool" where
  "message_ok h (Wire_Set m) = pair_ok wire_SetRequest.Key wire_SetRequest.Value h m"
| "message_ok h (Wire_Delete m) = delete_request_ok h m"
| "message_ok h (Wire_Get m) = key_tag_ok wire_GetRequest.Key wire_GetRequest.MinVersion h m"
| "message_ok h (Rpc_Mutation m) = pair_ok MutationRequest.Key MutationRequest.Value h m"
| "message_ok h (Rpc_Fingerprint m) = pair_ok MutationFingerprint.Key MutationFingerprint.Value h m"
| "message_ok h (Rpc_Get m) = get_ok h m"
| "message_ok h (Rpc_Response m) = get_response_ok h m"
| "message_ok h (L1_Result m) = get_result_ok h m"
| "message_ok h (L1_Mutation m) = pair_ok Mutation.Key Mutation.Value h m"
| "message_ok h (Control_Hello m) = hello_ok h m"
| "message_ok h (Control_Subscribe m) = subscribe_ok h m"
| "message_ok h (Control_Batch m) = batch_ok h m"
| "message_ok h (Pb_Mutation m) = flat_ok pb_mutation_slices h m"
| "message_ok h (Pb_Get m) = flat_ok pb_get_slices h m"
| "message_ok h (Pb_Response m) = flat_ok pb_response_slices h m"
| "message_ok h (Pb_Batch m) = flat_ok pb_batch_slices h m"

fun message_refs :: "heap \<Rightarrow> ref_message \<Rightarrow> nat set" where
  "message_refs h (Wire_Set m) = pair_refs wire_SetRequest.Key wire_SetRequest.Value h m"
| "message_refs h (Wire_Delete m) = delete_request_refs h m"
| "message_refs h (Wire_Get m) = key_tag_refs wire_GetRequest.Key wire_GetRequest.MinVersion h m"
| "message_refs h (Rpc_Mutation m) = pair_refs MutationRequest.Key MutationRequest.Value h m"
| "message_refs h (Rpc_Fingerprint m) = pair_refs MutationFingerprint.Key MutationFingerprint.Value h m"
| "message_refs h (Rpc_Get m) = get_refs h m"
| "message_refs h (Rpc_Response m) = get_response_refs h m"
| "message_refs h (L1_Result m) = get_result_refs h m"
| "message_refs h (L1_Mutation m) = pair_refs Mutation.Key Mutation.Value h m"
| "message_refs h (Control_Hello m) = hello_refs h m"
| "message_refs h (Control_Subscribe m) = subscribe_refs h m"
| "message_refs h (Control_Batch m) = batch_refs h m"
| "message_refs h (Pb_Mutation m) = flat_refs pb_mutation_slices h m"
| "message_refs h (Pb_Get m) = flat_refs pb_get_slices h m"
| "message_refs h (Pb_Response m) = flat_refs pb_response_slices h m"
| "message_refs h (Pb_Batch m) = flat_refs pb_batch_slices h m"

fun message_val :: "heap \<Rightarrow> ref_message \<Rightarrow> value_message" where
  "message_val h (Wire_Set m) = Wire_Set (set_request_val h m)"
| "message_val h (Wire_Delete m) = Wire_Delete (delete_request_val h m)"
| "message_val h (Wire_Get m) = Wire_Get (wire_get_val h m)"
| "message_val h (Rpc_Mutation m) = Rpc_Mutation (mutation_request_val h m)"
| "message_val h (Rpc_Fingerprint m) = Rpc_Fingerprint (fingerprint_val h m)"
| "message_val h (Rpc_Get m) = Rpc_Get (rpc_get_val h m)"
| "message_val h (Rpc_Response m) = Rpc_Response (get_response_val h m)"
| "message_val h (L1_Result m) = L1_Result (get_result_val h m)"
| "message_val h (L1_Mutation m) = L1_Mutation (mutation_val h m)"
| "message_val h (Control_Hello m) = Control_Hello (hello_val h m)"
| "message_val h (Control_Subscribe m) = Control_Subscribe (subscribe_val h m)"
| "message_val h (Control_Batch m) = Control_Batch (batch_val h m)"
| "message_val h (Pb_Mutation m) = Pb_Mutation (pb_mutation_val h m)"
| "message_val h (Pb_Get m) = Pb_Get (pb_get_val h m)"
| "message_val h (Pb_Response m) = Pb_Response (pb_response_val h m)"
| "message_val h (Pb_Batch m) = Pb_Batch (pb_batch_val h m)"

lemma message_bounded: "message_ok h r \<Longrightarrow> message_refs h r \<subseteq> {..<length h}"
  by (cases r; simp only: message_ok.simps message_refs.simps)
    (erule set_request.pair.src.bounded delete_request.src.bounded wire_get.pointed.src.bounded mutation_request.pair.src.bounded fingerprint.pair.src.bounded rpc_get.pointed.src.bounded get_response.src.bounded get_result.src.bounded mutation.pair.src.bounded hello_clone.src.bounded subscribe_clone.src.bounded batch_clone.src.bounded pb_mutation_flat.bounded pb_get_flat.bounded pb_response_flat.bounded pb_batch_flat.bounded)+

lemma message_frame:
  assumes "message_ok h r" "writes L h h'" "message_refs h r \<inter> L = {}"
  shows "message_ok h' r \<and> message_refs h' r = message_refs h r \<and> message_val h' r = message_val h r"
  using assms
  by (cases r; simp only: message_ok.simps message_refs.simps message_val.simps message.inject)
    (erule (2) set_request.pair.src.frame delete_request.src.frame wire_get.pointed.src.frame mutation_request.pair.src.frame fingerprint.pair.src.frame rpc_get.pointed.src.frame get_response.src.frame get_result.src.frame mutation.pair.src.frame hello_clone.src.frame subscribe_clone.src.frame batch_clone.src.frame pb_mutation_flat.frame pb_get_flat.frame pb_response_flat.frame pb_batch_flat.frame)+

interpretation messages: owned message_ok message_refs message_val
  by unfold_locales (fact message_bounded message_frame)+

section \<open>The copying operations\<close>

text \<open>\<open>copies h m c h'\<close>: one of the operations run on \<open>m\<close> returns \<open>c\<close>, a zero message beside the error where
  a conversion fails, and leaves the heap \<open>h'\<close>.\<close>

inductive copies :: "heap \<Rightarrow> ref_message \<Rightarrow> ref_message \<Rightarrow> heap \<Rightarrow> bool" where
  "run_state (wire_SetRequest_Clone m) h = (c, h') \<Longrightarrow> copies h (Wire_Set m) (Wire_Set c) h'"
| "run_state (wire_DeleteRequest_Clone m) h = (c, h') \<Longrightarrow> copies h (Wire_Delete m) (Wire_Delete c) h'"
| "run_state (wire_GetRequest_Clone m) h = (c, h') \<Longrightarrow> copies h (Wire_Get m) (Wire_Get c) h'"
| "run_state (MutationRequest_Clone m) h = (c, h') \<Longrightarrow> copies h (Rpc_Mutation m) (Rpc_Mutation c) h'"
| "run_state (Fingerprint_copy m) h = (c, h') \<Longrightarrow> copies h (Rpc_Mutation m) (Rpc_Fingerprint c) h'"
| "run_state (ProtoMutationRequest_copy m) h = (c, h') \<Longrightarrow> copies h (Rpc_Mutation m) (Pb_Mutation c) h'"
| "run_state (MutationFingerprint_Clone m) h = (c, h') \<Longrightarrow> copies h (Rpc_Fingerprint m) (Rpc_Fingerprint c) h'"
| "run_state (rpc_GetRequest_Clone m) h = (c, h') \<Longrightarrow> copies h (Rpc_Get m) (Rpc_Get c) h'"
| "run_state (ProtoGetRequest_copy m) h = (c, h') \<Longrightarrow> copies h (Rpc_Get m) (Pb_Get c) h'"
| "run_state (GetResponse_Clone m) h = (c, h') \<Longrightarrow> copies h (Rpc_Response m) (Rpc_Response c) h'"
| "run_state (ProtoGetResponse_copy m) h = (c, h') \<Longrightarrow> copies h (Rpc_Response m) (Pb_Response c) h'"
| "run_state (GetResult_Clone m) h = (c, h') \<Longrightarrow> copies h (L1_Result m) (L1_Result c) h'"
| "run_state (Mutation_Clone m) h = (c, h') \<Longrightarrow> copies h (L1_Mutation m) (L1_Mutation c) h'"
| "run_state (Hello_Clone m) h = (c, h') \<Longrightarrow> copies h (Control_Hello m) (Control_Hello c) h'"
| "run_state (Subscribe_Clone m) h = (c, h') \<Longrightarrow> copies h (Control_Subscribe m) (Control_Subscribe c) h'"
| "run_state (InvalidationBatch_Clone m) h = (c, h') \<Longrightarrow> copies h (Control_Batch m) (Control_Batch c) h'"
| "run_state (ProtoInvalidationBatch_copy m) h = (c, h') \<Longrightarrow> copies h (Control_Batch m) (Pb_Batch c) h'"
| "run_state (FromProtoMutationRequest_copy (Some m)) h = ((c, e), h') \<Longrightarrow> copies h (Pb_Mutation m) (Rpc_Mutation c) h'"
| "run_state (FromProtoGetRequest_copy (Some m)) h = ((c, e), h') \<Longrightarrow> copies h (Pb_Get m) (Rpc_Get c) h'"
| "run_state (FromProtoGetResponse_copy (Some m)) h = ((c, e), h') \<Longrightarrow> copies h (Pb_Response m) (Rpc_Response c) h'"
| "run_state (FromProtoInvalidationBatch_copy (Some m)) h = ((c, e), h') \<Longrightarrow> copies h (Pb_Batch m) (Control_Batch c) h'"

text \<open>What the operations compute on values.\<close>

fun copy_values :: "value_message \<Rightarrow> value_message list" where
  "copy_values (Rpc_Mutation m) =
     [Rpc_Mutation m, Rpc_Fingerprint (Rpc_Dedup.Fingerprint m), Pb_Mutation (ProtoMutationRequest m)]"
| "copy_values (Rpc_Get m) = [Rpc_Get m, Pb_Get (ProtoGetRequest m)]"
| "copy_values (Rpc_Response m) = [Rpc_Response m, Pb_Response (ProtoGetResponse m)]"
| "copy_values (Control_Batch m) = [Control_Batch m, Pb_Batch (ProtoInvalidationBatch m)]"
| "copy_values (Pb_Mutation m) = [Rpc_Mutation (fst (FromProtoMutationRequest (Some m)))]"
| "copy_values (Pb_Get m) = [Rpc_Get (fst (FromProtoGetRequest (Some m)))]"
| "copy_values (Pb_Response m) = [Rpc_Response (fst (FromProtoGetResponse (Some m)))]"
| "copy_values (Pb_Batch m) = [Control_Batch (fst (FromProtoInvalidationBatch (Some m)))]"
| "copy_values m = [m]"

lemma flat_pair:
  "flat_ok mutation_slices h m = pair_ok MutationRequest.Key MutationRequest.Value h m"
  "flat_refs mutation_slices h m = pair_refs MutationRequest.Key MutationRequest.Value h m"
  "flat_ok response_slices h r = get_response_ok h r"
  "flat_refs response_slices h r = get_response_refs h r"
  "flat_ok (opt_slices f) h (Some x) = flat_ok f h x"
  by (simp_all add: flat_ok_def flat_refs_def mutation_slices_def response_slices_def pair_ok_def pair_refs_def
      get_response_ok_def get_response_refs_def)

lemma copies_spec:
  assumes "copies h m c h'" "message_ok h m"
  shows "writes {} h h' \<and> message_ok h' c \<and> message_val h' c \<in> set (copy_values (message_val h m))
    \<and> message_refs h' c \<subseteq> {length h..<length h'}"
  using assms
proof (cases rule: copies.cases)
  case (1 m c)
  with assms(2) show ?thesis using set_request.pair.copy_spec [of h m c h'] by simp
next
  case (2 m c)
  with assms(2) show ?thesis using delete_request.copy_spec [of h m c h'] by simp
next
  case (3 m c)
  with assms(2) show ?thesis using wire_get.pointed.copy_spec [of h m c h'] by simp
next
  case (4 m c)
  with assms(2) show ?thesis using mutation_request.pair.copy_spec [of h m c h'] by simp
next
  case (5 m c)
  with assms(2) show ?thesis using retained.pair.copy_spec [of h m c h'] by simp
next
  case (6 m c)
  with assms(2) show ?thesis using send_mutation.copy_spec [of h m c h', unfolded flat_pair] by simp
next
  case (7 m c)
  with assms(2) show ?thesis using fingerprint.pair.copy_spec [of h m c h'] by simp
next
  case (8 m c)
  with assms(2) show ?thesis using rpc_get.pointed.copy_spec [of h m c h'] by simp
next
  case (9 m c)
  with assms(2) show ?thesis using send_get.copy_spec [of h m c h'] by simp
next
  case (10 m c)
  with assms(2) show ?thesis using get_response.copy_spec [of h m c h'] by simp
next
  case (11 m c)
  with assms(2) show ?thesis using send_response.copy_spec [of h m c h', unfolded flat_pair] by simp
next
  case (12 m c)
  with assms(2) show ?thesis using get_result.copy_spec [of h m c h'] by simp
next
  case (13 m c)
  with assms(2) show ?thesis using mutation.pair.copy_spec [of h m c h'] by simp
next
  case (14 m c)
  with assms(2) show ?thesis using hello_clone.copy_spec [of h m c h'] by simp
next
  case (15 m c)
  with assms(2) show ?thesis using subscribe_clone.copy_spec [of h m c h'] by simp
next
  case (16 m c)
  with assms(2) show ?thesis using batch_clone.copy_spec [of h m c h'] by simp
next
  case (17 m c)
  with assms(2) show ?thesis using send_batch.copy_spec [of h m c h'] by simp
next
  case (18 m c e)
  with assms(2) show ?thesis
    using receive_mutation.copy_spec [of h "Some m" "(c, e)" h']
    by (simp add: flat_pair res_ok_def res_refs_def res_val_def) (metis fst_conv)
next
  case (19 m c e)
  with assms(2) show ?thesis
    using receive_get.copy_spec [of h "Some m" "(c, e)" h']
    by (simp add: flat_pair res_ok_def res_refs_def res_val_def) (metis fst_conv)
next
  case (20 m c e)
  with assms(2) show ?thesis
    using receive_response.copy_spec [of h "Some m" "(c, e)" h']
    by (simp add: flat_pair res_ok_def res_refs_def res_val_def) (metis fst_conv)
next
  case (21 m c e)
  with assms(2) show ?thesis
    using receive_batch.copy_spec [of h "Some m" "(c, e)" h']
    by (simp add: flat_pair res_ok_def res_refs_def res_val_def) (metis fst_conv)
qed

text \<open>Every operation can be run on every well-formed message, so each value that a copy may have is produced.\<close>

context owned_copy
begin

lemma copied: "ok h r \<Longrightarrow> \<exists>c h'. run_state (copy r) h = (c, h') \<and> val' h' c = f (val h r)"
  using copy_spec by (metis prod.collapse)

end

lemma copies_complete:
  assumes "message_ok h m" "v \<in> set (copy_values (message_val h m))"
  shows "\<exists>c h'. copies h m c h' \<and> message_val h' c = v"
proof (cases m)
  case (Wire_Set r)
  then show ?thesis
    using assms set_request.pair.copied [of h r]
    by (auto simp: flat_pair res_ok_def res_val_def) (metis copies.intros(1) message_val.simps fst_conv)+
next
  case (Wire_Delete r)
  then show ?thesis
    using assms delete_request.copied [of h r]
    by (auto simp: flat_pair res_ok_def res_val_def) (metis copies.intros(2) message_val.simps fst_conv)+
next
  case (Wire_Get r)
  then show ?thesis
    using assms wire_get.pointed.copied [of h r]
    by (auto simp: flat_pair res_ok_def res_val_def) (metis copies.intros(3) message_val.simps fst_conv)+
next
  case (Rpc_Mutation r)
  then show ?thesis
    using assms mutation_request.pair.copied [of h r] retained.pair.copied [of h r] send_mutation.copied [of h r]
    by (auto simp: flat_pair res_ok_def res_val_def) (metis copies.intros(4-6) message_val.simps fst_conv)+
next
  case (Rpc_Fingerprint r)
  then show ?thesis
    using assms fingerprint.pair.copied [of h r]
    by (auto simp: flat_pair res_ok_def res_val_def) (metis copies.intros(7) message_val.simps fst_conv)+
next
  case (Rpc_Get r)
  then show ?thesis
    using assms rpc_get.pointed.copied [of h r] send_get.copied [of h r]
    by (auto simp: flat_pair res_ok_def res_val_def) (metis copies.intros(8-9) message_val.simps fst_conv)+
next
  case (Rpc_Response r)
  then show ?thesis
    using assms get_response.copied [of h r] send_response.copied [of h r]
    by (auto simp: flat_pair res_ok_def res_val_def) (metis copies.intros(10-11) message_val.simps fst_conv)+
next
  case (L1_Result r)
  then show ?thesis
    using assms get_result.copied [of h r]
    by (auto simp: flat_pair res_ok_def res_val_def) (metis copies.intros(12) message_val.simps fst_conv)+
next
  case (L1_Mutation r)
  then show ?thesis
    using assms mutation.pair.copied [of h r]
    by (auto simp: flat_pair res_ok_def res_val_def) (metis copies.intros(13) message_val.simps fst_conv)+
next
  case (Control_Hello r)
  then show ?thesis
    using assms hello_clone.copied [of h r]
    by (auto simp: flat_pair res_ok_def res_val_def) (metis copies.intros(14) message_val.simps fst_conv)+
next
  case (Control_Subscribe r)
  then show ?thesis
    using assms subscribe_clone.copied [of h r]
    by (auto simp: flat_pair res_ok_def res_val_def) (metis copies.intros(15) message_val.simps fst_conv)+
next
  case (Control_Batch r)
  then show ?thesis
    using assms batch_clone.copied [of h r] send_batch.copied [of h r]
    by (auto simp: flat_pair res_ok_def res_val_def) (metis copies.intros(16-17) message_val.simps fst_conv)+
next
  case (Pb_Mutation r)
  then show ?thesis
    using assms receive_mutation.copied [of h "Some r"]
    by (auto simp: flat_pair res_ok_def res_val_def) (metis copies.intros(18) message_val.simps fst_conv)+
next
  case (Pb_Get r)
  then show ?thesis
    using assms receive_get.copied [of h "Some r"]
    by (auto simp: flat_pair res_ok_def res_val_def) (metis copies.intros(19) message_val.simps fst_conv)+
next
  case (Pb_Response r)
  then show ?thesis
    using assms receive_response.copied [of h "Some r"]
    by (auto simp: flat_pair res_ok_def res_val_def) (metis copies.intros(20) message_val.simps fst_conv)+
next
  case (Pb_Batch r)
  then show ?thesis
    using assms receive_batch.copied [of h "Some r"]
    by (auto simp: flat_pair res_ok_def res_val_def) (metis copies.intros(21) message_val.simps fst_conv)+
qed

section \<open>Runs on the heap and on values\<close>

text \<open>
  The state of a run is the heap and the messages the program holds. A step copies a message,
  changes one (its memory only, and whatever it allocates), takes in a new one in memory of its own
  (a decoded frame, a message built by a caller), or forgets one. The label says what the step
  does to the values, so that the same actions can be performed on a list of values.
\<close>

datatype action =
    Copied nat value_message | Changed nat value_message | Received value_message | Forgotten nat

inductive run_step :: "heap \<times> ref_message list \<Rightarrow> action \<Rightarrow> heap \<times> ref_message list \<Rightarrow> bool" where
  copied: "i < length ms \<Longrightarrow> copies h (ms ! i) c h' \<Longrightarrow> run_step (h, ms) (Copied i (message_val h' c)) (h', ms @ [c])"
| changed: "i < length ms \<Longrightarrow> writes (message_refs h (ms ! i)) h h' \<Longrightarrow> message_ok h' m \<Longrightarrow>
    message_refs h' m \<subseteq> message_refs h (ms ! i) \<union> {length h..<length h'} \<Longrightarrow>
    run_step (h, ms) (Changed i (message_val h' m)) (h', ms[i := m])"
| received: "writes {} h h' \<Longrightarrow> message_ok h' m \<Longrightarrow> message_refs h' m \<subseteq> {length h..<length h'} \<Longrightarrow>
    run_step (h, ms) (Received (message_val h' m)) (h', ms @ [m])"
| forgotten: "i < length ms \<Longrightarrow> run_step (h, ms) (Forgotten i) (h, take i ms @ drop (Suc i) ms)"

inductive run :: "heap \<times> ref_message list \<Rightarrow> action list \<Rightarrow> heap \<times> ref_message list \<Rightarrow> bool" where
  stop: "run s [] s"
| step: "run_step s a t \<Longrightarrow> run t as u \<Longrightarrow> run s (a # as) u"

inductive_simps run_simps: "run s [] t" "run s (a # as) u"

fun perform :: "action \<Rightarrow> value_message list \<Rightarrow> value_message list option" where
  "perform (Copied i v) vs = (if i < length vs \<and> v \<in> set (copy_values (vs ! i)) then Some (vs @ [v]) else None)"
| "perform (Changed i v) vs = (if i < length vs then Some (vs[i := v]) else None)"
| "perform (Received v) vs = Some (vs @ [v])"
| "perform (Forgotten i) vs = (if i < length vs then Some (take i vs @ drop (Suc i) vs) else None)"

primrec perform_all :: "action list \<Rightarrow> value_message list \<Rightarrow> value_message list option" where
  "perform_all [] vs = Some vs"
| "perform_all (a # as) vs = Option.bind (perform a vs) (perform_all as)"

text \<open>Every message is well formed, and no two reach the same memory.\<close>

definition apart :: "heap \<Rightarrow> ref_message \<Rightarrow> ref_message \<Rightarrow> bool" where
  "apart h a b \<longleftrightarrow> message_refs h a \<inter> message_refs h b = {}"

definition separated :: "heap \<times> ref_message list \<Rightarrow> bool" where
  "separated s \<longleftrightarrow> (case s of (h, ms) \<Rightarrow> (\<forall>m \<in> set ms. message_ok h m)
     \<and> (\<forall>i < length ms. \<forall>j < length ms. i \<noteq> j \<longrightarrow> apart h (ms ! i) (ms ! j)))"

definition held :: "heap \<times> ref_message list \<Rightarrow> value_message list" where
  "held s = (case s of (h, ms) \<Rightarrow> map (message_val h) ms)"

lemma held_simp [simp]: "held (h, ms) = map (message_val h) ms"
  by (simp add: held_def)

lemma separatedI:
  assumes "\<And>i. i < length ms \<Longrightarrow> message_ok h (ms ! i)"
    and "\<And>i j. i < j \<Longrightarrow> j < length ms \<Longrightarrow> apart h (ms ! i) (ms ! j)"
  shows "separated (h, ms)"
  using assms unfolding separated_def by (auto simp: apart_def in_set_conv_nth) (metis Int_commute disjoint_iff neqE)

lemma separatedD:
  assumes "separated (h, ms)"
  shows "i < length ms \<Longrightarrow> message_ok h (ms ! i)"
    and "i < length ms \<Longrightarrow> j < length ms \<Longrightarrow> i \<noteq> j \<Longrightarrow> apart h (ms ! i) (ms ! j)"
  using assms by (auto simp: separated_def)

text \<open>What a step that writes to \<open>L\<close> leaves alone, and the memory it hands out.\<close>

lemma kept:
  assumes "separated (h, ms)" "writes L h h'" "i < length ms" "message_refs h (ms ! i) \<inter> L = {}"
  shows "message_ok h' (ms ! i)" "message_refs h' (ms ! i) = message_refs h (ms ! i)"
    "message_val h' (ms ! i) = message_val h (ms ! i)"
  using messages.frame [OF separatedD(1) [OF assms(1,3)] assms(2,4)] by simp_all

lemma apart_fresh:
  assumes "separated (h, ms)" "i < length ms" "R \<subseteq> {length h..<length h'}"
  shows "message_refs h (ms ! i) \<inter> R = {}"
  using messages.bounded [OF separatedD(1) [OF assms(1,2)]] assms(3) by fastforce

lemma separated_append:
  assumes "separated (h, ms)" "writes {} h h'" "message_ok h' c" "message_refs h' c \<subseteq> {length h..<length h'}"
  shows "separated (h', ms @ [c]) \<and> held (h', ms @ [c]) = held (h, ms) @ [message_val h' c]"
proof (intro conjI separatedI)
  note same = kept [OF assms(1,2)]
  show "held (h', ms @ [c]) = held (h, ms) @ [message_val h' c]"
    using same(3) by (auto simp: in_set_conv_nth)
  show "message_ok h' ((ms @ [c]) ! i)" if "i < length (ms @ [c])" for i
    using that same(1) assms(3) by (cases "i < length ms") (auto simp: nth_append less_Suc_eq)
  show "apart h' ((ms @ [c]) ! i) ((ms @ [c]) ! j)" if "i < j" "j < length (ms @ [c])" for i j
    using that same(2) separatedD(2) [OF assms(1)] apart_fresh [OF assms(1) _ assms(4)]
    by (cases "j < length ms") (auto simp: nth_append apart_def less_Suc_eq)
qed

lemma separated_update:
  assumes "separated (h, ms)" "n < length ms" "writes (message_refs h (ms ! n)) h h'" "message_ok h' m"
    and "message_refs h' m \<subseteq> message_refs h (ms ! n) \<union> {length h..<length h'}"
  shows "separated (h', ms[n := m]) \<and> held (h', ms[n := m]) = (held (h, ms))[n := message_val h' m]"
proof (intro conjI separatedI)
  have others: "message_refs h (ms ! i) \<inter> message_refs h (ms ! n) = {}" if "i < length ms" "i \<noteq> n" for i
    using separatedD(2) [OF assms(1) that(1) assms(2) that(2)] by (simp add: apart_def)
  note same = kept [OF assms(1,3) _ others]
  have new: "message_refs h (ms ! i) \<inter> message_refs h' m = {}" if "i < length ms" "i \<noteq> n" for i
    using others [OF that] apart_fresh [OF assms(1) that(1) subset_refl] assms(5) by blast
  show "held (h', ms[n := m]) = (held (h, ms))[n := message_val h' m]"
    using same(3) assms(2) by (auto intro!: nth_equalityI simp: nth_list_update)
  show "message_ok h' (ms[n := m] ! i)" if "i < length (ms[n := m])" for i
    using that same(1) assms(4) by (cases "i = n") auto
  show "apart h' (ms[n := m] ! i) (ms[n := m] ! j)" if "i < j" "j < length (ms[n := m])" for i j
    using that same(2) [of i] same(2) [of j] new [of i] new [of j] separatedD(2) [OF assms(1), of i j]
    by (cases "i = n"; cases "j = n") (auto simp: apart_def)
qed

lemma separated_remove:
  assumes "separated (h, ms)" "n < length ms"
  shows "separated (h, take n ms @ drop (Suc n) ms)"
proof (rule separatedI)
  have nth: "(take n ms @ drop (Suc n) ms) ! i = ms ! (if i < n then i else Suc i)" for i
    using assms(2) by (simp add: nth_append)
  show "message_ok h ((take n ms @ drop (Suc n) ms) ! i)" if "i < length (take n ms @ drop (Suc n) ms)" for i
    unfolding nth using that assms(2) by (intro separatedD(1) [OF assms(1)]) auto
  show "apart h ((take n ms @ drop (Suc n) ms) ! i) ((take n ms @ drop (Suc n) ms) ! j)"
    if "i < j" "j < length (take n ms @ drop (Suc n) ms)" for i j
    unfolding nth using that assms(2) by (intro separatedD(2) [OF assms(1)]) auto
qed

lemma simulation:
  assumes "run_step s a t" "separated s"
  shows "separated t \<and> perform a (held s) = Some (held t)"
  using assms
proof (cases rule: run_step.cases)
  case (copied i ms h c h')
  then have spec: "writes {} h h' \<and> message_ok h' c \<and> message_val h' c \<in> set (copy_values (message_val h (ms ! i)))
      \<and> message_refs h' c \<subseteq> {length h..<length h'}"
    using separatedD(1) assms(2) by (intro copies_spec) auto
  with copied show ?thesis using separated_append [of h ms h' c] assms(2) by simp
next
  case (changed i ms h h' m)
  then show ?thesis using separated_update [of h ms i h' m] assms(2) by simp
next
  case (received h h' m ms)
  then show ?thesis using separated_append [of h ms h' m] assms(2) by simp
next
  case (forgotten i ms h)
  then show ?thesis using separated_remove [of h ms i] assms(2) by (simp add: take_map drop_map)
qed

lemma run_simulation: "run s as t \<Longrightarrow> separated s \<Longrightarrow> separated t \<and> perform_all as (held s) = Some (held t)"
  by (induction rule: run.induct) (auto dest: simulation)

lemma copied_available:
  assumes "separated (h, ms)" "perform (Copied i v) (held (h, ms)) \<noteq> None"
  shows "\<exists>t. run_step (h, ms) (Copied i v) t"
proof -
  have i: "i < length ms" "v \<in> set (copy_values (message_val h (ms ! i)))"
    using assms(2) by (simp_all split: if_splits)
  obtain c h' where "copies h (ms ! i) c h'" "message_val h' c = v"
    using copies_complete [OF separatedD(1) [OF assms(1) i(1)] i(2)] by blast
  with run_step.copied [OF i(1)] show ?thesis by blast
qed

section \<open>Correctness\<close>

text \<open>C34. However a program copies, converts, changes, receives and forgets messages, every reference it
  holds stays valid: each message keeps pointing to objects of the kinds its fields declare, with
  its windows inside the arrays, and no two messages come to share memory.\<close>

theorem references_stay_valid:
  assumes "run (h, ms) as (h', ms')" "separated (h, ms)"
  shows "(\<forall>m \<in> set ms'. message_ok h' m)
    \<and> (\<forall>i < length ms'. \<forall>j < length ms'. i \<noteq> j \<longrightarrow> message_refs h' (ms' ! i) \<inter> message_refs h' (ms' ! j) = {})"
  using run_simulation [OF assms] by (simp add: separated_def apart_def)

theorem references_stay_valid_witness:
  "\<exists>h a b. run ([], []) [Received (Pb_Mutation (ProtoMutationRequest sample_mutation)),
       Copied 0 (Rpc_Mutation sample_mutation)] (h, [Pb_Mutation a, Rpc_Mutation b])
     \<and> message_refs h (Pb_Mutation a) \<inter> message_refs h (Rpc_Mutation b) = {}"
proof -
  obtain c e h where 1: "run_state (FromProtoMutationRequest_copy (Some sample_pb_mutation)) receive_heap = ((c, e), h)"
    by (metis prod.collapse)
  have dec: "FromProtoMutationRequest (Some (ProtoMutationRequest sample_mutation)) = (sample_mutation, None)"
    using sample_mutation_valid by (simp add: mutation_request_codec.accept_iff)
  have val: "mutation_request_val h c = sample_mutation"
    using receive_mutation.copy_spec [OF sample_pb_mutation_val(1) 1] dec
    by (simp add: res_val_def sample_pb_mutation_val(2))
  have ok: "message_ok receive_heap (Pb_Mutation sample_pb_mutation)"
    using sample_pb_mutation_val(1) by (simp add: flat_pair)
  then have "message_refs receive_heap (Pb_Mutation sample_pb_mutation) \<subseteq> {0..<length receive_heap}"
    using messages.bounded by fastforce
  with ok have "run_step ([], []) (Received (Pb_Mutation (ProtoMutationRequest sample_mutation)))
      (receive_heap, [Pb_Mutation sample_pb_mutation])"
    using run_step.received [of "[]" receive_heap "Pb_Mutation sample_pb_mutation" "[]"]
    by (simp add: writes_def sample_pb_mutation_val(2))
  moreover have "run_step (receive_heap, [Pb_Mutation sample_pb_mutation]) (Copied 0 (Rpc_Mutation sample_mutation))
      (h, [Pb_Mutation sample_pb_mutation, Rpc_Mutation c])"
    using run_step.copied [of 0 "[Pb_Mutation sample_pb_mutation]" receive_heap "Rpc_Mutation c" h] copies.intros(18) [OF 1] val
    by simp
  ultimately have r: "run ([], []) [Received (Pb_Mutation (ProtoMutationRequest sample_mutation)),
       Copied 0 (Rpc_Mutation sample_mutation)] (h, [Pb_Mutation sample_pb_mutation, Rpc_Mutation c])"
    unfolding run_simps by blast
  with references_stay_valid [OF r] show ?thesis by (fastforce simp: separated_def)
qed

text \<open>C33. The program cannot tell the heap from immutable values. Every run does to the messages' values
  exactly what its actions do to a list of values: a copy or conversion adds what the value-level
  function returns, a change replaces that one value, and nothing else is ever affected.\<close>

theorem heap_runs_refine_values:
  assumes "run (h, ms) as (h', ms')" "separated (h, ms)"
  shows "perform_all as (map (message_val h) ms) = Some (map (message_val h') ms')
    \<and> (\<forall>i v. perform (Copied i v) (map (message_val h') ms') \<noteq> None \<longrightarrow> (\<exists>t. run_step (h', ms') (Copied i v) t))"
  using run_simulation [OF assms] copied_available [of h' ms'] by simp

theorem heap_runs_refine_values_witness:
  "\<exists>h a b v. run (publish_heap, [Control_Batch published_batch])
       [Copied 0 (Pb_Batch (ProtoInvalidationBatch sample_batch)), Changed 0 v] (h, [a, b])
     \<and> v \<noteq> Control_Batch sample_batch \<and> map (message_val h) [a, b] = [v, Pb_Batch (ProtoInvalidationBatch sample_batch)]"
proof -
  obtain c h where 1: "run_state (ProtoInvalidationBatch_copy published_batch) publish_heap = (c, h)" by fastforce
  note spec = send_batch.copy_spec [OF published_batch_val(1) 1]
  let ?h = "h[1 := OEvents []]" and ?b = "published_batch\<lparr>InvalidationBatch.Events := Slice 1 0 0\<rparr>"
  let ?v = "message_val ?h (Control_Batch ?b)"
  have len: "2 \<le> length h" and kept: "h ! 1 = publish_heap ! 1"
    using spec by (simp_all add: writes_def publish_heap_def)
  have "run_step (publish_heap, [Control_Batch published_batch]) (Copied 0 (Pb_Batch (ProtoInvalidationBatch sample_batch)))
      (h, [Control_Batch published_batch, Pb_Batch c])"
    using run_step.copied [of 0 "[Control_Batch published_batch]" publish_heap "Pb_Batch c" h] copies.intros(17) [OF 1] spec
    by (simp add: published_batch_val(2))
  moreover have "run_step (h, [Control_Batch published_batch, Pb_Batch c]) (Changed 0 ?v) (?h, [Control_Batch ?b, Pb_Batch c])"
  proof -
    have "1 \<in> message_refs h (Control_Batch published_batch)" by (simp add: batch_refs_def published_batch_def)
    moreover have "message_ok ?h (Control_Batch ?b)" "message_refs ?h (Control_Batch ?b) = {1}"
      using len by (simp_all add: batch_ok_def batch_refs_def published_batch_def array_ok_def slice_of_def window_def)
    ultimately show ?thesis
      using run_step.changed [of 0 "[Control_Batch published_batch, Pb_Batch c]" h ?h "Control_Batch ?b"]
      by (simp add: writes_update)
  qed
  ultimately have r: "run (publish_heap, [Control_Batch published_batch])
      [Copied 0 (Pb_Batch (ProtoInvalidationBatch sample_batch)), Changed 0 ?v] (?h, [Control_Batch ?b, Pb_Batch c])"
    unfolding run_simps by blast
  have "separated (publish_heap, [Control_Batch published_batch])"
    by (simp add: separated_def published_batch_val(1))
  from heap_runs_refine_values [OF r this, THEN conjunct1]
  have "map (message_val ?h) [Control_Batch ?b, Pb_Batch c] = [?v, Pb_Batch (ProtoInvalidationBatch sample_batch)]"
    by (simp split: if_splits)
  moreover have "?v \<noteq> Control_Batch sample_batch"
    using len by (simp add: batch_val_def sample_batch_def slice_of_def window_def published_batch_def)
  ultimately show ?thesis using r by (intro exI conjI) assumption+
qed

end
