(* ===== verification/Grpc_Stubs.thy ===== *)
theory Grpc_Stubs
  imports Rpc_Convert
begin

text \<open>
  \<^verbatim>\<open>data_grpc.pb.go\<close> and \<^verbatim>\<open>control_grpc.pb.go\<close>: the client methods, the handlers of the service
  descriptions and the unimplemented servers. The gRPC runtime is not part of the repository: the
  connection, the decoding function, the interceptor and the registrar that the runtime hands to this
  code are arguments here, and so are its values (\<^verbatim>\<open>grpc.StaticMethod()\<close>, the error of
  \<^verbatim>\<open>status.Error(codes.Unimplemented, msg)\<close>). The types \<open>'s\<close>, \<open>'c\<close>, \<open>'o\<close> and \<open>'e\<close> stand for the state of
  everything the calls can touch, \<^verbatim>\<open>context.Context\<close>, \<^verbatim>\<open>grpc.CallOption\<close> and the errors of the runtime. A
  client is the connection it wraps, so \<^verbatim>\<open>NewDataClient\<close> and \<^verbatim>\<open>NewControlClient\<close> need no definition.
\<close>

section \<open>Calls with effects\<close>

text \<open>A call changes the state and returns or panics.\<close>

type_synonym ('s, 'a) proc = "'s \<Rightarrow> 'a go \<times> 's"

definition ret :: "'a \<Rightarrow> ('s, 'a) proc" where
  "ret x = (\<lambda>s. (Return x, s))"

definition crash :: "error \<Rightarrow> ('s, 'a) proc" where
  "crash e = (\<lambda>s. (Panic e, s))"

definition and_then :: "('s, 'a) proc \<Rightarrow> ('a \<Rightarrow> ('s, 'b) proc) \<Rightarrow> ('s, 'b) proc" where
  "and_then m k = (\<lambda>s. case m s of (Return x, t) \<Rightarrow> k x t | (Panic e, t) \<Rightarrow> (Panic e, t))"

named_theorems proc_simps

lemma proc_run [proc_simps]:
  "ret x s = (Return x, s)" "crash e s = (Panic e, s)"
  "and_then m k s = (case m s of (Return x, t) \<Rightarrow> k x t | (Panic e, t) \<Rightarrow> (Panic e, t))"
  by (simp_all add: ret_def crash_def and_then_def)

text \<open>\<^verbatim>\<open>interface{}\<close> values that reach this code: pointers to the messages, nil, or anything else.\<close>

datatype any =
    HandshakeRequest_ptr "pb_HandshakeRequest option" | HandshakeResponse_ptr "pb_HandshakeResponse option"
  | HubStatusRequest_ptr "pb_HubStatusRequest option" | HubStatusResponse_ptr "pb_HubStatusResponse option"
  | GetRequest_ptr "bytes pb_GetRequest option" | GetResponse_ptr "bytes pb_GetResponse option"
  | MutationRequest_ptr "bytes pb_MutationRequest option" | MutationResponse_ptr "pb_MutationResponse option"
  | Nil_any | Other_any

text \<open>\<^verbatim>\<open>req.(*HandshakeRequest)\<close> and so on; the assertion panics on any other dynamic type.\<close>

definition type_assertion_failed :: error where
  "type_assertion_failed = Errorf ''interface conversion'' [] None"

definition asserted :: "'a option \<Rightarrow> ('s, 'a) proc" where
  "asserted x = (case x of None \<Rightarrow> crash type_assertion_failed | Some v \<Rightarrow> ret v)"

fun as_HandshakeRequest :: "any \<Rightarrow> pb_HandshakeRequest option option" where
  "as_HandshakeRequest (HandshakeRequest_ptr p) = Some p" | "as_HandshakeRequest _ = None"

fun as_HandshakeResponse :: "any \<Rightarrow> pb_HandshakeResponse option option" where
  "as_HandshakeResponse (HandshakeResponse_ptr p) = Some p" | "as_HandshakeResponse _ = None"

fun as_HubStatusRequest :: "any \<Rightarrow> pb_HubStatusRequest option option" where
  "as_HubStatusRequest (HubStatusRequest_ptr p) = Some p" | "as_HubStatusRequest _ = None"

fun as_HubStatusResponse :: "any \<Rightarrow> pb_HubStatusResponse option option" where
  "as_HubStatusResponse (HubStatusResponse_ptr p) = Some p" | "as_HubStatusResponse _ = None"

fun as_GetRequest :: "any \<Rightarrow> bytes pb_GetRequest option option" where
  "as_GetRequest (GetRequest_ptr p) = Some p" | "as_GetRequest _ = None"

fun as_GetResponse :: "any \<Rightarrow> bytes pb_GetResponse option option" where
  "as_GetResponse (GetResponse_ptr p) = Some p" | "as_GetResponse _ = None"

fun as_MutationRequest :: "any \<Rightarrow> bytes pb_MutationRequest option option" where
  "as_MutationRequest (MutationRequest_ptr p) = Some p" | "as_MutationRequest _ = None"

fun as_MutationResponse :: "any \<Rightarrow> pb_MutationResponse option option" where
  "as_MutationResponse (MutationResponse_ptr p) = Some p" | "as_MutationResponse _ = None"

text \<open>\<^verbatim>\<open>new(HandshakeRequest)\<close> and so on point to zero messages.\<close>

definition new_HandshakeRequest :: pb_HandshakeRequest where
  "new_HandshakeRequest = \<lparr>pb_HandshakeRequest.ProtocolVersion = 0, MinSupportedVersion = 0, ClusterId = '''',
     ExpectedHubGeneration = 0\<rparr>"

definition new_HandshakeResponse :: pb_HandshakeResponse where
  "new_HandshakeResponse = \<lparr>pb_HandshakeResponse.ProtocolVersion = 0, HubGeneration = 0, PartitionCount = 0,
     StorageProfile = 0, DurableHealthy = False, ClusterId = ''''\<rparr>"

definition new_HubStatusRequest :: pb_HubStatusRequest where
  "new_HubStatusRequest = \<lparr>pb_HubStatusRequest.HubGeneration = 0\<rparr>"

definition new_HubStatusResponse :: pb_HubStatusResponse where
  "new_HubStatusResponse = \<lparr>pb_HubStatusResponse.HubGeneration = 0, StorageProfile = 0, DurableHealthy = False,
     Status = 0\<rparr>"

definition new_GetRequest :: "bytes pb_GetRequest" where
  "new_GetRequest = \<lparr>pb_GetRequest.Key = [], MinVersion = None, HubGeneration = 0\<rparr>"

definition new_GetResponse :: "bytes pb_GetResponse" where
  "new_GetResponse = \<lparr>pb_GetResponse.Status = 0, HubGeneration = 0, Version = None, Value = [], TtlMillis = 0,
     Kind = 0\<rparr>"

definition new_MutationRequest :: "bytes pb_MutationRequest" where
  "new_MutationRequest = \<lparr>pb_MutationRequest.Op = 0, Key = [], Value = [], TtlMillis = 0, MutationId = None,
     Mode = 0, W = 0, Confirm = 0, TimeoutMillis = 0, HubGeneration = 0\<rparr>"

definition new_MutationResponse :: pb_MutationResponse where
  "new_MutationResponse = \<lparr>pb_MutationResponse.Status = 0, HubGeneration = 0, Version = None\<rparr>"

section \<open>The data service\<close>

definition Data_Handshake_FullMethodName :: string where
  "Data_Handshake_FullMethodName = ''/gossipcache.v1.Data/Handshake''"

definition Data_HubStatus_FullMethodName :: string where
  "Data_HubStatus_FullMethodName = ''/gossipcache.v1.Data/HubStatus''"

definition Data_Get_FullMethodName :: string where
  "Data_Get_FullMethodName = ''/gossipcache.v1.Data/Get''"

definition Data_Mutate_FullMethodName :: string where
  "Data_Mutate_FullMethodName = ''/gossipcache.v1.Data/Mutate''"

text \<open>
  \<^verbatim>\<open>cc.Invoke(ctx, method, in, out, opts...)\<close> fills \<^verbatim>\<open>out\<close> in place, whose type cannot change. A function of
  \<^verbatim>\<open>out\<close> is therefore one function per message type: it takes the contents before the call and
  returns those after it.
\<close>

record ('s, 'c, 'o, 'e) ClientConn =
  Invoke_Handshake :: "'c \<Rightarrow> string \<Rightarrow> any \<Rightarrow> pb_HandshakeResponse \<Rightarrow> 'o list \<Rightarrow> ('s, pb_HandshakeResponse \<times> 'e option) proc"
  Invoke_HubStatus :: "'c \<Rightarrow> string \<Rightarrow> any \<Rightarrow> pb_HubStatusResponse \<Rightarrow> 'o list \<Rightarrow> ('s, pb_HubStatusResponse \<times> 'e option) proc"
  Invoke_Get :: "'c \<Rightarrow> string \<Rightarrow> any \<Rightarrow> bytes pb_GetResponse \<Rightarrow> 'o list \<Rightarrow> ('s, bytes pb_GetResponse \<times> 'e option) proc"
  Invoke_Mutate :: "'c \<Rightarrow> string \<Rightarrow> any \<Rightarrow> pb_MutationResponse \<Rightarrow> 'o list \<Rightarrow> ('s, pb_MutationResponse \<times> 'e option) proc"

text \<open>The common shape of the client methods; \<open>static\<close> is \<^verbatim>\<open>grpc.StaticMethod()\<close>.\<close>

definition unary_call ::
  "('c \<Rightarrow> string \<Rightarrow> any \<Rightarrow> 'r \<Rightarrow> 'o list \<Rightarrow> ('s, 'r \<times> 'e option) proc) \<Rightarrow> 'o \<Rightarrow> 'c \<Rightarrow> string \<Rightarrow> any \<Rightarrow> 'r \<Rightarrow> 'o list
    \<Rightarrow> ('s, 'r option \<times> 'e option) proc" where
  "unary_call invoke static ctx method req out opts =
     and_then (invoke ctx method req out (static # opts)) (\<lambda>(out, err).
       case err of Some e \<Rightarrow> ret (None, Some e) | None \<Rightarrow> ret (Some out, None))"

definition dataClient_Handshake ::
  "('s, 'c, 'o, 'e) ClientConn \<Rightarrow> 'o \<Rightarrow> 'c \<Rightarrow> pb_HandshakeRequest option \<Rightarrow> 'o list
    \<Rightarrow> ('s, pb_HandshakeResponse option \<times> 'e option) proc" where
  "dataClient_Handshake cc static ctx req opts = unary_call (Invoke_Handshake cc) static ctx
     Data_Handshake_FullMethodName (HandshakeRequest_ptr req) new_HandshakeResponse opts"

definition dataClient_HubStatus ::
  "('s, 'c, 'o, 'e) ClientConn \<Rightarrow> 'o \<Rightarrow> 'c \<Rightarrow> pb_HubStatusRequest option \<Rightarrow> 'o list
    \<Rightarrow> ('s, pb_HubStatusResponse option \<times> 'e option) proc" where
  "dataClient_HubStatus cc static ctx req opts = unary_call (Invoke_HubStatus cc) static ctx
     Data_HubStatus_FullMethodName (HubStatusRequest_ptr req) new_HubStatusResponse opts"

definition dataClient_Get ::
  "('s, 'c, 'o, 'e) ClientConn \<Rightarrow> 'o \<Rightarrow> 'c \<Rightarrow> bytes pb_GetRequest option \<Rightarrow> 'o list
    \<Rightarrow> ('s, bytes pb_GetResponse option \<times> 'e option) proc" where
  "dataClient_Get cc static ctx req opts = unary_call (Invoke_Get cc) static ctx
     Data_Get_FullMethodName (GetRequest_ptr req) new_GetResponse opts"

definition dataClient_Mutate ::
  "('s, 'c, 'o, 'e) ClientConn \<Rightarrow> 'o \<Rightarrow> 'c \<Rightarrow> bytes pb_MutationRequest option \<Rightarrow> 'o list
    \<Rightarrow> ('s, pb_MutationResponse option \<times> 'e option) proc" where
  "dataClient_Mutate cc static ctx req opts = unary_call (Invoke_Mutate cc) static ctx
     Data_Mutate_FullMethodName (MutationRequest_ptr req) new_MutationResponse opts"

text \<open>A server, with the method by which an embedded \<^verbatim>\<open>UnimplementedDataServer\<close> reveals a nil pointer,
  where it has that method.\<close>

record ('s, 'c, 'e) DataServer =
  Handshake :: "'c \<Rightarrow> pb_HandshakeRequest option \<Rightarrow> ('s, pb_HandshakeResponse option \<times> 'e option) proc"
  HubStatus :: "'c \<Rightarrow> pb_HubStatusRequest option \<Rightarrow> ('s, pb_HubStatusResponse option \<times> 'e option) proc"
  Get :: "'c \<Rightarrow> bytes pb_GetRequest option \<Rightarrow> ('s, bytes pb_GetResponse option \<times> 'e option) proc"
  Mutate :: "'c \<Rightarrow> bytes pb_MutationRequest option \<Rightarrow> ('s, pb_MutationResponse option \<times> 'e option) proc"
  testEmbeddedByValue :: "('s, unit) proc option"

text \<open>\<open>unimplemented msg\<close> is \<^verbatim>\<open>status.Error(codes.Unimplemented, msg)\<close>.\<close>

definition UnimplementedDataServer :: "(string \<Rightarrow> 'e) \<Rightarrow> ('s, 'c, 'e) DataServer" where
  "UnimplementedDataServer unimplemented =
     \<lparr>Handshake = \<lambda>ctx req. ret (None, Some (unimplemented ''method Handshake not implemented'')),
      HubStatus = \<lambda>ctx req. ret (None, Some (unimplemented ''method HubStatus not implemented'')),
      Get = \<lambda>ctx req. ret (None, Some (unimplemented ''method Get not implemented'')),
      Mutate = \<lambda>ctx req. ret (None, Some (unimplemented ''method Mutate not implemented'')),
      testEmbeddedByValue = Some (ret ())\<rparr>"

text \<open>The decoding function of the runtime fills the message it is given, like \<^verbatim>\<open>Invoke\<close>. A server passed as
  \<^verbatim>\<open>interface{}\<close> is \<^const>\<open>None\<close> when it does not implement \<^verbatim>\<open>DataServer\<close>.\<close>

record ('s, 'e) decoding =
  dec_HandshakeRequest :: "pb_HandshakeRequest \<Rightarrow> ('s, pb_HandshakeRequest \<times> 'e option) proc"
  dec_HubStatusRequest :: "pb_HubStatusRequest \<Rightarrow> ('s, pb_HubStatusRequest \<times> 'e option) proc"
  dec_GetRequest :: "bytes pb_GetRequest \<Rightarrow> ('s, bytes pb_GetRequest \<times> 'e option) proc"
  dec_MutationRequest :: "bytes pb_MutationRequest \<Rightarrow> ('s, bytes pb_MutationRequest \<times> 'e option) proc"

record ('s, 'c, 'e) UnaryServerInfo =
  Server :: "('s, 'c, 'e) DataServer option"
  FullMethod :: string

type_synonym ('s, 'c, 'e) unary_handler = "'c \<Rightarrow> any \<Rightarrow> ('s, any \<times> 'e option) proc"

type_synonym ('s, 'c, 'e) interceptor =
  "'c \<Rightarrow> any \<Rightarrow> ('s, 'c, 'e) UnaryServerInfo \<Rightarrow> ('s, 'c, 'e) unary_handler \<Rightarrow> ('s, any \<times> 'e option) proc"

text \<open>The common shape of the handlers: \<open>inject\<close> and \<open>as_req\<close> are the conversions of the request pointer to
  and from \<^verbatim>\<open>interface{}\<close>, \<open>outject\<close> that of the response pointer.\<close>

definition serve_method ::
  "(('s, 'c, 'e) DataServer \<Rightarrow> 'c \<Rightarrow> 'q option \<Rightarrow> ('s, 'r option \<times> 'e option) proc) \<Rightarrow> ('r option \<Rightarrow> any)
    \<Rightarrow> ('s, 'c, 'e) DataServer option \<Rightarrow> 'c \<Rightarrow> 'q option \<Rightarrow> ('s, any \<times> 'e option) proc" where
  "serve_method method outject srv ctx req =
     and_then (asserted srv) (\<lambda>server. and_then (method server ctx req) (\<lambda>(resp, err). ret (outject resp, err)))"

definition handle_unary ::
  "string \<Rightarrow> 'q \<Rightarrow> ('q \<Rightarrow> ('s, 'q \<times> 'e option) proc) \<Rightarrow> ('q option \<Rightarrow> any) \<Rightarrow> (any \<Rightarrow> 'q option option)
    \<Rightarrow> (('s, 'c, 'e) DataServer \<Rightarrow> 'c \<Rightarrow> 'q option \<Rightarrow> ('s, 'r option \<times> 'e option) proc) \<Rightarrow> ('r option \<Rightarrow> any)
    \<Rightarrow> ('s, 'c, 'e) DataServer option \<Rightarrow> 'c \<Rightarrow> ('s, 'c, 'e) interceptor option \<Rightarrow> ('s, any \<times> 'e option) proc" where
  "handle_unary fullMethod new dec inject as_req method outject srv ctx interceptor =
     and_then (dec new) (\<lambda>(req, err).
       case err of
         Some e \<Rightarrow> ret (Nil_any, Some e)
       | None \<Rightarrow>
          (case interceptor of
             None \<Rightarrow> serve_method method outject srv ctx (Some req)
           | Some intercept \<Rightarrow>
               intercept ctx (inject (Some req)) \<lparr>Server = srv, FullMethod = fullMethod\<rparr>
                 (\<lambda>ctx req. and_then (asserted (as_req req)) (serve_method method outject srv ctx))))"

definition Data_Handshake_Handler ::
  "('s, 'c, 'e) DataServer option \<Rightarrow> 'c \<Rightarrow> ('s, 'e) decoding \<Rightarrow> ('s, 'c, 'e) interceptor option \<Rightarrow> ('s, any \<times> 'e option) proc" where
  "Data_Handshake_Handler srv ctx dec interceptor =
     handle_unary Data_Handshake_FullMethodName new_HandshakeRequest (dec_HandshakeRequest dec) HandshakeRequest_ptr
       as_HandshakeRequest DataServer.Handshake HandshakeResponse_ptr srv ctx interceptor"

definition Data_HubStatus_Handler ::
  "('s, 'c, 'e) DataServer option \<Rightarrow> 'c \<Rightarrow> ('s, 'e) decoding \<Rightarrow> ('s, 'c, 'e) interceptor option \<Rightarrow> ('s, any \<times> 'e option) proc" where
  "Data_HubStatus_Handler srv ctx dec interceptor =
     handle_unary Data_HubStatus_FullMethodName new_HubStatusRequest (dec_HubStatusRequest dec) HubStatusRequest_ptr
       as_HubStatusRequest DataServer.HubStatus HubStatusResponse_ptr srv ctx interceptor"

definition Data_Get_Handler ::
  "('s, 'c, 'e) DataServer option \<Rightarrow> 'c \<Rightarrow> ('s, 'e) decoding \<Rightarrow> ('s, 'c, 'e) interceptor option \<Rightarrow> ('s, any \<times> 'e option) proc" where
  "Data_Get_Handler srv ctx dec interceptor =
     handle_unary Data_Get_FullMethodName new_GetRequest (dec_GetRequest dec) GetRequest_ptr
       as_GetRequest DataServer.Get GetResponse_ptr srv ctx interceptor"

definition Data_Mutate_Handler ::
  "('s, 'c, 'e) DataServer option \<Rightarrow> 'c \<Rightarrow> ('s, 'e) decoding \<Rightarrow> ('s, 'c, 'e) interceptor option \<Rightarrow> ('s, any \<times> 'e option) proc" where
  "Data_Mutate_Handler srv ctx dec interceptor =
     handle_unary Data_Mutate_FullMethodName new_MutationRequest (dec_MutationRequest dec) MutationRequest_ptr
       as_MutationRequest DataServer.Mutate MutationResponse_ptr srv ctx interceptor"

record ('s, 'c, 'e) MethodDesc =
  MethodName :: string
  Handler :: "('s, 'c, 'e) DataServer option \<Rightarrow> 'c \<Rightarrow> ('s, 'e) decoding \<Rightarrow> ('s, 'c, 'e) interceptor option
    \<Rightarrow> ('s, any \<times> 'e option) proc"

record 'h StreamDesc =
  StreamName :: string
  Handler :: 'h
  ServerStreams :: bool
  ClientStreams :: bool

record ('m, 'h) ServiceDesc =
  ServiceName :: string
  Methods :: "'m list"
  Streams :: "'h StreamDesc list"
  Metadata :: string

definition Data_ServiceDesc :: "(('s, 'c, 'e) MethodDesc, unit) ServiceDesc" where
  "Data_ServiceDesc = \<lparr>ServiceName = ''gossipcache.v1.Data'',
     Methods =
       [\<lparr>MethodName = ''Handshake'', Handler = Data_Handshake_Handler\<rparr>,
        \<lparr>MethodName = ''HubStatus'', Handler = Data_HubStatus_Handler\<rparr>,
        \<lparr>MethodName = ''Get'', Handler = Data_Get_Handler\<rparr>,
        \<lparr>MethodName = ''Mutate'', Handler = Data_Mutate_Handler\<rparr>],
     Streams = [],
     Metadata = ''gossipcache/v1/data.proto''\<rparr>"

text \<open>\<open>register\<close> is the method \<^verbatim>\<open>RegisterService\<close> of the registrar.\<close>

definition RegisterDataServer ::
  "((('s, 'c, 'e) MethodDesc, unit) ServiceDesc \<Rightarrow> ('s, 'c, 'e) DataServer \<Rightarrow> ('s, unit) proc)
    \<Rightarrow> ('s, 'c, 'e) DataServer \<Rightarrow> ('s, unit) proc" where
  "RegisterDataServer register srv =
     and_then (case DataServer.testEmbeddedByValue srv of None \<Rightarrow> ret () | Some t \<Rightarrow> t) (\<lambda>_. register Data_ServiceDesc srv)"

section \<open>The control service\<close>

definition Control_Connect_FullMethodName :: string where
  "Control_Connect_FullMethodName = ''/gossipcache.v1.Control/Connect''"

text \<open>The generic stream types of the runtime wrap the stream they are made from.\<close>

record 'cs GenericClientStream =
  ClientStream :: 'cs

record 'ss GenericServerStream =
  ServerStream :: 'ss

record ('s, 'ss, 'e) ControlServer =
  Connect :: "'ss GenericServerStream \<Rightarrow> ('s, 'e option) proc"
  testEmbeddedByValue :: "('s, unit) proc option"

definition UnimplementedControlServer :: "(string \<Rightarrow> 'e) \<Rightarrow> ('s, 'ss, 'e) ControlServer" where
  "UnimplementedControlServer unimplemented =
     \<lparr>Connect = \<lambda>stream. ret (Some (unimplemented ''method Connect not implemented'')),
      testEmbeddedByValue = Some (ret ())\<rparr>"

definition Control_Connect_Handler ::
  "('s, 'ss, 'e) ControlServer option \<Rightarrow> 'ss \<Rightarrow> ('s, 'e option) proc" where
  "Control_Connect_Handler srv stream =
     and_then (asserted srv) (\<lambda>server. Connect server \<lparr>ServerStream = stream\<rparr>)"

definition Control_ServiceDesc ::
  "(unit, ('s, 'ss, 'e) ControlServer option \<Rightarrow> 'ss \<Rightarrow> ('s, 'e option) proc) ServiceDesc" where
  "Control_ServiceDesc = \<lparr>ServiceName = ''gossipcache.v1.Control'',
     Methods = [],
     Streams = [\<lparr>StreamName = ''Connect'', Handler = Control_Connect_Handler, ServerStreams = True,
       ClientStreams = True\<rparr>],
     Metadata = ''gossipcache/v1/control.proto''\<rparr>"

text \<open>\<open>new_stream\<close> is the method \<^verbatim>\<open>NewStream\<close> of the connection.\<close>

definition controlClient_Connect ::
  "('c \<Rightarrow> (('s, 'ss, 'e) ControlServer option \<Rightarrow> 'ss \<Rightarrow> ('s, 'e option) proc) StreamDesc \<Rightarrow> string \<Rightarrow> 'o list
      \<Rightarrow> ('s, 'cs \<times> 'e option) proc) \<Rightarrow> 'o \<Rightarrow> 'c \<Rightarrow> 'o list
    \<Rightarrow> ('s, 'cs GenericClientStream option \<times> 'e option) proc" where
  "controlClient_Connect new_stream static ctx opts =
     and_then (new_stream ctx (Streams Control_ServiceDesc ! 0) Control_Connect_FullMethodName (static # opts))
       (\<lambda>(stream, err).
         case err of Some e \<Rightarrow> ret (None, Some e) | None \<Rightarrow> ret (Some \<lparr>ClientStream = stream\<rparr>, None))"

definition RegisterControlServer ::
  "((unit, ('s, 'ss, 'e) ControlServer option \<Rightarrow> 'ss \<Rightarrow> ('s, 'e option) proc) ServiceDesc
      \<Rightarrow> ('s, 'ss, 'e) ControlServer \<Rightarrow> ('s, unit) proc)
    \<Rightarrow> ('s, 'ss, 'e) ControlServer \<Rightarrow> ('s, unit) proc" where
  "RegisterControlServer register srv =
     and_then (case ControlServer.testEmbeddedByValue srv of None \<Rightarrow> ret () | Some t \<Rightarrow> t) (\<lambda>_. register Control_ServiceDesc srv)"

section \<open>Handlers\<close>

text \<open>\<open>handler_contract\<close>: what a handler does, for every server, context, decoding function and interceptor.
  A decoding error ends the call; otherwise, without an interceptor, the method runs once on the decoded request; with one,
  the interceptor gets that request, the server and the full name, and a continuation that runs the
  method on a request of its type and panics on any other value. Where a server is needed and there
  is none, the call panics.\<close>

definition run_method ::
  "(('s, 'c, 'e) DataServer \<Rightarrow> 'c \<Rightarrow> 'q option \<Rightarrow> ('s, 'r option \<times> 'e option) proc) \<Rightarrow> ('r option \<Rightarrow> any)
    \<Rightarrow> ('s, 'c, 'e) DataServer option \<Rightarrow> 'c \<Rightarrow> 'q option \<Rightarrow> ('s, any \<times> 'e option) proc" where
  "run_method method outject srv ctx req s =
     (case srv of
        None \<Rightarrow> (Panic type_assertion_failed, s)
      | Some server \<Rightarrow> (case method server ctx req s of
            (Return (resp, err), t) \<Rightarrow> (Return (outject resp, err), t)
          | (Panic p, t) \<Rightarrow> (Panic p, t)))"

definition handler_contract ::
  "string \<Rightarrow> 'q \<Rightarrow> (('s, 'e) decoding \<Rightarrow> 'q \<Rightarrow> ('s, 'q \<times> 'e option) proc) \<Rightarrow> ('q option \<Rightarrow> any)
    \<Rightarrow> (('s, 'c, 'e) DataServer \<Rightarrow> 'c \<Rightarrow> 'q option \<Rightarrow> ('s, 'r option \<times> 'e option) proc) \<Rightarrow> ('r option \<Rightarrow> any)
    \<Rightarrow> (('s, 'c, 'e) DataServer option \<Rightarrow> 'c \<Rightarrow> ('s, 'e) decoding \<Rightarrow> ('s, 'c, 'e) interceptor option
        \<Rightarrow> ('s, any \<times> 'e option) proc) \<Rightarrow> bool" where
  "handler_contract name new dec_req inject method outject handler \<longleftrightarrow>
     (\<forall>srv ctx dec s.
        (\<forall>q e t interceptor. dec_req dec new s = (Return (q, Some e), t) \<longrightarrow>
           handler srv ctx dec interceptor s = (Return (Nil_any, Some e), t))
      \<and> (\<forall>p t interceptor. dec_req dec new s = (Panic p, t) \<longrightarrow>
           handler srv ctx dec interceptor s = (Panic p, t))
      \<and> (\<forall>q t. dec_req dec new s = (Return (q, None), t) \<longrightarrow>
           handler srv ctx dec None s = run_method method outject srv ctx (Some q) t
         \<and> (\<forall>intercept. \<exists>k.
              handler srv ctx dec (Some intercept) s
                = intercept ctx (inject (Some q)) \<lparr>Server = srv, FullMethod = name\<rparr> k t
            \<and> (\<forall>c r u. k c (inject r) u = run_method method outject srv c r u)
            \<and> (\<forall>c v u. (\<forall>r. v \<noteq> inject r) \<longrightarrow> k c v u = (Panic type_assertion_failed, u)))))"

definition full_name :: "('s, 'c, 'e) MethodDesc \<Rightarrow> string" where
  "full_name m = ''/'' @ ServiceName (Data_ServiceDesc :: (('s, 'c, 'e) MethodDesc, unit) ServiceDesc) @ ''/'' @ MethodName m"

lemma serve_method_run: "serve_method method outject srv ctx req s = run_method method outject srv ctx req s"
  by (simp add: serve_method_def run_method_def asserted_def proc_simps split: option.split go.split prod.split)

lemma handle_unary_contract:
  assumes "\<And>r. as_req (inject r) = Some r" "\<And>v. (\<forall>r. v \<noteq> inject r) \<Longrightarrow> as_req v = None"
  shows "handler_contract name new dec_req inject method outject
    (\<lambda>srv ctx dec interceptor. handle_unary name new (dec_req dec) inject as_req method outject srv ctx interceptor)"
  unfolding handler_contract_def
proof (intro allI conjI impI)
  fix srv ctx dec s q t intercept
  assume dec: "dec_req dec new s = (Return (q, None), t)"
  let ?k = "\<lambda>ctx req. and_then (asserted (as_req req)) (serve_method method outject srv ctx)"
  have "handle_unary name new (dec_req dec) inject as_req method outject srv ctx (Some intercept) s
      = intercept ctx (inject (Some q)) \<lparr>Server = srv, FullMethod = name\<rparr> ?k t"
    by (simp add: handle_unary_def proc_simps dec)
  then show "\<exists>k. handle_unary name new (dec_req dec) inject as_req method outject srv ctx (Some intercept) s
        = intercept ctx (inject (Some q)) \<lparr>Server = srv, FullMethod = name\<rparr> k t
      \<and> (\<forall>c r u. k c (inject r) u = run_method method outject srv c r u)
      \<and> (\<forall>c v u. (\<forall>r. v \<noteq> inject r) \<longrightarrow> k c v u = (Panic type_assertion_failed, u))"
    by (intro exI [of _ ?k]) (simp add: assms asserted_def proc_simps serve_method_run)
qed (simp_all add: handle_unary_def proc_simps serve_method_run)

text \<open>The registered handlers are of that form, and the type assertions recognise exactly their type.\<close>

lemma as_request_other:
  "(\<forall>r. v \<noteq> HandshakeRequest_ptr r) \<Longrightarrow> as_HandshakeRequest v = None"
  "(\<forall>r. v \<noteq> HubStatusRequest_ptr r) \<Longrightarrow> as_HubStatusRequest v = None"
  "(\<forall>r. v \<noteq> GetRequest_ptr r) \<Longrightarrow> as_GetRequest v = None"
  "(\<forall>r. v \<noteq> MutationRequest_ptr r) \<Longrightarrow> as_MutationRequest v = None"
  by (cases v; simp)+

lemma handler_contracts:
  "handler_contract Data_Handshake_FullMethodName new_HandshakeRequest dec_HandshakeRequest HandshakeRequest_ptr
     DataServer.Handshake HandshakeResponse_ptr Data_Handshake_Handler"
  "handler_contract Data_HubStatus_FullMethodName new_HubStatusRequest dec_HubStatusRequest HubStatusRequest_ptr
     DataServer.HubStatus HubStatusResponse_ptr Data_HubStatus_Handler"
  "handler_contract Data_Get_FullMethodName new_GetRequest dec_GetRequest GetRequest_ptr
     DataServer.Get GetResponse_ptr Data_Get_Handler"
  "handler_contract Data_Mutate_FullMethodName new_MutationRequest dec_MutationRequest MutationRequest_ptr
     DataServer.Mutate MutationResponse_ptr Data_Mutate_Handler"
  unfolding Data_Handshake_Handler_def [abs_def] Data_HubStatus_Handler_def [abs_def] Data_Get_Handler_def [abs_def]
    Data_Mutate_Handler_def [abs_def]
  by (rule handle_unary_contract; simp add: as_request_other)+

text \<open>What a handler that returned without an error did: its method ran on the decoded request.\<close>

lemma handler_returned:
  assumes "handler_contract name new dec_req inject method outject handler"
    and "handler (Some srv) ctx dec None s = (Return (resp, None), t)"
  obtains q u p where "dec_req dec new s = (Return (q, None), u)" "method srv ctx (Some q) u = (Return (p, None), t)"
    "resp = outject p"
proof -
  note contract = assms(1) [unfolded handler_contract_def, rule_format]
  obtain d u where d: "dec_req dec new s = (d, u)" by fastforce
  show thesis
  proof (cases d)
    case (Return r)
    obtain q err where r: "r = (q, err)" by fastforce
    show thesis
    proof (cases err)
      case None
      then have "run_method method outject (Some srv) ctx (Some q) u = (Return (resp, None), t)"
        using contract [of dec s] d assms(2) by (simp add: Return r)
      then show thesis
        using that [of q u] d by (auto simp: run_method_def Return r None split: prod.splits go.splits)
    qed (use contract [of dec s] d assms(2) in \<open>simp add: Return r\<close>)
  qed (use contract [of dec s] d assms(2) in simp)
qed

section \<open>Connections\<close>

text \<open>The contents of a message sent through a pointer; nil is encoded like the zero message.\<close>

definition content :: "'m \<Rightarrow> 'm option \<Rightarrow> 'm" where
  "content new p = (case p of None \<Rightarrow> new | Some m \<Rightarrow> m)"

lemma content_simps [simp]: "content new None = new" "content new (Some m) = m"
  by (simp_all add: content_def)

text \<open>\<open>brings dec req\<close>: the decoding function that a handler gets for the request \<open>req\<close> can fail, at any time and for any
  reason, but what it decodes as a message of the type that was sent is what was sent.\<close>

definition brings :: "('s, 'e) decoding \<Rightarrow> any \<Rightarrow> bool" where
  "brings dec req \<longleftrightarrow>
     (\<forall>p s q t. req = HandshakeRequest_ptr p \<longrightarrow> dec_HandshakeRequest dec new_HandshakeRequest s = (Return (q, None), t) \<longrightarrow>
        q = content new_HandshakeRequest p)
   \<and> (\<forall>p s q t. req = HubStatusRequest_ptr p \<longrightarrow> dec_HubStatusRequest dec new_HubStatusRequest s = (Return (q, None), t) \<longrightarrow>
        q = content new_HubStatusRequest p)
   \<and> (\<forall>p s q t. req = GetRequest_ptr p \<longrightarrow> dec_GetRequest dec new_GetRequest s = (Return (q, None), t) \<longrightarrow>
        q = content new_GetRequest p)
   \<and> (\<forall>p s q t. req = MutationRequest_ptr p \<longrightarrow> dec_MutationRequest dec new_MutationRequest s = (Return (q, None), t) \<longrightarrow>
        q = content new_MutationRequest p)"

text \<open>
  What gRPC documents of a unary call that completes with the status OK: the method named in the call ran at the server,
  on the request of the call, and returned without an error; what the caller's message holds then is its response. A call can
  fail, before or after the method ran, with any error; nothing is assumed of a call that fails. The caller's
  state and the server's state are apart, and nothing is assumed of when the method ran.
\<close>

definition honest ::
  "('s, 'c, 'e) DataServer \<Rightarrow> (any \<Rightarrow> 'r option option) \<Rightarrow> 'r
    \<Rightarrow> ('c \<Rightarrow> string \<Rightarrow> any \<Rightarrow> 'r \<Rightarrow> 'o list \<Rightarrow> ('n, 'r \<times> 'e option) proc) \<Rightarrow> bool" where
  "honest srv as_resp new invoke \<longleftrightarrow>
     (\<forall>ctx name req opts n r n'. invoke ctx name req new opts n = (Return (r, None), n') \<longrightarrow>
        (\<exists>m \<in> set (Methods Data_ServiceDesc). full_name m = name
          \<and> (\<exists>ctx' dec s t resp. brings dec req
              \<and> MethodDesc.Handler m (Some srv) ctx' dec None s = (Return (resp, None), t)
              \<and> (\<forall>p. as_resp resp = Some p \<longrightarrow> r = content new p))))"

text \<open>\<open>answered\<close>: a call of the client that succeeds returns what the server's method returned for this request;
  one that fails returns nil beside the error.\<close>

definition answered ::
  "'q \<Rightarrow> 'r \<Rightarrow> ('c \<Rightarrow> 'q option \<Rightarrow> ('s, 'r option \<times> 'e option) proc)
    \<Rightarrow> ('c \<Rightarrow> 'q option \<Rightarrow> 'o list \<Rightarrow> ('n, 'r option \<times> 'e option) proc) \<Rightarrow> bool" where
  "answered newq newr method client \<longleftrightarrow>
     (\<forall>ctx q opts n r n'. client ctx q opts n = (Return (r, None), n') \<longrightarrow>
        (\<exists>ctx' s t p. method ctx' (Some (content newq q)) s = (Return (p, None), t) \<and> r = Some (content newr p)))
   \<and> (\<forall>ctx q opts n r e n'. client ctx q opts n = (Return (r, Some e), n') \<longrightarrow> r = None)"

lemma unary_call_returned:
  "unary_call invoke static ctx name req out opts n = (Return (r, None), n') \<longleftrightarrow>
     (\<exists>x. r = Some x \<and> invoke ctx name req out (static # opts) n = (Return (x, None), n'))"
  "unary_call invoke static ctx name req out opts n = (Return (r, Some e), n') \<Longrightarrow> r = None"
  by (auto simp: unary_call_def proc_simps split: prod.splits go.splits option.splits)

lemma answered_unary:
  assumes honest: "honest srv as_resp newr invoke"
    and contract: "handler_contract name newq dec_req inject method outject handler"
    and unique: "\<And>m. m \<in> set (Methods Data_ServiceDesc) \<Longrightarrow> full_name m = name \<Longrightarrow> MethodDesc.Handler m = handler"
    and brings: "\<And>dec p s q t. brings dec (inject p) \<Longrightarrow> dec_req dec newq s = (Return (q, None), t) \<Longrightarrow> q = content newq p"
    and as_resp: "\<And>p. as_resp (outject p) = Some p"
  shows "answered newq newr (method srv) (\<lambda>ctx req opts. unary_call invoke static ctx name (inject req) newr opts)"
  unfolding answered_def
proof (intro conjI allI impI)
  fix ctx q opts n r n'
  assume "unary_call invoke static ctx name (inject q) newr opts n = (Return (r, None), n')"
  then obtain x where x: "r = Some x" "invoke ctx name (inject q) newr (static # opts) n = (Return (x, None), n')"
    by (auto simp: unary_call_returned(1))
  obtain m ctx' dec s t resp where m: "m \<in> set (Methods Data_ServiceDesc)" "full_name m = name"
    and run: "brings dec (inject q)" "MethodDesc.Handler m (Some srv) ctx' dec None s = (Return (resp, None), t)"
    and resp: "\<And>p. as_resp resp = Some p \<Longrightarrow> x = content newr p"
    using honest [unfolded honest_def, rule_format, OF x(2)] by blast
  obtain q' u p where "dec_req dec newq s = (Return (q', None), u)" "method srv ctx' (Some q') u = (Return (p, None), t)"
    "resp = outject p"
    using handler_returned [OF contract run(2) [unfolded unique [OF m]]] .
  with brings [OF run(1)] resp x(1) as_resp
  show "\<exists>ctx' s t p. method srv ctx' (Some (content newq q)) s = (Return (p, None), t) \<and> r = Some (content newr p)"
    by metis
qed (rule unary_call_returned(2))

text \<open>The methods of the service: each full name belongs to one handler.\<close>

lemma data_methods: "m \<in> set (Methods Data_ServiceDesc) \<longleftrightarrow>
    m \<in> {\<lparr>MethodName = ''Handshake'', Handler = Data_Handshake_Handler\<rparr>,
      \<lparr>MethodName = ''HubStatus'', Handler = Data_HubStatus_Handler\<rparr>,
      \<lparr>MethodName = ''Get'', Handler = Data_Get_Handler\<rparr>,
      \<lparr>MethodName = ''Mutate'', Handler = Data_Mutate_Handler\<rparr>}"
  by (simp add: Data_ServiceDesc_def)

lemmas full_name_defs = Data_Handshake_FullMethodName_def Data_HubStatus_FullMethodName_def
  Data_Get_FullMethodName_def Data_Mutate_FullMethodName_def

lemma data_unique:
  assumes "m \<in> set (Methods Data_ServiceDesc)"
  shows "full_name m = Data_Handshake_FullMethodName \<Longrightarrow> MethodDesc.Handler m = Data_Handshake_Handler"
    and "full_name m = Data_HubStatus_FullMethodName \<Longrightarrow> MethodDesc.Handler m = Data_HubStatus_Handler"
    and "full_name m = Data_Get_FullMethodName \<Longrightarrow> MethodDesc.Handler m = Data_Get_Handler"
    and "full_name m = Data_Mutate_FullMethodName \<Longrightarrow> MethodDesc.Handler m = Data_Mutate_Handler"
  using assms unfolding data_methods by (auto simp: full_name_def Data_ServiceDesc_def full_name_defs)

text \<open>A connection to a server: the law for each of the four types of responses.\<close>

locale data_connection =
  fixes srv :: "('s, 'c, 'e) DataServer" and conn :: "('n, 'c, 'o, 'e) ClientConn"
  assumes honest_Handshake: "honest srv as_HandshakeResponse new_HandshakeResponse (Invoke_Handshake conn)"
    and honest_HubStatus: "honest srv as_HubStatusResponse new_HubStatusResponse (Invoke_HubStatus conn)"
    and honest_Get: "honest srv as_GetResponse new_GetResponse (Invoke_Get conn)"
    and honest_Mutate: "honest srv as_MutationResponse new_MutationResponse (Invoke_Mutate conn)"
begin

lemma call_Handshake:
  "answered new_HandshakeRequest new_HandshakeResponse (DataServer.Handshake srv) (dataClient_Handshake conn static)"
  unfolding dataClient_Handshake_def [abs_def]
  by (rule answered_unary [OF honest_Handshake handler_contracts(1) data_unique(1)]) (auto simp: brings_def)

lemma call_HubStatus:
  "answered new_HubStatusRequest new_HubStatusResponse (DataServer.HubStatus srv) (dataClient_HubStatus conn static)"
  unfolding dataClient_HubStatus_def [abs_def]
  by (rule answered_unary [OF honest_HubStatus handler_contracts(2) data_unique(2)]) (auto simp: brings_def)

lemma call_Get: "answered new_GetRequest new_GetResponse (DataServer.Get srv) (dataClient_Get conn static)"
  unfolding dataClient_Get_def [abs_def]
  by (rule answered_unary [OF honest_Get handler_contracts(3) data_unique(3)]) (auto simp: brings_def)

lemma call_Mutate:
  "answered new_MutationRequest new_MutationResponse (DataServer.Mutate srv) (dataClient_Mutate conn static)"
  unfolding dataClient_Mutate_def [abs_def]
  by (rule answered_unary [OF honest_Mutate handler_contracts(4) data_unique(4)]) (auto simp: brings_def)

end

section \<open>An unreliable connection\<close>

text \<open>A connection with that law that can fail: \<open>expired\<close> contexts do not reach the server, and the network
  carries only so many more messages, the second component of the state, so that a response can be
  lost after its method has run. Otherwise it looks the method up in the service description and runs
  its handler on the request.\<close>

definition received :: "(any \<Rightarrow> 'q option option) \<Rightarrow> 'e \<Rightarrow> any \<Rightarrow> 'q \<Rightarrow> ('s, 'q \<times> 'e option) proc" where
  "received as_req bad req new = (case as_req req of Some p \<Rightarrow> ret (content new p, None) | None \<Rightarrow> ret (new, Some bad))"

definition frame_of :: "'e \<Rightarrow> any \<Rightarrow> ('s, 'e) decoding" where
  "frame_of bad req =
     \<lparr>dec_HandshakeRequest = received as_HandshakeRequest bad req,
      dec_HubStatusRequest = received as_HubStatusRequest bad req,
      dec_GetRequest = received as_GetRequest bad req,
      dec_MutationRequest = received as_MutationRequest bad req\<rparr>"

fun lossy_invoke ::
  "'e \<Rightarrow> ('c \<Rightarrow> bool) \<Rightarrow> ('s, 'c, 'e) DataServer \<Rightarrow> (any \<Rightarrow> 'r option option) \<Rightarrow> 'c \<Rightarrow> string \<Rightarrow> any \<Rightarrow> 'r \<Rightarrow> 'o list
    \<Rightarrow> ('s \<times> nat, 'r \<times> 'e option) proc" where
  "lossy_invoke lost expired srv as_resp ctx name req out opts (s, budget) =
     (if expired ctx \<or> budget = 0 then (Return (out, Some lost), (s, 0))
      else case find (\<lambda>m. full_name m = name) (Methods Data_ServiceDesc) of
        None \<Rightarrow> (Return (out, Some lost), (s, budget - 1))
      | Some m \<Rightarrow> (case MethodDesc.Handler m (Some srv) ctx (frame_of lost req) None s of
            (Panic _, t) \<Rightarrow> (Return (out, Some lost), (t, budget - 1))
          | (Return (resp, Some e), t) \<Rightarrow> (Return (out, Some e), (t, budget - 1))
          | (Return (resp, None), t) \<Rightarrow>
              (case as_resp resp of
                 Some p \<Rightarrow> if budget = 1 then (Return (out, Some lost), (t, 0))
                   else (Return (content out p, None), (t, budget - 2))
               | None \<Rightarrow> (Return (out, Some lost), (t, budget - 1)))))"

definition lossy :: "'e \<Rightarrow> ('c \<Rightarrow> bool) \<Rightarrow> ('s, 'c, 'e) DataServer \<Rightarrow> ('s \<times> nat, 'c, 'o, 'e) ClientConn" where
  "lossy lost expired srv =
     \<lparr>Invoke_Handshake = lossy_invoke lost expired srv as_HandshakeResponse,
      Invoke_HubStatus = lossy_invoke lost expired srv as_HubStatusResponse,
      Invoke_Get = lossy_invoke lost expired srv as_GetResponse,
      Invoke_Mutate = lossy_invoke lost expired srv as_MutationResponse\<rparr>"

lemma brings_frame: "brings (frame_of bad req) req"
  by (simp add: brings_def frame_of_def received_def proc_simps)

lemma lossy_returned:
  assumes "lossy_invoke lost expired srv as_resp ctx name req out opts n = (Return (r, None), n')"
  shows "\<exists>m s resp t p. find (\<lambda>m. full_name m = name) (Methods Data_ServiceDesc) = Some m
    \<and> MethodDesc.Handler m (Some srv) ctx (frame_of lost req) None s = (Return (resp, None), t)
    \<and> as_resp resp = Some p \<and> r = content out p"
  using assms by (cases n) (auto split: if_splits option.splits prod.splits go.splits)

lemma lossy_honest: "honest srv as_resp new (lossy_invoke lost expired srv as_resp)"
  unfolding honest_def
proof (intro allI impI)
  fix ctx name req opts n r n'
  assume "lossy_invoke lost expired srv as_resp ctx name req new opts n = (Return (r, None), n')"
  from lossy_returned [OF this] obtain m s resp t p where
    m: "find (\<lambda>m. full_name m = name) (Methods Data_ServiceDesc) = Some m"
    and run: "MethodDesc.Handler m (Some srv) ctx (frame_of lost req) None s = (Return (resp, None), t)"
      "as_resp resp = Some p" "r = content new p"
    by blast
  have "m \<in> set (Methods Data_ServiceDesc)" "full_name m = name"
    using m by (auto simp: find_Some_iff)
  with run brings_frame [of lost req]
  show "\<exists>m \<in> set (Methods Data_ServiceDesc). full_name m = name
      \<and> (\<exists>ctx' dec s t resp. brings dec req
          \<and> MethodDesc.Handler m (Some srv) ctx' dec None s = (Return (resp, None), t)
          \<and> (\<forall>p. as_resp resp = Some p \<longrightarrow> r = content new p))"
    by (metis option.inject)
qed

interpretation lossy: data_connection srv "lossy lost expired srv" for srv lost expired
  by unfold_locales (simp_all add: lossy_def lossy_honest)

section \<open>Correctness\<close>


text \<open>A server that counts its mutations.\<close>

definition counting_server :: "(nat, unit, string) DataServer" where
  "counting_server = (UnimplementedDataServer (\<lambda>msg. msg))
     \<lparr>Mutate := \<lambda>ctx req n. (Return (Some (new_MutationResponse\<lparr>pb_MutationResponse.HubGeneration := 7\<rparr>), None), Suc n)\<rparr>"

definition counting_call :: "(nat \<times> nat, pb_MutationResponse option \<times> string option) proc" where
  "counting_call = dataClient_Mutate (lossy ''lost'' (\<lambda>_. False) counting_server) (0 :: nat) () None []"

lemma counting_call_runs:
  "counting_call (5, 9) = (Return (Some (new_MutationResponse\<lparr>pb_MutationResponse.HubGeneration := 7\<rparr>), None), (6, 7))"
  "counting_call (5, 1) = (Return (None, Some ''lost''), (6, 0))"
  by (simp_all add: counting_call_def dataClient_Mutate_def unary_call_def lossy_def Data_ServiceDesc_def full_name_def
      full_name_defs Data_Mutate_Handler_def handle_unary_def frame_of_def received_def serve_method_def asserted_def
      counting_server_def proc_simps)


text \<open>C30. The handlers of the data service: the description registers four methods, and each handler, for every
  server, context, decoding function and interceptor, does this. An error of the decoding function is
  returned, with nil, before server or interceptor is reached. Without an interceptor the server's
  method of that name then runs once, on the decoded request. An interceptor gets the decoded
  request, the server and the method's full name; its continuation runs that method on any request
  of the method's type, and panics on every other value. Without a server the call panics where the method would run.\<close>

theorem data_handler_errors:
  "map full_name (Methods Data_ServiceDesc)
     = [Data_Handshake_FullMethodName, Data_HubStatus_FullMethodName, Data_Get_FullMethodName, Data_Mutate_FullMethodName]
   \<and> distinct (map full_name (Methods Data_ServiceDesc))
   \<and> handler_contract Data_Handshake_FullMethodName new_HandshakeRequest dec_HandshakeRequest HandshakeRequest_ptr
       DataServer.Handshake HandshakeResponse_ptr (MethodDesc.Handler (Methods Data_ServiceDesc ! 0))
   \<and> handler_contract Data_HubStatus_FullMethodName new_HubStatusRequest dec_HubStatusRequest HubStatusRequest_ptr
       DataServer.HubStatus HubStatusResponse_ptr (MethodDesc.Handler (Methods Data_ServiceDesc ! 1))
   \<and> handler_contract Data_Get_FullMethodName new_GetRequest dec_GetRequest GetRequest_ptr
       DataServer.Get GetResponse_ptr (MethodDesc.Handler (Methods Data_ServiceDesc ! 2))
   \<and> handler_contract Data_Mutate_FullMethodName new_MutationRequest dec_MutationRequest MutationRequest_ptr
       DataServer.Mutate MutationResponse_ptr (MethodDesc.Handler (Methods Data_ServiceDesc ! 3))"
  using handler_contracts by (simp add: Data_ServiceDesc_def full_name_def full_name_defs)

text \<open>The control stream: the client opens the stream that the service description declares, under its full
  name and in both directions, and the handler runs the server's \<^verbatim>\<open>Connect\<close> on the stream it is given.\<close>

lemma control_connect:
  "Control_Connect_FullMethodName = ''/'' @ ServiceName Control_ServiceDesc @ ''/'' @ StreamName (Streams Control_ServiceDesc ! 0)"
  "ClientStreams (Streams Control_ServiceDesc ! 0) \<and> ServerStreams (Streams Control_ServiceDesc ! 0)"
  "StreamDesc.Handler (Streams Control_ServiceDesc ! 0) (Some server) stream = Connect server \<lparr>ServerStream = stream\<rparr>"
  by (simp_all add: Control_Connect_FullMethodName_def Control_ServiceDesc_def Control_Connect_Handler_def asserted_def
      proc_simps fun_eq_iff)

end
