(* ===== verification/Pb_Schema.thy ===== *)
theory Pb_Schema
  imports Rpc_Convert
begin

text \<open>
  The enumeration tables of \<^verbatim>\<open>common.pb.go\<close> and \<^verbatim>\<open>data.pb.go\<close>, which hold what the schema declares, against the
  hand-written decoders of the data plane: a decoder knows every member its schema declares and
  nothing else, so a member added to the schema alone shows up here.
\<close>

section \<open>Enum value maps\<close>

definition Status_name :: "pb_Status \<rightharpoonup> string" where
  "Status_name = map_of
    [(0, ''STATUS_OK''),
     (1, ''STATUS_NOT_FOUND''),
     (2, ''STATUS_NOT_CAUGHT_UP''),
     (3, ''STATUS_ERR_DURABILITY_UNAVAILABLE''),
     (4, ''STATUS_ERR_BAD_GENERATION''),
     (5, ''STATUS_ERR_RATE_LIMITED''),
     (6, ''STATUS_ERR_INVALID_ARGUMENT''),
     (7, ''STATUS_ERR_WRITE_CONFIRM_TIMEOUT''),
     (8, ''STATUS_ERR_INTERNAL'')]"

definition Status_value :: "string \<rightharpoonup> pb_Status" where
  "Status_value = map_of
    [(''STATUS_OK'', 0),
     (''STATUS_NOT_FOUND'', 1),
     (''STATUS_NOT_CAUGHT_UP'', 2),
     (''STATUS_ERR_DURABILITY_UNAVAILABLE'', 3),
     (''STATUS_ERR_BAD_GENERATION'', 4),
     (''STATUS_ERR_RATE_LIMITED'', 5),
     (''STATUS_ERR_INVALID_ARGUMENT'', 6),
     (''STATUS_ERR_WRITE_CONFIRM_TIMEOUT'', 7),
     (''STATUS_ERR_INTERNAL'', 8)]"

definition RecordKind_name :: "pb_RecordKind \<rightharpoonup> string" where
  "RecordKind_name = map_of
    [(0, ''RECORD_KIND_VALUE''),
     (1, ''RECORD_KIND_TOMBSTONE'')]"

definition RecordKind_value :: "string \<rightharpoonup> pb_RecordKind" where
  "RecordKind_value = map_of
    [(''RECORD_KIND_VALUE'', 0),
     (''RECORD_KIND_TOMBSTONE'', 1)]"

definition WriteMode_name :: "pb_WriteMode \<rightharpoonup> string" where
  "WriteMode_name = map_of
    [(0, ''WRITE_MODE_FAST''),
     (1, ''WRITE_MODE_SYNC'')]"

definition WriteMode_value :: "string \<rightharpoonup> pb_WriteMode" where
  "WriteMode_value = map_of
    [(''WRITE_MODE_FAST'', 0),
     (''WRITE_MODE_SYNC'', 1)]"

definition StorageProfile_name :: "pb_StorageProfile \<rightharpoonup> string" where
  "StorageProfile_name = map_of
    [(0, ''STORAGE_PROFILE_MEMORY''),
     (1, ''STORAGE_PROFILE_DURABLE'')]"

definition StorageProfile_value :: "string \<rightharpoonup> pb_StorageProfile" where
  "StorageProfile_value = map_of
    [(''STORAGE_PROFILE_MEMORY'', 0),
     (''STORAGE_PROFILE_DURABLE'', 1)]"

definition ConfirmLevel_name :: "pb_ConfirmLevel \<rightharpoonup> string" where
  "ConfirmLevel_name = map_of
    [(0, ''CONFIRM_LEVEL_INVALIDATE_APPLIED'')]"

definition ConfirmLevel_value :: "string \<rightharpoonup> pb_ConfirmLevel" where
  "ConfirmLevel_value = map_of
    [(''CONFIRM_LEVEL_INVALIDATE_APPLIED'', 0)]"

definition MutationOp_name :: "pb_MutationOp \<rightharpoonup> string" where
  "MutationOp_name = map_of
    [(0, ''MUTATION_OP_UNSPECIFIED''),
     (1, ''MUTATION_OP_SET''),
     (2, ''MUTATION_OP_DELETE'')]"

definition MutationOp_value :: "string \<rightharpoonup> pb_MutationOp" where
  "MutationOp_value = map_of
    [(''MUTATION_OP_UNSPECIFIED'', 0),
     (''MUTATION_OP_SET'', 1),
     (''MUTATION_OP_DELETE'', 2)]"

named_theorems schema_defs

declare Status_name_def [schema_defs] Status_value_def [schema_defs] RecordKind_name_def [schema_defs] RecordKind_value_def [schema_defs] WriteMode_name_def [schema_defs] WriteMode_value_def [schema_defs] StorageProfile_name_def [schema_defs] StorageProfile_value_def [schema_defs] ConfirmLevel_name_def [schema_defs] ConfirmLevel_value_def [schema_defs] MutationOp_name_def [schema_defs] MutationOp_value_def [schema_defs]

lemma names_inverse:
  "Status_name n = Some x \<longleftrightarrow> Status_value x = Some n"
  "RecordKind_name n = Some x \<longleftrightarrow> RecordKind_value x = Some n"
  "WriteMode_name n = Some x \<longleftrightarrow> WriteMode_value x = Some n"
  "StorageProfile_name n = Some x \<longleftrightarrow> StorageProfile_value x = Some n"
  "ConfirmLevel_name n = Some x \<longleftrightarrow> ConfirmLevel_value x = Some n"
  "MutationOp_name n = Some x \<longleftrightarrow> MutationOp_value x = Some n"
  by (auto simp: schema_defs split: if_splits)

lemma decoded_members:
  "snd (FromProtoStatus n) = None \<longleftrightarrow> Status_name n \<noteq> None"
  "snd (FromProtoRecordKind n) = None \<longleftrightarrow> RecordKind_name n \<noteq> None"
  "snd (FromProtoWriteMode n) = None \<longleftrightarrow> WriteMode_name n \<noteq> None"
  "snd (FromProtoStorageProfile n) = None \<longleftrightarrow> StorageProfile_name n \<noteq> None"
  "snd (FromProtoConfirmLevel n) = None \<longleftrightarrow> ConfirmLevel_name n \<noteq> None"
  "snd (FromProtoMutationOp n) = None \<longleftrightarrow> MutationOp_name n \<noteq> None \<and> n \<noteq> MutationOp_MUTATION_OP_UNSPECIFIED"
  by (auto simp: schema_defs FromProtoStatus_def FromProtoRecordKind_def FromProtoWriteMode_def FromProtoStorageProfile_def FromProtoConfirmLevel_def FromProtoMutationOp_def split: if_splits)

section \<open>Correctness\<close>

text \<open>C26. The generated tables of every enumeration are inverse to each other, and each decoder of the data
  plane accepts exactly the numbers its table names, the unspecified mutation operation excepted;
  so it knows all members of the schema and truncates no other number into one.\<close>

theorem enums_follow_schema:
  "(Status_name n = Some x \<longleftrightarrow> Status_value x = Some n)
   \<and> (RecordKind_name n = Some x \<longleftrightarrow> RecordKind_value x = Some n)
   \<and> (WriteMode_name n = Some x \<longleftrightarrow> WriteMode_value x = Some n)
   \<and> (StorageProfile_name n = Some x \<longleftrightarrow> StorageProfile_value x = Some n)
   \<and> (ConfirmLevel_name n = Some x \<longleftrightarrow> ConfirmLevel_value x = Some n)
   \<and> (MutationOp_name n = Some x \<longleftrightarrow> MutationOp_value x = Some n)
   \<and> (snd (FromProtoStatus n) = None \<longleftrightarrow> Status_name n \<noteq> None)
   \<and> (snd (FromProtoRecordKind n) = None \<longleftrightarrow> RecordKind_name n \<noteq> None)
   \<and> (snd (FromProtoWriteMode n) = None \<longleftrightarrow> WriteMode_name n \<noteq> None)
   \<and> (snd (FromProtoStorageProfile n) = None \<longleftrightarrow> StorageProfile_name n \<noteq> None)
   \<and> (snd (FromProtoConfirmLevel n) = None \<longleftrightarrow> ConfirmLevel_name n \<noteq> None)
   \<and> (snd (FromProtoMutationOp n) = None \<longleftrightarrow> MutationOp_name n \<noteq> None \<and> n \<noteq> MutationOp_MUTATION_OP_UNSPECIFIED)"
  by (intro conjI names_inverse decoded_members)
end
