(* ===== verification/Partition_Balance.thy ===== *)
theory Partition_Balance
  imports Wire_Partition
begin

text \<open>
  How evenly \<^verbatim>\<open>PartitionOf\<close> spreads keys. The hash of \<^verbatim>\<open>wire/partition.go\<close> is a bijection in every aligned word
  behind the last whole stripe (\<open>Wire_Partition\<close> shows it injective); counting the residues of its values gives the
  share of each partition.
\<close>

section \<open>Counting\<close>

text \<open>The 8-byte words, and the numbers below a bound with a given remainder.\<close>

lemma card_bytes8: "finite {u :: bytes. length u = 8}" "card {u :: bytes. length u = 8} = 2 ^ 64"
proof -
  have eq: "{u :: bytes. length u = 8} = {u. set u \<subseteq> UNIV \<and> length u = 8}" by simp
  show "finite {u :: bytes. length u = 8}" unfolding eq by (rule finite_lists_length_eq) simp
  show "card {u :: bytes. length u = 8} = 2 ^ 64"
    unfolding eq by (subst card_lists_length_eq) (simp_all add: card_word)
qed

lemma residue_less:
  fixes n p q r k :: nat
  assumes "p < n" "r < n"
  shows "k * n + p < q * n + r \<longleftrightarrow> k < (if p < r then q + 1 else q)"
proof -
  consider "k < q" | "k = q" | "q < k" by linarith
  then show ?thesis
  proof cases
    case 1
    then have "Suc k * n \<le> q * n" by (intro mult_le_mono1) simp
    then have "k * n + p < q * n + r" using assms(1) by simp
    then show ?thesis using 1 by simp
  next
    case 3
    then have "Suc q * n \<le> k * n" by (intro mult_le_mono1) simp
    then have "\<not> k * n + p < q * n + r" using assms(2) by simp
    then show ?thesis using 3 by simp
  qed simp
qed

lemma card_residue:
  fixes n p m :: nat
  assumes "p < n"
  shows "card {x. x < m \<and> x mod n = p} \<in> {m div n, m div n + 1}"
proof -
  obtain q r where m: "m = q * n + r" "r < n" "q = m div n"
    using assms div_mult_mod_eq [of m n] by (metis mod_less_divisor less_nat_zero_code neq0_conv)
  let ?k = "if p < r then q + 1 else q"
  have "{x. x < m \<and> x mod n = p} = (\<lambda>k. k * n + p) ` {..<?k}"
  proof (intro set_eqI iffI)
    fix x assume "x \<in> {x. x < m \<and> x mod n = p}"
    then have x: "x = x div n * n + p" "x < q * n + r" using div_mult_mod_eq [of x n] m(1) by simp_all
    then have "x div n < ?k" using residue_less [OF assms m(2), of "x div n" q] by metis
    then show "x \<in> (\<lambda>k. k * n + p) ` {..<?k}" using x(1) by (metis image_eqI lessThan_iff)
  next
    fix x assume "x \<in> (\<lambda>k. k * n + p) ` {..<?k}"
    then obtain k where k: "k < ?k" "x = k * n + p" by auto
    then have "x < q * n + r" using residue_less [OF assms m(2), of k q] by blast
    then show "x \<in> {x. x < m \<and> x mod n = p}" using k(2) m(1) assms by simp
  qed
  moreover have "inj_on (\<lambda>k. k * n + p) {..<?k}" using assms by (intro inj_onI) simp
  ultimately have "card {x. x < m \<and> x mod n = p} = ?k" by (simp add: card_image)
  then show ?thesis using m(3) by simp
qed

lemma card_filter_bij:
  assumes "bij_betw h A B"
  shows "card {u \<in> A. P (h u)} = card {x \<in> B. P x}"
proof (rule bij_betw_same_card)
  show "bij_betw h {u \<in> A. P (h u)} {x \<in> B. P x}"
    using assms by (rule bij_betw_subset) (use bij_betw_imp_surj_on [OF assms] in auto)
qed

text \<open>Varying one word of a key, every hash is reached exactly once.\<close>

lemma xxHash64_word_bij:
  assumes "8 dvd length pre" "32 * ((length pre + 8 + length post) div 32) \<le> length pre"
  shows "bij_betw (\<lambda>u. unat (xxHash64 (pre @ u @ post) seed)) {u. length u = 8} {..<2 ^ 64}"
proof -
  let ?h = "\<lambda>u. unat (xxHash64 (pre @ u @ post) seed)"
  have inj: "inj_on ?h {u. length u = 8}"
    using xxHash64_word_inj [OF _ _ assms] by (intro inj_onI) (simp only: mem_Collect_eq word_unat_eq_iff [symmetric])
  have "?h ` {u. length u = 8} \<subseteq> {..<2 ^ 64}"
    using unsigned_less [where 'b = 64 and 'a = nat] by auto
  moreover have "card (?h ` {u. length u = 8}) = 2 ^ 64" by (simp add: card_image [OF inj] card_bytes8)
  ultimately have "?h ` {u. length u = 8} = {..<2 ^ 64}" by (intro card_subset_eq) simp_all
  with inj show ?thesis by (simp add: bij_betw_def)
qed

section \<open>Correctness\<close>

text \<open>C4. Routing is balanced: fix everything of a key but one aligned 8-byte word behind the last whole
  stripe, a counter or an identifier inside the key, say. Over all values of that word every
  partition gets the same number of keys up to one, however the fixed part was chosen. For keys of
  exactly 8 bytes this is the whole key space.\<close>

theorem partition_balanced:
  assumes "8 dvd length pre" "32 * ((length pre + 8 + length post) div 32) \<le> length pre"
    and "p < n"
  shows "card {u. length u = 8 \<and> PartitionOf (pre @ u @ post) n = Return p}
    \<in> {2 ^ 64 div unat n, 2 ^ 64 div unat n + 1}"
proof -
  let ?h = "\<lambda>u. unat (xxHash64 (pre @ u @ post) partitionSeed)"
  note bij = xxHash64_word_bij [OF assms(1,2), of partitionSeed]
  have n: "n \<noteq> 0" "unat p < unat n" using assms(3) by (auto simp: word_less_nat_alt)
  have "{u. length u = 8 \<and> PartitionOf (pre @ u @ post) n = Return p}
      = {u \<in> {u. length u = 8}. ?h u mod unat n = unat p}"
    by (simp only: unat_PartitionOf [OF n(1)] mem_Collect_eq eq_commute [of "unat p"])
  also have "card \<dots> = card {x \<in> {..<2 ^ 64}. x mod unat n = unat p}"
    by (rule card_filter_bij [OF bij])
  also have "{x \<in> {..<2 ^ 64}. x mod unat n = unat p} = {x. x < 2 ^ 64 \<and> x mod unat n = unat p}"
    by (simp only: lessThan_iff)
  also have "card \<dots> \<in> {2 ^ 64 div unat n, 2 ^ 64 div unat n + 1}"
    by (rule card_residue [OF n(2)])
  finally show ?thesis .
qed

theorem partition_balanced_witness:
  "card {u :: bytes. length u = 8 \<and> PartitionOf u 256 = Return 17} \<in> {2 ^ 56, 2 ^ 56 + 1}"
  using partition_balanced [of "[]" "[]" 17 256] by simp

end
