(* ===== verification/Transmission.thy ===== *)
theory Transmission
  imports Control_Convert Rpc_Convert
begin

text \<open>
  What becomes of a value that is encoded by \<^verbatim>\<open>control/convert.go\<close> or \<^verbatim>\<open>rpc/convert.go\<close> on one side and decoded on the
  other. The encoders do not validate, so a sender can encode anything its types allow; the exactness of
  the decoders alone does not say that such a message is refused, since two values could share an encoding.
\<close>

definition arrives_or_refused :: "('d \<Rightarrow> bool) \<Rightarrow> ('d \<Rightarrow> 'p) \<Rightarrow> ('p option \<Rightarrow> 'd result) \<Rightarrow> bool" where
  "arrives_or_refused decodable to_pb from_pb \<longleftrightarrow>
     (\<forall>d. if decodable d then from_pb (Some (to_pb d)) = (d, None) else snd (from_pb (Some (to_pb d))) \<noteq> None)"

text \<open>A message type whose encoder keeps everything its decoder looks at.\<close>

locale transmission = decoder decodable to_pb from_pb
  for decodable :: "'d \<Rightarrow> bool" and to_pb :: "'d \<Rightarrow> 'p" and from_pb :: "'p option \<Rightarrow> 'd result" +
  assumes same_value: "from_pb (Some (to_pb d)) = (d', None) \<Longrightarrow> d = d'"
begin

lemma arrives: "arrives_or_refused decodable to_pb from_pb"
  unfolding arrives_or_refused_def
proof (intro allI)
  fix d
  show "if decodable d then from_pb (Some (to_pb d)) = (d, None) else snd (from_pb (Some (to_pb d))) \<noteq> None"
  proof (cases "decodable d")
    case False
    obtain d' e where r: "from_pb (Some (to_pb d)) = (d', e)" by fastforce
    have "e \<noteq> None"
    proof
      assume "e = None"
      with r have "decodable d'" "d = d'" by (auto intro: from_decodable same_value)
      with False show False by simp
    qed
    with r False show ?thesis by simp
  qed (simp add: from_to)
qed

end

section \<open>The control stream\<close>

text \<open>The encoders are injective: a payload is determined by its message.\<close>

lemma ProtoHello_inj: "ProtoHello a = ProtoHello b \<longleftrightarrow> a = b"
proof
  assume eq: "ProtoHello a = ProtoHello b"
  have "inj (\<lambda>w. Some (ProtoStreamWatermark w))"
  proof (rule injI)
    show "v = w" if "Some (ProtoStreamWatermark v) = Some (ProtoStreamWatermark w)" for v w
      using that by (cases v; cases w) (simp add: ProtoStreamWatermark_def)
  qed
  with eq show "a = b"
    by (cases a; cases b; cases "Hello.Protocol a"; cases "Hello.Protocol b")
      (auto simp: ProtoHello_def fold_snoc_map ucast_up_inj dest: map_injective)
qed simp

lemma ProtoInvalidationBatch_inj: "ProtoInvalidationBatch a = ProtoInvalidationBatch b \<longleftrightarrow> a = b"
proof
  assume eq: "ProtoInvalidationBatch a = ProtoInvalidationBatch b"
  have "inj (\<lambda>e. Some (ProtoInvalidationEvent e))"
  proof (rule injI)
    show "d = e" if "Some (ProtoInvalidationEvent d) = Some (ProtoInvalidationEvent e)" for d e
      using that by (cases d; cases e; cases "InvalidationEvent.Version d"; cases "InvalidationEvent.Version e")
        (simp add: ProtoInvalidationEvent_def ucast_up_inj id_bytes_inject)
  qed
  with eq show "a = b"
    by (cases a; cases b) (auto simp: ProtoInvalidationBatch_def fold_snoc_map dest: map_injective)
qed simp

lemma proto_injs:
  "ProtoSubscribe a1 = ProtoSubscribe b1 \<longleftrightarrow> a1 = b1"
  "ProtoStreamAcknowledgement a2 = ProtoStreamAcknowledgement b2 \<longleftrightarrow> a2 = b2"
  "ProtoReplayRequest a3 = ProtoReplayRequest b3 \<longleftrightarrow> a3 = b3"
  "ProtoInvalidateConfirm a4 = ProtoInvalidateConfirm b4 \<longleftrightarrow> a4 = b4"
  "ProtoStreamCheckpoint a5 = ProtoStreamCheckpoint b5 \<longleftrightarrow> a5 = b5"
  "ProtoReplayUnavailable a6 = ProtoReplayUnavailable b6 \<longleftrightarrow> a6 = b6"
  "ProtoControlError a7 = ProtoControlError b7 \<longleftrightarrow> a7 = b7"
  by (auto simp: convert_defs ucast_up_inj intro: Subscribe.equality StreamAcknowledgement.equality
      ReplayRequest.equality InvalidateConfirm.equality StreamCheckpoint.equality ReplayUnavailable.equality
      ControlError.equality)

interpretation hello_transmission: transmission valid_Hello ProtoHello FromProtoHello
  by unfold_locales (auto simp: hello_codec.accept_iff ProtoHello_inj)

interpretation subscribe_transmission: transmission valid_Subscribe ProtoSubscribe FromProtoSubscribe
  by unfold_locales (auto simp: subscribe_codec.accept_iff proto_injs)

interpretation ack_transmission: transmission valid_ack ProtoStreamAcknowledgement FromProtoStreamAcknowledgement
  by unfold_locales (auto simp: ack_codec.accept_iff proto_injs)

interpretation replay_transmission: transmission valid_ReplayRequest ProtoReplayRequest FromProtoReplayRequest
  by unfold_locales (auto simp: replay_codec.accept_iff proto_injs)

interpretation confirm_transmission: transmission valid_confirm ProtoInvalidateConfirm FromProtoInvalidateConfirm
  by unfold_locales (auto simp: confirm_codec.accept_iff proto_injs)

interpretation batch_transmission: transmission valid_batch ProtoInvalidationBatch FromProtoInvalidationBatch
  by unfold_locales (auto simp: batch_codec.accept_iff ProtoInvalidationBatch_inj)

interpretation checkpoint_transmission: transmission valid_checkpoint ProtoStreamCheckpoint FromProtoStreamCheckpoint
  by unfold_locales (auto simp: checkpoint_codec.accept_iff proto_injs)

interpretation unavailable_transmission: transmission valid_ReplayUnavailable ProtoReplayUnavailable FromProtoReplayUnavailable
  by unfold_locales (auto simp: unavailable_codec.accept_iff proto_injs)

interpretation control_error_transmission: transmission valid_ControlError ProtoControlError FromProtoControlError
  by unfold_locales (auto simp: control_error_codec.accept_iff proto_injs)

text \<open>
  An envelope: how bodies are wrapped, unwrapped and recognised. \<open>payload b\<close> is \<^const>\<open>None\<close> for a value that is
  no payload of this direction, else the verdict of its validation; \<open>deref\<close> follows a pointer.
\<close>

definition envelope_arrives ::
  "('b \<Rightarrow> 'm option result) \<Rightarrow> ('m option \<Rightarrow> 'b result) \<Rightarrow> ('b \<Rightarrow> error option option) \<Rightarrow> ('b \<Rightarrow> 'b) \<Rightarrow> bool" where
  "envelope_arrives wrap_msg unwrap_msg payload deref \<longleftrightarrow>
     (\<forall>b m. wrap_msg b = (m, None) \<longrightarrow>
        (if payload (deref b) = Some None then unwrap_msg m = (deref b, None) else snd (unwrap_msg m) \<noteq> None))"

locale envelope =
  fixes wrap_msg :: "'b \<Rightarrow> 'm option result" and unwrap_msg :: "'m option \<Rightarrow> 'b result"
    and payload :: "'b \<Rightarrow> error option option" and deref :: "'b \<Rightarrow> 'b"
  assumes wrap_payload: "wrap_msg b = (m, None) \<Longrightarrow> payload (deref b) \<noteq> None \<and> wrap_msg (deref b) = (m, None)"
    and unwrap_exact: "unwrap_msg m = (b, None) \<longleftrightarrow> payload b = Some None \<and> wrap_msg b = (m, None)"
    and wrap_inj: "wrap_msg b = wrap_msg b' \<Longrightarrow> payload b \<noteq> None \<Longrightarrow> payload b' = Some None \<Longrightarrow> b = b'"
begin

lemma unwrap_wrapped: "envelope_arrives wrap_msg unwrap_msg payload deref"
  unfolding envelope_arrives_def
proof (intro allI impI)
  fix b m
  assume b: "wrap_msg b = (m, None)"
  show "if payload (deref b) = Some None then unwrap_msg m = (deref b, None) else snd (unwrap_msg m) \<noteq> None"
  proof (cases "payload (deref b) = Some None")
    case False
    obtain x e where r: "unwrap_msg m = (x, e)" by fastforce
    have "e \<noteq> None"
    proof
      assume "e = None"
      with r have x: "payload x = Some None" "wrap_msg x = (m, None)" by (simp_all add: unwrap_exact)
      then have "deref b = x" using wrap_payload [OF b] wrap_inj [of "deref b" x] by simp
      with x False show False by simp
    qed
    with r False show ?thesis by simp
  qed (use wrap_payload [OF b] in \<open>simp add: unwrap_exact\<close>)
qed

end

interpretation client_envelope: envelope ProtoClientMessage FromProtoClientMessage client_body control_deref
proof unfold_locales
  show "client_body (control_deref b) \<noteq> None \<and> ProtoClientMessage (control_deref b) = (m, None)"
    if "ProtoClientMessage b = (m, None)" for b m
    using that by (cases b) (auto simp: ProtoClientMessage_def split: option.splits)
  show "FromProtoClientMessage m = (b, None) \<longleftrightarrow> client_body b = Some None \<and> ProtoClientMessage b = (m, None)" for m b
    by (rule client_envelope_all)
  show "b = b'" if "ProtoClientMessage b = ProtoClientMessage b'" "client_body b \<noteq> None" "client_body b' = Some None" for b b'
    using that by (cases b; cases b') (simp_all add: ProtoClientMessage_def ProtoHello_inj proto_injs)
qed

interpretation server_envelope: envelope ProtoServerMessage FromProtoServerMessage server_body control_deref
proof unfold_locales
  show "server_body (control_deref b) \<noteq> None \<and> ProtoServerMessage (control_deref b) = (m, None)"
    if "ProtoServerMessage b = (m, None)" for b m
    using that by (cases b) (auto simp: ProtoServerMessage_def split: option.splits)
  show "FromProtoServerMessage m = (b, None) \<longleftrightarrow> server_body b = Some None \<and> ProtoServerMessage b = (m, None)" for m b
    by (rule server_envelope_all)
  show "b = b'" if "ProtoServerMessage b = ProtoServerMessage b'" "server_body b \<noteq> None" "server_body b' = Some None" for b b'
    using that by (cases b; cases b') (simp_all add: ProtoServerMessage_def ProtoInvalidationBatch_inj proto_injs)
qed

section \<open>The data plane\<close>

interpretation handshake_request_transmission: transmission valid_HandshakeRequest ProtoHandshakeRequest FromProtoHandshakeRequest
proof unfold_locales
  have "d = d'" if "ProtoHandshakeRequest d = ProtoHandshakeRequest d'" for d d'
    using that by (cases d; cases d'; cases "HandshakeRequest.Protocol d"; cases "HandshakeRequest.Protocol d'")
      (simp add: ProtoHandshakeRequest_def ucast_up_inj)
  then show "d = d'" if "FromProtoHandshakeRequest (Some (ProtoHandshakeRequest d)) = (d', None)" for d d'
    using that by (auto simp: handshake_request_codec.accept_iff)
qed

interpretation handshake_transmission: transmission valid_Handshake ProtoHandshake FromProtoHandshake
proof unfold_locales
  have "d = d'" if "ProtoHandshake d = ProtoHandshake d'" for d d'
    using that by (cases d; cases d') (simp add: ProtoHandshake_def ProtoStorageProfile_def ucast_up_inj)
  then show "d = d'" if "FromProtoHandshake (Some (ProtoHandshake d)) = (d', None)" for d d'
    using that by (auto simp: handshake_codec.accept_iff)
qed

interpretation status_request_transmission: transmission valid_HubStatusRequest ProtoHubStatusRequest FromProtoHubStatusRequest
proof unfold_locales
  have "d = d'" if "ProtoHubStatusRequest d = ProtoHubStatusRequest d'" for d d'
    using that by (cases d; cases d') (simp add: ProtoHubStatusRequest_def)
  then show "d = d'" if "FromProtoHubStatusRequest (Some (ProtoHubStatusRequest d)) = (d', None)" for d d'
    using that by (auto simp: status_request_codec.accept_iff)
qed

interpretation get_request_transmission: transmission valid_rpc_GetRequest ProtoGetRequest FromProtoGetRequest
proof unfold_locales
  have "v = v'" if "ProtoVersionTag v = ProtoVersionTag v'" for v v'
    using that by (cases v; cases v') (simp add: ProtoVersionTag_def)
  then have "d = d'" if "ProtoGetRequest d = ProtoGetRequest d'" for d d'
    using that by (cases d; cases d') (auto simp: ProtoGetRequest_def split: option.splits)
  then show "d = d'" if "FromProtoGetRequest (Some (ProtoGetRequest d)) = (d', None)" for d d'
    using that by (auto simp: get_request_codec.accept_iff)
qed

interpretation mutation_request_transmission: transmission valid_MutationRequest ProtoMutationRequest FromProtoMutationRequest
proof unfold_locales
  fix d d'
  assume "FromProtoMutationRequest (Some (ProtoMutationRequest d)) = (d', None)"
  then have eq: "ProtoMutationRequest d = ProtoMutationRequest d'" and valid: "valid_MutationRequest d'"
    by (auto simp: mutation_request_codec.accept_iff MutationRequest_Validate_iff)
  have "MutationRequest.Op d = MutationRequest.Op d'"
    using eq valid_MutationRequest_parts(1) [OF valid]
    by (auto simp: ProtoMutationRequest_def ProtoMutationOp_def Op_Valid_def split: if_splits)
  with eq show "d = d'"
    by (cases d; cases d') (simp add: ProtoMutationRequest_def ProtoWriteMode_def ProtoConfirmLevel_def
        ProtoMutationID_def id_bytes_inject ucast_up_inj)
qed

lemma response_enums:
  "FromProtoStatus (ProtoStatus s) = (s', None) \<Longrightarrow> s = s'"
  "FromProtoStorageProfile (ProtoStorageProfile p) = (p', None) \<Longrightarrow> p = p'"
  "FromProtoRecordKind (ProtoRecordKind k) = (k', None) \<Longrightarrow> k = k'"
  by (auto dest!: rpc_enum_to_from simp: ProtoStatus_def ProtoStorageProfile_def ProtoRecordKind_def ucast_up_inj)

interpretation hub_status_transmission: transmission decodable_HubStatus ProtoHubStatus FromProtoHubStatus
proof unfold_locales
  show "d = d'" if "FromProtoHubStatus (Some (ProtoHubStatus d)) = (d', None)" for d d'
    using that by (cases d) (auto simp: FromProtoHubStatus_def ProtoHubStatus_def getter_simps on_ok_None dest!: response_enums)
qed

interpretation get_response_transmission: transmission valid_GetResponse ProtoGetResponse FromProtoGetResponse
proof unfold_locales
  show "d = d'" if "FromProtoGetResponse (Some (ProtoGetResponse d)) = (d', None)" for d d'
    using that by (cases d) (auto simp: FromProtoGetResponse_def ProtoGetResponse_def getter_simps on_ok_None dest!: response_enums)
qed

interpretation mutation_response_transmission: transmission valid_MutationResponse ProtoMutationResponse FromProtoMutationResponse
proof unfold_locales
  show "d = d'" if "FromProtoMutationResponse (Some (ProtoMutationResponse d)) = (d', None)" for d d'
    using that by (cases d) (auto simp: FromProtoMutationResponse_def ProtoMutationResponse_def getter_simps on_ok_None dest!: response_enums)
qed

section \<open>Correctness\<close>

text \<open>C25. Whatever a sender encodes, the receiver gets the same value or an error: each of the eight data-plane messages
  and nine stream payloads, encoded without validation from any value of its type, decodes to that
  value if the value is valid (and, for a hub status, its profile is known), and is refused otherwise. The same holds for both envelopes and
  everything they wrap, values and pointers. So an invalid message is never taken for a valid one.\<close>

theorem encoded_arrives_or_refused:
  "arrives_or_refused (\<lambda>d. HandshakeRequest_Validate d = None) ProtoHandshakeRequest FromProtoHandshakeRequest
   \<and> arrives_or_refused (\<lambda>d. Handshake_Validate d = None) ProtoHandshake FromProtoHandshake
   \<and> arrives_or_refused (\<lambda>d. HubStatusRequest_Validate d = None) ProtoHubStatusRequest FromProtoHubStatusRequest
   \<and> arrives_or_refused (\<lambda>d. HubStatus_Validate d = None \<and> StorageProfile_Valid (HubStatus.StorageProfile d))
       ProtoHubStatus FromProtoHubStatus
   \<and> arrives_or_refused (\<lambda>d. rpc_GetRequest_Validate d = None) ProtoGetRequest FromProtoGetRequest
   \<and> arrives_or_refused (\<lambda>d. GetResponse_Validate d = None) ProtoGetResponse FromProtoGetResponse
   \<and> arrives_or_refused (\<lambda>d. MutationRequest_Validate d = None) ProtoMutationRequest FromProtoMutationRequest
   \<and> arrives_or_refused (\<lambda>d. MutationResponse_Validate d = None) ProtoMutationResponse FromProtoMutationResponse
   \<and> arrives_or_refused (\<lambda>d. Hello_Validate d = None) ProtoHello FromProtoHello
   \<and> arrives_or_refused (\<lambda>d. Subscribe_Validate d = None) ProtoSubscribe FromProtoSubscribe
   \<and> arrives_or_refused (\<lambda>d. StreamAcknowledgement_Validate d = None) ProtoStreamAcknowledgement FromProtoStreamAcknowledgement
   \<and> arrives_or_refused (\<lambda>d. ReplayRequest_Validate d = None) ProtoReplayRequest FromProtoReplayRequest
   \<and> arrives_or_refused (\<lambda>d. InvalidateConfirm_Validate d = None) ProtoInvalidateConfirm FromProtoInvalidateConfirm
   \<and> arrives_or_refused (\<lambda>d. InvalidationBatch_Validate d = None) ProtoInvalidationBatch FromProtoInvalidationBatch
   \<and> arrives_or_refused (\<lambda>d. StreamCheckpoint_Validate d = None) ProtoStreamCheckpoint FromProtoStreamCheckpoint
   \<and> arrives_or_refused (\<lambda>d. ReplayUnavailable_Validate d = None) ProtoReplayUnavailable FromProtoReplayUnavailable
   \<and> arrives_or_refused (\<lambda>d. ControlError_Validate d = None) ProtoControlError FromProtoControlError
   \<and> envelope_arrives ProtoClientMessage FromProtoClientMessage client_body control_deref
   \<and> envelope_arrives ProtoServerMessage FromProtoServerMessage server_body control_deref"
  unfolding valid_simps decodable_HubStatus_def [symmetric]
  by (intro conjI handshake_request_transmission.arrives handshake_transmission.arrives status_request_transmission.arrives
      hub_status_transmission.arrives get_request_transmission.arrives get_response_transmission.arrives
      mutation_request_transmission.arrives mutation_response_transmission.arrives hello_transmission.arrives
      subscribe_transmission.arrives ack_transmission.arrives replay_transmission.arrives confirm_transmission.arrives
      batch_transmission.arrives checkpoint_transmission.arrives unavailable_transmission.arrives
      control_error_transmission.arrives client_envelope.unwrap_wrapped server_envelope.unwrap_wrapped)

end
