(* ===== verification/Pb_Reset.thy ===== *)
theory Pb_Reset
  imports Control_Convert Grpc_Stubs
begin

text \<open>
  The method \<^verbatim>\<open>Reset\<close> of the generated messages, the one method of theirs that changes a message, and what becomes
  of a message that was reset, or whose fields the sender left out, at the other side. The zero
  messages of the data plane are those of \<open>Grpc_Stubs\<close>.
\<close>

section \<open>Zero messages\<close>

definition new_VersionTag :: pb_VersionTag where
  "new_VersionTag = \<lparr>pb_VersionTag.PartitionId = 0, Sequence = 0\<rparr>"

definition new_MutationID :: "bytes pb_MutationID" where
  "new_MutationID = \<lparr>pb_MutationID.Id = []\<rparr>"

definition new_ControlClientMessage :: pb_ControlClientMessage where
  "new_ControlClientMessage = \<lparr>pb_ControlClientMessage.Body = None\<rparr>"

definition new_ControlServerMessage :: "bytes pb_ControlServerMessage" where
  "new_ControlServerMessage = \<lparr>pb_ControlServerMessage.Body = None\<rparr>"

definition new_ControlError :: pb_ControlError where
  "new_ControlError = \<lparr>pb_ControlError.Status = 0, Detail = ''''\<rparr>"

definition new_StreamWatermark :: pb_StreamWatermark where
  "new_StreamWatermark = \<lparr>pb_StreamWatermark.StreamId = 0, AppliedThrough = 0, HubGeneration = 0\<rparr>"

definition new_Hello :: pb_Hello where
  "new_Hello = \<lparr>pb_Hello.NodeId = 0, ProtocolVersion = 0, MinSupportedVersion = 0, Subscriptions = [],
     ClusterId = '''', ExpectedHubGeneration = 0\<rparr>"

definition new_Subscribe :: pb_Subscribe where
  "new_Subscribe = \<lparr>pb_Subscribe.HubGeneration = 0, StreamIds = []\<rparr>"

definition new_InvalidationEvent :: "bytes pb_InvalidationEvent" where
  "new_InvalidationEvent = \<lparr>pb_InvalidationEvent.StreamSequence = 0, Key = [], Version = None, Kind = 0,
     MutationId = None\<rparr>"

definition new_InvalidationBatch :: "bytes pb_InvalidationBatch" where
  "new_InvalidationBatch = \<lparr>pb_InvalidationBatch.StreamId = 0, HubGeneration = 0, Events = []\<rparr>"

definition new_StreamAcknowledgement :: pb_StreamAcknowledgement where
  "new_StreamAcknowledgement = \<lparr>pb_StreamAcknowledgement.StreamId = 0, AppliedThrough = 0\<rparr>"

definition new_StreamCheckpoint :: pb_StreamCheckpoint where
  "new_StreamCheckpoint = \<lparr>pb_StreamCheckpoint.StreamId = 0, HubGeneration = 0, StreamHead = 0\<rparr>"

definition new_ReplayRequest :: pb_ReplayRequest where
  "new_ReplayRequest = \<lparr>pb_ReplayRequest.StreamId = 0, FromSequence = 0, ToSequence = 0\<rparr>"

definition new_ReplayUnavailable :: pb_ReplayUnavailable where
  "new_ReplayUnavailable = \<lparr>pb_ReplayUnavailable.StreamId = 0, HubGeneration = 0, RequestedFrom = 0,
     OldestAvailable = 0, StreamHead = 0\<rparr>"

definition new_InvalidateConfirm :: pb_InvalidateConfirm where
  "new_InvalidateConfirm = \<lparr>pb_InvalidateConfirm.StreamId = 0, StreamSequence = 0, NodeId = 0\<rparr>"

section \<open>Reset\<close>

text \<open>
  \<^verbatim>\<open>*x = T{}\<close>: every field of the message gets its zero value, whatever it held, and a nil receiver panics. A
  function from the contents before the call to those after it; the message state that
  \<^verbatim>\<open>StoreMessageInfo\<close> sets afterwards belongs to the protobuf runtime and is no field of the record.
\<close>

definition nil_dereference :: error where
  "nil_dereference = Errorf ''invalid memory address or nil pointer dereference'' [] None"

definition reset_to :: "'m \<Rightarrow> 'm option \<Rightarrow> 'm go" where
  "reset_to z x = (case x of None \<Rightarrow> Panic nil_dereference | Some _ \<Rightarrow> Return z)"

definition VersionTag_Reset :: "pb_VersionTag option \<Rightarrow> pb_VersionTag go" where
  "VersionTag_Reset x = reset_to new_VersionTag x"

definition MutationID_Reset :: "bytes pb_MutationID option \<Rightarrow> bytes pb_MutationID go" where
  "MutationID_Reset x = reset_to new_MutationID x"

definition HandshakeRequest_Reset :: "pb_HandshakeRequest option \<Rightarrow> pb_HandshakeRequest go" where
  "HandshakeRequest_Reset x = reset_to new_HandshakeRequest x"

definition HandshakeResponse_Reset :: "pb_HandshakeResponse option \<Rightarrow> pb_HandshakeResponse go" where
  "HandshakeResponse_Reset x = reset_to new_HandshakeResponse x"

definition HubStatusRequest_Reset :: "pb_HubStatusRequest option \<Rightarrow> pb_HubStatusRequest go" where
  "HubStatusRequest_Reset x = reset_to new_HubStatusRequest x"

definition HubStatusResponse_Reset :: "pb_HubStatusResponse option \<Rightarrow> pb_HubStatusResponse go" where
  "HubStatusResponse_Reset x = reset_to new_HubStatusResponse x"

definition GetRequest_Reset :: "bytes pb_GetRequest option \<Rightarrow> bytes pb_GetRequest go" where
  "GetRequest_Reset x = reset_to new_GetRequest x"

definition GetResponse_Reset :: "bytes pb_GetResponse option \<Rightarrow> bytes pb_GetResponse go" where
  "GetResponse_Reset x = reset_to new_GetResponse x"

definition MutationRequest_Reset :: "bytes pb_MutationRequest option \<Rightarrow> bytes pb_MutationRequest go" where
  "MutationRequest_Reset x = reset_to new_MutationRequest x"

definition MutationResponse_Reset :: "pb_MutationResponse option \<Rightarrow> pb_MutationResponse go" where
  "MutationResponse_Reset x = reset_to new_MutationResponse x"

definition ControlClientMessage_Reset :: "pb_ControlClientMessage option \<Rightarrow> pb_ControlClientMessage go" where
  "ControlClientMessage_Reset x = reset_to new_ControlClientMessage x"

definition ControlServerMessage_Reset :: "bytes pb_ControlServerMessage option \<Rightarrow> bytes pb_ControlServerMessage go" where
  "ControlServerMessage_Reset x = reset_to new_ControlServerMessage x"

definition ControlError_Reset :: "pb_ControlError option \<Rightarrow> pb_ControlError go" where
  "ControlError_Reset x = reset_to new_ControlError x"

definition StreamWatermark_Reset :: "pb_StreamWatermark option \<Rightarrow> pb_StreamWatermark go" where
  "StreamWatermark_Reset x = reset_to new_StreamWatermark x"

definition Hello_Reset :: "pb_Hello option \<Rightarrow> pb_Hello go" where
  "Hello_Reset x = reset_to new_Hello x"

definition Subscribe_Reset :: "pb_Subscribe option \<Rightarrow> pb_Subscribe go" where
  "Subscribe_Reset x = reset_to new_Subscribe x"

definition InvalidationEvent_Reset :: "bytes pb_InvalidationEvent option \<Rightarrow> bytes pb_InvalidationEvent go" where
  "InvalidationEvent_Reset x = reset_to new_InvalidationEvent x"

definition InvalidationBatch_Reset :: "bytes pb_InvalidationBatch option \<Rightarrow> bytes pb_InvalidationBatch go" where
  "InvalidationBatch_Reset x = reset_to new_InvalidationBatch x"

definition StreamAcknowledgement_Reset :: "pb_StreamAcknowledgement option \<Rightarrow> pb_StreamAcknowledgement go" where
  "StreamAcknowledgement_Reset x = reset_to new_StreamAcknowledgement x"

definition StreamCheckpoint_Reset :: "pb_StreamCheckpoint option \<Rightarrow> pb_StreamCheckpoint go" where
  "StreamCheckpoint_Reset x = reset_to new_StreamCheckpoint x"

definition ReplayRequest_Reset :: "pb_ReplayRequest option \<Rightarrow> pb_ReplayRequest go" where
  "ReplayRequest_Reset x = reset_to new_ReplayRequest x"

definition ReplayUnavailable_Reset :: "pb_ReplayUnavailable option \<Rightarrow> pb_ReplayUnavailable go" where
  "ReplayUnavailable_Reset x = reset_to new_ReplayUnavailable x"

definition InvalidateConfirm_Reset :: "pb_InvalidateConfirm option \<Rightarrow> pb_InvalidateConfirm go" where
  "InvalidateConfirm_Reset x = reset_to new_InvalidateConfirm x"

section \<open>Decoding a reset message\<close>

definition refuses_reset :: "('m option \<Rightarrow> 'm go) \<Rightarrow> ('m option \<Rightarrow> 'd result) \<Rightarrow> bool" where
  "refuses_reset reset from_proto \<longleftrightarrow>
     snd (from_proto None) \<noteq> None \<and> (\<forall>x. \<exists>m. reset (Some x) = Return m \<and> snd (from_proto (Some m)) \<noteq> None)"

lemma refuses_reset_intro:
  assumes "\<And>x. reset x = reset_to z x" "snd (from_proto None) \<noteq> None" "\<And>d. from_proto (Some z) \<noteq> (d, None)"
  shows "refuses_reset reset from_proto"
  using assms(2) assms(3) [of "fst (from_proto (Some z))"]
  by (cases "from_proto (Some z)") (auto simp: refuses_reset_def reset_to_def assms(1))

text \<open>A decoder refuses a reset message when nothing decodable has what the decoder reads of it.\<close>

context decoder
begin

lemma refuses_resetI:
  assumes "\<And>x. reset x = reset_to z x" "\<And>d. decodable d \<Longrightarrow> from_pb (Some z) \<noteq> (d, None)"
  shows "refuses_reset reset from_pb"
  using assms from_decodable by (intro refuses_reset_intro from_nil) blast+

end

context exact_codec
begin

lemma exact_refuses_resetI:
  assumes "\<And>x. reset x = reset_to z x" "\<And>d. valid d \<Longrightarrow> z \<noteq> to_pb d"
  shows "refuses_reset reset from_pb"
  using assms(2) from_exact by (intro refuses_resetI [OF assms(1)]) blast

end

lemma HubStatus_generation:
  "FromProtoHubStatus (Some m) = (d, None) \<Longrightarrow> HubStatus.HubGeneration d = pb_HubStatusResponse.HubGeneration m"
  by (auto simp: FromProtoHubStatus_def getter_simps on_ok_None split: if_splits)

lemma GetResponse_generation:
  "FromProtoGetResponse (Some m) = (d, None) \<Longrightarrow> GetResponse.HubGeneration d = pb_GetResponse.HubGeneration m"
  by (auto simp: FromProtoGetResponse_def getter_simps on_ok_None split: if_splits)

lemma MutationResponse_generation:
  "FromProtoMutationResponse (Some m) = (d, None) \<Longrightarrow>
     MutationResponse.HubGeneration d = pb_MutationResponse.HubGeneration m"
  by (auto simp: FromProtoMutationResponse_def getter_simps on_ok_None split: if_splits)

lemma mutation_ids_refuse_reset:
  "refuses_reset MutationID_Reset mutationIDFromProto"
  "refuses_reset MutationID_Reset FromProtoMutationID"
proof -
  show "refuses_reset MutationID_Reset mutationIDFromProto"
    by (rule refuses_reset_intro [OF MutationID_Reset_def])
      (simp_all add: mutationIDFromProto_def new_MutationID_def getter_simps)
  show "refuses_reset MutationID_Reset FromProtoMutationID"
    by (rule refuses_reset_intro [OF MutationID_Reset_def])
      (simp_all add: FromProtoMutationID_def new_MutationID_def getter_simps)
qed

lemma requests_refuse_reset:
  "refuses_reset HandshakeRequest_Reset FromProtoHandshakeRequest"
  "refuses_reset HandshakeResponse_Reset FromProtoHandshake"
  "refuses_reset HubStatusRequest_Reset FromProtoHubStatusRequest"
  "refuses_reset GetRequest_Reset FromProtoGetRequest"
  "refuses_reset MutationRequest_Reset FromProtoMutationRequest"
proof -
  show "refuses_reset HandshakeRequest_Reset FromProtoHandshakeRequest"
    by (rule handshake_request_codec.exact_refuses_resetI [OF HandshakeRequest_Reset_def])
      (auto simp: new_HandshakeRequest_def convert_defs ProtoHandshakeRequest_def valid_HandshakeRequest_def valid_range_def)
  show "refuses_reset HandshakeResponse_Reset FromProtoHandshake"
    by (rule handshake_codec.exact_refuses_resetI [OF HandshakeResponse_Reset_def])
      (auto simp: new_HandshakeResponse_def convert_defs ProtoHandshake_def valid_Handshake_def)
  show "refuses_reset HubStatusRequest_Reset FromProtoHubStatusRequest"
    by (rule status_request_codec.exact_refuses_resetI [OF HubStatusRequest_Reset_def])
      (auto simp: new_HubStatusRequest_def convert_defs ProtoHubStatusRequest_def valid_HubStatusRequest_def)
  show "refuses_reset GetRequest_Reset FromProtoGetRequest"
    by (rule get_request_codec.exact_refuses_resetI [OF GetRequest_Reset_def])
      (auto simp: new_GetRequest_def convert_defs ProtoGetRequest_def valid_rpc_GetRequest_def)
  show "refuses_reset MutationRequest_Reset FromProtoMutationRequest"
    by (rule mutation_request_codec.exact_refuses_resetI [OF MutationRequest_Reset_def])
      (auto simp: new_MutationRequest_def convert_defs ProtoMutationRequest_def valid_MutationRequest_def)
qed

lemma responses_refuse_reset:
  "refuses_reset HubStatusResponse_Reset FromProtoHubStatus"
  "refuses_reset GetResponse_Reset FromProtoGetResponse"
  "refuses_reset MutationResponse_Reset FromProtoMutationResponse"
proof -
  show "refuses_reset HubStatusResponse_Reset FromProtoHubStatus"
    by (rule hub_status_codec.refuses_resetI [OF HubStatusResponse_Reset_def])
      (auto dest!: HubStatus_generation simp: new_HubStatusResponse_def decodable_HubStatus_def valid_HubStatus_def)
  show "refuses_reset GetResponse_Reset FromProtoGetResponse"
    by (rule get_response_codec.refuses_resetI [OF GetResponse_Reset_def])
      (auto dest!: GetResponse_generation simp: new_GetResponse_def valid_GetResponse_def)
  show "refuses_reset MutationResponse_Reset FromProtoMutationResponse"
    by (rule mutation_response_codec.refuses_resetI [OF MutationResponse_Reset_def])
      (auto dest!: MutationResponse_generation simp: new_MutationResponse_def valid_MutationResponse_def)
qed

lemma payloads_refuse_reset:
  "refuses_reset Hello_Reset FromProtoHello"
  "refuses_reset Subscribe_Reset FromProtoSubscribe"
  "refuses_reset StreamAcknowledgement_Reset FromProtoStreamAcknowledgement"
  "refuses_reset ReplayRequest_Reset FromProtoReplayRequest"
  "refuses_reset InvalidateConfirm_Reset FromProtoInvalidateConfirm"
  "refuses_reset InvalidationBatch_Reset FromProtoInvalidationBatch"
  "refuses_reset StreamCheckpoint_Reset FromProtoStreamCheckpoint"
  "refuses_reset ReplayUnavailable_Reset FromProtoReplayUnavailable"
  "refuses_reset ControlError_Reset FromProtoControlError"
proof -
  show "refuses_reset Hello_Reset FromProtoHello"
    by (rule hello_codec.exact_refuses_resetI [OF Hello_Reset_def])
      (auto simp: new_Hello_def convert_defs ProtoHello_def valid_Hello_def)
  show "refuses_reset Subscribe_Reset FromProtoSubscribe"
    by (rule subscribe_codec.exact_refuses_resetI [OF Subscribe_Reset_def])
      (auto simp: new_Subscribe_def convert_defs ProtoSubscribe_def valid_Subscribe_def)
  show "refuses_reset StreamAcknowledgement_Reset FromProtoStreamAcknowledgement"
    by (rule ack_codec.exact_refuses_resetI [OF StreamAcknowledgement_Reset_def])
      (auto simp: new_StreamAcknowledgement_def convert_defs ProtoStreamAcknowledgement_def valid_ack_def)
  show "refuses_reset ReplayRequest_Reset FromProtoReplayRequest"
    by (rule replay_codec.exact_refuses_resetI [OF ReplayRequest_Reset_def])
      (auto simp: new_ReplayRequest_def convert_defs ProtoReplayRequest_def valid_ReplayRequest_def)
  show "refuses_reset InvalidateConfirm_Reset FromProtoInvalidateConfirm"
    by (rule confirm_codec.exact_refuses_resetI [OF InvalidateConfirm_Reset_def])
      (auto simp: new_InvalidateConfirm_def convert_defs ProtoInvalidateConfirm_def valid_confirm_def)
  show "refuses_reset InvalidationBatch_Reset FromProtoInvalidationBatch"
    by (rule batch_codec.exact_refuses_resetI [OF InvalidationBatch_Reset_def])
      (auto simp: new_InvalidationBatch_def convert_defs ProtoInvalidationBatch_def valid_batch_def)
  show "refuses_reset StreamCheckpoint_Reset FromProtoStreamCheckpoint"
    by (rule checkpoint_codec.exact_refuses_resetI [OF StreamCheckpoint_Reset_def])
      (auto simp: new_StreamCheckpoint_def convert_defs ProtoStreamCheckpoint_def valid_checkpoint_def)
  show "refuses_reset ReplayUnavailable_Reset FromProtoReplayUnavailable"
    by (rule unavailable_codec.exact_refuses_resetI [OF ReplayUnavailable_Reset_def])
      (auto simp: new_ReplayUnavailable_def convert_defs ProtoReplayUnavailable_def valid_ReplayUnavailable_def)
  show "refuses_reset ControlError_Reset FromProtoControlError"
    by (rule control_error_codec.exact_refuses_resetI [OF ControlError_Reset_def])
      (auto simp: new_ControlError_def convert_defs ProtoControlError_def valid_ControlError_def)
qed

lemma envelopes_refuse_reset:
  "refuses_reset ControlClientMessage_Reset FromProtoClientMessage"
  "refuses_reset ControlServerMessage_Reset FromProtoServerMessage"
proof -
  show "refuses_reset ControlClientMessage_Reset FromProtoClientMessage"
    by (rule refuses_reset_intro [OF ControlClientMessage_Reset_def])
      (simp_all add: FromProtoClientMessage_def new_ControlClientMessage_def getter_simps)
  show "refuses_reset ControlServerMessage_Reset FromProtoServerMessage"
    by (rule refuses_reset_intro [OF ControlServerMessage_Reset_def])
      (simp_all add: FromProtoServerMessage_def new_ControlServerMessage_def getter_simps)
qed

text \<open>A version tag decodes without an error: nil and reset tags to the zero version, which no commit has.\<close>

lemma reset_version_tag:
  "FromProtoVersionTag None = zeroVersionTag"
  "\<exists>m. VersionTag_Reset (Some x) = Return m \<and> FromProtoVersionTag (Some m) = zeroVersionTag"
  "VersionTag_ValidateCommitted zeroVersionTag = Some (Err (Record_err ErrMissingVersion))"
  by (simp_all add: FromProtoVersionTag_def zeroVersionTag_def VersionTag_Reset_def reset_to_def new_VersionTag_def
      getter_simps VersionTag_ValidateCommitted_def)

text \<open>One nil or reset element spoils a list.\<close>

lemma hello_subscription:
  assumes "w = None \<or> w = Some new_StreamWatermark"
  shows "snd (FromProtoHello (Some (m\<lparr>pb_Hello.Subscriptions := xs @ w # ys\<rparr>))) \<noteq> None"
proof
  assume "snd (FromProtoHello (Some (m\<lparr>pb_Hello.Subscriptions := xs @ w # ys\<rparr>))) = None"
  then obtain d where "FromProtoHello (Some (m\<lparr>pb_Hello.Subscriptions := xs @ w # ys\<rparr>)) = (d, None)"
    by (metis prod.collapse)
  then have valid: "valid_Hello d" and eq: "m\<lparr>pb_Hello.Subscriptions := xs @ w # ys\<rparr> = ProtoHello d"
    by (auto simp: hello_codec.accept_iff Hello_Validate_iff)
  from arg_cong [OF eq, of pb_Hello.Subscriptions]
  have "xs @ w # ys = map (\<lambda>s. Some (ProtoStreamWatermark s)) (Hello.Subscriptions d)"
    by (simp add: ProtoHello_def fold_snoc_map)
  from arg_cong [OF this, of set] obtain s where "s \<in> set (Hello.Subscriptions d)" "w = Some (ProtoStreamWatermark s)"
    by auto
  with valid assms show False
    by (auto simp: valid_Hello_def new_StreamWatermark_def ProtoStreamWatermark_def)
qed

lemma batch_event:
  assumes "e = None \<or> e = Some new_InvalidationEvent"
  shows "snd (FromProtoInvalidationBatch (Some (m\<lparr>pb_InvalidationBatch.Events := xs @ e # ys\<rparr>))) \<noteq> None"
proof
  assume "snd (FromProtoInvalidationBatch (Some (m\<lparr>pb_InvalidationBatch.Events := xs @ e # ys\<rparr>))) = None"
  then obtain d where "FromProtoInvalidationBatch (Some (m\<lparr>pb_InvalidationBatch.Events := xs @ e # ys\<rparr>)) = (d, None)"
    by (metis prod.collapse)
  then have eq: "m\<lparr>pb_InvalidationBatch.Events := xs @ e # ys\<rparr> = ProtoInvalidationBatch d"
    by (auto simp: batch_codec.accept_iff)
  from arg_cong [OF this, of pb_InvalidationBatch.Events]
  have "xs @ e # ys = map (\<lambda>v. Some (ProtoInvalidationEvent v)) (InvalidationBatch.Events d)"
    by (simp add: ProtoInvalidationBatch_def fold_snoc_map)
  from arg_cong [OF this, of set] obtain v where "e = Some (ProtoInvalidationEvent v)" by auto
  with assms show False by (auto simp: new_InvalidationEvent_def ProtoInvalidationEvent_def)
qed

text \<open>The bodies of an envelope that hold nil or a zero message.\<close>

definition blank_client_bodies :: "pb_ControlClientMessage_Body list" where
  "blank_client_bodies =
     map ControlClientMessage_Hello [None, Some new_Hello]
     @ map ControlClientMessage_Subscribe [None, Some new_Subscribe]
     @ map ControlClientMessage_StreamAcknowledgement [None, Some new_StreamAcknowledgement]
     @ map ControlClientMessage_ReplayRequest [None, Some new_ReplayRequest]
     @ map ControlClientMessage_InvalidateConfirm [None, Some new_InvalidateConfirm]"

definition blank_server_bodies :: "bytes pb_ControlServerMessage_Body list" where
  "blank_server_bodies =
     map ControlServerMessage_InvalidationBatch [None, Some new_InvalidationBatch]
     @ map ControlServerMessage_StreamCheckpoint [None, Some new_StreamCheckpoint]
     @ map ControlServerMessage_ReplayUnavailable [None, Some new_ReplayUnavailable]
     @ map ControlServerMessage_ControlError [None, Some new_ControlError]"

lemma refuses_reset_zero:
  assumes "refuses_reset reset from_proto" "\<And>x. reset x = reset_to z x"
  shows "snd (from_proto None) \<noteq> None" "snd (from_proto (Some z)) \<noteq> None"
  using assms(1) unfolding refuses_reset_def assms(2) reset_to_def by auto

lemmas payloads_refuse_zero =
  refuses_reset_zero [OF payloads_refuse_reset(1) Hello_Reset_def]
  refuses_reset_zero [OF payloads_refuse_reset(2) Subscribe_Reset_def]
  refuses_reset_zero [OF payloads_refuse_reset(3) StreamAcknowledgement_Reset_def]
  refuses_reset_zero [OF payloads_refuse_reset(4) ReplayRequest_Reset_def]
  refuses_reset_zero [OF payloads_refuse_reset(5) InvalidateConfirm_Reset_def]
  refuses_reset_zero [OF payloads_refuse_reset(6) InvalidationBatch_Reset_def]
  refuses_reset_zero [OF payloads_refuse_reset(7) StreamCheckpoint_Reset_def]
  refuses_reset_zero [OF payloads_refuse_reset(8) ReplayUnavailable_Reset_def]
  refuses_reset_zero [OF payloads_refuse_reset(9) ControlError_Reset_def]

lemma blank_bodies_refused:
  "list_all (\<lambda>b. snd (FromProtoClientMessage (Some \<lparr>pb_ControlClientMessage.Body = Some b\<rparr>)) \<noteq> None) blank_client_bodies"
  "list_all (\<lambda>b. snd (FromProtoServerMessage (Some \<lparr>pb_ControlServerMessage.Body = Some b\<rparr>)) \<noteq> None) blank_server_bodies"
  using payloads_refuse_zero
  by (simp_all add: blank_client_bodies_def blank_server_bodies_def FromProtoClientMessage_def FromProtoServerMessage_def
      getter_simps)

section \<open>Correctness\<close>

text \<open>C17. Nothing that was reset, and nothing nil, is taken for a message: every conversion from a protobuf message that
  can return an error returns one for nil and for what \<^verbatim>\<open>Reset\<close> leaves, in both packages and for both
  envelopes, whatever the message held before. So does a hello with one nil or zero subscription, a batch with one nil or
  zero event, and an envelope around a nil or zero body. The one conversion without an error result,
  \<^verbatim>\<open>FromProtoVersionTag\<close>, takes both to the zero version, which is not that of a commit.\<close>

theorem reset_messages_refused:
  "refuses_reset MutationID_Reset mutationIDFromProto
   \<and> refuses_reset MutationID_Reset FromProtoMutationID
   \<and> refuses_reset HandshakeRequest_Reset FromProtoHandshakeRequest
   \<and> refuses_reset HandshakeResponse_Reset FromProtoHandshake
   \<and> refuses_reset HubStatusRequest_Reset FromProtoHubStatusRequest
   \<and> refuses_reset GetRequest_Reset FromProtoGetRequest
   \<and> refuses_reset MutationRequest_Reset FromProtoMutationRequest
   \<and> refuses_reset HubStatusResponse_Reset FromProtoHubStatus
   \<and> refuses_reset GetResponse_Reset FromProtoGetResponse
   \<and> refuses_reset MutationResponse_Reset FromProtoMutationResponse
   \<and> refuses_reset Hello_Reset FromProtoHello
   \<and> refuses_reset Subscribe_Reset FromProtoSubscribe
   \<and> refuses_reset StreamAcknowledgement_Reset FromProtoStreamAcknowledgement
   \<and> refuses_reset ReplayRequest_Reset FromProtoReplayRequest
   \<and> refuses_reset InvalidateConfirm_Reset FromProtoInvalidateConfirm
   \<and> refuses_reset InvalidationBatch_Reset FromProtoInvalidationBatch
   \<and> refuses_reset StreamCheckpoint_Reset FromProtoStreamCheckpoint
   \<and> refuses_reset ReplayUnavailable_Reset FromProtoReplayUnavailable
   \<and> refuses_reset ControlError_Reset FromProtoControlError
   \<and> refuses_reset ControlClientMessage_Reset FromProtoClientMessage
   \<and> refuses_reset ControlServerMessage_Reset FromProtoServerMessage
   \<and> FromProtoVersionTag None = zeroVersionTag
   \<and> (\<exists>m. VersionTag_Reset (Some x) = Return m \<and> FromProtoVersionTag (Some m) = zeroVersionTag)
   \<and> VersionTag_ValidateCommitted zeroVersionTag = Some (Err (Record_err ErrMissingVersion))
   \<and> snd (FromProtoHello (Some (h\<lparr>pb_Hello.Subscriptions := ws @ None # vs\<rparr>))) \<noteq> None
   \<and> snd (FromProtoHello (Some (h\<lparr>pb_Hello.Subscriptions := ws @ Some new_StreamWatermark # vs\<rparr>))) \<noteq> None
   \<and> snd (FromProtoInvalidationBatch (Some (b\<lparr>pb_InvalidationBatch.Events := es @ None # fs\<rparr>))) \<noteq> None
   \<and> snd (FromProtoInvalidationBatch (Some (b\<lparr>pb_InvalidationBatch.Events := es @ Some new_InvalidationEvent # fs\<rparr>))) \<noteq> None
   \<and> list_all (\<lambda>b. snd (FromProtoClientMessage (Some \<lparr>pb_ControlClientMessage.Body = Some b\<rparr>)) \<noteq> None) blank_client_bodies
   \<and> list_all (\<lambda>b. snd (FromProtoServerMessage (Some \<lparr>pb_ControlServerMessage.Body = Some b\<rparr>)) \<noteq> None) blank_server_bodies"
  by (intro conjI mutation_ids_refuse_reset requests_refuse_reset responses_refuse_reset payloads_refuse_reset
      envelopes_refuse_reset reset_version_tag hello_subscription batch_event blank_bodies_refused disjI1 [OF refl]
      disjI2 [OF refl])

end
