(* ===== verification/Spec2Isabelle.thy ===== *)
theory Spec2Isabelle
  imports Wire_Protocol Partition_Safety Control_Convert Rpc_Convert Rpc_Dedup L1 Ownership Conversion_Ownership
    Encoded_Size Publication Ownership_System Grpc_Stubs Pb_Schema
    Partition_Balance Transmission Pb_Reset
begin

text \<open>
  GossipCache: a verification library for the Go module \<^verbatim>\<open>sanketn26/gossipcache\<close>.

  The program. GossipCache is a hybrid cache: nodes keep a local cache (L1) in front of an
  authoritative hub (L2). At this commit the repository holds the contracts both sides share, and no
  node or hub runtime yet. \<^verbatim>\<open>internal/wire\<close> has the domain types (versions, mutation identities, bounded
  requests, write options, statuses), key routing and protocol negotiation. \<^verbatim>\<open>internal/control\<close> has the
  messages of the control stream, on which the hub announces invalidations to the nodes;
  \<^verbatim>\<open>internal/rpc\<close> those of the data plane, with the deduplication of retried mutations;
  \<^verbatim>\<open>internal/l1\<close> the seam between the node's cache and the hub. Both message packages validate a
  message and convert it to and from the generated protobuf structs of
  \<^verbatim>\<open>api/gen/gossipcache/v1\<close>. Every executable statement of the four internal packages is modelled.

  Theories, each beside the code it models:

  \<^item> \<open>Prelude\<close>: byte strings, durations, decimal printing, \<^verbatim>\<open>strings.TrimSpace\<close> over UTF-8, byte
    order readers, word and list lemmas, the theorem collections \<open>valid_simps\<close>, \<open>getter_simps\<close> and \<open>convert_defs\<close>.
  \<^item> \<open>Errors\<close>: sentinels, \<^verbatim>\<open>fmt.Errorf\<close> with wrapping, \<^verbatim>\<open>errors.Is\<close>, results and panics, and the
    interfaces \<open>validated\<close>, \<open>decoder\<close>, \<open>codec\<close>, \<open>exact_codec\<close> and \<open>closed_enum\<close>.
  \<^item> \<open>Wire_Types\<close> (\<^verbatim>\<open>wire/types.go\<close>), \<open>Wire_Partition\<close> (\<^verbatim>\<open>partition.go\<close>), \<open>Wire_Status\<close> (\<^verbatim>\<open>status.go\<close>),
    \<open>Wire_Record\<close> (\<^verbatim>\<open>record.go\<close>), \<open>Wire_Protocol\<close> (\<^verbatim>\<open>protocol.go\<close>).
  \<^item> \<open>Pb\<close>: the generated structs, oneofs, enumeration numbers and getters (\<^verbatim>\<open>common.pb.go\<close>,
    \<^verbatim>\<open>data.pb.go\<close>, \<^verbatim>\<open>control.pb.go\<close>).
  \<^item> \<open>Control_Types\<close> (\<^verbatim>\<open>control/types.go\<close>) and \<open>Control_Convert\<close> (\<^verbatim>\<open>control/convert.go\<close>).
  \<^item> \<open>Rpc_Types\<close> (\<^verbatim>\<open>rpc/types.go\<close>, \<^verbatim>\<open>status.go\<close>, \<^verbatim>\<open>ports.go\<close>), \<open>Rpc_Convert\<close> (\<^verbatim>\<open>rpc/convert.go\<close>) and
    \<open>Rpc_Dedup\<close> (\<^verbatim>\<open>rpc/dedup.go\<close>).
  \<^item> \<open>L1\<close> (\<^verbatim>\<open>l1/hub.go\<close>, \<^verbatim>\<open>l1/fake_contract.go\<close>).
  \<^item> \<open>Partition_Safety\<close>: hashing and routing again, with Go's bounds checks and loops that need not end.
  \<^item> \<open>Ownership\<close>: \<^verbatim>\<open>CopyBytes\<close> and every \<^verbatim>\<open>Clone\<close> method again, over an explicit heap of arrays.
  \<^item> \<open>Conversion_Ownership\<close>: the conversions that copy bytes (mutation requests, get requests and
    responses, invalidation batches) again, over that heap.
  \<^item> \<open>Ownership_System\<close>: programs that pass messages through all these copying operations in any order,
    as a step relation over the heap.
  \<^item> \<open>Encoded_Size\<close>: the encoded size of control messages against the limits of \<^verbatim>\<open>control/types.go\<close>.
  \<^item> \<open>Publication\<close>: that these limits leave room to announce any run of events.
  \<^item> \<open>Grpc_Stubs\<close>: the generated client methods, handlers, service descriptions and registration of both
    services (\<^verbatim>\<open>data_grpc.pb.go\<close>, \<^verbatim>\<open>control_grpc.pb.go\<close>), as calls that change a state and may panic.
  \<^item> \<open>Transmission\<close>: what an encoded value, valid or not, becomes at the side that decodes it.
  \<^item> \<open>Pb_Schema\<close>: the generated enumeration tables against the decoders.
  \<^item> \<open>Pb_Reset\<close>: \<^verbatim>\<open>Reset\<close> of every generated message against the decoders.
  \<^item> \<open>Partition_Balance\<close>: how evenly \<^verbatim>\<open>PartitionOf\<close> spreads keys.
  \<^item> This theory: what spans the components (version agreement after a handshake on either plane, the
    decoders of the two packages against each other, retries from response to fingerprint check).

  Correspondence. A struct is a record with the fields of the source; a type \<^verbatim>\<open>T\<close> that several packages
  declare is prefixed by its package (\<open>wire_GetRequest\<close>, \<open>rpc_GetRequest\<close>, \<open>pb_GetRequest\<close>), a method
  \<^verbatim>\<open>T.M\<close> is \<open>T_M\<close>. Machine integers are words of their width; durations are 64-bit words read as signed.
  A record is parametric in the type of its byte slices: \<^typ>\<open>bytes\<close> where only the contents matter,
  \<open>slice\<close> in \<open>Ownership\<close>. A protobuf message arrives as an option, \<^const>\<open>None\<close> being the nil pointer, and
  getters return zero values on nil as the generated code does. A function returning \<^verbatim>\<open>(T, error)\<close>
  returns a pair, so the value beside an error is modelled too; \<^verbatim>\<open>PartitionOf\<close>, which panics on a zero
  count, returns a value of type \<open>go\<close>. Errors keep their sentinel, format and arguments.

  What is shown. For every \<^verbatim>\<open>Validate\<close> method a declarative predicate of the accepted values (\<open>valid_T\<close>,
  in \<open>valid_simps\<close>, each an interpretation of \<open>validated\<close> or of an extension of it), from which
  follow the acceptance theorems: a batch is accepted exactly when its events form one run of
  natural numbers, a get result exactly when it encodes one of three read outcomes, and so on. For
  every pair of conversions an interpretation of \<open>codec\<close> or \<open>exact_codec\<close>: what decodes is exactly
  what validates, and it decodes from one message only. For every enumeration an interpretation of
  \<open>closed_enum\<close>: no unknown number is truncated into a member. The in-place hash loop equals a
  reference definition over positions, returns without a failing bounds check, and separates keys
  that differ in one word, so that routing is balanced over the values of a word. Negotiation
  returns the greatest common version. Fingerprints match exactly the requests that mean the same
  mutation. Clones, fingerprints and converted messages refine their value-level counterparts and share
  no memory with their source, so later writes by either side are invisible to the other
  (interpretations of \<open>owned_copy\<close>): buffers can be reused as soon as a conversion returns. Whole runs of such
  operations simulate runs over plain values: references stay valid and apart, and nothing but the
  message an action names ever changes. A valid server message fits the message limit, a valid client
  message need not, and any run of well-formed events can be published in batches that pass. What a
  remote call returns comes from the server's method of the same name, and the handlers follow one
  contract on errors, interceptors and missing servers. Whatever a sender encodes arrives unchanged if it is valid and is
  refused otherwise (interpretations of \<open>transmission\<close> and \<open>envelope\<close>). A message that is nil or was reset is refused by
  every conversion that can return an error. A refused set request or read result carries the error of the first rule it breaks.

  Parameters and bounds. The protobuf runtime is not part of the repository; \<open>Encoded_Size\<close> takes its
  size functions as a parameter under the hypothesis \<open>proto3\<close>, the documented format, and
  instantiates them by a computed encoding. Neither is the gRPC runtime: \<open>Grpc_Stubs\<close> takes the connection, the
  decoding function, the interceptor and the registrar as arguments; its locale \<open>data_connection\<close> states
  what gRPC documents of a unary call that completes with the status OK, and nothing of calls that
  fail; a connection that lets contexts expire and loses requests and responses interprets it. There is no fuel: the loops of the hash are
  functions with a measure on the remaining input, and in \<open>Partition_Safety\<close> partial functions shown
  to return; all others are structural. Lengths and the
  size estimate are natural numbers; Go's 64-bit \<^verbatim>\<open>int\<close> cannot overflow there, as a slice length is
  bounded by the address space and the summands are checked against small limits first.

  Not modelled. The descriptor tables of the generated message files, their registration, and the
  methods \<^verbatim>\<open>String\<close>, \<^verbatim>\<open>ProtoReflect\<close>, \<^verbatim>\<open>Descriptor\<close>, \<^verbatim>\<open>Type\<close>, \<^verbatim>\<open>Enum\<close> and \<^verbatim>\<open>Number\<close>, which call the protobuf runtime or
  convert a number; the acknowledgement, replay and confirmation logic of hub and node, which exists in the documents only; \<^verbatim>\<open>HubClient\<close>, an
  interface without an implementation, and \<^verbatim>\<open>FakeHooks\<close>, a record of test callbacks; the capacity of
  slices; the check that protobuf strings are UTF-8, which the runtime makes.
\<close>

section \<open>Across the components\<close>

lemma advertised_ranges_valid:
  assumes "(\<exists>p h. FromProtoHello p = (h, None) \<and> peer = Hello.Protocol h)
    \<or> (\<exists>p q. FromProtoHandshakeRequest p = (q, None) \<and> peer = HandshakeRequest.Protocol q)"
  shows "ProtocolRange_Validate peer = None"
  using assms
proof (elim disjE exE conjE)
  fix p h
  assume "FromProtoHello p = (h, None)" and peer: "peer = Hello.Protocol h"
  then have "valid_Hello h" by (intro hello_codec.from_decodable)
  then show ?thesis by (simp add: peer valid_Hello_def ProtocolRange_Validate_iff)
next
  fix p q
  assume "FromProtoHandshakeRequest p = (q, None)" and peer: "peer = HandshakeRequest.Protocol q"
  then have "valid_HandshakeRequest q" by (intro handshake_request_codec.from_decodable)
  then show ?thesis by (simp add: peer valid_HandshakeRequest_def ProtocolRange_Validate_iff)
qed

lemma Negotiate_incompatible:
  assumes "ProtocolRange_Validate r = None" "ProtocolRange_Validate peer = None"
  shows "snd (Negotiate r peer) = None \<or> errors_Is (snd (Negotiate r peer)) (Wire_err ErrIncompatibleProtocolRanges)"
  using assms by (simp add: Negotiate_def Let_def)

text \<open>C7. Version agreement, on the control stream and on the data plane: once a hello or a handshake request
  has been decoded, negotiating with its range can fail for one reason only, that the two sides share no
  version. Whichever side negotiates, both succeed or both fail, and both get the same version,
  the greatest one that both support.\<close>

theorem version_agreement:
  assumes "(\<exists>p h. FromProtoHello p = (h, None) \<and> peer = Hello.Protocol h)
      \<or> (\<exists>p q. FromProtoHandshakeRequest p = (q, None) \<and> peer = HandshakeRequest.Protocol q)"
    and "ProtocolRange_Validate r = None"
  shows "(snd (Negotiate r peer) = None \<longleftrightarrow> supported r \<inter> supported peer \<noteq> {})
    \<and> (snd (Negotiate r peer) \<noteq> None \<longrightarrow> errors_Is (snd (Negotiate r peer)) (Wire_err ErrIncompatibleProtocolRanges))
    \<and> (Negotiate r peer = (v, None) \<longleftrightarrow> Negotiate peer r = (v, None))
    \<and> (Negotiate r peer = (v, None) \<longrightarrow> v \<in> supported r \<and> v \<in> supported peer
         \<and> (\<forall>u \<in> supported r \<inter> supported peer. u \<le> v))"
proof -
  note peer = advertised_ranges_valid [OF assms(1)]
  then have valid: "valid_range r" "valid_range peer" using assms(2) by (simp_all add: ProtocolRange_Validate_iff)
  then show ?thesis
    using Negotiate_incompatible [OF assms(2) peer] Negotiate_iff [of r peer v] Negotiate_iff [of peer r v]
    by (simp only: Int_commute [of "supported peer"]) blast
qed

theorem version_agreement_witness:
  "Negotiate (Hello.Protocol (long_hello 5)) \<lparr>ProtocolRange.Version = 3, MinSupported = 1\<rparr> = (1, None)"
proof -
  have "FromProtoHello (Some (ProtoHello (long_hello 5))) = (long_hello 5, None)"
    using long_hello_valid by (rule hello_codec.roundtrip)
  then have "\<exists>p h. FromProtoHello p = (h, None) \<and> Hello.Protocol (long_hello 5) = Hello.Protocol h" by blast
  moreover have "ProtocolRange_Validate \<lparr>ProtocolRange.Version = 3, MinSupported = 1\<rparr> = None" by code_simp
  moreover have "Negotiate \<lparr>ProtocolRange.Version = 3, MinSupported = 1\<rparr> (Hello.Protocol (long_hello 5)) = (1, None)" by code_simp
  ultimately show ?thesis using version_agreement [OF disjI1] by blast
qed

text \<open>C16. The two packages decode what they share alike: both take the same statuses, record kinds, mutation
  identities and protocol versions off the wire, to the same values, and differ at most in the error
  they report.\<close>

theorem decoders_agree:
  "fst (statusFromProto n) = fst (FromProtoStatus n)
   \<and> (snd (statusFromProto n) = None \<longleftrightarrow> snd (FromProtoStatus n) = None)
   \<and> fst (recordKindFromProto k) = fst (FromProtoRecordKind k)
   \<and> (snd (recordKindFromProto k) = None \<longleftrightarrow> snd (FromProtoRecordKind k) = None)
   \<and> mutationIDFromProto i = FromProtoMutationID i
   \<and> control_protocolVersionFromUint32 v = rpc_protocolVersionFromUint32 v"
  by (simp add: statusFromProto_def FromProtoStatus_def recordKindFromProto_def FromProtoRecordKind_def
      mutationIDFromProto_def FromProtoMutationID_def control_protocolVersionFromUint32_def
      rpc_protocolVersionFromUint32_def)

text \<open>C28. Retrying is safe end to end: after a response whose status asks for a retry with the same
  identity, no commit has been reported, and the retry of a valid request, with any timeout and
  the generation the node has adopted by then, is decoded by the hub under the same identity and passes the
  fingerprint check against the first attempt; a request that decodes but differs in operation, key,
  value, TTL, mode, number of confirmations or confirmation level is refused with a fingerprint mismatch.\<close>

theorem retry_recognised:
  assumes "MutationRequest_Validate d = None"
    and "FromProtoMutationResponse p = (resp, None)" "RetrySameMutationID (MutationResponse.Status resp)"
    and "g \<noteq> 0"
  shows "VersionTag_IsZero (MutationResponse.Version resp)
    \<and> (\<exists>d'. FromProtoMutationRequest (Some (ProtoMutationRequest (d\<lparr>MutationRequest.Timeout := t, MutationRequest.HubGeneration := g\<rparr>))) = (d', None)
         \<and> MutationRequest.MutationID d' = MutationRequest.MutationID d
         \<and> CheckMatch (Rpc_Dedup.Fingerprint d) (Rpc_Dedup.Fingerprint d') = None)
    \<and> (\<forall>q e. FromProtoMutationRequest q = (e, None)
           \<and> (MutationRequest.Op e \<noteq> MutationRequest.Op d \<or> MutationRequest.Key e \<noteq> MutationRequest.Key d
              \<or> MutationRequest.Value e \<noteq> MutationRequest.Value d \<or> MutationRequest.TTLMillis e \<noteq> MutationRequest.TTLMillis d
              \<or> MutationRequest.Mode e \<noteq> MutationRequest.Mode d \<or> MutationRequest.W e \<noteq> MutationRequest.W d
              \<or> MutationRequest.Confirm e \<noteq> MutationRequest.Confirm d) \<longrightarrow>
         errors_Is (CheckMatch (Rpc_Dedup.Fingerprint d) (Rpc_Dedup.Fingerprint e)) (Rpc_err ErrMutationFingerprintMismatch))"
proof (intro conjI)
  have content: "errors_Is (CheckMatch (Rpc_Dedup.Fingerprint d) (Rpc_Dedup.Fingerprint e)) (Rpc_err ErrMutationFingerprintMismatch)"
    if "\<not> same_content d e" for e
    using that CheckMatch_iff [of "Rpc_Dedup.Fingerprint d" "Rpc_Dedup.Fingerprint e"]
    by (auto simp: same_content_iff CheckMatch_def split: if_splits)
  have "MutationResponse_Validate resp = None"
    using assms(2) mutation_response_codec.decode_iff_validate by blast
  then show "VersionTag_IsZero (MutationResponse.Version resp)"
    using assms(3)
    by (auto simp: MutationResponse_Validate_iff valid_MutationResponse_def RetrySameMutationID_def Status_Retryable_def
        Status_Class_def StatusCarriesCommittedVersion_def VersionTag_IsZero_def zeroVersionTag_def)
  let ?d = "d\<lparr>MutationRequest.Timeout := t, MutationRequest.HubGeneration := g\<rparr>"
  have "MutationRequest_Validate ?d = None"
    using assms(1,4) by (simp add: MutationRequest_Validate_iff valid_MutationRequest_def)
  then show "\<exists>d'. FromProtoMutationRequest (Some (ProtoMutationRequest ?d)) = (d', None)
      \<and> MutationRequest.MutationID d' = MutationRequest.MutationID d
      \<and> CheckMatch (Rpc_Dedup.Fingerprint d) (Rpc_Dedup.Fingerprint d') = None"
    by (auto simp: mutation_request_codec.accept_iff CheckMatch_iff Fingerprint_def)
  show "\<forall>q e. FromProtoMutationRequest q = (e, None)
         \<and> (MutationRequest.Op e \<noteq> MutationRequest.Op d \<or> MutationRequest.Key e \<noteq> MutationRequest.Key d
            \<or> MutationRequest.Value e \<noteq> MutationRequest.Value d \<or> MutationRequest.TTLMillis e \<noteq> MutationRequest.TTLMillis d
            \<or> MutationRequest.Mode e \<noteq> MutationRequest.Mode d \<or> MutationRequest.W e \<noteq> MutationRequest.W d
            \<or> MutationRequest.Confirm e \<noteq> MutationRequest.Confirm d) \<longrightarrow>
       errors_Is (CheckMatch (Rpc_Dedup.Fingerprint d) (Rpc_Dedup.Fingerprint e)) (Rpc_err ErrMutationFingerprintMismatch)"
    using content by (auto simp: same_content_iff Rpc_Dedup.Fingerprint_def)
qed

theorem retry_recognised_witness:
  "\<exists>d'. FromProtoMutationRequest (Some (ProtoMutationRequest (sample_mutation\<lparr>MutationRequest.Timeout := 99, MutationRequest.HubGeneration := 7\<rparr>))) = (d', None)
     \<and> CheckMatch (Rpc_Dedup.Fingerprint sample_mutation) (Rpc_Dedup.Fingerprint d') = None"
proof -
  let ?r = "\<lparr>MutationResponse.Status = StatusErrRateLimited, HubGeneration = 4, Version = zeroVersionTag\<rparr>"
  have "MutationResponse_Validate ?r = None"
    by (simp add: MutationResponse_Validate_iff valid_MutationResponse_def)
  then have "FromProtoMutationResponse (Some (ProtoMutationResponse ?r)) = (?r, None)"
    by (rule mutation_response_codec.roundtrip)
  from retry_recognised [OF sample_mutation_valid this, of 7 99] show ?thesis
    by (simp add: RetrySameMutationID_def Status_Retryable_def Status_Class_def) blast
qed

end
